(* ===== verification/Prelude.thy ===== *)
theory Prelude
  imports Complex_Main "HOL-Library.Char_ord" "HOL-Library.Sublist"
begin

text \<open>
  The shared vocabulary of the development: the part of the JavaScript string and
  number library that the sources call (\<open>trim\<close>, \<open>slice\<close>, \<open>split\<close>, \<open>join\<close>,
  \<open>includes\<close>, \<open>toLowerCase\<close>, \<open>parseInt\<close>, \<open>String(n)\<close>, \<open>padStart\<close>, \<open>Date\<close>
  formatting) with the generic lemmas the component theories use.

  A JavaScript string is a sequence of code units; it is modelled as a HOL
  \<^typ>\<open>string\<close>, so the code units range over 0 to 255. White space, letter case and
  NFC normalisation are those of that range (every text over it is already in NFC).
  A JavaScript number that the sources use as an integer is an \<^typ>\<open>int\<close>.
\<close>

named_theorems js_simps \<open>evaluation rules of the JavaScript string library\<close>

section \<open>Characters and strings\<close>

abbreviation code :: "char \<Rightarrow> nat" where
  "code c \<equiv> of_char c"

text \<open>Concrete characters are compared by evaluating their code units.\<close>

definition is_ws :: "char \<Rightarrow> bool" where
  "is_ws c \<longleftrightarrow> (let n = code c in (9 \<le> n \<and> n \<le> 13) \<or> n = 32 \<or> n = 160)"

definition is_digit :: "char \<Rightarrow> bool" where
  "is_digit c \<longleftrightarrow> 48 \<le> code c \<and> code c \<le> 57"

definition is_lower :: "char \<Rightarrow> bool" where
  "is_lower c \<longleftrightarrow> 97 \<le> code c \<and> code c \<le> 122"

definition is_upper :: "char \<Rightarrow> bool" where
  "is_upper c \<longleftrightarrow> 65 \<le> code c \<and> code c \<le> 90"

text \<open>\<open>\w\<close> of a regular expression without the unicode flag.\<close>

definition is_word :: "char \<Rightarrow> bool" where
  "is_word c \<longleftrightarrow> is_digit c \<or> is_lower c \<or> is_upper c \<or> c = CHR ''_''"

definition lower_char :: "char \<Rightarrow> char" where
  "lower_char c = (let n = code c in
     if is_upper c \<or> (192 \<le> n \<and> n \<le> 222 \<and> n \<noteq> 215) then char_of (n + 32) else c)"

definition toLowerCase :: "string \<Rightarrow> string" where
  "toLowerCase s = map lower_char s"

definition trim_start :: "string \<Rightarrow> string" where
  "trim_start s = dropWhile is_ws s"

definition trim :: "string \<Rightarrow> string" where
  "trim s = rev (dropWhile is_ws (rev (dropWhile is_ws s)))"

definition startsWith :: "string \<Rightarrow> string \<Rightarrow> bool" where
  "startsWith s p \<longleftrightarrow> take (length p) s = p"

definition endsWith :: "string \<Rightarrow> string \<Rightarrow> bool" where
  "endsWith s p \<longleftrightarrow> length p \<le> length s \<and> drop (length s - length p) s = p"

fun indexOf_from :: "nat \<Rightarrow> string \<Rightarrow> string \<Rightarrow> nat option" where
  "indexOf_from i s p =
     (if startsWith s p then Some i
      else case s of [] \<Rightarrow> None | _ # s' \<Rightarrow> indexOf_from (Suc i) s' p)"

declare indexOf_from.simps [simp del]

definition indexOf :: "string \<Rightarrow> string \<Rightarrow> nat option" where
  "indexOf s p = indexOf_from 0 s p"

definition str_includes :: "string \<Rightarrow> string \<Rightarrow> bool" where
  "str_includes s p \<longleftrightarrow> indexOf s p \<noteq> None"

text \<open>\<open>parts.join(sep)\<close> and \<open>s.split(c)\<close> for a one-character separator.\<close>

fun join :: "string \<Rightarrow> string list \<Rightarrow> string" where
  "join sep [] = []"
| "join sep [x] = x"
| "join sep (x # y # ys) = x @ sep @ join sep (y # ys)"

fun split_on :: "(char \<Rightarrow> bool) \<Rightarrow> string \<Rightarrow> string list" where
  "split_on p [] = [[]]"
| "split_on p (c # cs) =
     (if p c then [] # split_on p cs
      else case split_on p cs of [] \<Rightarrow> [[c]] | w # ws \<Rightarrow> (c # w) # ws)"

text \<open>
  \<open>s.split(/[..]+/)\<close>: a maximal run of separators is one separator; a leading or a
  trailing run leaves an empty first or last piece.
\<close>

fun split_runs :: "(char \<Rightarrow> bool) \<Rightarrow> string \<Rightarrow> string list" where
  "split_runs p [] = [[]]"
| "split_runs p (c # cs) =
     (if p c then
        (case cs of
           [] \<Rightarrow> [[], []]
         | d # _ \<Rightarrow> if p d then split_runs p cs else [] # split_runs p cs)
      else case split_runs p cs of [] \<Rightarrow> [[c]] | w # ws \<Rightarrow> (c # w) # ws)"

text \<open>\<open>s.replace(/\s+/g, " ")\<close>: every run of white space becomes one blank.\<close>

fun squeeze_ws :: "string \<Rightarrow> string" where
  "squeeze_ws [] = []"
| "squeeze_ws (c # cs) =
     (if is_ws c then
        (case cs of
           [] \<Rightarrow> '' ''
         | d # _ \<Rightarrow> if is_ws d then squeeze_ws cs else CHR '' '' # squeeze_ws cs)
      else c # squeeze_ws cs)"

section \<open>Numbers and text\<close>

definition digit_char :: "nat \<Rightarrow> char" where
  "digit_char d = char_of (48 + d)"

definition digit_val :: "char \<Rightarrow> nat" where
  "digit_val c = code c - 48"

fun show_nat :: "nat \<Rightarrow> string" where
  "show_nat n = (if n < 10 then [digit_char n] else show_nat (n div 10) @ [digit_char (n mod 10)])"

declare show_nat.simps [simp del]

definition show_int :: "int \<Rightarrow> string" where
  "show_int i = (if i < 0 then CHR ''-'' # show_nat (nat (- i)) else show_nat (nat i))"

definition read_digits :: "string \<Rightarrow> nat" where
  "read_digits ds = foldl (\<lambda>n c. 10 * n + digit_val c) 0 ds"

text \<open>\<open>parseInt(s, 10)\<close>: \<^const>\<open>None\<close> stands for \<open>NaN\<close>.\<close>

definition parseInt :: "string \<Rightarrow> int option" where
  "parseInt s =
     (let t = trim_start s;
          neg = (t \<noteq> [] \<and> hd t = CHR ''-'');
          u = (if t \<noteq> [] \<and> (hd t = CHR ''-'' \<or> hd t = CHR ''+'') then tl t else t);
          ds = takeWhile is_digit u
      in if ds = [] then None
         else Some (if neg then - int (read_digits ds) else int (read_digits ds)))"

definition padStart :: "nat \<Rightarrow> char \<Rightarrow> string \<Rightarrow> string" where
  "padStart n c s = replicate (n - length s) c @ s"

section \<open>Calendar\<close>

text \<open>
  The proleptic Gregorian calendar of \<open>Date\<close>: a day number (days since 1970-01-01)
  and its year, month and day, by the era decomposition of 146097 days.
\<close>

definition civil_from_days :: "int \<Rightarrow> int \<times> int \<times> int" where
  "civil_from_days z0 =
     (let z = z0 + 719468;
          era = z div 146097;
          doe = z mod 146097;
          yoe = (doe - doe div 1460 + doe div 36524 - doe div 146096) div 365;
          doy = doe - (365 * yoe + yoe div 4 - yoe div 100);
          mp = (5 * doy + 2) div 153;
          d = doy - (153 * mp + 2) div 5 + 1;
          m = (if mp < 10 then mp + 3 else mp - 9);
          y = yoe + era * 400 + (if m \<le> 2 then 1 else 0)
      in (y, m, d))"

definition pad2 :: "int \<Rightarrow> string" where
  "pad2 i = padStart 2 (CHR ''0'') (show_int i)"

text \<open>\<open>toISOString().slice(0, 10)\<close> and \<open>toISOString()\<close> of a time in milliseconds.\<close>

definition dateKey :: "int \<Rightarrow> string" where
  "dateKey ms = (case civil_from_days (ms div 86400000) of
     (y, m, d) \<Rightarrow> padStart 4 (CHR ''0'') (show_int y) @ ''-'' @ pad2 m @ ''-'' @ pad2 d)"

definition toISOString :: "int \<Rightarrow> string" where
  "toISOString ms =
     (let t = ms mod 86400000 in
      dateKey ms @ ''T'' @ pad2 (t div 3600000) @ '':'' @ pad2 (t div 60000 mod 60) @ '':''
        @ pad2 (t div 1000 mod 60) @ ''.'' @ padStart 3 (CHR ''0'') (show_int (t mod 1000)) @ ''Z'')"

text \<open>\<open>Date.prototype.getDay\<close>: 0 is Sunday; day 0 of the epoch was a Thursday.\<close>

definition weekday :: "int \<Rightarrow> nat" where
  "weekday ms = nat ((ms div 86400000 + 4) mod 7)"

section \<open>Lemmas on strings\<close>

lemma of_char_lt_256: "code c < 256"
  by (metis of_char_mod_256 mod_less_divisor zero_less_numeral)

lemma trim_start_idem: "trim_start (trim_start s) = trim_start s"
  by (simp add: trim_start_def)

lemma trim_Nil [simp]: "trim [] = []"
  by (simp add: trim_def)

lemma trim_last_not_ws: "trim s \<noteq> [] \<Longrightarrow> \<not> is_ws (last (trim s))"
  by (metis trim_def hd_dropWhile last_rev rev_is_Nil_conv)

lemma dropWhile_rev_prefix: "prefix (rev (dropWhile P (rev xs))) xs"
  by (metis prefix_def rev_append rev_rev_ident takeWhile_dropWhile_id)

lemma trim_hd_not_ws: "trim s \<noteq> [] \<Longrightarrow> \<not> is_ws (hd (trim s))"
proof -
  assume ne: "trim s \<noteq> []"
  let ?t = "dropWhile is_ws s"
  have pre: "prefix (trim s) ?t"
    unfolding trim_def by (rule dropWhile_rev_prefix)
  with ne have "?t \<noteq> []" by (metis prefix_bot.extremum_uniqueI)
  moreover from pre ne have "hd (trim s) = hd ?t"
    by (auto simp: prefix_def)
  ultimately show ?thesis by (simp add: hd_dropWhile)
qed

lemma trim_id: "\<not> is_ws (hd s) \<Longrightarrow> \<not> is_ws (last s) \<Longrightarrow> trim s = s"
proof (cases s)
  case (Cons c cs)
  assume h: "\<not> is_ws (hd s)" "\<not> is_ws (last s)"
  then have "dropWhile is_ws s = s" using Cons by simp
  moreover have "dropWhile is_ws (rev s) = rev s"
    using h(2) Cons by (cases "rev s") (auto simp: hd_rev [symmetric])
  ultimately show ?thesis by (simp add: trim_def)
qed simp

lemma trim_idem [simp]: "trim (trim s) = trim s"
  by (metis trim_Nil trim_id trim_hd_not_ws trim_last_not_ws)

lemma set_trim: "set (trim s) \<subseteq> set s"
  unfolding trim_def by (metis set_dropWhileD set_rev subsetI)

lemma length_trim: "length (trim s) \<le> length s"
  unfolding trim_def by (metis length_dropWhile_le length_rev order_trans)

lemma lower_char_idem: "lower_char (lower_char c) = lower_char c"
proof -
  have "code (lower_char c) = (let n = code c in if is_upper c \<or> (192 \<le> n \<and> n \<le> 222 \<and> n \<noteq> 215) then n + 32 else n)"
    by (auto simp: lower_char_def Let_def is_upper_def)
  then show ?thesis
    by (auto simp: lower_char_def [of "lower_char c"] Let_def is_upper_def split: if_splits)
qed

lemma length_toLowerCase [simp]: "length (toLowerCase s) = length s"
  by (simp add: toLowerCase_def)

subsection \<open>Decimal numerals\<close>

lemma digit_val_digit_char [simp]: "d < 10 \<Longrightarrow> digit_val (digit_char d) = d"
  by (simp add: digit_val_def digit_char_def)

lemma is_digit_digit_char [simp]: "d < 10 \<Longrightarrow> is_digit (digit_char d)"
  by (simp add: is_digit_def digit_char_def)

lemma show_nat_ne [simp]: "show_nat n \<noteq> []"
  by (subst show_nat.simps) simp

lemma show_nat_digits: "c \<in> set (show_nat n) \<Longrightarrow> is_digit c"
proof (induction n rule: show_nat.induct)
  case (1 n)
  then show ?case
    by (cases "n < 10") (auto simp: show_nat.simps [of n])
qed

lemma read_digits_snoc: "read_digits (ds @ [c]) = 10 * read_digits ds + digit_val c"
  by (simp add: read_digits_def)

lemma read_show_nat [simp]: "read_digits (show_nat n) = n"
proof (induction n rule: show_nat.induct)
  case (1 n)
  show ?case
  proof (cases "n < 10")
    case True
    then show ?thesis by (simp add: show_nat.simps [of n] read_digits_def)
  next
    case False
    then show ?thesis
      by (simp add: show_nat.simps [of n] read_digits_snoc "1.IH")
  qed
qed

lemma show_nat_inject [simp]: "show_nat m = show_nat n \<longleftrightarrow> m = n"
  by (metis read_show_nat)

lemma digit_not_minus: "is_digit c \<Longrightarrow> c \<noteq> CHR ''-'' \<and> c \<noteq> CHR ''+'' \<and> \<not> is_ws c"
  by (auto simp: is_digit_def is_ws_def)

lemma hd_show_nat: "is_digit (hd (show_nat n))"
  by (rule show_nat_digits [of _ n]) simp

lemma takeWhile_digits_show_nat: "takeWhile is_digit (show_nat n) = show_nat n"
  by (simp add: show_nat_digits)

text \<open>Reading back what \<open>String(n)\<close> wrote.\<close>

lemma parseInt_show_int [simp]: "parseInt (show_int i) = Some i"
proof (cases "i < 0")
  case True
  have "\<not> is_ws (CHR ''-'')" by (simp add: is_ws_def)
  with True show ?thesis
    by (simp add: parseInt_def show_int_def trim_start_def Let_def takeWhile_digits_show_nat)
next
  case False
  have d: "is_digit (hd (show_nat (nat i)))" by (rule hd_show_nat)
  then have t: "trim_start (show_nat (nat i)) = show_nat (nat i)"
    using digit_not_minus by (cases "show_nat (nat i)") (auto simp: trim_start_def)
  from False t digit_not_minus [OF d] show ?thesis
    by (simp add: parseInt_def show_int_def Let_def takeWhile_digits_show_nat)
qed

lemma show_int_inject [simp]: "show_int i = show_int j \<longleftrightarrow> i = j"
  by (metis option.inject parseInt_show_int)

subsection \<open>Joining\<close>

lemma join_Cons: "ys \<noteq> [] \<Longrightarrow> join sep (x # ys) = x @ sep @ join sep ys"
  by (cases ys) simp_all

text \<open>
  A part that does not hold the separator character can be read back from the front
  of the joined text.
\<close>

lemma split_first:
  assumes "c \<notin> set x" and "c \<notin> set x'" and "x @ c # r = x' @ c # r'"
  shows "x = x' \<and> r = r'"
  using assms
proof (induction x arbitrary: x')
  case Nil
  then show ?case by (cases x') auto
next
  case (Cons a x)
  then show ?case by (cases x') auto
qed

lemma append_eq_append_colon: "c \<notin> set u \<Longrightarrow> c \<notin> set v \<Longrightarrow> u @ c # x = v @ c # y \<longleftrightarrow> u = v \<and> x = y"
proof (induction u arbitrary: v)
  case Nil
  then show ?case by (cases v) auto
next
  case (Cons a u)
  then show ?case by (cases v) auto
qed

text \<open>\<open>includes\<close>.\<close>

lemma indexOf_from_iff: "indexOf_from i s p \<noteq> None \<longleftrightarrow> (\<exists>a b. s = a @ p @ b)"
proof (induction s arbitrary: i)
  case Nil
  show ?case by (auto simp: indexOf_from.simps startsWith_def)
next
  case (Cons c s)
  have "startsWith (c # s) p \<longleftrightarrow> (\<exists>b. c # s = p @ b)"
    unfolding startsWith_def by (metis append_eq_conv_conj append_take_drop_id)
  moreover have "(\<exists>a b. c # s = a @ p @ b) \<longleftrightarrow> (\<exists>b. c # s = p @ b) \<or> (\<exists>a b. s = a @ p @ b)"
    by (metis append_Cons append_Nil list.exhaust list.inject)
  moreover have "indexOf_from i (c # s) p \<noteq> None \<longleftrightarrow> startsWith (c # s) p \<or> indexOf_from (Suc i) s p \<noteq> None"
    by (subst indexOf_from.simps) simp
  ultimately show ?case using Cons [of "Suc i"] by blast
qed

lemma str_includes_iff: "str_includes s p \<longleftrightarrow> (\<exists>a b. s = a @ p @ b)"
  unfolding str_includes_def indexOf_def by (rule indexOf_from_iff)

lemma indexOf_from_at: "indexOf_from i s p = Some j \<Longrightarrow> i \<le> j \<and> j - i \<le> length s \<and> startsWith (drop (j - i) s) p"
proof (induction s arbitrary: i)
  case Nil
  then show ?case by (auto simp: indexOf_from.simps split: if_splits)
next
  case (Cons c s)
  show ?case
  proof (cases "startsWith (c # s) p")
    case True
    then show ?thesis using Cons.prems by (simp add: indexOf_from.simps [of i "c # s"])
  next
    case False
    then have "indexOf_from (Suc i) s p = Some j" using Cons.prems by (simp add: indexOf_from.simps [of i "c # s"])
    then have h: "Suc i \<le> j \<and> j - Suc i \<le> length s \<and> startsWith (drop (j - Suc i) s) p" by (rule Cons.IH)
    then have "j - i = Suc (j - Suc i)" by (simp add: Suc_diff_Suc)
    then show ?thesis using h by auto
  qed
qed

lemma indexOf_split: "indexOf s p = Some j \<Longrightarrow> \<exists>r. s = take j s @ p @ r \<and> j + length p \<le> length s"
proof -
  assume "indexOf s p = Some j"
  then have w: "j \<le> length s" "startsWith (drop j s) p" using indexOf_from_at [of 0 s p j] by (simp_all add: indexOf_def)
  then have "drop j s = p @ drop (length p) (drop j s)" unfolding startsWith_def by (metis append_take_drop_id)
  then have "s = take j s @ p @ drop (length p) (drop j s)" by (metis append_take_drop_id)
  moreover have "length p \<le> length (drop j s)" using w(2) unfolding startsWith_def by (metis length_take min.cobounded1)
  then have "j + length p \<le> length s" using w(1) by simp
  ultimately show ?thesis by blast
qed

lemma str_includes_sub: "str_includes s (a @ p @ b) \<Longrightarrow> str_includes s p"
  unfolding str_includes_iff by (metis append.assoc)

text \<open>Splitting.\<close>

lemma split_on_ne [simp]: "split_on p xs \<noteq> []"
  by (induction xs) (auto split: list.splits)

lemma split_on_append: "split_on p (xs @ ys) = butlast (split_on p xs) @ split_on p (last (split_on p xs) @ ys)"
proof (induction xs)
  case (Cons c xs)
  obtain w ws where "split_on p xs = w # ws" by (cases "split_on p xs") auto
  then show ?case using Cons by (cases ws) auto
qed simp

lemma split_on_none: "\<forall>c \<in> set xs. \<not> p c \<Longrightarrow> split_on p xs = [xs]"
  by (induction xs) auto

lemma split_on_last: "\<forall>c \<in> set (last (split_on p xs)). \<not> p c"
proof (induction xs)
  case (Cons c xs)
  obtain w ws where "split_on p xs = w # ws" by (cases "split_on p xs") auto
  then show ?case using Cons by (cases ws) auto
qed simp

lemma split_on_sep: "\<forall>c \<in> set a. \<not> p c \<Longrightarrow> p d \<Longrightarrow> split_on p (a @ d # r) = a # split_on p r"
  by (induction a) auto

end
