(* ===== verification/Json.thy ===== *)
theory Json
  imports Prelude
begin

text \<open>
  JSON values and the \<open>JSON\<close> object of the JavaScript library: \<open>JSON.stringify\<close> (the
  text the sources write to Redis and to HTTP bodies) and \<open>JSON.parse\<close> (how they
  read it back). A number is an integer \<open>JNum\<close> or a finite decimal \<open>JDec m e\<close>
  (the value \<open>m / 10^e\<close>, with \<open>e > 0\<close> and \<open>m\<close> not divisible by ten); an object keeps
  its members in insertion order, and a missing member is the value \<open>undefined\<close>.
  The main fact is the round trip \<open>parse_stringify\<close>.
\<close>

datatype json =
    JNull
  | JBool bool
  | JNum int
  | JDec int nat
  | JStr string
  | JArr "json list"
  | JObj "(string \<times> json) list"

section \<open>Access\<close>

text \<open>\<open>j.k\<close> on a value that is neither \<open>null\<close> nor \<open>undefined\<close>.\<close>

fun jfield :: "string \<Rightarrow> json \<Rightarrow> json option" where
  "jfield k (JObj ps) = map_of ps k"
| "jfield k _ = None"

text \<open>\<open>j?.k\<close>.\<close>

definition jopt :: "string \<Rightarrow> json option \<Rightarrow> json option" where
  "jopt k jo = (case jo of None \<Rightarrow> None | Some j \<Rightarrow> jfield k j)"

fun truthy :: "json \<Rightarrow> bool" where
  "truthy JNull = False"
| "truthy (JBool b) = b"
| "truthy (JNum n) = (n \<noteq> 0)"
| "truthy (JDec m e) = (m \<noteq> 0)"
| "truthy (JStr s) = (s \<noteq> [])"
| "truthy (JArr _) = True"
| "truthy (JObj _) = True"

definition truthyo :: "json option \<Rightarrow> bool" where
  "truthyo jo = (case jo of None \<Rightarrow> False | Some j \<Rightarrow> truthy j)"

text \<open>\<open>a ?? b\<close>: \<open>null\<close> and \<open>undefined\<close> give the default.\<close>

definition nullish :: "json option \<Rightarrow> json \<Rightarrow> json" where
  "nullish jo d = (case jo of None \<Rightarrow> d | Some JNull \<Rightarrow> d | Some j \<Rightarrow> j)"

text \<open>\<open>typeof j === "string"\<close> and \<open>typeof j === "number"\<close> with the value.\<close>

definition as_str :: "json option \<Rightarrow> string option" where
  "as_str jo = (case jo of Some (JStr s) \<Rightarrow> Some s | _ \<Rightarrow> None)"

definition as_int :: "json option \<Rightarrow> int option" where
  "as_int jo = (case jo of Some (JNum n) \<Rightarrow> Some n | _ \<Rightarrow> None)"

definition arr_items :: "json option \<Rightarrow> json list" where
  "arr_items jo = (case jo of Some (JArr js) \<Rightarrow> js | _ \<Rightarrow> [])"

text \<open>Writing a member: an existing key keeps its place.\<close>

fun obj_set :: "string \<Rightarrow> json \<Rightarrow> (string \<times> json) list \<Rightarrow> (string \<times> json) list" where
  "obj_set k v [] = [(k, v)]"
| "obj_set k v ((k', v') # ps) = (if k' = k then (k, v) # ps else (k', v') # obj_set k v ps)"

section \<open>JSON.stringify\<close>

abbreviation dquote :: char where "dquote \<equiv> CHR 0x22"
abbreviation bslash :: char where "bslash \<equiv> CHR 0x5C"

definition hex_char :: "nat \<Rightarrow> char" where
  "hex_char d = (if d < 10 then char_of (48 + d) else char_of (87 + d))"

definition esc :: "char \<Rightarrow> string" where
  "esc c =
     (if c = dquote then [bslash, dquote]
      else if c = bslash then [bslash, bslash]
      else if c = CHR 0x08 then [bslash, CHR ''b'']
      else if c = CHR 0x09 then [bslash, CHR ''t'']
      else if c = CHR 0x0A then [bslash, CHR ''n'']
      else if c = CHR 0x0C then [bslash, CHR ''f'']
      else if c = CHR 0x0D then [bslash, CHR ''r'']
      else if code c < 32 then
        [bslash, CHR ''u'', CHR ''0'', CHR ''0'', hex_char (code c div 16), hex_char (code c mod 16)]
      else [c])"

definition quote :: "string \<Rightarrow> string" where
  "quote s = dquote # concat (map esc s) @ [dquote]"

definition show_dec :: "int \<Rightarrow> nat \<Rightarrow> string" where
  "show_dec m e =
     (let ds = padStart (Suc e) (CHR ''0'') (show_nat (nat \<bar>m\<bar>)); k = length ds - e
      in (if m < 0 then ''-'' else []) @ take k ds @ ''.'' @ drop k ds)"

fun stringify :: "json \<Rightarrow> string"
  and str_elems :: "json list \<Rightarrow> string"
  and str_members :: "(string \<times> json) list \<Rightarrow> string" where
  "stringify JNull = ''null''"
| "stringify (JBool b) = (if b then ''true'' else ''false'')"
| "stringify (JNum n) = show_int n"
| "stringify (JDec m e) = show_dec m e"
| "stringify (JStr s) = quote s"
| "stringify (JArr js) = ''['' @ str_elems js @ '']''"
| "stringify (JObj ps) = ''{'' @ str_members ps @ ''}''"
| "str_elems [] = []"
| "str_elems [j] = stringify j"
| "str_elems (j # k # js) = stringify j @ '','' @ str_elems (k # js)"
| "str_members [] = []"
| "str_members [(k, j)] = quote k @ '':'' @ stringify j"
| "str_members ((k, j) # p # ps) = quote k @ '':'' @ stringify j @ '','' @ str_members (p # ps)"

section \<open>JSON.parse\<close>

definition is_jws :: "char \<Rightarrow> bool" where
  "is_jws c \<longleftrightarrow> c = CHR 0x20 \<or> c = CHR 0x09 \<or> c = CHR 0x0A \<or> c = CHR 0x0D"

definition hex_val :: "char \<Rightarrow> nat option" where
  "hex_val c = (let n = code c in
     if 48 \<le> n \<and> n \<le> 57 then Some (n - 48)
     else if 97 \<le> n \<and> n \<le> 102 then Some (n - 87)
     else if 65 \<le> n \<and> n \<le> 70 then Some (n - 55)
     else None)"

definition unesc :: "char \<Rightarrow> char option" where
  "unesc c =
     (if c = dquote \<or> c = bslash \<or> c = CHR 0x2F then Some c
      else if c = CHR ''b'' then Some (CHR 0x08)
      else if c = CHR ''t'' then Some (CHR 0x09)
      else if c = CHR ''n'' then Some (CHR 0x0A)
      else if c = CHR ''f'' then Some (CHR 0x0C)
      else if c = CHR ''r'' then Some (CHR 0x0D)
      else None)"

definition hex4 :: "char \<Rightarrow> char \<Rightarrow> char \<Rightarrow> char \<Rightarrow> nat option" where
  "hex4 a b c d =
     (case (hex_val a, hex_val b, hex_val c, hex_val d) of
        (Some w, Some x, Some y, Some z) \<Rightarrow> Some (4096 * w + 256 * x + 16 * y + z)
      | _ \<Rightarrow> None)"

definition cons_res :: "char \<Rightarrow> (string \<times> 'r) option \<Rightarrow> (string \<times> 'r) option" where
  "cons_res c r = map_option (\<lambda>(s, x). (c # s, x)) r"

text \<open>The text after an opening quote; a code unit above 255 has no model value.\<close>

fun p_str :: "string \<Rightarrow> (string \<times> string) option" where
  "p_str [] = None"
| "p_str (c # cs) =
     (if c = dquote then Some ([], cs)
      else if c = bslash then
        (case cs of
           [] \<Rightarrow> None
         | e # r \<Rightarrow>
             if e = CHR ''u'' then
               (case r of
                  h1 # h2 # h3 # h4 # r' \<Rightarrow>
                    (case hex4 h1 h2 h3 h4 of
                       Some n \<Rightarrow> if n < 256 then cons_res (char_of n) (p_str r') else None
                     | None \<Rightarrow> None)
                | _ \<Rightarrow> None)
             else (case unesc e of Some x \<Rightarrow> cons_res x (p_str r) | None \<Rightarrow> None))
      else if code c < 32 then None
      else cons_res c (p_str cs))"

fun mk_num :: "int \<Rightarrow> nat \<Rightarrow> json" where
  "mk_num m 0 = JNum m"
| "mk_num m (Suc e) = (if 10 dvd m then mk_num (m div 10) e else JDec m (Suc e))"

definition p_frac :: "string \<Rightarrow> (string \<times> string) option" where
  "p_frac r = (case r of
     c # r' \<Rightarrow> if c = CHR ''.''
               then (let f = takeWhile is_digit r' in
                     if f = [] then None else Some (f, dropWhile is_digit r'))
               else Some ([], r)
   | [] \<Rightarrow> Some ([], []))"

definition p_exp :: "string \<Rightarrow> (int \<times> string) option" where
  "p_exp r = (case r of
     c # r' \<Rightarrow> if c = CHR ''e'' \<or> c = CHR ''E''
               then (let neg = (r' \<noteq> [] \<and> hd r' = CHR ''-'');
                         u = (if r' \<noteq> [] \<and> (hd r' = CHR ''-'' \<or> hd r' = CHR ''+'') then tl r' else r');
                         ds = takeWhile is_digit u
                     in if ds = [] then None
                        else Some ((if neg then -1 else 1) * int (read_digits ds), dropWhile is_digit u))
               else Some (0, r)
   | [] \<Rightarrow> Some (0, []))"

definition p_num :: "string \<Rightarrow> (json \<times> string) option" where
  "p_num s =
     (let neg = (s \<noteq> [] \<and> hd s = CHR ''-''); u = (if neg then tl s else s);
          ip = takeWhile is_digit u; r1 = dropWhile is_digit u
      in if ip = [] \<or> (1 < length ip \<and> hd ip = CHR ''0'') then None
         else case p_frac r1 of None \<Rightarrow> None
         | Some (fp, r2) \<Rightarrow> case p_exp r2 of None \<Rightarrow> None
         | Some (x, r3) \<Rightarrow>
             (let m = (if neg then -1 else 1) * int (read_digits (ip @ fp)); k = int (length fp) - x
              in Some (if k \<le> 0 then JNum (m * 10 ^ nat (- k)) else mk_num m (nat k), r3)))"

definition dedup :: "(string \<times> json) list \<Rightarrow> (string \<times> json) list" where
  "dedup ps = foldl (\<lambda>acc (k, v). obj_set k v acc) [] ps"

fun p_val :: "nat \<Rightarrow> string \<Rightarrow> (json \<times> string) option"
  and p_elems :: "nat \<Rightarrow> string \<Rightarrow> (json list \<times> string) option"
  and p_members :: "nat \<Rightarrow> string \<Rightarrow> ((string \<times> json) list \<times> string) option" where
  "p_val 0 s = None"
| "p_val (Suc n) s =
     (case dropWhile is_jws s of
        [] \<Rightarrow> None
      | c # r \<Rightarrow>
          if c = dquote then map_option (\<lambda>(x, r'). (JStr x, r')) (p_str r)
          else if c = CHR ''['' then
            (case dropWhile is_jws r of
               d # r' \<Rightarrow> if d = CHR '']'' then Some (JArr [], r')
                         else map_option (\<lambda>(js, q). (JArr js, q)) (p_elems n (d # r'))
             | [] \<Rightarrow> None)
          else if c = CHR ''{'' then
            (case dropWhile is_jws r of
               d # r' \<Rightarrow> if d = CHR ''}'' then Some (JObj [], r')
                         else map_option (\<lambda>(ps, q). (JObj (dedup ps), q)) (p_members n (d # r'))
             | [] \<Rightarrow> None)
          else if startsWith (c # r) ''null'' then Some (JNull, drop 4 (c # r))
          else if startsWith (c # r) ''true'' then Some (JBool True, drop 4 (c # r))
          else if startsWith (c # r) ''false'' then Some (JBool False, drop 5 (c # r))
          else p_num (c # r))"
| "p_elems 0 s = None"
| "p_elems (Suc n) s =
     (case p_val n s of None \<Rightarrow> None
      | Some (j, r) \<Rightarrow>
          (case dropWhile is_jws r of
             [] \<Rightarrow> None
           | c # q \<Rightarrow> if c = CHR '']'' then Some ([j], q)
                      else if c = CHR '','' then map_option (\<lambda>(js, q'). (j # js, q')) (p_elems n q)
                      else None))"
| "p_members 0 s = None"
| "p_members (Suc n) s =
     (case dropWhile is_jws s of [] \<Rightarrow> None
      | d # s' \<Rightarrow>
          if d \<noteq> dquote then None
          else case p_str s' of None \<Rightarrow> None
          | Some (k, r) \<Rightarrow>
              (case dropWhile is_jws r of [] \<Rightarrow> None
               | c # q \<Rightarrow>
                   if c \<noteq> CHR '':'' then None
                   else case p_val n q of None \<Rightarrow> None
                   | Some (j, t) \<Rightarrow>
                       (case dropWhile is_jws t of
                          [] \<Rightarrow> None
                        | e # u \<Rightarrow>
                            if e = CHR ''}'' then Some ([(k, j)], u)
                            else if e = CHR '','' then
                              map_option (\<lambda>(ps, u'). ((k, j) # ps, u')) (p_members n u)
                            else None)))"

text \<open>
  The recursion depth is at most two per character read, so this much fuel is enough
  (lemma \<open>parse_stringify\<close> for every text that \<open>stringify\<close> writes).
\<close>

definition parse :: "string \<Rightarrow> json option" where
  "parse s = (case p_val (2 * length s + 2) s of
     Some (j, r) \<Rightarrow> if dropWhile is_jws r = [] then Some j else None
   | None \<Rightarrow> None)"

section \<open>The round trip\<close>

fun wf_json :: "json \<Rightarrow> bool" where
  "wf_json (JDec m e) = (0 < e \<and> \<not> 10 dvd m)"
| "wf_json (JArr js) = list_all wf_json js"
| "wf_json (JObj ps) = (distinct (map fst ps) \<and> list_all (\<lambda>p. wf_json (snd p)) ps)"
| "wf_json _ = True"

fun need :: "json \<Rightarrow> nat"
  and need_e :: "json list \<Rightarrow> nat"
  and need_m :: "(string \<times> json) list \<Rightarrow> nat" where
  "need (JArr js) = Suc (need_e js)"
| "need (JObj ps) = Suc (need_m ps)"
| "need _ = 1"
| "need_e [] = 0"
| "need_e (j # js) = Suc (max (need j) (need_e js))"
| "need_m [] = 0"
| "need_m ((k, j) # ps) = Suc (max (need j) (need_m ps))"

text \<open>A text that cannot extend a number.\<close>

definition num_end :: "string \<Rightarrow> bool" where
  "num_end r \<longleftrightarrow> r = [] \<or> (\<not> is_digit (hd r) \<and> hd r \<notin> {CHR ''.'', CHR ''e'', CHR ''E''})"

lemma hex_val_hex_char [simp]: "d < 16 \<Longrightarrow> hex_val (hex_char d) = Some d"
  by (auto simp: hex_val_def hex_char_def)

lemma hex4_control:
  "hex4 (CHR ''0'') (CHR ''0'') (hex_char (code c div 16)) (hex_char (code c mod 16)) = Some (code c)"
proof -
  have "code c div 16 < 16"
    using of_char_lt_256 [of c] by (intro less_mult_imp_div_less) simp
  moreover have "hex_val (CHR ''0'') = Some 0" by (simp add: hex_val_def)
  ultimately show ?thesis by (simp add: hex4_def)
qed

lemma p_str_esc: "p_str (esc c @ r) = cons_res c (p_str r)"
proof (cases "code c < 32 \<and> c \<notin> {CHR 0x08, CHR 0x09, CHR 0x0A, CHR 0x0C, CHR 0x0D}")
  case True
  moreover have "\<not> code dquote < 32" "\<not> code bslash < 32" by simp_all
  ultimately have "c \<noteq> dquote" "c \<noteq> bslash" by blast+
  with True have e: "esc c = [bslash, CHR ''u'', CHR ''0'', CHR ''0'', hex_char (code c div 16), hex_char (code c mod 16)]"
    unfolding esc_def by simp
  show ?thesis unfolding e using True of_char_lt_256 [of c] by (simp add: hex4_control)
next
  case False
  then consider "c = CHR 0x08" | "c = CHR 0x09" | "c = CHR 0x0A" | "c = CHR 0x0C" | "c = CHR 0x0D" | "c = dquote" | "c = bslash"
    | "c \<noteq> dquote" "c \<noteq> bslash" "\<not> code c < 32" "c \<notin> {CHR 0x08, CHR 0x09, CHR 0x0A, CHR 0x0C, CHR 0x0D}"
    by blast
  then show ?thesis by cases (simp_all add: esc_def unesc_def)
qed

lemma p_str_quoted: "p_str (concat (map esc s) @ dquote # r) = Some (s, r)"
  by (induction s) (simp_all add: p_str_esc cons_res_def)

lemma show_nat_no_leading_zero: "hd (show_nat n) = CHR ''0'' \<Longrightarrow> n = 0"
proof (induction n rule: show_nat.induct)
  case (1 n)
  show ?case
  proof (cases "n < 10")
    case True
    with "1.prems" have "digit_val (digit_char n) = 0"
      by (simp add: show_nat.simps [of n] digit_val_def)
    with True show ?thesis by simp
  next
    case False
    with "1.prems" have "hd (show_nat (n div 10)) = CHR ''0''"
      by (simp add: show_nat.simps [of n])
    with False "1.IH" show ?thesis by simp
  qed
qed

lemma length_show_nat_1: "n < 10 \<Longrightarrow> length (show_nat n) = 1"
  by (simp add: show_nat.simps [of n])

lemma show_nat_head_ok: "\<not> (1 < length (show_nat n) \<and> hd (show_nat n) = CHR ''0'')"
  using show_nat_no_leading_zero [of n] length_show_nat_1 [of 0] by auto

lemma digit_not_special: "is_digit c \<Longrightarrow> c \<notin> {CHR ''-'', CHR ''.'', dquote, CHR ''['', CHR ''{'',
    CHR ''n'', CHR ''t'', CHR ''f'', CHR '']'', CHR ''}'', CHR '',''} \<and> \<not> is_jws c"
  by (auto simp: is_digit_def is_jws_def)

lemma takeWhile_num_end: "num_end r \<Longrightarrow> takeWhile is_digit r = [] \<and> dropWhile is_digit r = r"
  by (cases r) (auto simp: num_end_def)

lemma p_frac_num_end: "num_end r \<Longrightarrow> p_frac r = Some ([], r)"
  by (cases r) (auto simp: num_end_def p_frac_def)

lemma p_exp_num_end: "num_end r \<Longrightarrow> p_exp r = Some (0, r)"
  by (cases r) (auto simp: num_end_def p_exp_def)

lemma digits_append:
  assumes "\<forall>c\<in>set ds. is_digit c" and "\<not> is_digit x"
  shows "takeWhile is_digit (ds @ x # r) = ds" and "dropWhile is_digit (ds @ x # r) = x # r"
  using assms by simp_all

lemma show_nat_span:
  assumes "num_end r"
  shows "takeWhile is_digit (show_nat n @ r) = show_nat n" and "dropWhile is_digit (show_nat n @ r) = r"
  using takeWhile_num_end [OF assms] by (simp_all add: show_nat_digits)

lemma p_num_show_int:
  assumes "num_end r"
  shows "p_num (show_int i @ r) = Some (JNum i, r)"
proof -
  have minus: "hd (show_nat n @ r) \<noteq> CHR ''-''" for n
    using digit_not_special [OF hd_show_nat [of n]] by (simp add: hd_append)
  show ?thesis
    using assms minus show_nat_head_ok
    by (auto simp: p_num_def show_int_def Let_def show_nat_span p_frac_num_end p_exp_num_end)
qed

lemma read_digits_zeros: "read_digits (replicate k (CHR ''0'') @ s) = read_digits s"
  by (induction k) (simp_all add: read_digits_def digit_val_def)

lemma mk_num_dec: "0 < e \<Longrightarrow> \<not> 10 dvd m \<Longrightarrow> mk_num m e = JDec m e"
  by (cases e) simp_all

lemma show_dec_parts:
  fixes m :: int and e :: nat
  defines "ds \<equiv> padStart (Suc e) (CHR ''0'') (show_nat (nat \<bar>m\<bar>))"
  defines "k \<equiv> length ds - e"
  shows "0 < k" and "k + e = length ds" and "\<forall>c\<in>set ds. is_digit c"
    and "read_digits ds = nat \<bar>m\<bar>" and "1 < k \<Longrightarrow> hd ds \<noteq> CHR ''0''"
proof -
  have len: "e < length ds" by (simp add: ds_def padStart_def)
  then show "0 < k" and "k + e = length ds" by (simp_all add: k_def)
  show "\<forall>c\<in>set ds. is_digit c"
    by (auto simp: ds_def padStart_def show_nat_digits) (simp add: is_digit_def)
  show "read_digits ds = nat \<bar>m\<bar>"
    by (simp add: ds_def padStart_def read_digits_zeros)
  assume k: "1 < k"
  then have "Suc e < length ds" by (simp add: k_def)
  then have ds: "ds = show_nat (nat \<bar>m\<bar>)"
    by (auto simp: ds_def padStart_def split: nat_diff_split_asm)
  then show "hd ds \<noteq> CHR ''0''"
    using show_nat_head_ok [of "nat \<bar>m\<bar>"] \<open>Suc e < length ds\<close> by simp
qed

lemma p_num_parts:
  assumes ip: "ip \<noteq> []" "\<forall>c\<in>set ip. is_digit c" "\<not> (1 < length ip \<and> hd ip = CHR ''0'')"
    and fp: "fp \<noteq> []" "\<forall>c\<in>set fp. is_digit c" and r: "num_end r"
  shows "p_num ((if neg then ''-'' else []) @ ip @ CHR ''.'' # fp @ r)
    = Some (mk_num ((if neg then -1 else 1) * int (read_digits (ip @ fp))) (length fp), r)"
proof -
  have dot: "\<not> is_digit (CHR ''.'')" by (simp add: is_digit_def)
  have "p_frac (CHR ''.'' # fp @ r) = Some (fp, r)"
    using takeWhile_num_end [OF r] fp by (auto simp: p_frac_def Let_def)
  moreover have "hd ip \<noteq> CHR ''-''"
    using ip(1,2) digit_not_special [of "hd ip"] by simp
  ultimately show ?thesis
    using ip fp digits_append [OF ip(2) dot] p_exp_num_end [OF r]
    by (auto simp: p_num_def Let_def)
qed

lemma p_num_show_dec:
  assumes r: "num_end r" and wf: "0 < e" "\<not> 10 dvd m"
  shows "p_num (show_dec m e @ r) = Some (JDec m e, r)"
proof -
  define ds where "ds = padStart (Suc e) (CHR ''0'') (show_nat (nat \<bar>m\<bar>))"
  define k where "k = length ds - e"
  note parts = show_dec_parts [where m = m and e = e, folded ds_def, folded k_def]
  have kl: "k \<le> length ds" using parts(2) by simp
  have ne: "take k ds \<noteq> []" "drop k ds \<noteq> []" using parts(1,2) wf(1) by auto
  have dig: "\<forall>c\<in>set (take k ds). is_digit c" "\<forall>c\<in>set (drop k ds). is_digit c"
    using parts(3) by (auto dest: in_set_takeD in_set_dropD)
  have lead: "\<not> (1 < length (take k ds) \<and> hd (take k ds) = CHR ''0'')"
    using parts(5) kl ne(1) by (auto simp: hd_conv_nth)
  have "(if m < 0 then -1 else 1) * int (read_digits (take k ds @ drop k ds)) = m"
    using parts(4) by simp
  moreover have "length (drop k ds) = e" using parts(2) by simp
  ultimately show ?thesis
    using p_num_parts [OF ne(1) dig(1) lead ne(2) dig(2) r, of "m < 0"] mk_num_dec [OF wf]
    by (simp add: show_dec_def Let_def ds_def k_def)
qed

subsection \<open>Values\<close>

definition num_text :: "string \<Rightarrow> bool" where
  "num_text t \<longleftrightarrow> t \<noteq> [] \<and> (hd t = CHR ''-'' \<or> is_digit (hd t))"

lemma num_text_show_int: "num_text (show_int i)"
  by (simp add: num_text_def show_int_def hd_show_nat)

lemma num_text_show_dec: "num_text (show_dec m e)"
proof -
  let ?ds = "padStart (Suc e) (CHR ''0'') (show_nat (nat \<bar>m\<bar>))"
  note parts = show_dec_parts [where m = m and e = e]
  have "?ds \<noteq> []" using parts(1) by auto
  then have "is_digit (hd ?ds)" using parts(3) by simp
  with parts(1) \<open>?ds \<noteq> []\<close> show ?thesis
    by (auto simp: num_text_def show_dec_def Let_def hd_append)
qed

lemma num_head:
  "c = CHR ''-'' \<or> is_digit c \<Longrightarrow> c \<notin> {dquote, CHR ''['', CHR ''{'', CHR '']'', CHR ''}'', CHR '','',
     CHR ''n'', CHR ''t'', CHR ''f''} \<and> \<not> is_jws c"
  by (auto simp: is_digit_def is_jws_def)

lemma stringify_head:
  "\<exists>c r. stringify j = c # r \<and> \<not> is_jws c \<and> c \<notin> {CHR '']'', CHR ''}'', CHR '',''}"
proof -
  have num: "num_text t \<Longrightarrow> \<exists>c r. t = c # r \<and> \<not> is_jws c \<and> c \<notin> {CHR '']'', CHR ''}'', CHR '',''}" for t
    using num_head [of "hd t"] by (cases t) (auto simp: num_text_def)
  show ?thesis
  proof (cases j)
    case (JNum n)
    then show ?thesis using num [OF num_text_show_int] by simp
  next
    case (JDec m e)
    then show ?thesis using num [OF num_text_show_dec] by simp
  qed (auto simp: quote_def is_jws_def)
qed

lemma p_val_num:
  assumes "num_text t"
  shows "p_val (Suc n) (t @ r) = p_num (t @ r)"
proof -
  obtain c u where t: "t = c # u" and c: "c = CHR ''-'' \<or> is_digit c"
    using assms by (cases t) (auto simp: num_text_def)
  from num_head [OF c] show ?thesis by (simp add: t startsWith_def)
qed

lemma dedup_step: "distinct (map fst (acc @ ps)) \<Longrightarrow>
    foldl (\<lambda>a (k, v). obj_set k v a) acc ps = acc @ ps"
proof (induction ps arbitrary: acc)
  case (Cons p ps)
  obtain k v where p: "p = (k, v)" by (cases p)
  have new: "k \<notin> fst ` set acc \<Longrightarrow> obj_set k v acc = acc @ [(k, v)]"
    by (induction acc) (auto split: prod.splits)
  have "obj_set k v acc = acc @ [(k, v)]" using Cons.prems p by (intro new) auto
  with Cons.IH [of "acc @ [(k, v)]"] Cons.prems p show ?case by simp
qed simp

lemma dedup_distinct: "distinct (map fst ps) \<Longrightarrow> dedup ps = ps"
  using dedup_step [of "[]" ps] by (simp add: dedup_def)

lemma num_end_close: "num_end (CHR '']'' # r)" "num_end (CHR ''}'' # r)" "num_end (CHR '','' # r)"
  by (simp_all add: num_end_def is_digit_def)

lemma not_jws: "\<not> is_jws (CHR '']'')" "\<not> is_jws (CHR ''}'')" "\<not> is_jws (CHR '','')"
    "\<not> is_jws (CHR '':'')" "\<not> is_jws dquote" "\<not> is_jws (CHR ''['')" "\<not> is_jws (CHR ''{'')"
  by (simp_all add: is_jws_def)

lemma p_str_quote: "quote k @ r = dquote # concat (map esc k) @ dquote # r"
  by (simp add: quote_def)

text \<open>One element, one member: the induction steps.\<close>

lemma p_elems_last:
  "p_val n (t @ CHR '']'' # r) = Some (j, CHR '']'' # r) \<Longrightarrow>
   p_elems (Suc n) (t @ CHR '']'' # r) = Some ([j], r)"
  by (simp add: not_jws)

lemma p_elems_more:
  "p_val n (t @ CHR '','' # u) = Some (j, CHR '','' # u) \<Longrightarrow> p_elems n u = Some (js, r) \<Longrightarrow>
   p_elems (Suc n) (t @ CHR '','' # u) = Some (j # js, r)"
  by (simp add: not_jws)

lemma p_members_last:
  "p_val n (t @ CHR ''}'' # r) = Some (j, CHR ''}'' # r) \<Longrightarrow>
   p_members (Suc n) (quote k @ CHR '':'' # t @ CHR ''}'' # r) = Some ([(k, j)], r)"
  by (simp add: p_str_quote not_jws p_str_quoted)

lemma p_members_more:
  "p_val n (t @ CHR '','' # u) = Some (j, CHR '','' # u) \<Longrightarrow> p_members n u = Some (ps, r) \<Longrightarrow>
   p_members (Suc n) (quote k @ CHR '':'' # t @ CHR '','' # u) = Some ((k, j) # ps, r)"
  by (simp add: p_str_quote not_jws p_str_quoted)

lemma str_elems_head:
  "\<exists>c r. str_elems (j # js) = c # r \<and> \<not> is_jws c \<and> c \<noteq> CHR '']''"
  using stringify_head [of j] by (cases js) auto

lemma str_members_head: "\<exists>r. str_members (p # ps) = dquote # r"
  by (cases p; cases ps) (auto simp: quote_def)

lemma p_val_elems:
  assumes "p_elems n (str_elems (j # js) @ CHR '']'' # r) = Some (j # js, r)"
  shows "p_val (Suc n) (stringify (JArr (j # js)) @ r) = Some (JArr (j # js), r)"
proof -
  obtain c u where "str_elems (j # js) = c # u" "\<not> is_jws c" "c \<noteq> CHR '']''"
    using str_elems_head by blast
  with assms show ?thesis by (simp add: not_jws)
qed

lemma p_val_members:
  assumes "p_members n (str_members (p # ps) @ CHR ''}'' # r) = Some (p # ps, r)"
    and "distinct (map fst (p # ps))"
  shows "p_val (Suc n) (stringify (JObj (p # ps)) @ r) = Some (JObj (p # ps), r)"
proof -
  obtain u where "str_members (p # ps) = dquote # u"
    using str_members_head by blast
  with assms show ?thesis by (simp add: not_jws dedup_distinct)
qed

lemma parse_stringify_gen:
  "wf_json j \<Longrightarrow> need j \<le> n \<Longrightarrow> num_end r \<Longrightarrow> p_val n (stringify j @ r) = Some (j, r)"
  "list_all wf_json js \<Longrightarrow> js \<noteq> [] \<Longrightarrow> need_e js \<le> m \<Longrightarrow>
     p_elems m (str_elems js @ CHR '']'' # q) = Some (js, q)"
  "list_all (\<lambda>p. wf_json (snd p)) ps \<Longrightarrow> ps \<noteq> [] \<Longrightarrow> need_m ps \<le> l \<Longrightarrow>
     p_members l (str_members ps @ CHR ''}'' # t) = Some (ps, t)"
proof (induction j and js and ps arbitrary: n r and m q and l t
    rule: stringify_str_elems_str_members.induct)
  case (3 i)
  then show ?case
    by (cases n) (simp_all add: p_val_num [OF num_text_show_int] p_num_show_int del: p_val.simps(2))
next
  case (4 m e)
  then show ?case
    by (cases n) (simp_all add: p_val_num [OF num_text_show_dec] p_num_show_dec del: p_val.simps(2))
next
  case (6 js)
  show ?case
  proof (cases js)
    case Nil
    with "6.prems" show ?thesis by (cases n) (simp_all add: not_jws)
  next
    case (Cons j js')
    with "6.prems" obtain n' where n: "n = Suc n'" and le: "need_e js \<le> n'" by (cases n) auto
    have "p_elems n' (str_elems js @ CHR '']'' # r) = Some (js, r)"
      using "6.IH" [of n' r] "6.prems"(1) le Cons by auto
    then show ?thesis unfolding n Cons by (rule p_val_elems)
  qed
next
  case (7 ps)
  show ?case
  proof (cases ps)
    case Nil
    with "7.prems" show ?thesis by (cases n) (simp_all add: not_jws)
  next
    case (Cons p ps')
    with "7.prems" obtain n' where n: "n = Suc n'" and le: "need_m ps \<le> n'" by (cases n) auto
    have "p_members n' (str_members ps @ CHR ''}'' # r) = Some (ps, r)"
      using "7.IH" [of n' r] "7.prems"(1) le Cons by auto
    moreover have "distinct (map fst (p # ps'))" using "7.prems"(1) Cons by simp
    ultimately show ?thesis unfolding n Cons by (intro p_val_members)
  qed
next
  case (9 j)
  then show ?case
    by (cases m) (auto intro!: p_elems_last simp: num_end_close simp del: p_elems.simps(2))
next
  case (10 j k js)
  then obtain m' where m: "m = Suc m'" by (cases m) auto
  from 10 m show ?case
    by (auto intro!: p_elems_more simp: num_end_close simp del: p_elems.simps(2))
next
  case (12 k j)
  then show ?case
    by (cases l) (auto intro!: p_members_last simp: num_end_close simp del: p_members.simps(2))
next
  case (13 k j p ps)
  then obtain l' where l: "l = Suc l'" by (cases l) auto
  from 13 l show ?case
    by (cases p) (auto intro!: p_members_more simp: num_end_close simp del: p_members.simps(2))
qed (auto simp: p_str_quote p_str_quoted not_jws startsWith_def is_jws_def neq_Nil_conv
       dest!: Suc_le_D split: if_splits)

lemma need_bound:
  "need j \<le> 2 * length (stringify j)"
  "js \<noteq> [] \<Longrightarrow> need_e js \<le> 2 * length (str_elems js) + 1"
  "ps \<noteq> [] \<Longrightarrow> need_m ps \<le> 2 * length (str_members ps) + 1"
proof (induction j and js and ps rule: stringify_str_elems_str_members.induct)
  case (3 i)
  show ?case using num_text_show_int [of i] by (cases "show_int i") (auto simp: num_text_def)
next
  case (4 m e)
  show ?case using num_text_show_dec [of m e] by (cases "show_dec m e") (auto simp: num_text_def)
next
  case (6 js)
  then show ?case by (cases js) auto
next
  case (7 ps)
  then show ?case by (cases ps) auto
qed (auto simp: quote_def)

theorem parse_stringify: "wf_json j \<Longrightarrow> parse (stringify j) = Some j"
  using parse_stringify_gen(1) [of j "2 * length (stringify j) + 2" "[]"] need_bound(1) [of j]
  by (simp add: parse_def num_end_def)

lemma stringify_ne [simp]: "stringify j \<noteq> []"
  using stringify_head [of j] by auto

lemma stringify_inject: "wf_json i \<Longrightarrow> wf_json j \<Longrightarrow> stringify i = stringify j \<Longrightarrow> i = j"
  by (metis option.inject parse_stringify)

end
