(* ===== verification/Program.thy ===== *)
theory Program
  imports Json
begin

text \<open>
  Effectful code. An \<open>async\<close> function of the sources is a tree of type \<open>'a prog\<close>: it
  returns, throws, reads or writes the module-level variables of the Node process,
  reads the clock, or calls a service outside the repository (Redis through ioredis,
  Postgres through supabase-js, HTTP through \<open>fetch\<close>, Clerk, the OpenTelemetry API,
  the Node \<open>crypto\<close> module) and goes on with the reply, whatever it is. The
  services are therefore a parameter of every definition below: nothing is assumed
  of a reply unless a theorem says so. \<open>run\<close> executes a tree against an environment
  that answers the calls, \<open>trace\<close> lists the calls of an execution, and \<open>all_calls\<close>
  and \<open>all_results\<close> speak about every execution at once.

  Logging, metrics and span attributes have no effect on results and are left out.
\<close>

named_theorems prog_defs \<open>definitions unfolded when a program is executed\<close>

section \<open>Errors\<close>

text \<open>\<open>ErrorCode\<close> of lib/writeright-errors.ts.\<close>

datatype error_code =
    CONFIRMATION_REQUIRED | QUOTA_EXCEEDED | TEXT_TOO_LONG | FILE_TOO_LARGE | CONFLICT
  | MISSING_SECRET | EXPIRED_TOKEN | INVALID_TOKEN | INVALID_CHAT_ID | INVALID_JOB_ID
  | UPSTREAM_ERROR | GATEWAY_ERROR | REDIS_UNAVAILABLE | DB_ERROR | UNAUTHORIZED
  | INVALID_BODY | VALIDATION_ERROR | MISSING_TEXT | EMPTY_TEXT | INVALID_TONE
  | INVALID_MODE | INVALID_KEYS | CHAT_NOT_FOUND | NOT_FOUND | RATE_LIMITED | QUEUE_ERROR
  | TIMEOUT | STREAM_ERROR | WORKER_ERROR | INTERNAL_ERROR | GMAIL_NOT_CONNECTED
  | GMAIL_TOKEN_EXPIRED | GMAIL_FETCH_FAILED | GMAIL_QUOTA_EXCEEDED | GATEWAY_OFFLINE

type_synonym headers = "(string \<times> string) list"

record error_meta =
  meta_headers :: "headers option"
  meta_fields :: "(string \<times> json) list"

text \<open>
  What can be thrown: a \<open>WriteRightError\<close> (code, user message, HTTP status, meta), a
  \<open>ZodError\<close> with its issues, or another \<open>Error\<close> with its message.
\<close>

datatype exn =
    WriteRightError error_code string int error_meta
  | ZodError json
  | JsError string

text \<open>\<open>err instanceof Error ? err.message : String(err)\<close>.\<close>

fun exn_message :: "exn \<Rightarrow> string" where
  "exn_message (WriteRightError c m st meta) = m"
| "exn_message (ZodError j) = stringify j"
| "exn_message (JsError m) = m"

section \<open>Requests, replies and calls\<close>

record request =
  req_method :: string
  req_path :: string
  req_query :: "(string \<times> string) list"
  req_headers :: headers
  req_body :: "json option" \<comment> \<open>\<^const>\<open>None\<close>: \<open>req.json()\<close> rejects\<close>
  req_params :: "(string \<times> string) list"

text \<open>\<open>headers.get(name)\<close>: names are compared without regard to case.\<close>

definition header_get :: "headers \<Rightarrow> string \<Rightarrow> string option" where
  "header_get hs k = map_of (map (\<lambda>(a, b). (toLowerCase a, b)) hs) (toLowerCase k)"

definition query_get :: "request \<Rightarrow> string \<Rightarrow> string option" where
  "query_get req k = map_of (req_query req) k"

definition param_get :: "request \<Rightarrow> string \<Rightarrow> string" where
  "param_get req k = (case map_of (req_params req) k of Some v \<Rightarrow> v | None \<Rightarrow> [])"

datatype body = BJson json | BText string | BEvents "(string \<times> json) list"

record response =
  resp_status :: int
  resp_body :: body
  resp_headers :: headers

text \<open>What \<open>fetch\<close> sends and receives.\<close>

record fetch_request =
  fq_method :: string
  fq_url :: string
  fq_headers :: headers
  fq_body :: "json option"

record fetch_response =
  fr_status :: int
  fr_json :: "json option" \<comment> \<open>\<^const>\<open>None\<close>: the body is not JSON\<close>
  fr_text :: string

definition fr_ok :: "fetch_response \<Rightarrow> bool" where
  "fr_ok r \<longleftrightarrow> 200 \<le> fr_status r \<and> fr_status r \<le> 299"

text \<open>Clerk's \<open>auth()\<close>.\<close>

record session =
  userId :: "string option"
  sessionId :: "string option"
  sessionClaims :: "json option"

text \<open>The ioredis commands the sources issue.\<close>

datatype rcmd =
    GET string
  | SETEX string int string
  | SET_EX_NX string string int
  | DEL "string list"
  | EXISTS string
  | INCR string
  | EXPIRE string int
  | ZADD string int string
  | ZCARD string
  | ZREM string string
  | ZPOPMIN string int
  | ZRANGEBYSCORE string "int option" "int option" \<comment> \<open>upper bound, limit\<close>
  | ZREMRANGEBYSCORE string int
  | HSET string "(string \<times> string) list"
  | HGETALL string
  | XADD string string string
  | XRANGE_FIRST string
  | PIPELINE "rcmd list"
  | QUIT
  | PING

text \<open>The supabase-js query builder: a table, an operation, filters, modifiers and the
  way rows are returned.\<close>

datatype filter =
    Eq string json | Neq string json | IsNull string | NotNull string
  | In string "json list" | Gte string json | Lte string json | Lt string json | Ilike string string

datatype db_op =
    Select string
  | Insert json
  | Update json
  | Upsert json string bool \<comment> \<open>row, \<open>onConflict\<close>, \<open>ignoreDuplicates\<close>\<close>
  | Delete

datatype db_mod = Order string bool | Limit int | Range int int | Returning string

datatype db_mode = Many | Single | MaybeSingle | CountHead

datatype query =
    Query string db_op "filter list" "db_mod list" db_mode
  | Rpc string json

record db_error =
  db_code :: string
  db_message :: string

record db_result =
  db_data :: "json option" \<comment> \<open>\<^const>\<open>None\<close> is \<open>null\<close>\<close>
  db_err :: "db_error option"
  db_count :: "int option"

text \<open>A connection of its own for a subscription, \<open>getRedisPool().duplicate()\<close>. \<open>Received\<close> are the
  messages, with their channels, that have arrived since the code last waited.\<close>

datatype subscriber_op = Subscribe string | Unsubscribe string | Quit_sub | Disconnect | Sub_status | Received

datatype call =
    CAuth
  | CGetToken
  | CRandom
  | CUuid
  | CSleep int
  | CTrace
  | CTraceId
  | CTimer int
  | CReadFile string
  | CSha256 string
  | CHmac string string
  | CCloudSecret string string
  | CRedis rcmd
  | CDb query
  | CFetch fetch_request
  | CSubscriber subscriber_op
  | CAborted \<comment> \<open>\<open>req.signal.aborted\<close>\<close>
  | CSend string json \<comment> \<open>an event on the stream of the response; an error when the client is gone\<close>

datatype reply =
    RNil
  | RInt int
  | RRat rat
  | RStr string
  | RList "string list"
  | RPairs "(string \<times> string) list"
  | REntries "(string \<times> (string \<times> string) list) list"
  | RSession session
  | RDb db_result
  | RFetch fetch_response
  | RErr exn

section \<open>The variables of the process\<close>

text \<open>\<open>_circuit\<close> of lib/redis.ts.\<close>

record circuit_state =
  consecutiveErrors :: int
  openUntil :: int
  totalErrors :: int
  totalConnects :: int

text \<open>The status of an ioredis client, as far as the sources look at it.\<close>

datatype client = Live | Ended

text \<open>\<open>circuitState\<close> and \<open>enqueueWindow\<close> of lib/reconciliation-worker.ts.\<close>

record recon_circuit =
  rc_openUntil :: int
  rc_failures :: int

record enqueue_window =
  win_sec :: int
  win_count :: int

text \<open>\<open>CachedSecret\<close> of lib/secrets.ts.\<close>

record cached_secret =
  cs_value :: string
  cs_fetchedAt :: int

record process =
  penv :: "string \<Rightarrow> string option" \<comment> \<open>\<open>process.env\<close>\<close>
  tz_offset :: int \<comment> \<open>local time minus UTC, in milliseconds\<close>
  circuit :: circuit_state
  pool :: "client option" \<comment> \<open>\<open>_poolInstance\<close>\<close>
  dev_pool :: "client option" \<comment> \<open>\<open>globalThis.__ioredis_pool__\<close>\<close>
  rcircuit :: recon_circuit
  window :: enqueue_window
  secretCache :: "(string \<times> cached_secret) list"
  rotating :: bool \<comment> \<open>\<open>rotationInterval\<close> is set\<close>
  supabase_client :: bool \<comment> \<open>\<open>_client\<close> of lib/supabase.ts is set\<close>
  hashtag_at :: nat \<comment> \<open>\<open>lastIndex\<close> of the global expression in detect-mode\<close>
  jar :: "(string \<times> string \<times> int) list" \<comment> \<open>the cookies of the browser whose requests are considered, with their ends\<close>

section \<open>Programs\<close>

datatype 'a prog =
    Ret 'a
  | Throw exn
  | GetS "process \<Rightarrow> 'a prog"
  | PutS process "'a prog"
  | Clock "int \<Rightarrow> 'a prog"
  | Call call "reply \<Rightarrow> 'a prog"

primrec bnd :: "'a prog \<Rightarrow> ('a \<Rightarrow> 'b prog) \<Rightarrow> 'b prog" where
  "bnd (Ret x) f = f x"
| "bnd (Throw e) f = Throw e"
| "bnd (GetS k) f = GetS (\<lambda>s. bnd (k s) f)"
| "bnd (PutS s p) f = PutS s (bnd p f)"
| "bnd (Clock k) f = Clock (\<lambda>t. bnd (k t) f)"
| "bnd (Call c k) f = Call c (\<lambda>r. bnd (k r) f)"

text \<open>\<open>try { p } catch (e) { h e }\<close>.\<close>

primrec catch :: "'a prog \<Rightarrow> (exn \<Rightarrow> 'a prog) \<Rightarrow> 'a prog" where
  "catch (Ret x) h = Ret x"
| "catch (Throw e) h = h e"
| "catch (GetS k) h = GetS (\<lambda>s. catch (k s) h)"
| "catch (PutS s p) h = PutS s (catch p h)"
| "catch (Clock k) h = Clock (\<lambda>t. catch (k t) h)"
| "catch (Call c k) h = Call c (\<lambda>r. catch (k r) h)"

definition sq :: "'a prog \<Rightarrow> 'b prog \<Rightarrow> 'b prog" where
  "sq p q = bnd p (\<lambda>_. q)"

definition whenP :: "bool \<Rightarrow> unit prog \<Rightarrow> unit prog" where
  "whenP b p = (if b then p else Ret ())"

text \<open>\<open>try { p } catch { }\<close>.\<close>

definition attempt :: "unit prog \<Rightarrow> unit prog" where
  "attempt p = catch p (\<lambda>_. Ret ())"

primrec mapM :: "('a \<Rightarrow> 'b prog) \<Rightarrow> 'a list \<Rightarrow> 'b list prog" where
  "mapM f [] = Ret []"
| "mapM f (x # xs) = bnd (f x) (\<lambda>y. bnd (mapM f xs) (\<lambda>ys. Ret (y # ys)))"

subsection \<open>Primitive operations\<close>

text \<open>
  A reply without the shape the client library documents for the command is turned
  into an error, so every environment is covered.
\<close>

definition bad_reply :: exn where
  "bad_reply = JsError ''unexpected reply''"

definition now :: "int prog" where "now = Clock Ret"

definition get_env :: "string \<Rightarrow> string option prog" where
  "get_env k = GetS (\<lambda>s. Ret (penv s k))"

definition get_session :: "session prog" where
  "get_session = Call CAuth (\<lambda>r. case r of RSession s \<Rightarrow> Ret s | RErr e \<Rightarrow> Throw e | _ \<Rightarrow> Throw bad_reply)"

definition call_str :: "call \<Rightarrow> string prog" where
  "call_str c = Call c (\<lambda>r. case r of RStr x \<Rightarrow> Ret x | RErr e \<Rightarrow> Throw e | _ \<Rightarrow> Throw bad_reply)"

definition call_stro :: "call \<Rightarrow> string option prog" where
  "call_stro c = Call c (\<lambda>r. case r of RStr x \<Rightarrow> Ret (Some x) | RNil \<Rightarrow> Ret None
     | RErr e \<Rightarrow> Throw e | _ \<Rightarrow> Throw bad_reply)"

definition random :: "rat prog" where
  "random = Call CRandom (\<lambda>r. case r of RRat x \<Rightarrow> Ret x | _ \<Rightarrow> Ret 0)"

definition sleep :: "int \<Rightarrow> unit prog" where
  "sleep ms = Call (CSleep ms) (\<lambda>_. Ret ())"

text \<open>\<open>injectTraceContext(new Headers())\<close>: the W3C headers of the active span, if any.\<close>

definition trace_headers :: "headers prog" where
  "trace_headers = Call CTrace (\<lambda>r. case r of RPairs hs \<Rightarrow> Ret hs | _ \<Rightarrow> Ret [])"

definition redis_unit :: "rcmd \<Rightarrow> unit prog" where
  "redis_unit c = Call (CRedis c) (\<lambda>r. case r of RErr e \<Rightarrow> Throw e | _ \<Rightarrow> Ret ())"

definition redis_int :: "rcmd \<Rightarrow> int prog" where
  "redis_int c = Call (CRedis c) (\<lambda>r. case r of RInt n \<Rightarrow> Ret n | RErr e \<Rightarrow> Throw e | _ \<Rightarrow> Throw bad_reply)"

definition redis_str :: "rcmd \<Rightarrow> string option prog" where
  "redis_str c = Call (CRedis c) (\<lambda>r. case r of RStr x \<Rightarrow> Ret (Some x) | RNil \<Rightarrow> Ret None
     | RErr e \<Rightarrow> Throw e | _ \<Rightarrow> Throw bad_reply)"

definition redis_list :: "rcmd \<Rightarrow> string list prog" where
  "redis_list c = Call (CRedis c) (\<lambda>r. case r of RList xs \<Rightarrow> Ret xs | RErr e \<Rightarrow> Throw e | _ \<Rightarrow> Throw bad_reply)"

definition redis_hash :: "rcmd \<Rightarrow> (string \<times> string) list prog" where
  "redis_hash c = Call (CRedis c) (\<lambda>r. case r of RPairs xs \<Rightarrow> Ret xs | RErr e \<Rightarrow> Throw e | _ \<Rightarrow> Throw bad_reply)"

definition redis_entries :: "rcmd \<Rightarrow> (string \<times> (string \<times> string) list) list prog" where
  "redis_entries c = Call (CRedis c) (\<lambda>r. case r of REntries xs \<Rightarrow> Ret xs | RErr e \<Rightarrow> Throw e | _ \<Rightarrow> Throw bad_reply)"

definition db :: "query \<Rightarrow> db_result prog" where
  "db q = Call (CDb q) (\<lambda>r. case r of RDb x \<Rightarrow> Ret x | RErr e \<Rightarrow> Throw e | _ \<Rightarrow> Throw bad_reply)"

definition fetch :: "fetch_request \<Rightarrow> fetch_response prog" where
  "fetch q = Call (CFetch q) (\<lambda>r. case r of RFetch x \<Rightarrow> Ret x | RErr e \<Rightarrow> Throw e | _ \<Rightarrow> Throw bad_reply)"

lemmas prim_defs = now_def get_env_def get_session_def call_str_def call_stro_def random_def sleep_def
  trace_headers_def redis_unit_def redis_int_def redis_str_def redis_list_def redis_hash_def
  redis_entries_def db_def fetch_def

section \<open>Execution\<close>

record 'w environment =
  clock :: "'w \<Rightarrow> int \<times> 'w"
  answer :: "call \<Rightarrow> 'w \<Rightarrow> reply \<times> 'w"

primrec run :: "'w environment \<Rightarrow> 'a prog \<Rightarrow> process \<Rightarrow> 'w \<Rightarrow> (exn + 'a) \<times> process \<times> 'w" where
  "run E (Ret x) s w = (Inr x, s, w)"
| "run E (Throw e) s w = (Inl e, s, w)"
| "run E (GetS k) s w = run E (k s) s w"
| "run E (PutS s' p) s w = run E p s' w"
| "run E (Clock k) s w = (case clock E w of (t, w') \<Rightarrow> run E (k t) s w')"
| "run E (Call c k) s w = (case answer E c w of (r, w') \<Rightarrow> run E (k r) s w')"

primrec trace :: "'w environment \<Rightarrow> 'a prog \<Rightarrow> process \<Rightarrow> 'w \<Rightarrow> call list" where
  "trace E (Ret x) s w = []"
| "trace E (Throw e) s w = []"
| "trace E (GetS k) s w = trace E (k s) s w"
| "trace E (PutS s' p) s w = trace E p s' w"
| "trace E (Clock k) s w = (case clock E w of (t, w') \<Rightarrow> trace E (k t) s w')"
| "trace E (Call c k) s w = (case answer E c w of (r, w') \<Rightarrow> c # trace E (k r) s w')"

primrec all_calls :: "(call \<Rightarrow> bool) \<Rightarrow> 'a prog \<Rightarrow> bool" where
  "all_calls P (Ret x) = True"
| "all_calls P (Throw e) = True"
| "all_calls P (GetS k) = (\<forall>s. all_calls P (k s))"
| "all_calls P (PutS s p) = all_calls P p"
| "all_calls P (Clock k) = (\<forall>t. all_calls P (k t))"
| "all_calls P (Call c k) = (P c \<and> (\<forall>r. all_calls P (k r)))"

primrec all_results :: "(exn + 'a \<Rightarrow> bool) \<Rightarrow> 'a prog \<Rightarrow> bool" where
  "all_results Q (Ret x) = Q (Inr x)"
| "all_results Q (Throw e) = Q (Inl e)"
| "all_results Q (GetS k) = (\<forall>s. all_results Q (k s))"
| "all_results Q (PutS s p) = all_results Q p"
| "all_results Q (Clock k) = (\<forall>t. all_results Q (k t))"
| "all_results Q (Call c k) = (\<forall>r. all_results Q (k r))"

subsection \<open>Laws\<close>

lemma bnd_assoc: "bnd (bnd p f) g = bnd p (\<lambda>x. bnd (f x) g)"
  by (induction p) simp_all

lemma bnd_Ret [simp]: "bnd p Ret = p"
  by (induction p) simp_all

lemma run_bnd: "run E (bnd p f) s w =
    (case run E p s w of (Inl e, sw) \<Rightarrow> (Inl e, sw) | (Inr x, s', w') \<Rightarrow> run E (f x) s' w')"
  by (induction p arbitrary: s w) (simp_all split: prod.splits)

lemma run_catch: "run E (catch p h) s w =
    (case run E p s w of (Inl e, s', w') \<Rightarrow> run E (h e) s' w' | (Inr x, sw) \<Rightarrow> (Inr x, sw))"
  by (induction p arbitrary: s w) (simp_all split: prod.splits)

lemma run_sq: "run E (sq p q) s w =
    (case run E p s w of (Inl e, sw) \<Rightarrow> (Inl e, sw) | (Inr x, s', w') \<Rightarrow> run E q s' w')"
  by (simp add: sq_def run_bnd)

lemma trace_bnd: "trace E (bnd p f) s w = trace E p s w @
    (case run E p s w of (Inl e, sw) \<Rightarrow> [] | (Inr x, s', w') \<Rightarrow> trace E (f x) s' w')"
  by (induction p arbitrary: s w) (simp_all split: prod.splits)

lemma trace_catch: "trace E (catch p h) s w = trace E p s w @
    (case run E p s w of (Inl e, s', w') \<Rightarrow> trace E (h e) s' w' | (Inr x, sw) \<Rightarrow> [])"
  by (induction p arbitrary: s w) (simp_all split: prod.splits)

lemma run_if: "run E (if b then p else q) s w = (if b then run E p s w else run E q s w)"
  by simp

lemma all_calls_trace: "all_calls P p \<Longrightarrow> c \<in> set (trace E p s w) \<Longrightarrow> P c"
  by (induction p arbitrary: s w) (fastforce split: prod.splits)+

lemma all_results_run: "all_results Q p \<Longrightarrow> Q (fst (run E p s w))"
  by (induction p arbitrary: s w) (auto split: prod.splits)

lemma all_calls_bnd [simp, intro]:
  "all_calls P p \<Longrightarrow> (\<And>x. all_calls P (f x)) \<Longrightarrow> all_calls P (bnd p f)"
  by (induction p) auto

lemma all_calls_catch [simp, intro]:
  "all_calls P p \<Longrightarrow> (\<And>e. all_calls P (h e)) \<Longrightarrow> all_calls P (catch p h)"
  by (induction p) auto

lemma all_calls_sq [simp, intro]: "all_calls P p \<Longrightarrow> all_calls P q \<Longrightarrow> all_calls P (sq p q)"
  by (simp add: sq_def)

lemma all_calls_when [simp, intro]: "(b \<Longrightarrow> all_calls P p) \<Longrightarrow> all_calls P (whenP b p)"
  by (simp add: whenP_def)

lemma all_calls_attempt [simp, intro]: "all_calls P p \<Longrightarrow> all_calls P (attempt p)"
  by (simp add: attempt_def)

lemma all_calls_mapM [simp, intro]: "(\<And>x. x \<in> set xs \<Longrightarrow> all_calls P (f x)) \<Longrightarrow> all_calls P (mapM f xs)"
  by (induction xs) (simp_all add: all_calls_bnd)

text \<open>Branches of a program.\<close>

lemma all_calls_if [simp]:
  "all_calls P (if b then p else q) \<longleftrightarrow> (b \<longrightarrow> all_calls P p) \<and> (\<not> b \<longrightarrow> all_calls P q)"
  by simp

lemma all_calls_case_option [simp]:
  "all_calls P (case x of None \<Rightarrow> p | Some y \<Rightarrow> f y) \<longleftrightarrow>
     (x = None \<longrightarrow> all_calls P p) \<and> (\<forall>y. x = Some y \<longrightarrow> all_calls P (f y))"
  by (simp split: option.split)

lemma all_calls_case_list [simp]:
  "all_calls P (case x of [] \<Rightarrow> p | y # ys \<Rightarrow> f y ys) \<longleftrightarrow>
     (x = [] \<longrightarrow> all_calls P p) \<and> (\<forall>y ys. x = y # ys \<longrightarrow> all_calls P (f y ys))"
  by (simp split: list.split)

lemma all_calls_case_sum [simp]:
  "all_calls P (case x of Inl y \<Rightarrow> f y | Inr z \<Rightarrow> g z) \<longleftrightarrow>
     (\<forall>y. x = Inl y \<longrightarrow> all_calls P (f y)) \<and> (\<forall>z. x = Inr z \<longrightarrow> all_calls P (g z))"
  by (simp split: sum.split)

lemma all_calls_case_prod [simp]:
  "all_calls P (case x of (y, z) \<Rightarrow> f y z) \<longleftrightarrow> (\<forall>y z. x = (y, z) \<longrightarrow> all_calls P (f y z))"
  by (simp split: prod.split)

lemma all_calls_case_json [simp]:
  "all_calls P (case x of JNull \<Rightarrow> a | JBool b \<Rightarrow> f b | JNum n \<Rightarrow> g n | JDec m e \<Rightarrow> h m e
      | JStr t \<Rightarrow> k t | JArr js \<Rightarrow> l js | JObj ps \<Rightarrow> m ps) \<longleftrightarrow>
     (x = JNull \<longrightarrow> all_calls P a) \<and> (\<forall>b. x = JBool b \<longrightarrow> all_calls P (f b)) \<and>
     (\<forall>n. x = JNum n \<longrightarrow> all_calls P (g n)) \<and> (\<forall>m e. x = JDec m e \<longrightarrow> all_calls P (h m e)) \<and>
     (\<forall>t. x = JStr t \<longrightarrow> all_calls P (k t)) \<and> (\<forall>js. x = JArr js \<longrightarrow> all_calls P (l js)) \<and>
     (\<forall>ps. x = JObj ps \<longrightarrow> all_calls P (m ps))"
  by (simp split: json.split)

lemma all_calls_Let [simp]: "all_calls P (let x = a in f x) \<longleftrightarrow> all_calls P (f a)"
  by (simp add: Let_def)

lemma all_calls_mono: "all_calls P p \<Longrightarrow> (\<And>c. P c \<Longrightarrow> Q c) \<Longrightarrow> all_calls Q p"
  by (induction p) auto

lemma all_results_bnd:
  "all_results (\<lambda>r. case r of Inl e \<Rightarrow> Q (Inl e) | Inr x \<Rightarrow> all_results Q (f x)) p \<Longrightarrow>
   all_results Q (bnd p f)"
  by (induction p) auto

lemma all_results_catch:
  "all_results (\<lambda>r. case r of Inl e \<Rightarrow> all_results Q (h e) | Inr x \<Rightarrow> Q (Inr x)) p \<Longrightarrow>
   all_results Q (catch p h)"
  by (induction p) auto

lemma all_results_mono: "all_results P p \<Longrightarrow> (\<And>r. P r \<Longrightarrow> Q r) \<Longrightarrow> all_results Q p"
  by (induction p) auto

lemma all_results_True [simp]: "all_results (\<lambda>_. True) p"
  by (induction p) auto

lemma all_results_conj:
  "all_results P p \<Longrightarrow> all_results Q p \<Longrightarrow> all_results (\<lambda>r. P r \<and> Q r) p"
  by (induction p) auto

lemma all_calls_prim [simp]:
  "all_calls P now" "all_calls P (get_env k)"
  "all_calls P get_session \<longleftrightarrow> P CAuth"
  "all_calls P (call_str c) \<longleftrightarrow> P c"
  "all_calls P (call_stro c) \<longleftrightarrow> P c"
  "all_calls P random \<longleftrightarrow> P CRandom"
  "all_calls P (sleep ms) \<longleftrightarrow> P (CSleep ms)"
  "all_calls P trace_headers \<longleftrightarrow> P CTrace"
  "all_calls P (redis_unit rc) \<longleftrightarrow> P (CRedis rc)"
  "all_calls P (redis_int rc) \<longleftrightarrow> P (CRedis rc)"
  "all_calls P (redis_str rc) \<longleftrightarrow> P (CRedis rc)"
  "all_calls P (redis_list rc) \<longleftrightarrow> P (CRedis rc)"
  "all_calls P (redis_hash rc) \<longleftrightarrow> P (CRedis rc)"
  "all_calls P (redis_entries rc) \<longleftrightarrow> P (CRedis rc)"
  "all_calls P (db q) \<longleftrightarrow> P (CDb q)"
  "all_calls P (fetch fq) \<longleftrightarrow> P (CFetch fq)"
  by (auto simp: prim_defs split: reply.splits)

section \<open>Programs that always return\<close>

definition returns :: "('a \<Rightarrow> bool) \<Rightarrow> 'a prog \<Rightarrow> bool" where
  "returns Q p \<longleftrightarrow> all_results (\<lambda>r. \<exists>x. r = Inr x \<and> Q x) p"

lemma returns_simps [simp]:
  "returns Q (Ret x) \<longleftrightarrow> Q x" "\<not> returns Q (Throw e)"
  "returns Q (GetS k) \<longleftrightarrow> (\<forall>s. returns Q (k s))" "returns Q (PutS s p) \<longleftrightarrow> returns Q p"
  "returns Q (Clock f) \<longleftrightarrow> (\<forall>t. returns Q (f t))" "returns Q (Call c g) \<longleftrightarrow> (\<forall>r. returns Q (g r))"
  by (simp_all add: returns_def)

lemma returns_bnd: "returns R p \<Longrightarrow> (\<And>x. R x \<Longrightarrow> returns Q (f x)) \<Longrightarrow> returns Q (bnd p f)"
  unfolding returns_def by (rule all_results_bnd, erule all_results_mono) auto

lemma returns_sq: "returns R p \<Longrightarrow> returns Q q \<Longrightarrow> returns Q (sq p q)"
  unfolding sq_def by (rule returns_bnd)

lemma returns_catch: "all_results (\<lambda>r. \<forall>x. r = Inr x \<longrightarrow> Q x) p \<Longrightarrow> (\<And>e. returns Q (h e)) \<Longrightarrow> returns Q (catch p h)"
  unfolding returns_def by (rule all_results_catch, erule all_results_mono) (auto split: sum.splits)

lemma returns_catch_True: "(\<And>e. returns (\<lambda>_. True) (h e)) \<Longrightarrow> returns (\<lambda>_. True) (catch p h)"
  by (rule returns_catch) simp_all

lemma returns_attempt [simp]: "returns (\<lambda>_. True) (attempt p)"
  unfolding attempt_def by (rule returns_catch_True) simp

lemma returns_mono: "returns P p \<Longrightarrow> (\<And>x. P x \<Longrightarrow> Q x) \<Longrightarrow> returns Q p"
  unfolding returns_def by (erule all_results_mono) auto

lemma returns_run: "returns Q p \<Longrightarrow> \<exists>x. fst (run E p s w) = Inr x \<and> Q x"
  unfolding returns_def by (drule all_results_run)

lemma returns_prim [simp]: "returns (\<lambda>_. True) (get_env k)" "returns (\<lambda>_. True) now"
  "returns (\<lambda>_. True) random" "returns (\<lambda>_. True) (sleep ms)" "returns (\<lambda>_. True) trace_headers"
  by (auto simp: prim_defs split: reply.splits)

section \<open>Results and final states\<close>

text \<open>\<open>wp Q p s\<close>: every execution of \<open>p\<close> from the process state \<open>s\<close>, whatever the services answer,
  ends with a result and a state that satisfy \<open>Q\<close>.\<close>

primrec wp :: "(exn + 'a \<Rightarrow> process \<Rightarrow> bool) \<Rightarrow> 'a prog \<Rightarrow> process \<Rightarrow> bool" where
  "wp Q (Ret x) s = Q (Inr x) s"
| "wp Q (Throw e) s = Q (Inl e) s"
| "wp Q (GetS k) s = wp Q (k s) s"
| "wp Q (PutS s' p) s = wp Q p s'"
| "wp Q (Clock k) s = (\<forall>t. wp Q (k t) s)"
| "wp Q (Call c k) s = (\<forall>r. wp Q (k r) s)"

lemma wp_bnd: "wp Q (bnd p f) s = wp (\<lambda>r s'. case r of Inl e \<Rightarrow> Q (Inl e) s' | Inr x \<Rightarrow> wp Q (f x) s') p s"
  by (induction p arbitrary: s) simp_all

lemma wp_catch: "wp Q (catch p h) s = wp (\<lambda>r s'. case r of Inl e \<Rightarrow> wp Q (h e) s' | Inr x \<Rightarrow> Q (Inr x) s') p s"
  by (induction p arbitrary: s) simp_all

lemma wp_sq: "wp Q (sq p q) s = wp (\<lambda>r s'. case r of Inl e \<Rightarrow> Q (Inl e) s' | Inr x \<Rightarrow> wp Q q s') p s"
  by (simp add: sq_def wp_bnd)

lemma wp_run: "wp Q p s \<Longrightarrow> run E p s w = (r, s', w') \<Longrightarrow> Q r s'"
proof (induction p arbitrary: s w)
  case (GetS k)
  then show ?case using GetS.IH [of "k s"] by simp
next
  case (Clock k)
  obtain t w1 where "clock E w = (t, w1)" by (cases "clock E w")
  then show ?case using Clock.IH [of "k t" s w1] Clock.prems by simp
next
  case (Call c k)
  obtain a w1 where "answer E c w = (a, w1)" by (cases "answer E c w")
  then show ?case using Call.IH [of "k a" s w1] Call.prems by simp
qed auto

lemma wp_result: "wp Q p s \<Longrightarrow> Q (fst (run E p s w)) (fst (snd (run E p s w)))"
  using wp_run [of Q p s E w] by (cases "run E p s w") simp

lemma wp_mono: "wp P p s \<Longrightarrow> (\<And>r s'. P r s' \<Longrightarrow> Q r s') \<Longrightarrow> wp Q p s"
  by (induction p arbitrary: s) auto

lemma wp_prim [simp]:
  "wp Q now s \<longleftrightarrow> (\<forall>t. Q (Inr t) s)" "wp Q' (get_env k) s \<longleftrightarrow> Q' (Inr (penv s k)) s"
  by (simp_all add: prim_defs)

section \<open>Time\<close>

text \<open>An environment whose clock does not go back.\<close>

locale forward_time =
  fixes E :: "'w environment" and time :: "'w \<Rightarrow> int"
  assumes clock_forward: "clock E w = (t, w') \<Longrightarrow> time w \<le> t \<and> time w' = t"
    and call_forward: "answer E c w = (r, w') \<Longrightarrow> time w \<le> time w'"
begin

lemma run_forward: "time w \<le> time (snd (snd (run E p s w)))"
proof (induction p arbitrary: s w)
  case (Clock k)
  show ?case using clock_forward [of w] Clock.IH [OF rangeI, of "snd (clock E w)"] order_trans
    by (fastforce split: prod.split)
next
  case (Call c k)
  show ?case using call_forward [of c w] Call.IH [OF rangeI, of "snd (answer E c w)"] order_trans
    by (fastforce split: prod.split)
qed auto

end

end
