(* ===== verification/Errors.thy ===== *)
theory Errors
  imports Program
begin

text \<open>
  lib/writeright-errors.ts: the table of user-facing messages, \<open>createApiError\<close>, the
  conversion of whatever a handler throws into an HTTP response, the time limit and
  the wrapper \<open>withErrorHandler\<close> that every route runs in; and \<open>getActiveTraceId\<close> of
  lib/tracing.ts, which the conversion uses. The lemmas show that the wrapper turns
  every execution of every handler into a response.
\<close>

section \<open>Codes and messages\<close>

fun code_name :: "error_code \<Rightarrow> string" where
  "code_name CONFIRMATION_REQUIRED = ''CONFIRMATION_REQUIRED''"
| "code_name QUOTA_EXCEEDED = ''QUOTA_EXCEEDED''"
| "code_name TEXT_TOO_LONG = ''TEXT_TOO_LONG''"
| "code_name FILE_TOO_LARGE = ''FILE_TOO_LARGE''"
| "code_name CONFLICT = ''CONFLICT''"
| "code_name MISSING_SECRET = ''MISSING_SECRET''"
| "code_name EXPIRED_TOKEN = ''EXPIRED_TOKEN''"
| "code_name INVALID_TOKEN = ''INVALID_TOKEN''"
| "code_name INVALID_CHAT_ID = ''INVALID_CHAT_ID''"
| "code_name INVALID_JOB_ID = ''INVALID_JOB_ID''"
| "code_name UPSTREAM_ERROR = ''UPSTREAM_ERROR''"
| "code_name GATEWAY_ERROR = ''GATEWAY_ERROR''"
| "code_name REDIS_UNAVAILABLE = ''REDIS_UNAVAILABLE''"
| "code_name DB_ERROR = ''DB_ERROR''"
| "code_name UNAUTHORIZED = ''UNAUTHORIZED''"
| "code_name INVALID_BODY = ''INVALID_BODY''"
| "code_name VALIDATION_ERROR = ''VALIDATION_ERROR''"
| "code_name MISSING_TEXT = ''MISSING_TEXT''"
| "code_name EMPTY_TEXT = ''EMPTY_TEXT''"
| "code_name INVALID_TONE = ''INVALID_TONE''"
| "code_name INVALID_MODE = ''INVALID_MODE''"
| "code_name INVALID_KEYS = ''INVALID_KEYS''"
| "code_name CHAT_NOT_FOUND = ''CHAT_NOT_FOUND''"
| "code_name NOT_FOUND = ''NOT_FOUND''"
| "code_name RATE_LIMITED = ''RATE_LIMITED''"
| "code_name QUEUE_ERROR = ''QUEUE_ERROR''"
| "code_name TIMEOUT = ''TIMEOUT''"
| "code_name STREAM_ERROR = ''STREAM_ERROR''"
| "code_name WORKER_ERROR = ''WORKER_ERROR''"
| "code_name INTERNAL_ERROR = ''INTERNAL_ERROR''"
| "code_name GMAIL_NOT_CONNECTED = ''GMAIL_NOT_CONNECTED''"
| "code_name GMAIL_TOKEN_EXPIRED = ''GMAIL_TOKEN_EXPIRED''"
| "code_name GMAIL_FETCH_FAILED = ''GMAIL_FETCH_FAILED''"
| "code_name GMAIL_QUOTA_EXCEEDED = ''GMAIL_QUOTA_EXCEEDED''"
| "code_name GATEWAY_OFFLINE = ''GATEWAY_OFFLINE''"

fun USER_MESSAGES :: "error_code \<Rightarrow> string option" where
  "USER_MESSAGES RATE_LIMITED = Some ''You're moving fast! Wait a moment and try again.''"
| "USER_MESSAGES QUEUE_ERROR = Some ''Service is busy. Please try again in a moment.''"
| "USER_MESSAGES TIMEOUT = Some ''This took too long. Try with shorter text.''"
| "USER_MESSAGES DB_ERROR = Some ''Something went wrong saving your data.''"
| "USER_MESSAGES UNAUTHORIZED = Some ''Session expired. Please refresh.''"
| "USER_MESSAGES INTERNAL_ERROR = Some ''Something went wrong. We've been notified.''"
| "USER_MESSAGES STREAM_ERROR = Some ''Live preview interrupted. Your result is still being saved.''"
| "USER_MESSAGES VALIDATION_ERROR = Some ''Invalid input. Please check your data.''"
| "USER_MESSAGES MISSING_TEXT = Some ''Please enter some text to improve.''"
| "USER_MESSAGES EMPTY_TEXT = Some ''Text is empty after processing. Please try different text.''"
| "USER_MESSAGES INVALID_TONE = Some ''Invalid tone selected.''"
| "USER_MESSAGES INVALID_MODE = Some ''Invalid mode selected.''"
| "USER_MESSAGES INVALID_CHAT_ID = Some ''Invalid chat reference.''"
| "USER_MESSAGES CHAT_NOT_FOUND = Some ''Chat not found or does not belong to you.''"
| "USER_MESSAGES NOT_FOUND = Some ''The requested resource was not found.''"
| "USER_MESSAGES INVALID_BODY = Some ''Invalid request format.''"
| "USER_MESSAGES INVALID_KEYS = Some ''Invalid request parameters.''"
| "USER_MESSAGES WORKER_ERROR = Some ''The AI worker encountered an error. Please try again.''"
| "USER_MESSAGES QUOTA_EXCEEDED = Some ''Monthly limit reached. Upgrade for more.''"
| "USER_MESSAGES FILE_TOO_LARGE = Some ''File exceeds the 4MB limit.''"
| "USER_MESSAGES INVALID_TOKEN = Some ''Invalid share link.''"
| "USER_MESSAGES EXPIRED_TOKEN = Some ''This share link has expired.''"
| "USER_MESSAGES MISSING_SECRET = Some ''Share feature unavailable.''"
| "USER_MESSAGES CONFLICT = Some ''This request was already processed.''"
| "USER_MESSAGES GMAIL_NOT_CONNECTED = Some ''Connect your Gmail account to import emails.''"
| "USER_MESSAGES GMAIL_TOKEN_EXPIRED = Some ''Your Gmail connection expired. Please reconnect.''"
| "USER_MESSAGES GMAIL_FETCH_FAILED = Some ''Could not fetch emails. Please try again.''"
| "USER_MESSAGES GMAIL_QUOTA_EXCEEDED = Some ''Gmail API limit reached. Please wait a moment.''"
| "USER_MESSAGES GATEWAY_OFFLINE = Some ''Authentication gateway is offline. Please make sure it is running.''"
| "USER_MESSAGES _ = None"

definition no_meta :: error_meta where
  "no_meta = \<lparr>meta_headers = None, meta_fields = []\<rparr>"

fun default_status :: "error_code \<Rightarrow> int" where
  "default_status UNAUTHORIZED = 401"
| "default_status RATE_LIMITED = 429"
| "default_status QUOTA_EXCEEDED = 402"
| "default_status FILE_TOO_LARGE = 413"
| "default_status EXPIRED_TOKEN = 410"
| "default_status CONFLICT = 409"
| "default_status NOT_FOUND = 404"
| "default_status CHAT_NOT_FOUND = 404"
| "default_status VALIDATION_ERROR = 400"
| "default_status INVALID_BODY = 400"
| "default_status EMPTY_TEXT = 400"
| "default_status MISSING_TEXT = 400"
| "default_status INVALID_TOKEN = 400"
| "default_status _ = 500"

definition createApiErrorM :: "error_code \<Rightarrow> string \<Rightarrow> int option \<Rightarrow> error_meta \<Rightarrow> exn" where
  "createApiErrorM c msg status meta =
     WriteRightError c (case USER_MESSAGES c of Some m \<Rightarrow> m | None \<Rightarrow> msg)
       (case status of Some st \<Rightarrow> st | None \<Rightarrow> default_status c) meta"

abbreviation createApiError :: "error_code \<Rightarrow> string \<Rightarrow> int \<Rightarrow> exn" where
  "createApiError c msg st \<equiv> createApiErrorM c msg (Some st) no_meta"

definition getUserMessage :: "error_code \<Rightarrow> string" where
  "getUserMessage c = (case USER_MESSAGES c of Some m \<Rightarrow> m
     | None \<Rightarrow> ''Something went wrong. Please try again.'')"

section \<open>The active trace\<close>

definition getActiveTraceId :: "string option prog" where
  "getActiveTraceId = Call CTraceId (\<lambda>r. case r of
     RStr t \<Rightarrow> Ret (if t \<noteq> [] \<and> t \<noteq> replicate 32 (CHR ''0'') then Some t else None)
   | _ \<Rightarrow> Ret None)"

definition traceIdOr :: "string \<Rightarrow> string prog" where
  "traceIdOr d = bnd getActiveTraceId (\<lambda>t. Ret (case t of Some x \<Rightarrow> x | None \<Rightarrow> d))"

section \<open>Responses\<close>

definition json_response :: "int \<Rightarrow> headers \<Rightarrow> (string \<times> json) list \<Rightarrow> response" where
  "json_response st hs ps = \<lparr>resp_status = st, resp_body = BJson (JObj ps), resp_headers = hs\<rparr>"

abbreviation ok_json :: "(string \<times> json) list \<Rightarrow> response" where
  "ok_json ps \<equiv> json_response 200 [] ps"

fun put_all :: "(string \<times> json) list \<Rightarrow> (string \<times> json) list \<Rightarrow> (string \<times> json) list" where
  "put_all [] b = b"
| "put_all ((k, v) # ps) b = put_all ps (obj_set k v b)"

text \<open>The body of a \<open>WriteRightError\<close>: lines 144 to 164, in the order of the code.\<close>

definition error_body ::
  "error_code \<Rightarrow> string \<Rightarrow> headers \<Rightarrow> (string \<times> json) list \<Rightarrow> string \<Rightarrow> (string \<times> json) list" where
  "error_body c msg hs flds trace_id =
     (let b0 = put_all flds [(''error'', JStr (code_name c)), (''message'', JStr msg)];
          b1 = (if c = QUOTA_EXCEEDED
                then obj_set ''upgrade_url''
                  (case map_of b0 ''upgrade_url'' of Some (JStr u) \<Rightarrow> JStr u
                   | _ \<Rightarrow> JStr ''https://brainmate.ai/pricing'') b0
                else b0);
          b2 = (if c = INTERNAL_ERROR then obj_set ''request_id'' (JStr trace_id) b1 else b1);
          b3 = (if c = RATE_LIMITED then put_all (map (\<lambda>(k, v). (k, JStr v)) hs) b2 else b2)
      in case map_of hs ''Retry-After'' of
           Some v \<Rightarrow> if c = QUEUE_ERROR \<and> v \<noteq> [] then obj_set ''Retry-After'' (JStr v) b3 else b3
         | None \<Rightarrow> b3)"

fun toApiResponse :: "exn \<Rightarrow> response prog" where
  "toApiResponse (WriteRightError c msg st meta) =
     (let hs = (case meta_headers meta of Some h \<Rightarrow> h | None \<Rightarrow> []) in
      if c = INTERNAL_ERROR
      then bnd (traceIdOr ''unknown'')
             (\<lambda>t. Ret (json_response st hs (error_body c msg hs (meta_fields meta) t)))
      else Ret (json_response st hs (error_body c msg hs (meta_fields meta) [])))"
| "toApiResponse (ZodError issues) =
     Ret (json_response 400 []
       [(''error'', JStr ''VALIDATION_ERROR''), (''message'', JStr (getUserMessage VALIDATION_ERROR)),
        (''issues'', issues)])"
| "toApiResponse (JsError msg) =
     (if str_includes msg ''Unauthenticated'' \<or> str_includes msg ''unauthorized''
      then Ret (json_response 401 []
             [(''error'', JStr ''UNAUTHORIZED''), (''message'', JStr (getUserMessage UNAUTHORIZED))])
      else bnd (traceIdOr ''unknown'') (\<lambda>t. Ret (json_response 500 []
             [(''error'', JStr ''INTERNAL_ERROR''), (''message'', JStr (getUserMessage INTERNAL_ERROR)),
              (''request_id'', JStr t)])))"

text \<open>
  \<open>Promise.race([promise, timeout])\<close>: the environment says whether the timer fires
  first; the handler's own effects happen in both cases, since nothing cancels it.
\<close>

definition withTimeout :: "'a prog \<Rightarrow> int \<Rightarrow> string \<Rightarrow> 'a prog" where
  "withTimeout p ms lbl = Call (CTimer ms) (\<lambda>r. case r of
     RStr _ \<Rightarrow> bnd (catch (bnd p (\<lambda>_. Ret ())) (\<lambda>_. Ret ()))
       (\<lambda>_. Throw (WriteRightError TIMEOUT (lbl @ '' timed out after '' @ show_int ms @ ''ms'') 503 no_meta))
   | _ \<Rightarrow> p)"

text \<open>The handler, then the conversion of what it throws, then the \<open>auth()\<close> of the log line.\<close>

definition withErrorHandler :: "request \<Rightarrow> response prog \<Rightarrow> response prog" where
  "withErrorHandler req handler =
     bnd (catch handler toApiResponse) (\<lambda>response.
     sq (catch (sq get_session (Ret ())) (\<lambda>_. Ret ())) (Ret response))"

section \<open>Lemmas\<close>

lemma header_table_status: "createApiErrorM c msg None meta = WriteRightError c m st meta' \<Longrightarrow> st = default_status c"
  by (simp add: createApiErrorM_def)

lemma error_body_code: "c \<noteq> RATE_LIMITED \<Longrightarrow> ''error'' \<notin> fst ` set flds \<Longrightarrow>
    map_of (error_body c msg hs flds t) ''error'' = Some (JStr (code_name c))"
proof -
  have put: "''error'' \<notin> fst ` set ps \<Longrightarrow> map_of (put_all ps b) ''error'' = map_of b ''error''" for ps b
  proof (induction ps b rule: put_all.induct)
    case (2 k v ps b)
    have "k \<noteq> ''error'' \<Longrightarrow> map_of (obj_set k v b) ''error'' = map_of b ''error''" for b
      by (induction b) auto
    with 2 show ?case by auto
  qed simp
  have set: "k \<noteq> ''error'' \<Longrightarrow> map_of (obj_set k v b) ''error'' = map_of b ''error''" for k v b
    by (induction b) auto
  assume "c \<noteq> RATE_LIMITED" "''error'' \<notin> fst ` set flds"
  then show ?thesis
    by (auto simp: error_body_def Let_def put set split: option.splits)
qed

lemma all_results_traceIdOr: "(\<And>t. all_results Q (f t)) \<Longrightarrow> all_results Q (bnd (traceIdOr d) f)"
  by (auto simp: traceIdOr_def getActiveTraceId_def split: reply.splits option.splits)

lemma toApiResponse_total: "all_results (\<lambda>r. \<exists>resp. r = Inr resp) (toApiResponse e)"
  by (cases e) (auto simp: Let_def intro!: all_results_traceIdOr)

lemma catch_total: "(\<And>e. all_results (\<lambda>r. \<exists>x. r = Inr x) (h e)) \<Longrightarrow>
    all_results (\<lambda>r. \<exists>x. r = Inr x) (catch p h)"
  by (rule all_results_catch, rule all_results_mono [OF all_results_True]) (auto split: sum.splits)

lemma withErrorHandler_results:
  assumes "all_results Q (catch h toApiResponse)"
  shows "all_results Q (withErrorHandler req h)"
proof -
  have log: "all_results Q (sq (catch (sq get_session (Ret ())) (\<lambda>_. Ret ())) (Ret x))"
    if "Q (Inr x)" for x
    using that by (simp add: sq_def get_session_def split: reply.splits)
  have "all_results (\<lambda>r. (\<exists>x. r = Inr x) \<and> Q r) (catch h toApiResponse)"
    by (intro all_results_conj assms catch_total toApiResponse_total)
  then show ?thesis
    unfolding withErrorHandler_def
    by (intro all_results_bnd, elim all_results_mono) (auto intro: log)
qed

text \<open>No execution of a wrapped handler ends in an exception.\<close>

lemma withErrorHandler_total: "all_results (\<lambda>r. \<exists>resp. r = Inr resp) (withErrorHandler req h)"
  by (intro withErrorHandler_results catch_total toApiResponse_total)

lemma run_withErrorHandler:
  "run E (withErrorHandler req h) s w =
     (case run E (catch h toApiResponse) s w of
        (Inl e, sw) \<Rightarrow> (Inl e, sw)
      | (Inr resp, s', w') \<Rightarrow> (Inr resp, s', snd (answer E CAuth w')))"
  by (simp add: withErrorHandler_def run_bnd run_sq run_catch get_session_def
      split: sum.splits prod.splits reply.splits)

lemma all_calls_toApiResponse: "P CTraceId \<Longrightarrow> all_calls P (toApiResponse e)"
  by (cases e) (auto simp: Let_def traceIdOr_def getActiveTraceId_def split: reply.splits)

lemma all_calls_withErrorHandler [simp, intro]:
  "P CTraceId \<Longrightarrow> P CAuth \<Longrightarrow> all_calls P h \<Longrightarrow> all_calls P (withErrorHandler req h)"
  by (simp add: withErrorHandler_def all_calls_toApiResponse)

lemma all_calls_withTimeout [simp, intro]:
  "P (CTimer ms) \<Longrightarrow> all_calls P p \<Longrightarrow> all_calls P (withTimeout p ms lbl)"
  by (simp add: withTimeout_def split: reply.splits)

end
