(* ===== verification/Circuit.thy ===== *)
theory Circuit
  imports Prelude
begin

text \<open>
  The contract of a circuit breaker, which two components of the program implement:
  \<open>_circuit\<close> of lib/redis.ts and \<open>circuitState\<close> of lib/reconciliation-worker.ts. A
  breaker counts consecutive failures; from the threshold on, every failure opens it
  for a cool-down; a success resets the count but does not close it. The lemmas about
  runs of events are proved once here and used through the interpretations in
  \<open>Redis\<close> and \<open>Reconciliation\<close>.
\<close>

datatype breaker_event = Failed int | Succeeded

fun breaker_step :: "(int \<Rightarrow> 's \<Rightarrow> 's) \<Rightarrow> ('s \<Rightarrow> 's) \<Rightarrow> 's \<Rightarrow> breaker_event \<Rightarrow> 's" where
  "breaker_step fail okay s (Failed t) = fail t s"
| "breaker_step fail okay s Succeeded = okay s"

definition breaker_run :: "(int \<Rightarrow> 's \<Rightarrow> 's) \<Rightarrow> ('s \<Rightarrow> 's) \<Rightarrow> 's \<Rightarrow> breaker_event list \<Rightarrow> 's" where
  "breaker_run fail okay s es = foldl (breaker_step fail okay) s es"

text \<open>The length of the current run of failures, starting from a count.\<close>

fun streak :: "int \<Rightarrow> breaker_event list \<Rightarrow> int" where
  "streak n [] = n"
| "streak n (Failed t # es) = streak (n + 1) es"
| "streak n (Succeeded # es) = streak 0 es"

text \<open>No run of failures reaches the threshold.\<close>

fun calm :: "int \<Rightarrow> int \<Rightarrow> breaker_event list \<Rightarrow> bool" where
  "calm th n [] = True"
| "calm th n (Failed t # es) = (n + 1 < th \<and> calm th (n + 1) es)"
| "calm th n (Succeeded # es) = calm th 0 es"

fun event_times :: "breaker_event list \<Rightarrow> int set" where
  "event_times [] = {}"
| "event_times (Failed t # es) = insert t (event_times es)"
| "event_times (Succeeded # es) = event_times es"

locale circuit_breaker =
  fixes failures :: "'s \<Rightarrow> int"
    and open_until :: "'s \<Rightarrow> int"
    and fail :: "int \<Rightarrow> 's \<Rightarrow> 's"
    and okay :: "'s \<Rightarrow> 's"
    and threshold :: int
    and cooldown :: int
  assumes failures_fail: "failures (fail t s) = failures s + 1"
    and until_fail: "open_until (fail t s) =
          (if threshold \<le> failures s + 1 then t + cooldown else open_until s)"
    and failures_okay: "failures (okay s) = 0"
    and until_okay: "open_until (okay s) = open_until s"
    and cooldown_pos: "0 < cooldown"
begin

lemmas step_simps = failures_fail until_fail failures_okay until_okay

lemma failures_run: "failures (breaker_run fail okay s es) = streak (failures s) es"
  unfolding breaker_run_def
proof (induction es arbitrary: s)
  case (Cons e es)
  then show ?case by (cases e) (simp_all add: step_simps)
qed simp

text \<open>A run without a long burst leaves the breaker as it was.\<close>

lemma calm_keeps_closed:
  "calm threshold (failures s) es \<Longrightarrow> open_until (breaker_run fail okay s es) = open_until s"
  unfolding breaker_run_def
proof (induction es arbitrary: s)
  case (Cons e es)
  then show ?case by (cases e) (simp_all add: step_simps)
qed simp

text \<open>A failure that reaches the threshold opens it for the cool-down.\<close>

lemma burst_opens:
  assumes "threshold \<le> streak (failures s) (es @ [Failed t])"
  shows "open_until (breaker_run fail okay s (es @ [Failed t])) = t + cooldown"
proof -
  have "streak n (es @ [Failed t]) = streak n es + 1" for n
    by (induction n es rule: streak.induct) simp_all
  with assms have "threshold \<le> failures (breaker_run fail okay s es) + 1"
    by (simp add: failures_run)
  then show ?thesis by (simp add: breaker_run_def until_fail)
qed

text \<open>It is never open longer than the cool-down after the last failure.\<close>

lemma open_bounded:
  "open_until s \<le> T + cooldown \<Longrightarrow> (\<And>t. t \<in> event_times es \<Longrightarrow> t \<le> T) \<Longrightarrow>
   open_until (breaker_run fail okay s es) \<le> T + cooldown"
  unfolding breaker_run_def
proof (induction es arbitrary: s)
  case (Cons e es)
  show ?case
  proof (cases e)
    case (Failed t)
    with Cons.prems have "open_until (fail t s) \<le> T + cooldown"
      by (simp add: until_fail)
    with Cons Failed show ?thesis by simp
  next
    case Succeeded
    with Cons show ?thesis by (simp add: until_okay)
  qed
qed simp

end

end
