(* ===== verification/Redis.thy ===== *)
theory Redis
  imports Errors Circuit
begin

text \<open>
  lib/redis.ts: the singleton ioredis client, its circuit breaker, the reconnection
  back-off and the key namespace. The client itself belongs to ioredis; of it the
  sources look at \<open>status === "end"\<close>, the events it emits and the commands it sends,
  so a client is \<open>Live\<close> or \<open>Ended\<close>, an event is a function on the process state and a
  command is a call. The lemmas give the breaker's behaviour through the
  interpretation of \<open>circuit_breaker\<close>, the range of the back-off, and when the pool can
  be used.
\<close>

section \<open>Configuration\<close>

definition env_or :: "string \<Rightarrow> string \<Rightarrow> string prog" where
  "env_or k d = bnd (get_env k) (\<lambda>v. Ret (case v of Some x \<Rightarrow> x | None \<Rightarrow> d))"

text \<open>\<open>process.env[k] || d\<close>: an empty value counts as missing.\<close>

definition env_or_empty :: "string \<Rightarrow> string \<Rightarrow> string prog" where
  "env_or_empty k d = bnd (get_env k) (\<lambda>v. Ret (case v of Some x \<Rightarrow> if x = [] then d else x | None \<Rightarrow> d))"

definition getRedisUrl :: "string prog" where
  "getRedisUrl =
     bnd (get_env ''REDIS_URL'') (\<lambda>url.
     if url = None \<or> url = Some [] then
       bnd (get_env ''NODE_ENV'') (\<lambda>ne.
       if ne = Some ''test'' then Ret ''redis://127.0.0.1:6379''
       else Throw (createApiError MISSING_SECRET
              ''[redis] No Redis URL configured. Set REDIS_URL in your environment.'' 500))
     else Ret (the url))"

definition getConnectTimeoutMs :: "int prog" where
  "getConnectTimeoutMs =
     bnd (env_or ''REDIS_CONNECT_TIMEOUT_SECS'' ''5'') (\<lambda>v.
     Ret (case parseInt v of Some secs \<Rightarrow> secs * 1000 | None \<Rightarrow> 5000))"

definition COMMAND_TIMEOUT_MS :: int where "COMMAND_TIMEOUT_MS = 3000"
definition MAX_RETRIES :: int where "MAX_RETRIES = 10"
definition BASE_BACKOFF_MS :: int where "BASE_BACKOFF_MS = 200"
definition MAX_BACKOFF_MS :: int where "MAX_BACKOFF_MS = 3000"
definition CIRCUIT_ERROR_THRESHOLD :: int where "CIRCUIT_ERROR_THRESHOLD = 5"
definition CIRCUIT_COOLDOWN_MS :: int where "CIRCUIT_COOLDOWN_MS = 15000"

section \<open>Circuit breaker\<close>

definition initial_circuit :: circuit_state where
  "initial_circuit = \<lparr>consecutiveErrors = 0, openUntil = 0, totalErrors = 0, totalConnects = 0\<rparr>"

definition isCircuitOpen :: "bool prog" where
  "isCircuitOpen = bnd now (\<lambda>t. GetS (\<lambda>s. Ret (t < openUntil (circuit s))))"

definition getCircuitStats :: "circuit_state prog" where
  "getCircuitStats = GetS (\<lambda>s. Ret (circuit s))"

text \<open>The handlers of the \<open>connect\<close>, \<open>error\<close> and \<open>end\<close> events.\<close>

definition onConnect :: "circuit_state \<Rightarrow> circuit_state" where
  "onConnect c = c\<lparr>consecutiveErrors := 0, totalConnects := totalConnects c + 1\<rparr>"

definition onError :: "int \<Rightarrow> circuit_state \<Rightarrow> circuit_state" where
  "onError t c =
     (let c1 = c\<lparr>consecutiveErrors := consecutiveErrors c + 1, totalErrors := totalErrors c + 1\<rparr>
      in if CIRCUIT_ERROR_THRESHOLD \<le> consecutiveErrors c1
         then c1\<lparr>openUntil := t + CIRCUIT_COOLDOWN_MS\<rparr> else c1)"

definition onEnd :: "process \<Rightarrow> process" where
  "onEnd s = s\<lparr>pool := None\<rparr>"

section \<open>Keys\<close>

definition ns :: "string list \<Rightarrow> string" where
  "ns parts = join '':'' parts"

section \<open>Reconnection\<close>

text \<open>\<open>Math.round\<close>.\<close>

definition js_round :: "rat \<Rightarrow> int" where
  "js_round x = \<lfloor>x + 1 / 2\<rfloor>"

definition backoff_base :: "int \<Rightarrow> int" where
  "backoff_base n = min (BASE_BACKOFF_MS * 2 ^ nat (n - 1)) MAX_BACKOFF_MS"

definition retryStrategy :: "int \<Rightarrow> int option prog" where
  "retryStrategy n =
     (if MAX_RETRIES < n then Ret None
      else bnd random (\<lambda>r. Ret (Some (js_round (r * of_int (backoff_base n))))))"

text \<open>\<open>Some rejectUnauthorized\<close> for a TLS url.\<close>

definition buildTlsOptions :: "string \<Rightarrow> bool option" where
  "buildTlsOptions url = (if startsWith url ''rediss://'' then Some True else None)"

section \<open>The singleton\<close>

text \<open>
  The client options, from the parts of the parsed url (an empty part is missing).
  The retry strategy is \<^const>\<open>retryStrategy\<close>; the user name and the password are passed on.
\<close>

record url_parts =
  u_hostname :: string
  u_port :: string
  u_pathname :: string

record redis_options =
  o_host :: string
  o_port :: "int option"
  o_db :: "int option"
  o_connectTimeout :: int
  o_commandTimeout :: int
  o_maxRetriesPerRequest :: int
  o_tls :: "bool option"

definition redis_client_options :: "url_parts \<Rightarrow> bool option \<Rightarrow> int \<Rightarrow> redis_options" where
  "redis_client_options u tls timeout =
     \<lparr>o_host = u_hostname u,
      o_port = (if u_port u \<noteq> [] then parseInt (u_port u)
                else Some (if tls \<noteq> None then 6380 else 6379)),
      o_db = (if u_pathname u \<noteq> [] \<and> u_pathname u \<noteq> ''/'' then parseInt (tl (u_pathname u)) else Some 0),
      o_connectTimeout = timeout, o_commandTimeout = COMMAND_TIMEOUT_MS,
      o_maxRetriesPerRequest = 3, o_tls = tls\<rparr>"

text \<open>\<open>new URL(url)\<close> is the parameter \<open>parseUrl\<close>; it throws on an invalid url.\<close>

definition createRedisClient :: "(string \<Rightarrow> url_parts option) \<Rightarrow> (client \<times> redis_options) prog" where
  "createRedisClient parseUrl =
     bnd (get_env ''NEXT_RUNTIME'') (\<lambda>rt.
     if rt \<noteq> Some ''nodejs''
     then Throw (createApiError INTERNAL_ERROR ''[redis] ioredis is not supported in the Edge Runtime'' 500)
     else bnd getRedisUrl (\<lambda>url.
          case parseUrl url of
            None \<Rightarrow> Throw (JsError ''Invalid URL'')
          | Some u \<Rightarrow> bnd getConnectTimeoutMs (\<lambda>ms.
              Ret (Live, redis_client_options u (buildTlsOptions url) ms))))"

definition usable :: "client option \<Rightarrow> bool" where
  "usable c \<longleftrightarrow> c = Some Live"

definition initRedisPool :: "(string \<Rightarrow> url_parts option) \<Rightarrow> client prog" where
  "initRedisPool parseUrl =
     bnd (get_env ''NODE_ENV'') (\<lambda>ne.
     if ne \<noteq> Some ''production'' then
       GetS (\<lambda>s. if \<not> usable (dev_pool s)
                 then bnd (createRedisClient parseUrl) (\<lambda>(c, opts). GetS (\<lambda>s'. PutS (s'\<lparr>dev_pool := Some c\<rparr>) (Ret c)))
                 else Ret (the (dev_pool s)))
     else
       GetS (\<lambda>s. if \<not> usable (pool s)
                 then bnd (createRedisClient parseUrl) (\<lambda>(c, opts). GetS (\<lambda>s'. PutS (s'\<lparr>pool := Some c\<rparr>) (Ret c)))
                 else Ret (the (pool s))))"

definition getRedisPool :: "unit prog" where
  "getRedisPool =
     bnd (get_env ''NEXT_RUNTIME'') (\<lambda>rt.
     if rt \<noteq> Some ''nodejs''
     then Throw (createApiError INTERNAL_ERROR ''[redis] Cannot access Redis pool in the Edge Runtime'' 500)
     else bnd (get_env ''NODE_ENV'') (\<lambda>ne.
     if ne \<noteq> Some ''production'' then
       GetS (\<lambda>s. if \<not> usable (dev_pool s)
                 then Throw (createApiError INTERNAL_ERROR ''[redis] Dev pool not initialized. Ensure createRedisClient was awaited during startup.'' 500)
                 else Ret ())
     else
       GetS (\<lambda>s. if \<not> usable (pool s)
                 then Throw (createApiError INTERNAL_ERROR ''[redis] Production pool not initialized. Ensure createRedisClient was awaited during startup.'' 500)
                 else Ret ())))"

text \<open>\<open>QUIT\<close>, a forced disconnect when it fails, and the singleton is cleared in every case.\<close>

definition shutdownRedisPool :: "unit prog" where
  "shutdownRedisPool =
     bnd (get_env ''NEXT_RUNTIME'') (\<lambda>rt.
     if rt \<noteq> Some ''nodejs'' then Ret ()
     else GetS (\<lambda>s.
       if \<not> usable (case pool s of Some c \<Rightarrow> Some c | None \<Rightarrow> dev_pool s) then Ret ()
       else sq (attempt (redis_unit QUIT))
              (GetS (\<lambda>s'. PutS (s'\<lparr>pool := None, dev_pool := None\<rparr>) (Ret ())))))"

text \<open>\<open>getRedisPool().cmd(..)\<close>.\<close>

definition pool_int :: "rcmd \<Rightarrow> int prog" where "pool_int c = sq getRedisPool (redis_int c)"
definition pool_unit :: "rcmd \<Rightarrow> unit prog" where "pool_unit c = sq getRedisPool (redis_unit c)"
definition pool_str :: "rcmd \<Rightarrow> string option prog" where "pool_str c = sq getRedisPool (redis_str c)"

section \<open>Lemmas\<close>

interpretation redis_breaker: circuit_breaker consecutiveErrors openUntil onError onConnect
  CIRCUIT_ERROR_THRESHOLD CIRCUIT_COOLDOWN_MS
  by unfold_locales (simp_all add: onError_def onConnect_def CIRCUIT_COOLDOWN_MS_def Let_def)

text \<open>The process can use Redis: the Node runtime with a live pool.\<close>

definition redis_ready :: "process \<Rightarrow> bool" where
  "redis_ready s \<longleftrightarrow> penv s ''NEXT_RUNTIME'' = Some ''nodejs'' \<and>
     usable (if penv s ''NODE_ENV'' = Some ''production'' then pool s else dev_pool s)"

lemma run_getRedisPool: "redis_ready s \<Longrightarrow> run E getRedisPool s w = (Inr (), s, w)"
  by (auto simp: getRedisPool_def redis_ready_def get_env_def split: if_splits)

lemma run_isCircuitOpen:
  "run E isCircuitOpen s w = (case clock E w of (t, w') \<Rightarrow> (Inr (t < openUntil (circuit s)), s, w'))"
  by (simp add: isCircuitOpen_def now_def split: prod.splits)

lemma all_calls_getRedisPool [simp]: "all_calls P getRedisPool"
  by (simp add: getRedisPool_def)

lemma all_calls_isCircuitOpen [simp]: "all_calls P isCircuitOpen"
  by (simp add: isCircuitOpen_def)

lemma all_calls_env_or [simp]: "all_calls P (env_or k d)" "all_calls P (env_or_empty k d)"
  by (simp_all add: env_or_def env_or_empty_def)

lemma all_calls_pool [simp]:
  "P (CRedis c) \<Longrightarrow> all_calls P (pool_int c)" "P (CRedis c) \<Longrightarrow> all_calls P (pool_unit c)"
  "P (CRedis c) \<Longrightarrow> all_calls P (pool_str c)"
  by (simp_all add: pool_int_def pool_unit_def pool_str_def)

lemma backoff_base_range: "1 \<le> n \<Longrightarrow> 200 \<le> backoff_base n \<and> backoff_base n \<le> 3000"
proof -
  have "(200 :: int) * 1 \<le> 200 * 2 ^ nat (n - 1)" by (intro mult_left_mono) simp_all
  then show ?thesis by (simp add: backoff_base_def BASE_BACKOFF_MS_def MAX_BACKOFF_MS_def)
qed

lemma js_round_le: "0 \<le> x \<Longrightarrow> x \<le> of_int b \<Longrightarrow> 0 \<le> js_round x \<and> js_round x \<le> b"
  unfolding js_round_def by linarith

lemma usable_iff [simp]: "usable (Some c) \<longleftrightarrow> c = Live" "\<not> usable None"
  by (simp_all add: usable_def)

lemma the_usable: "usable c \<Longrightarrow> the c = Live"
  by (auto simp: usable_def)

lemma run_initRedisPool:
  assumes "penv s ''NEXT_RUNTIME'' = Some ''nodejs''" and "penv s ''REDIS_URL'' = Some url" and "url \<noteq> []"
    and "parseUrl url = Some u"
  shows "run E (initRedisPool parseUrl) s w =
    (Inr Live, if penv s ''NODE_ENV'' = Some ''production'' then s\<lparr>pool := Some Live\<rparr>
               else s\<lparr>dev_pool := Some Live\<rparr>, w)"
proof -
  obtain o1 where "run E (createRedisClient parseUrl) s w = (Inr (Live, o1), s, w)"
    using assms by (simp add: createRedisClient_def getRedisUrl_def get_env_def getConnectTimeoutMs_def env_or_def)
  then show ?thesis
    by (auto simp: initRedisPool_def get_env_def run_bnd the_usable usable_def)
qed

lemma run_shutdownRedisPool:
  assumes "redis_ready s" and "penv s ''NODE_ENV'' \<noteq> Some ''production'' \<longrightarrow> pool s = None"
  shows "run E shutdownRedisPool s w =
    (Inr (), s\<lparr>pool := None, dev_pool := None\<rparr>, snd (answer E (CRedis QUIT) w))"
proof -
  have u: "usable (case pool s of Some c \<Rightarrow> Some c | None \<Rightarrow> dev_pool s)"
    using assms by (auto simp: redis_ready_def usable_def split: option.splits if_splits)
  have q: "run E (attempt (redis_unit QUIT)) s w = (Inr (), s, snd (answer E (CRedis QUIT) w))"
    by (cases "answer E (CRedis QUIT) w") (simp add: attempt_def redis_unit_def split: reply.splits)
  show ?thesis
    using assms(1) u q by (simp add: shutdownRedisPool_def redis_ready_def get_env_def run_sq)
qed

lemma getRedisPool_cleared:
  "redis_ready s \<Longrightarrow> \<exists>e. run E getRedisPool (s\<lparr>pool := None, dev_pool := None\<rparr>) w =
     (Inl e, s\<lparr>pool := None, dev_pool := None\<rparr>, w)"
  by (simp add: getRedisPool_def get_env_def redis_ready_def)

section \<open>Properties\<close>

text \<open>C13: the breaker trips. After a burst of at least five connection errors without a
  connection in between, the last one at time \<open>t\<close>, \<open>isCircuitOpen()\<close> answers true exactly
  until fifteen seconds after \<open>t\<close>.\<close>

theorem redis_circuit_trips:
  assumes "circuit s = breaker_run onError onConnect initial_circuit (es @ [Failed t])"
    and "5 \<le> streak 0 (es @ [Failed t])"
  shows "fst (run E isCircuitOpen s w) = Inr (fst (clock E w) < t + 15000)"
proof -
  have "openUntil (circuit s) = t + CIRCUIT_COOLDOWN_MS"
    unfolding assms(1) using assms(2)
    by (intro redis_breaker.burst_opens) (simp add: initial_circuit_def CIRCUIT_ERROR_THRESHOLD_def)
  then show ?thesis
    by (simp add: run_isCircuitOpen CIRCUIT_COOLDOWN_MS_def split: prod.splits)
qed

definition quiet_process :: process where
  "quiet_process = \<lparr>penv = (\<lambda>_. None), tz_offset = 0, circuit = initial_circuit, pool = None,
     dev_pool = None, rcircuit = \<lparr>rc_openUntil = 0, rc_failures = 0\<rparr>,
     window = \<lparr>win_sec = 0, win_count = 0\<rparr>, secretCache = [], rotating = False, supabase_client = False, hashtag_at = 0, jar = []\<rparr>"

definition fixed_env :: "int \<Rightarrow> reply \<Rightarrow> unit environment" where
  "fixed_env t r = \<lparr>clock = (\<lambda>w. (t, w)), answer = (\<lambda>c w. (r, w))\<rparr>"

theorem redis_circuit_trips_witness:
  "fst (run (fixed_env 20000 RNil) isCircuitOpen
     (quiet_process\<lparr>circuit := breaker_run onError onConnect initial_circuit
        ([Failed 1000, Failed 2000, Succeeded, Failed 3000, Failed 4000, Failed 5000, Failed 6000] @ [Failed 7000])\<rparr>) ())
   = Inr (20000 < (7000 :: int) + 15000)"
  using redis_circuit_trips [where E = "fixed_env 20000 RNil" and w = "()" and t = 7000 and
      es = "[Failed 1000, Failed 2000, Succeeded, Failed 3000, Failed 4000, Failed 5000, Failed 6000]" and
      s = "quiet_process\<lparr>circuit := breaker_run onError onConnect initial_circuit
        ([Failed 1000, Failed 2000, Succeeded, Failed 3000, Failed 4000, Failed 5000, Failed 6000] @ [Failed 7000])\<rparr>"]
  by (simp add: fixed_env_def)

text \<open>The breaker does not trip early. As long as no five errors follow each other
  without a connection, \<open>isCircuitOpen()\<close> answers false, whatever the history.\<close>

theorem redis_circuit_stays_closed:
  assumes "circuit s = breaker_run onError onConnect initial_circuit es"
    and "calm 5 0 es" and "0 \<le> fst (clock E w)"
  shows "fst (run E isCircuitOpen s w) = Inr False"
proof -
  have "openUntil (circuit s) = openUntil initial_circuit"
    unfolding assms(1) using assms(2)
    by (intro redis_breaker.calm_keeps_closed)
      (simp add: initial_circuit_def CIRCUIT_ERROR_THRESHOLD_def)
  then show ?thesis
    using assms(3) by (cases "clock E w") (simp add: run_isCircuitOpen initial_circuit_def)
qed

theorem redis_circuit_stays_closed_witness:
  "fst (run (fixed_env 5 RNil) isCircuitOpen
     (quiet_process\<lparr>circuit := breaker_run onError onConnect initial_circuit
        [Failed 1, Failed 2, Failed 3, Failed 4, Succeeded, Failed 5]\<rparr>) ()) = Inr False"
  by (rule redis_circuit_stays_closed
      [where es = "[Failed 1, Failed 2, Failed 3, Failed 4, Succeeded, Failed 5]"])
    (simp_all add: fixed_env_def)

text \<open>The reconnection delay. For every attempt number, \<open>retryStrategy\<close> gives up after the
  tenth attempt and otherwise returns a whole number of milliseconds between zero and the
  exponential bound, which never exceeds three seconds.\<close>

theorem retryStrategy_bounds:
  assumes "answer E CRandom w = (RRat r, w')" and "0 \<le> r" and "r < 1" and "1 \<le> n"
  shows "if 10 < n then fst (run E (retryStrategy n) s w) = Inr None
         else \<exists>d. fst (run E (retryStrategy n) s w) = Inr (Some d) \<and> 0 \<le> d \<and>
                d \<le> 200 * 2 ^ nat (n - 1) \<and> d \<le> 3000"
proof (cases "10 < n")
  case True
  then show ?thesis by (simp add: retryStrategy_def MAX_RETRIES_def)
next
  case False
  let ?b = "backoff_base n"
  have b: "200 \<le> ?b" "?b \<le> 3000" "?b \<le> 200 * 2 ^ nat (n - 1)"
    using backoff_base_range [OF assms(4)]
    by (simp_all add: backoff_base_def BASE_BACKOFF_MS_def MAX_BACKOFF_MS_def)
  have "r * of_int ?b \<le> 1 * of_int ?b"
    using assms(3) b(1) by (intro mult_right_mono) simp_all
  then have "0 \<le> js_round (r * of_int ?b) \<and> js_round (r * of_int ?b) \<le> ?b"
    using assms(2) b(1) by (intro js_round_le) simp_all
  moreover have "fst (run E (retryStrategy n) s w) = Inr (Some (js_round (r * of_int ?b)))"
    using False assms(1) by (simp add: retryStrategy_def MAX_RETRIES_def random_def)
  ultimately show ?thesis using False b(2,3) by auto
qed

theorem retryStrategy_bounds_witness:
  "\<exists>d. fst (run (fixed_env 0 (RRat (1 / 2))) (retryStrategy 3) quiet_process ()) = Inr (Some d)
      \<and> 0 \<le> d \<and> d \<le> 200 * 2 ^ nat (3 - 1) \<and> d \<le> 3000"
  using retryStrategy_bounds [of "fixed_env 0 (RRat (1 / 2))" "()" "1 / 2" "()" 3 quiet_process]
  by (simp add: fixed_env_def)

text \<open>The life of the pool. Initialising it in the Node runtime with a valid Redis url makes
  \<open>getRedisPool()\<close> succeed, in development and in production; shutting it down afterwards
  makes it fail again, whatever \<open>QUIT\<close> answers. (Outside production the module variable is
  never assigned.)\<close>

theorem pool_lifecycle:
  assumes "penv s ''NEXT_RUNTIME'' = Some ''nodejs''" and "penv s ''REDIS_URL'' = Some url" and "url \<noteq> []"
    and "parseUrl url = Some u" and "penv s ''NODE_ENV'' \<noteq> Some ''production'' \<longrightarrow> pool s = None"
  shows "\<exists>s'. run E (initRedisPool parseUrl) s w = (Inr Live, s', w) \<and> run E getRedisPool s' w = (Inr (), s', w) \<and>
    (\<exists>s'' w'' e. run E shutdownRedisPool s' w = (Inr (), s'', w'') \<and> run E getRedisPool s'' w'' = (Inl e, s'', w''))"
proof -
  define s' where "s' = (if penv s ''NODE_ENV'' = Some ''production'' then s\<lparr>pool := Some Live\<rparr>
    else s\<lparr>dev_pool := Some Live\<rparr>)"
  have "run E (initRedisPool parseUrl) s w = (Inr Live, s', w)"
    unfolding s'_def using assms(1-4) by (rule run_initRedisPool)
  moreover have r: "redis_ready s'" using assms(1) by (simp add: redis_ready_def s'_def)
  moreover have "penv s' ''NODE_ENV'' \<noteq> Some ''production'' \<longrightarrow> pool s' = None"
    using assms(5) by (simp add: s'_def)
  ultimately have init: "run E (initRedisPool parseUrl) s w = (Inr Live, s', w)"
    and p: "penv s' ''NODE_ENV'' \<noteq> Some ''production'' \<longrightarrow> pool s' = None" by simp_all
  obtain e where "run E getRedisPool (s'\<lparr>pool := None, dev_pool := None\<rparr>) (snd (answer E (CRedis QUIT) w)) =
      (Inl e, s'\<lparr>pool := None, dev_pool := None\<rparr>, snd (answer E (CRedis QUIT) w))"
    using getRedisPool_cleared [OF r, of E "snd (answer E (CRedis QUIT) w)"] by (elim exE)
  with init run_getRedisPool [OF r] run_shutdownRedisPool [OF r p] show ?thesis
    by metis
qed

theorem pool_lifecycle_witness:
  "\<exists>s'. run (fixed_env 0 RNil) (initRedisPool (\<lambda>_. Some \<lparr>u_hostname = ''r'', u_port = [], u_pathname = []\<rparr>))
      (quiet_process\<lparr>penv := [''NEXT_RUNTIME'' \<mapsto> ''nodejs'', ''REDIS_URL'' \<mapsto> ''redis://r'']\<rparr>) () = (Inr Live, s', ())
    \<and> run (fixed_env 0 RNil) getRedisPool s' () = (Inr (), s', ())"
  using pool_lifecycle [of "quiet_process\<lparr>penv := [''NEXT_RUNTIME'' \<mapsto> ''nodejs'', ''REDIS_URL'' \<mapsto> ''redis://r'']\<rparr>"
      "''redis://r''" "\<lambda>_. Some \<lparr>u_hostname = ''r'', u_port = [], u_pathname = []\<rparr>"
      "\<lparr>u_hostname = ''r'', u_port = [], u_pathname = []\<rparr>" "fixed_env 0 RNil" "()"]
  by (auto simp: quiet_process_def)

end
