(* ===== verification/Redis_Service.thy ===== *)
theory Redis_Service
  imports Redis "HOL-Library.List_Lexorder" "HOL-Library.Product_Lexorder" "HOL-Library.AList"
begin

text \<open>
  What the sources rely on of the Redis server, which is not part of the repository:
  \<open>redis_exec\<close> states the documented effect of every command they issue on a key space
  with expiry times, and the locale \<open>redis_service\<close> says that an environment answers
  like such a server, with no other client writing in between. Theorems that need a
  working Redis have this locale's predicate as a hypothesis; the environment \<open>mem_env\<close>
  is a concrete instance of it. The locale also holds the lemmas that execute single
  commands.
\<close>

section \<open>The key space\<close>

datatype rval =
    VStr string
  | VHash "(string \<times> string) list"
  | VZset "(int \<times> string) list" \<comment> \<open>by score, then member\<close>
  | VStream "(string \<times> (string \<times> string) list) list"

text \<open>A value and the time, in milliseconds, at which it expires.\<close>

type_synonym keyspace = "string \<Rightarrow> (rval \<times> int option) option"

definition live :: "int \<Rightarrow> keyspace \<Rightarrow> string \<Rightarrow> (rval \<times> int option) option" where
  "live t ks k = (case ks k of
     Some (v, None) \<Rightarrow> Some (v, None)
   | Some (v, Some e) \<Rightarrow> if t < e then Some (v, Some e) else None
   | None \<Rightarrow> None)"

definition ttl_at :: "int \<Rightarrow> int \<Rightarrow> int option" where
  "ttl_at t secs = Some (t + 1000 * secs)"

definition wrong_type :: reply where
  "wrong_type = RErr (JsError ''WRONGTYPE Operation against a key holding the wrong kind of value'')"

definition get_zset :: "int \<Rightarrow> keyspace \<Rightarrow> string \<Rightarrow> ((int \<times> string) list \<times> int option) option" where
  "get_zset t ks k = (case live t ks k of None \<Rightarrow> Some ([], None)
     | Some (VZset z, e) \<Rightarrow> Some (z, e) | _ \<Rightarrow> None)"

definition put_zset :: "string \<Rightarrow> (int \<times> string) list \<Rightarrow> int option \<Rightarrow> keyspace \<Rightarrow> keyspace" where
  "put_zset k z e ks = ks(k := if z = [] then None else Some (VZset z, e))"

definition zset_del :: "string \<Rightarrow> (int \<times> string) list \<Rightarrow> (int \<times> string) list" where
  "zset_del m z = List.filter (\<lambda>(sc, x). x \<noteq> m) z"

definition zset_add :: "int \<Rightarrow> string \<Rightarrow> (int \<times> string) list \<Rightarrow> (int \<times> string) list" where
  "zset_add sc m z = insort (sc, m) (zset_del m z)"

fun hash_put :: "(string \<times> string) list \<Rightarrow> (string \<times> string) list \<Rightarrow> (string \<times> string) list" where
  "hash_put [] h = h"
| "hash_put ((f, v) # fs) h = hash_put fs (AList.update f v h)"

definition flatten_pops :: "(int \<times> string) list \<Rightarrow> string list" where
  "flatten_pops z = concat (map (\<lambda>(sc, m). [m, show_int sc]) z)"

definition upto_score :: "int option \<Rightarrow> (int \<times> string) list \<Rightarrow> (int \<times> string) list" where
  "upto_score hi z = List.filter (\<lambda>(sc, m). case hi of None \<Rightarrow> True | Some b \<Rightarrow> sc \<le> b) z"

definition take_limit :: "int option \<Rightarrow> 'a list \<Rightarrow> 'a list" where
  "take_limit n xs = (case n of None \<Rightarrow> xs | Some i \<Rightarrow> take (nat i) xs)"

text \<open>
  A pipeline runs its commands one after the other; \<open>exec()\<close> resolves to the list of
  their replies, errors included, and the sources do not look at it.
\<close>

fun redis_exec :: "int \<Rightarrow> rcmd \<Rightarrow> keyspace \<Rightarrow> reply \<times> keyspace" where
  "redis_exec t (GET k) ks = (case live t ks k of
     None \<Rightarrow> (RNil, ks) | Some (VStr v, e) \<Rightarrow> (RStr v, ks) | _ \<Rightarrow> (wrong_type, ks))"
| "redis_exec t (SETEX k secs v) ks =
     (if secs \<le> 0 then (RErr (JsError ''ERR invalid expire time in 'setex' command''), ks)
      else (RStr ''OK'', ks(k \<mapsto> (VStr v, ttl_at t secs))))"
| "redis_exec t (SET_EX_NX k v secs) ks = (case live t ks k of
     Some _ \<Rightarrow> (RNil, ks) | None \<Rightarrow> (RStr ''OK'', ks(k \<mapsto> (VStr v, ttl_at t secs))))"
| "redis_exec t (DEL kl) ks =
     (RInt (int (length (List.filter (\<lambda>k. live t ks k \<noteq> None) (remdups kl)))),
      \<lambda>k. if k \<in> set kl then None else ks k)"
| "redis_exec t (EXISTS k) ks = (RInt (if live t ks k = None then 0 else 1), ks)"
| "redis_exec t (INCR k) ks = (case live t ks k of
     None \<Rightarrow> (RInt 1, ks(k \<mapsto> (VStr (show_int 1), None)))
   | Some (VStr v, e) \<Rightarrow> (case parseInt v of
       Some n \<Rightarrow> (RInt (n + 1), ks(k \<mapsto> (VStr (show_int (n + 1)), e)))
     | None \<Rightarrow> (RErr (JsError ''ERR value is not an integer or out of range''), ks))
   | _ \<Rightarrow> (wrong_type, ks))"
| "redis_exec t (EXPIRE k secs) ks = (case live t ks k of
     None \<Rightarrow> (RInt 0, ks)
   | Some (v, e) \<Rightarrow> (RInt 1, if secs \<le> 0 then ks(k := None) else ks(k \<mapsto> (v, ttl_at t secs))))"
| "redis_exec t (ZADD k sc m) ks = (case get_zset t ks k of
     Some (z, e) \<Rightarrow> (RInt (if m \<in> snd ` set z then 0 else 1), put_zset k (zset_add sc m z) e ks)
   | None \<Rightarrow> (wrong_type, ks))"
| "redis_exec t (ZCARD k) ks = (case get_zset t ks k of
     Some (z, e) \<Rightarrow> (RInt (int (length z)), ks) | None \<Rightarrow> (wrong_type, ks))"
| "redis_exec t (ZREM k m) ks = (case get_zset t ks k of
     Some (z, e) \<Rightarrow> (RInt (if m \<in> snd ` set z then 1 else 0), put_zset k (zset_del m z) e ks)
   | None \<Rightarrow> (wrong_type, ks))"
| "redis_exec t (ZPOPMIN k n) ks = (case get_zset t ks k of
     Some (z, e) \<Rightarrow> (RList (flatten_pops (take (nat n) z)), put_zset k (drop (nat n) z) e ks)
   | None \<Rightarrow> (wrong_type, ks))"
| "redis_exec t (ZRANGEBYSCORE k hi n) ks = (case get_zset t ks k of
     Some (z, e) \<Rightarrow> (RList (map snd (take_limit n (upto_score hi z))), ks)
   | None \<Rightarrow> (wrong_type, ks))"
| "redis_exec t (ZREMRANGEBYSCORE k hi) ks = (case get_zset t ks k of
     Some (z, e) \<Rightarrow> (RInt (int (length (upto_score (Some hi) z))),
       put_zset k (List.filter (\<lambda>(sc, m). hi < sc) z) e ks)
   | None \<Rightarrow> (wrong_type, ks))"
| "redis_exec t (HSET k fvs) ks = (case live t ks k of
     None \<Rightarrow> (RInt (int (length fvs)), ks(k \<mapsto> (VHash (hash_put fvs []), None)))
   | Some (VHash h, e) \<Rightarrow> (RInt (int (length fvs)), ks(k \<mapsto> (VHash (hash_put fvs h), e)))
   | _ \<Rightarrow> (wrong_type, ks))"
| "redis_exec t (HGETALL k) ks = (case live t ks k of
     None \<Rightarrow> (RPairs [], ks) | Some (VHash h, e) \<Rightarrow> (RPairs h, ks) | _ \<Rightarrow> (wrong_type, ks))"
| "redis_exec t (XADD k f v) ks = (case live t ks k of
     None \<Rightarrow> (RStr (show_int t @ ''-0''), ks(k \<mapsto> (VStream [(show_int t @ ''-0'', [(f, v)])], None)))
   | Some (VStream xs, e) \<Rightarrow>
       (let i = show_int t @ ''-'' @ show_nat (length xs)
        in (RStr i, ks(k \<mapsto> (VStream (xs @ [(i, [(f, v)])]), e))))
   | _ \<Rightarrow> (wrong_type, ks))"
| "redis_exec t (XRANGE_FIRST k) ks = (case live t ks k of
     None \<Rightarrow> (REntries [], ks) | Some (VStream xs, e) \<Rightarrow> (REntries (take 1 xs), ks) | _ \<Rightarrow> (wrong_type, ks))"
| "redis_exec t (PIPELINE cs) ks = (RNil, fold (\<lambda>c ks'. snd (redis_exec t c ks')) cs ks)"
| "redis_exec t QUIT ks = (RStr ''OK'', ks)"
| "redis_exec t PING ks = (RStr ''PONG'', ks)"

text \<open>The keys a command may write.\<close>

fun touches :: "rcmd \<Rightarrow> string set" where
  "touches (SETEX k n v) = {k}"
| "touches (SET_EX_NX k v n) = {k}"
| "touches (DEL kl) = set kl"
| "touches (INCR k) = {k}"
| "touches (EXPIRE k n) = {k}"
| "touches (ZADD k sc m) = {k}"
| "touches (ZREM k m) = {k}"
| "touches (ZPOPMIN k n) = {k}"
| "touches (ZREMRANGEBYSCORE k n) = {k}"
| "touches (HSET k fvs) = {k}"
| "touches (XADD k f v) = {k}"
| "touches (PIPELINE cs) = (\<Union>c \<in> set cs. touches c)"
| "touches _ = {}"

definition spares :: "string \<Rightarrow> call \<Rightarrow> bool" where
  "spares k c = (case c of CRedis rc \<Rightarrow> k \<notin> touches rc | _ \<Rightarrow> True)"

lemma redis_exec_frame: "k \<notin> touches c \<Longrightarrow> snd (redis_exec t c ks) k = ks k"
proof (induction t c ks rule: redis_exec.induct)
  case (18 t cs ks)
  have "fold (\<lambda>c ks'. snd (redis_exec t c ks')) xs ks1 k = ks1 k" if "set xs \<subseteq> set cs" for xs ks1
    using that
  proof (induction xs arbitrary: ks1)
    case (Cons c xs)
    have "snd (redis_exec t c ks1) k = ks1 k" using Cons.prems "18.prems" by (intro "18.IH") auto
    with Cons show ?case by simp
  qed simp
  then show ?case by simp
qed (auto simp: put_zset_def Let_def split: option.splits rval.splits)

lemma update_fresh: "f \<notin> fst ` set h \<Longrightarrow> AList.update f v h = h @ [(f, v)]"
  by (induction h) auto

lemma hash_put_fresh: "distinct (map fst h @ map fst fs) \<Longrightarrow> hash_put fs h = h @ fs"
  by (induction fs h rule: hash_put.induct) (auto simp: update_fresh)

lemma live_cong: "ks k = ks' k \<Longrightarrow> live t ks k = live t ks' k"
  by (simp add: live_def)

lemma get_zset_cong: "ks k = ks' k \<Longrightarrow> get_zset t ks k = get_zset t ks' k"
  by (simp add: get_zset_def live_def)

lemma insort_last: "\<forall>y \<in> set z. y < x \<Longrightarrow> insort x z = z @ [x]"
  by (induction z) auto

lemma zset_add_last:
  assumes "\<forall>(sc', m') \<in> set z. sc' < sc \<and> m' \<noteq> m"
  shows "zset_add sc m z = z @ [(sc, m)]"
proof -
  have "zset_del m z = z" using assms by (auto simp: zset_del_def filter_id_conv)
  then show ?thesis using assms by (auto simp: zset_add_def intro!: insort_last)
qed

lemma live_later: "live t ks k = None \<Longrightarrow> t \<le> t' \<Longrightarrow> live t' ks k = None"
  by (auto simp: live_def split: option.splits if_splits)

lemma live_upd [simp]: "k' \<noteq> k \<Longrightarrow> live t (ks(k := v)) k' = live t ks k'"
  by (simp add: live_def)

lemma live_set [simp]: "live t (ks(k \<mapsto> (v, None))) k = Some (v, None)"
  "live t (ks(k \<mapsto> (v, Some e))) k = (if t < e then Some (v, Some e) else None)"
  by (simp_all add: live_def)

text \<open>A sorted set without a life time; the empty one has no key.\<close>

definition zset_at :: "keyspace \<Rightarrow> string \<Rightarrow> (int \<times> string) list \<Rightarrow> bool" where
  "zset_at ks k z \<longleftrightarrow> ks k = (if z = [] then None else Some (VZset z, None))"

lemma get_zset_at: "zset_at ks k z \<Longrightarrow> get_zset t ks k = Some (z, None)"
  by (auto simp: zset_at_def get_zset_def live_def split: if_splits)

lemma zset_at_put [simp]: "zset_at (put_zset k z None ks) k z"
  by (simp add: zset_at_def put_zset_def)

lemma zset_at_cong: "ks' k = ks k \<Longrightarrow> zset_at ks k z \<Longrightarrow> zset_at ks' k z"
  by (simp add: zset_at_def)

lemma put_zset_other [simp]: "k' \<noteq> k \<Longrightarrow> put_zset k z e ks k' = ks k'"
  by (simp add: put_zset_def)

text \<open>The process may use Redis at the given time: a live pool and a closed circuit.\<close>

definition up :: "process \<Rightarrow> int \<Rightarrow> bool" where
  "up s t \<longleftrightarrow> redis_ready s \<and> openUntil (circuit s) \<le> t"

lemma up_later: "up s t \<Longrightarrow> t \<le> t' \<Longrightarrow> up s t'"
  by (simp add: up_def)

section \<open>The contract\<close>

locale redis_service =
  fixes E :: "'w environment" and time :: "'w \<Rightarrow> int" and keys :: "'w \<Rightarrow> keyspace"
  assumes clock_law: "clock E w = (t, w') \<Longrightarrow> time w \<le> t \<and> time w' = t \<and> keys w' = keys w"
    and redis_law: "answer E (CRedis c) w = (r, w') \<Longrightarrow>
      time w \<le> time w' \<and> (r, keys w') = redis_exec (time w') c (keys w)"
    and other_law: "\<not> (\<exists>rc. c' = CRedis rc) \<Longrightarrow> answer E c' w = (r, w') \<Longrightarrow>
      time w \<le> time w' \<and> keys w' = keys w"
begin

text \<open>The world after a command and after a look at the clock.\<close>

definition after :: "rcmd \<Rightarrow> 'w \<Rightarrow> 'w" where
  "after c w = snd (answer E (CRedis c) w)"

definition ticked :: "'w \<Rightarrow> 'w" where
  "ticked w = snd (clock E w)"

lemma answer_redis: "answer E (CRedis c) w = (fst (redis_exec (time (after c w)) c (keys w)), after c w)"
  using redis_law [of c w] by (metis after_def fst_conv prod.collapse)

lemma keys_after: "keys (after c w) = snd (redis_exec (time (after c w)) c (keys w))"
  using redis_law [of c w] by (metis after_def snd_conv prod.collapse)

lemma time_after: "time w \<le> time (after c w)"
  using redis_law [of c w] by (metis after_def prod.collapse)

lemma clock_eq: "clock E w = (time (ticked w), ticked w)"
  using clock_law [of w] by (metis ticked_def prod.collapse)

lemma keys_ticked [simp]: "keys (ticked w) = keys w"
  using clock_law [of w] by (metis ticked_def prod.collapse)

lemma time_ticked: "time w \<le> time (ticked w)"
  using clock_law [of w] by (metis ticked_def prod.collapse)

lemma run_now: "run E now s w = (Inr (time (ticked w)), s, ticked w)"
  by (simp add: now_def clock_eq)

lemma run_circuit: "run E isCircuitOpen s w = (Inr (time (ticked w) < openUntil (circuit s)), s, ticked w)"
  by (simp add: run_isCircuitOpen clock_eq)

text \<open>A program that issues no command on a key leaves the key as it is.\<close>

lemma run_frame: "all_calls (spares k) p \<Longrightarrow> keys (snd (snd (run E p s w))) k = keys w k"
proof (induction p arbitrary: s w)
  case (Clock f)
  then show ?case by (simp add: clock_eq)
next
  case (Call c f)
  obtain r w' where ans: "answer E c w = (r, w')" by (cases "answer E c w")
  have "keys w' k = keys w k"
  proof (cases "\<exists>rc. c = CRedis rc")
    case True
    then obtain rc where rc: "c = CRedis rc" by blast
    then have "keys w' = snd (redis_exec (time w') rc (keys w))" using redis_law [of rc w r w'] ans by (metis snd_conv)
    then show ?thesis using Call.prems rc by (simp add: spares_def redis_exec_frame)
  next
    case False
    then show ?thesis using other_law [OF False ans] by simp
  qed
  then show ?case using Call ans by simp
qed auto
lemma run_redis_unit: "run E (redis_unit c) s w =
    (case fst (redis_exec (time (after c w)) c (keys w)) of
       RErr e \<Rightarrow> (Inl e, s, after c w) | _ \<Rightarrow> (Inr (), s, after c w))"
  by (simp add: redis_unit_def answer_redis split: reply.splits)

lemma run_redis_int: "run E (redis_int c) s w =
    (case fst (redis_exec (time (after c w)) c (keys w)) of
       RInt n \<Rightarrow> (Inr n, s, after c w) | RErr e \<Rightarrow> (Inl e, s, after c w) | _ \<Rightarrow> (Inl bad_reply, s, after c w))"
  by (simp add: redis_int_def answer_redis split: reply.splits)

lemma run_redis_str: "run E (redis_str c) s w =
    (case fst (redis_exec (time (after c w)) c (keys w)) of
       RStr x \<Rightarrow> (Inr (Some x), s, after c w) | RNil \<Rightarrow> (Inr None, s, after c w)
     | RErr e \<Rightarrow> (Inl e, s, after c w) | _ \<Rightarrow> (Inl bad_reply, s, after c w))"
  by (simp add: redis_str_def answer_redis split: reply.splits)

lemma run_redis_list: "run E (redis_list c) s w =
    (case fst (redis_exec (time (after c w)) c (keys w)) of
       RList x \<Rightarrow> (Inr x, s, after c w)
     | RErr e \<Rightarrow> (Inl e, s, after c w) | _ \<Rightarrow> (Inl bad_reply, s, after c w))"
  by (simp add: redis_list_def answer_redis split: reply.splits)

lemma run_redis_hash: "run E (redis_hash c) s w =
    (case fst (redis_exec (time (after c w)) c (keys w)) of
       RPairs x \<Rightarrow> (Inr x, s, after c w)
     | RErr e \<Rightarrow> (Inl e, s, after c w) | _ \<Rightarrow> (Inl bad_reply, s, after c w))"
  by (simp add: redis_hash_def answer_redis split: reply.splits)

lemma run_redis_entries: "run E (redis_entries c) s w =
    (case fst (redis_exec (time (after c w)) c (keys w)) of
       REntries x \<Rightarrow> (Inr x, s, after c w)
     | RErr e \<Rightarrow> (Inl e, s, after c w) | _ \<Rightarrow> (Inl bad_reply, s, after c w))"
  by (simp add: redis_entries_def answer_redis split: reply.splits)

lemmas run_redis = run_redis_unit run_redis_int run_redis_str run_redis_list run_redis_hash
  run_redis_entries run_now run_circuit

text \<open>No program turns back the time.\<close>

lemma time_run: "run E p s w = (r, s', w') \<Longrightarrow> time w \<le> time w'"
proof (induction p arbitrary: s w)
  case (GetS k)
  then show ?case using GetS.IH [of "k s"] by simp
next
  case (Clock k)
  then show ?case using clock_law [of w] by (force split: prod.splits)
next
  case (Call c k)
  obtain a w1 where a: "answer E c w = (a, w1)" by (cases "answer E c w")
  have "time w \<le> time w1"
  proof (cases "\<exists>rc. c = CRedis rc")
    case True
    with a redis_law show ?thesis by blast
  next
    case False
    with a other_law show ?thesis by blast
  qed
  moreover have "time w1 \<le> time w'" using Call.IH [of "k a"] Call.prems a by simp
  ultimately show ?case by simp
qed auto

text \<open>A program that sends no command leaves the key space alone.\<close>

lemma keys_run: "all_calls (\<lambda>c. \<not> (\<exists>rc. c = CRedis rc)) p \<Longrightarrow> run E p s w = (r, s', w') \<Longrightarrow> keys w' = keys w"
proof (induction p arbitrary: s w)
  case (GetS k)
  then show ?case using GetS.IH [of "k s"] by simp
next
  case (Clock k)
  obtain t w1 where t: "clock E w = (t, w1)" by (cases "clock E w")
  then have "keys w1 = keys w" using clock_law by blast
  then show ?case using Clock.IH [of "k t" s w1] Clock.prems t by simp
next
  case (Call c k)
  obtain a w1 where a: "answer E c w = (a, w1)" by (cases "answer E c w")
  then have "keys w1 = keys w" using other_law [of c w a w1] Call.prems(1) by simp
  then show ?case using Call.IH [of "k a" s w1] Call.prems a by simp
qed auto

lemma time_bnd: "time (snd (snd (run E p s w))) \<le> time (snd (snd (run E (bnd p f) s w)))"
proof -
  obtain r s1 w1 where p: "run E p s w = (r, s1, w1)" by (cases "run E p s w")
  obtain r2 s2 w2 where b: "run E (bnd p f) s w = (r2, s2, w2)" by (cases "run E (bnd p f) s w")
  show ?thesis
    using p b time_run [of "f (projr r)" s1 w1 r2 s2 w2] by (cases r) (simp_all add: run_bnd)
qed

lemma time_bnd_less: "time (snd (snd (run E (bnd p f) s w))) < T \<Longrightarrow> time (snd (snd (run E p s w))) < T"
  by (rule le_less_trans [OF time_bnd])

lemma world_redis_int: "snd (snd (run E (redis_int c) s w)) = after c w"
  by (simp add: run_redis split: reply.splits)

end

sublocale redis_service \<subseteq> forward_time E time
proof
  show "time w \<le> t \<and> time w' = t" if "clock E w = (t, w')" for w t w' using clock_law [OF that] by simp
  show "time w \<le> time w'" if "answer E c w = (r, w')" for c w r w'
    using that redis_law other_law by (cases "\<exists>rc. c = CRedis rc") blast+
qed

section \<open>Counters with a time window\<close>

text \<open>
  The limiters of the sources all count with \<open>INCR\<close> and set the life time of the counter
  when it is new.
\<close>

definition limit_core :: "string \<Rightarrow> int \<Rightarrow> (int \<Rightarrow> 'a) \<Rightarrow> 'a prog" where
  "limit_core key win_secs res =
     bnd (redis_int (INCR key)) (\<lambda>n. sq (whenP (n = 1) (redis_unit (EXPIRE key win_secs))) (Ret (res n)))"

locale window_limiter = redis_service E time keys
  for E :: "'w environment" and time :: "'w \<Rightarrow> int" and keys :: "'w \<Rightarrow> keyspace" +
  fixes check :: "'a prog" and key :: string and win_secs :: int and res :: "int \<Rightarrow> 'a"
  assumes window_pos: "0 < win_secs"
    and check_run: "up s (time w) \<Longrightarrow>
      \<exists>w1. keys w1 = keys w \<and> time w \<le> time w1 \<and> run E check s w = run E (limit_core key win_secs res) s w1"
begin

text \<open>The first request of a window starts the counter, the others count up.\<close>

lemma first_request:
  assumes "up s (time w)" and "live (time w) (keys w) key = None"
  obtains w' where "run E check s w = (Inr (res 1), s, w')" and "time w \<le> time w'"
    and "keys w' key = Some (VStr (show_int 1), Some (time w' + 1000 * win_secs))"
proof -
  obtain w1 where w1: "keys w1 = keys w" "time w \<le> time w1"
      "run E check s w = run E (limit_core key win_secs res) s w1"
    using check_run [OF assms(1)] by blast
  let ?w2 = "after (INCR key) w1"
  let ?w3 = "after (EXPIRE key win_secs) ?w2"
  have t: "time w \<le> time ?w2" "time ?w2 \<le> time ?w3"
    using w1(2) time_after [of w1] time_after order_trans by blast+
  have dead: "live (time ?w2) (keys w1) key = None"
    using live_later [OF assms(2) t(1)] w1(1) by simp
  have k2: "keys ?w2 = (keys w1)(key \<mapsto> (VStr (show_int 1), None))" by (simp add: keys_after dead)
  have k3: "keys ?w3 = (keys w1)(key \<mapsto> (VStr (show_int 1), Some (time ?w3 + 1000 * win_secs)))"
    using window_pos by (subst keys_after) (simp add: k2 ttl_at_def)
  have "run E check s w = (Inr (res 1), s, ?w3)"
    using window_pos
    by (simp add: w1(3) limit_core_def run_bnd run_sq run_redis whenP_def dead k2)
  then show ?thesis using that k3 t by auto
qed

lemma next_request:
  assumes "up s (time w)" and "keys w key = Some (VStr (show_int c), Some e)" and "1 \<le> c"
    and "time (snd (snd (run E check s w))) < e"
  obtains w' where "run E check s w = (Inr (res (c + 1)), s, w')" and "time w \<le> time w'"
    and "keys w' key = Some (VStr (show_int (c + 1)), Some e)"
proof -
  obtain w1 where w1: "keys w1 = keys w" "time w \<le> time w1"
      "run E check s w = run E (limit_core key win_secs res) s w1"
    using check_run [OF assms(1)] by blast
  let ?w2 = "after (INCR key) w1"
  have t: "time w \<le> time ?w2" using w1(2) time_after order_trans by blast
  have "time ?w2 < e"
  proof (rule ccontr)
    assume "\<not> time ?w2 < e"
    moreover have "time ?w2 \<le> time (snd (snd (run E check s w)))"
      using time_bnd [where p = "redis_int (INCR key)" and w = w1 and s = s] unfolding w1(3) limit_core_def
      by (simp add: world_redis_int)
    ultimately show False using assms(4) by simp
  qed
  then have l: "live (time ?w2) (keys w1) key = Some (VStr (show_int c), Some e)"
    using w1(1) assms(2) by (simp add: live_def)
  have "run E check s w = (Inr (res (c + 1)), s, ?w2)"
    using assms(3) by (simp add: w1(3) limit_core_def run_bnd run_sq run_redis whenP_def l)
  moreover have "keys ?w2 key = Some (VStr (show_int (c + 1)), Some e)" by (simp add: keys_after l)
  ultimately show ?thesis using that t by blast
qed

lemma counted_requests:
  assumes "up s (time w)" and "keys w key = Some (VStr (show_int c), Some e)" and "1 \<le> c"
    and "time (snd (snd (run E (mapM (\<lambda>_. check) xs) s w))) < e"
  shows "fst (run E (mapM (\<lambda>_. check) xs) s w) = Inr (map (\<lambda>i. res (c + 1 + int i)) [0..<length xs])"
  using assms
proof (induction xs arbitrary: w c)
  case (Cons x xs)
  have "time (snd (snd (run E check s w))) < e"
    using Cons.prems(4) time_bnd [of check s w] by (auto intro: le_less_trans)
  then obtain w' where w': "run E check s w = (Inr (res (c + 1)), s, w')" "time w \<le> time w'"
      "keys w' key = Some (VStr (show_int (c + 1)), Some e)"
    using next_request [OF Cons.prems(1-3)] by blast
  have "fst (run E (mapM (\<lambda>_. check) xs) s w') = Inr (map (\<lambda>i. res (c + 1 + 1 + int i)) [0..<length xs])"
    using Cons.prems(3,4) w'
    by (intro Cons.IH up_later [OF Cons.prems(1) w'(2)])
      (simp_all add: run_bnd split: prod.splits sum.splits)
  moreover have "map (\<lambda>i. res (c + 1 + int i)) [0..<Suc (length xs)] =
      res (c + 1) # map (\<lambda>i. res (c + 1 + 1 + int i)) [0..<length xs]"
    by (simp add: map_upt_Suc ac_simps del: upt_Suc)
  ultimately show ?case
    using w'(1) by (cases "run E (mapM (\<lambda>_. check) xs) s w'") (simp add: run_bnd del: upt_Suc)
qed simp

lemma window_requests:
  assumes "up s (time w)" and "live (time w) (keys w) key = None"
    and "time (snd (snd (run E (mapM (\<lambda>_. check) xs) s w))) < time w + 1000 * win_secs"
  shows "fst (run E (mapM (\<lambda>_. check) xs) s w) = Inr (map (\<lambda>i. res (int i + 1)) [0..<length xs])"
proof (cases xs)
  case (Cons x ys)
  obtain w' where w': "run E check s w = (Inr (res 1), s, w')" "time w \<le> time w'"
      "keys w' key = Some (VStr (show_int 1), Some (time w' + 1000 * win_secs))"
    using first_request [OF assms(1,2)] by blast
  have "fst (run E (mapM (\<lambda>_. check) ys) s w') = Inr (map (\<lambda>i. res (1 + 1 + int i)) [0..<length ys])"
    using assms(3) w'
    by (intro counted_requests [OF up_later [OF assms(1) w'(2)] w'(3)])
      (simp_all add: Cons run_bnd split: prod.splits sum.splits)
  moreover have "map (\<lambda>i. res (int i + 1)) [0..<Suc (length ys)] =
      res 1 # map (\<lambda>i. res (1 + 1 + int i)) [0..<length ys]"
    by (simp add: map_upt_Suc ac_simps del: upt_Suc)
  ultimately show ?thesis
    using w'(1) by (cases "run E (mapM (\<lambda>_. check) ys) s w'") (simp add: Cons run_bnd del: upt_Suc)
qed simp

end

section \<open>A server in memory\<close>

record mem =
  m_time :: int
  m_keys :: keyspace

text \<open>Every command takes one millisecond; the calls to other services get the replies \<open>oth\<close>.\<close>

definition mem_env :: "(call \<Rightarrow> reply) \<Rightarrow> mem environment" where
  "mem_env oth = \<lparr>clock = (\<lambda>w. (m_time w, w)),
     answer = (\<lambda>c w. case c of
        CRedis rc \<Rightarrow> (let t = m_time w + 1; (r, ks) = redis_exec t rc (m_keys w)
                       in (r, \<lparr>m_time = t, m_keys = ks\<rparr>))
      | _ \<Rightarrow> (oth c, w\<lparr>m_time := m_time w + 1\<rparr>))\<rparr>"

definition mem_at :: "int \<Rightarrow> mem" where
  "mem_at t = \<lparr>m_time = t, m_keys = (\<lambda>_. None)\<rparr>"

definition node_process :: process where
  "node_process = quiet_process\<lparr>penv := [''NEXT_RUNTIME'' \<mapsto> ''nodejs'', ''NODE_ENV'' \<mapsto> ''production'',
     ''REDIS_URL'' \<mapsto> ''redis://r''], pool := Some Live\<rparr>"

interpretation mem: redis_service "mem_env oth" m_time m_keys for oth
  by unfold_locales (auto simp: mem_env_def Let_def split: prod.splits call.splits)

lemma mem_service: "redis_service (mem_env oth) m_time m_keys"
  by unfold_locales (auto simp: mem_env_def Let_def split: prod.splits call.splits)

lemma node_process_ready [simp]: "redis_ready node_process"
  by (simp add: redis_ready_def node_process_def quiet_process_def)

lemma node_process_circuit [simp]: "circuit node_process = initial_circuit"
  by (simp add: node_process_def quiet_process_def)

end
