(* ===== verification/Secrets.thy ===== *)
theory Secrets
  imports Redis
begin

text \<open>
  lib/secrets.ts and lib/internal-api-token.ts: secrets from the environment or a cloud
  secret manager behind a five-minute cache, their rotation, and the list of internal
  API tokens to try in order. The cloud SDKs are services: a \<open>CCloudSecret\<close> call is
  answered by the string of the secret (\<open>RStr\<close>), its decoded binary payload (\<open>RList\<close> of
  one string), nothing (\<open>RNil\<close>: no SDK, or no payload) or an error. A JSON secret has
  string members (the text of a number or boolean otherwise).
\<close>

section \<open>Configuration\<close>

definition CACHE_TTL_MS :: int where "CACHE_TTL_MS = 5 * 60 * 1000"

definition PROVIDER :: "string prog" where
  "PROVIDER = env_or_empty ''SECRET_PROVIDER'' ''env''"

definition SECRET_NAMES :: "(string \<times> string \<times> string) list" where
  "SECRET_NAMES =
     [(''INTERNAL_API_TOKEN'', ''SM_INTERNAL_API_TOKEN_NAME'', ''brainmate/auth/internal-api-token''),
      (''OTP_PEPPER'', ''SM_OTP_PEPPER_NAME'', ''brainmate/auth/otp-pepper''),
      (''CLERK_SECRET_KEY'', ''SM_CLERK_SECRET_NAME'', ''brainmate/auth/clerk-secret-key''),
      (''REDIS_URL'', ''SM_REDIS_URL_NAME'', ''brainmate/auth/redis-url'')]"

text \<open>\<open>SECRET_MAPPING[name] || name\<close>.\<close>

definition secret_name :: "string \<Rightarrow> string prog" where
  "secret_name name = (case map_of SECRET_NAMES name of
     Some (var, d) \<Rightarrow> env_or_empty var d
   | None \<Rightarrow> Ret name)"

section \<open>Cloud providers\<close>

text \<open>The member of a multi-value secret, or the raw string.\<close>

definition secret_member :: "string \<Rightarrow> string \<Rightarrow> string option" where
  "secret_member name raw = (case parse raw of
     Some (JObj ps) \<Rightarrow> (case map_of ps name of
         Some (JStr v) \<Rightarrow> Some v
       | Some JNull \<Rightarrow> None
       | Some j \<Rightarrow> Some (stringify j)
       | None \<Rightarrow> Some raw)
   | _ \<Rightarrow> Some raw)"

definition fetchFromAWSSecretsManager :: "string \<Rightarrow> string option prog" where
  "fetchFromAWSSecretsManager name =
     bnd (secret_name name) (\<lambda>secretName.
     Call (CCloudSecret ''aws_sm'' secretName) (\<lambda>r. case r of
       RStr v \<Rightarrow> Ret (if v = [] then None else secret_member name v)
     | RList (b # _) \<Rightarrow> Ret (Some b)
     | _ \<Rightarrow> Ret None))"

definition fetchFromGCPSecretManager :: "string \<Rightarrow> string option prog" where
  "fetchFromGCPSecretManager name =
     bnd (secret_name name) (\<lambda>secretName.
     bnd (env_or_empty ''GCP_PROJECT_ID'' []) (\<lambda>project.
     Call (CCloudSecret ''gcp_sm'' (''projects/'' @ project @ ''/secrets/'' @ secretName @ ''/versions/latest''))
       (\<lambda>r. case r of
         RStr v \<Rightarrow> Ret (if v = [] then None else Some v)
       | RList (b # _) \<Rightarrow> Ret (Some b)
       | _ \<Rightarrow> Ret None)))"

section \<open>The cache\<close>

definition cache_put :: "string \<Rightarrow> cached_secret \<Rightarrow> (string \<times> cached_secret) list \<Rightarrow> (string \<times> cached_secret) list" where
  "cache_put k v c = (k, v) # List.filter (\<lambda>p. fst p \<noteq> k) c"

definition fetch_secret :: "string \<Rightarrow> string prog" where
  "fetch_secret name =
     bnd PROVIDER (\<lambda>pr.
     bnd (if pr = ''aws_sm'' then fetchFromAWSSecretsManager name
          else if pr = ''gcp_sm'' then fetchFromGCPSecretManager name
          else get_env name) (\<lambda>v.
     bnd (case v of
            Some x \<Rightarrow> if x = [] then env_or name [] else Ret x
          | None \<Rightarrow> env_or name []) (\<lambda>val.
     bnd now (\<lambda>t.
     GetS (\<lambda>s. PutS (s\<lparr>secretCache := cache_put name \<lparr>cs_value = val, cs_fetchedAt = t\<rparr> (secretCache s)\<rparr>)
       (Ret val))))))"

definition getSecretWithOptions :: "string \<Rightarrow> bool \<Rightarrow> string prog" where
  "getSecretWithOptions name forceRefresh =
     GetS (\<lambda>s. case map_of (secretCache s) name of
       Some c \<Rightarrow> (if forceRefresh then fetch_secret name
                  else bnd now (\<lambda>t. if t - cs_fetchedAt c < CACHE_TTL_MS then Ret (cs_value c)
                                    else fetch_secret name))
     | None \<Rightarrow> fetch_secret name)"

definition getSecret :: "string \<Rightarrow> string prog" where
  "getSecret name = getSecretWithOptions name False"

definition invalidateSecret :: "string \<Rightarrow> unit prog" where
  "invalidateSecret name =
     GetS (\<lambda>s. PutS (s\<lparr>secretCache := List.filter (\<lambda>p. fst p \<noteq> name) (secretCache s)\<rparr>) (Ret ()))"

definition invalidateAllSecrets :: "unit prog" where
  "invalidateAllSecrets = GetS (\<lambda>s. PutS (s\<lparr>secretCache := []\<rparr>) (Ret ()))"

section \<open>Rotation\<close>

primrec check_names :: "string list \<Rightarrow> string list prog" where
  "check_names [] = Ret []"
| "check_names (n # names) =
     bnd (GetS (\<lambda>s. case map_of (secretCache s) n of
            None \<Rightarrow> Ret []
          | Some c \<Rightarrow> catch (bnd (getSecretWithOptions n True) (\<lambda>cur.
                        Ret (if cur \<noteq> cs_value c then [n] else []))) (\<lambda>_. Ret [])))
       (\<lambda>r. bnd (check_names names) (\<lambda>rs. Ret (r @ rs)))"

definition checkRotation :: "string list prog" where
  "checkRotation =
     bnd PROVIDER (\<lambda>pr. if pr = ''env'' then Ret [] else check_names (map fst SECRET_NAMES))"

text \<open>The body of the interval timer, and starting and stopping it.\<close>

definition rotation_tick :: "unit prog" where
  "rotation_tick = attempt (bnd checkRotation (\<lambda>rotated. sq (mapM invalidateSecret rotated) (Ret ())))"

definition startRotationChecker :: "unit prog" where
  "startRotationChecker =
     bnd PROVIDER (\<lambda>pr. GetS (\<lambda>s.
     if pr = ''env'' \<or> rotating s then Ret () else PutS (s\<lparr>rotating := True\<rparr>) (Ret ())))"

definition stopRotationChecker :: "unit prog" where
  "stopRotationChecker =
     GetS (\<lambda>s. if rotating s then PutS (s\<lparr>rotating := False\<rparr>) (Ret ()) else Ret ())"

section \<open>Internal API tokens\<close>

definition parseTokenList :: "string \<Rightarrow> string list" where
  "parseTokenList raw = List.filter (\<lambda>t. 0 < length t)
     (map trim (split_on (\<lambda>c. c = CHR 0x0A \<or> c = CHR '','' \<or> c = CHR 0x0D) raw))"

fun unique_from :: "string list \<Rightarrow> string list \<Rightarrow> string list" where
  "unique_from seen [] = []"
| "unique_from seen (t # ts) =
     (let tr = trim t in
      if tr = [] \<or> tr \<in> set seen then unique_from seen ts else tr # unique_from (tr # seen) ts)"

definition uniqueNonEmpty :: "string list \<Rightarrow> string list" where
  "uniqueNonEmpty tokens = unique_from [] tokens"

definition readTokensFromFile :: "string \<Rightarrow> string list prog" where
  "readTokensFromFile path =
     catch
       (bnd (get_env ''NEXT_RUNTIME'') (\<lambda>rt.
        if rt \<noteq> Some ''nodejs'' then Ret []
        else bnd (call_str (CReadFile path)) (\<lambda>raw. Ret (parseTokenList raw))))
       (\<lambda>_. Ret [])"

definition getInternalApiTokenCandidates :: "string list prog" where
  "getInternalApiTokenCandidates =
     bnd (getSecret ''INTERNAL_API_TOKEN'') (\<lambda>secretToken.
     bnd (env_or ''INTERNAL_API_TOKEN'' []) (\<lambda>envToken.
     bnd (env_or ''INTERNAL_API_TOKEN_VALUE'' []) (\<lambda>envTokenValue.
     bnd (env_or ''INTERNAL_API_TOKENS_PREVIOUS'' []) (\<lambda>previous.
     bnd (env_or ''INTERNAL_API_TOKENS_FILE'' ''.secrets/internal_api_tokens.txt'') (\<lambda>tokenFile.
     bnd (readTokensFromFile tokenFile) (\<lambda>file_tokens.
     Ret (uniqueNonEmpty ((if secretToken \<noteq> [] then [secretToken] else []) @ [envToken, envTokenValue]
       @ parseTokenList previous @ file_tokens))))))))"

definition getPreferredInternalApiToken :: "string prog" where
  "getPreferredInternalApiToken =
     bnd getInternalApiTokenCandidates (\<lambda>cs. Ret (case cs of [] \<Rightarrow> [] | c # _ \<Rightarrow> c))"

section \<open>Lemmas\<close>

lemma all_calls_fetch_secret [simp]: "(\<And>p n. P (CCloudSecret p n)) \<Longrightarrow> all_calls P (fetch_secret n)"
  by (auto simp: fetch_secret_def fetchFromAWSSecretsManager_def fetchFromGCPSecretManager_def PROVIDER_def
      secret_name_def split: reply.splits list.splits option.splits)

lemma all_calls_getSecret [simp]:
  "(\<And>p n. P (CCloudSecret p n)) \<Longrightarrow> all_calls P (getSecretWithOptions n f)"
  by (auto simp: getSecretWithOptions_def split: option.splits)

lemma all_calls_candidates [simp]:
  "(\<And>p n. P (CCloudSecret p n)) \<Longrightarrow> (\<And>f. P (CReadFile f)) \<Longrightarrow> all_calls P getInternalApiTokenCandidates"
  by (simp add: getInternalApiTokenCandidates_def getSecret_def readTokensFromFile_def)

lemma all_calls_invalidate [simp]: "all_calls P (invalidateSecret n)"
  by (simp add: invalidateSecret_def)

lemma run_invalidateSecret: "run E (invalidateSecret n) s w =
    (Inr (), s\<lparr>secretCache := List.filter (\<lambda>p. fst p \<noteq> n) (secretCache s)\<rparr>, w)"
  by (simp add: invalidateSecret_def)

text \<open>Reading secrets and tokens never throws.\<close>

lemma returns_env [simp]: "returns (\<lambda>_. True) (env_or k d)" "returns (\<lambda>_. True) (env_or_empty k d)"
  by (simp_all add: env_or_def env_or_empty_def prim_defs)

lemma secret_name_returns [simp]: "returns (\<lambda>_. True) (secret_name n)"
  by (auto simp: secret_name_def split: option.splits)

lemma cloud_returns [simp]: "returns (\<lambda>_. True) (fetchFromAWSSecretsManager n)"
  "returns (\<lambda>_. True) (fetchFromGCPSecretManager n)"
  unfolding fetchFromAWSSecretsManager_def fetchFromGCPSecretManager_def
  by (intro returns_bnd [where R = "\<lambda>_. True"]; auto split: reply.splits list.splits)+

lemma fetch_secret_returns [simp]: "returns (\<lambda>_. True) (fetch_secret n)"
  unfolding fetch_secret_def PROVIDER_def
  by (intro returns_bnd [where R = "\<lambda>_. True"]) (auto split: option.splits)

lemma getSecret_returns [simp]: "returns (\<lambda>_. True) (getSecretWithOptions n f)"
  by (auto simp: getSecretWithOptions_def now_def split: option.splits)

lemma unique_from_spec:
  "distinct (unique_from seen ts) \<and> set (unique_from seen ts) = trim ` set ts - insert [] (set seen)"
  by (induction seen ts rule: unique_from.induct) (auto simp: Let_def)

lemma unique_from_subseq: "subseq (unique_from seen ts) (map trim ts)"
  by (induction seen ts rule: unique_from.induct) (auto simp: Let_def)

definition clean_tokens :: "string list \<Rightarrow> bool" where
  "clean_tokens ts \<longleftrightarrow> distinct ts \<and> (\<forall>t \<in> set ts. t \<noteq> [] \<and> trim t = t)"

lemma clean_uniqueNonEmpty: "clean_tokens (uniqueNonEmpty ts)"
  using unique_from_spec [of "[]" ts] by (auto simp: clean_tokens_def uniqueNonEmpty_def)

lemma candidates_clean: "returns clean_tokens getInternalApiTokenCandidates"
  unfolding getInternalApiTokenCandidates_def getSecret_def readTokensFromFile_def
  by (intro returns_bnd [where R = "\<lambda>_. True"] returns_catch_True)
    (simp_all add: clean_uniqueNonEmpty)

lemma wp_env_or [simp]:
  "wp Q (env_or k d) s \<longleftrightarrow> Q (Inr (case penv s k of Some x \<Rightarrow> x | None \<Rightarrow> d)) s"
  "wp Q (env_or_empty k d) s \<longleftrightarrow> Q (Inr (case penv s k of Some x \<Rightarrow> if x = [] then d else x | None \<Rightarrow> d)) s"
  by (simp_all add: env_or_def env_or_empty_def wp_bnd)

lemma wp_fetch_secret: "wp (\<lambda>r s'. penv s' = penv s) (fetch_secret n) s"
  by (auto simp: fetch_secret_def PROVIDER_def wp_bnd fetchFromAWSSecretsManager_def fetchFromGCPSecretManager_def
      secret_name_def split: option.splits reply.splits list.splits prod.splits)

lemma wp_getSecret: "wp (\<lambda>r s'. penv s' = penv s) (getSecretWithOptions n f) s"
  by (auto simp: getSecretWithOptions_def wp_fetch_secret wp_bnd split: option.splits)

lemma set_uniqueNonEmpty: "set (uniqueNonEmpty ts) = trim ` set ts - {[]}"
  using unique_from_spec [of "[]" ts] by (simp add: uniqueNonEmpty_def)

section \<open>Properties\<close>



lemma wp_fetch_caches: "wp (\<lambda>r s'. \<exists>v. r = Inr v \<and> (\<exists>c. map_of (secretCache s') n = Some c \<and> cs_value c = v))
    (fetch_secret n) s"
  by (simp add: fetch_secret_def PROVIDER_def wp_bnd fetchFromAWSSecretsManager_def fetchFromGCPSecretManager_def
      secret_name_def cache_put_def split: option.split reply.split list.split prod.split)

lemma wp_getSecret_caches:
  "wp (\<lambda>r s'. \<exists>v. r = Inr v \<and> (\<exists>c. map_of (secretCache s') n = Some c \<and> cs_value c = v)) (getSecret n) s"
  by (auto simp: getSecret_def getSecretWithOptions_def wp_fetch_caches wp_bnd split: option.splits)

text \<open>The secret cache. \<open>getSecret\<close> always returns, and afterwards the cache holds the value it
  returned. Within five minutes of its last retrieval a secret is answered from the cache,
  with no call to a provider and no change of state; later it is read again.\<close>

theorem secret_cache:
  assumes "map_of (secretCache s) name = Some c" and "clock E w = (t, w1)"
  shows "(\<exists>v s' w' c'. run E (getSecret name) s w = (Inr v, s', w') \<and>
      map_of (secretCache s') name = Some c' \<and> cs_value c' = v) \<and>
    (if t - cs_fetchedAt c < 300000
     then run E (getSecret name) s w = (Inr (cs_value c), s, w1) \<and> trace E (getSecret name) s w = []
     else run E (getSecret name) s w = run E (fetch_secret name) s w1)"
proof (rule conjI)
  obtain r s' w' where r: "run E (getSecret name) s w = (r, s', w')" by (cases "run E (getSecret name) s w")
  show "\<exists>v s' w' c'. run E (getSecret name) s w = (Inr v, s', w') \<and>
      map_of (secretCache s') name = Some c' \<and> cs_value c' = v"
    using wp_run [OF wp_getSecret_caches r] r by blast
  show "if t - cs_fetchedAt c < 300000
     then run E (getSecret name) s w = (Inr (cs_value c), s, w1) \<and> trace E (getSecret name) s w = []
     else run E (getSecret name) s w = run E (fetch_secret name) s w1"
    using assms by (simp add: getSecret_def getSecretWithOptions_def now_def CACHE_TTL_MS_def)
qed

theorem secret_cache_witness:
  "run (fixed_env 250000 RNil) (getSecret ''K'')
     (quiet_process\<lparr>secretCache := [(''K'', \<lparr>cs_value = ''v'', cs_fetchedAt = 0\<rparr>)]\<rparr>) () =
   (Inr ''v'', quiet_process\<lparr>secretCache := [(''K'', \<lparr>cs_value = ''v'', cs_fetchedAt = 0\<rparr>)]\<rparr>, ())"
  using secret_cache [of "quiet_process\<lparr>secretCache := [(''K'', \<lparr>cs_value = ''v'', cs_fetchedAt = 0\<rparr>)]\<rparr>" "''K''"
      "\<lparr>cs_value = ''v'', cs_fetchedAt = 0\<rparr>" "fixed_env 250000 RNil" "()" 250000 "()"]
  by (simp add: fixed_env_def)

end
