(* ===== verification/Http.thy ===== *)
theory Http
  imports Errors
begin

text \<open>
  The parts of the web platform that the HTTP clients of the sources use: header lists
  (\<open>Headers.set\<close> replaces without regard to case), percent-encoding of a path segment and
  of a query, and the retry loop of \<open>fetchWithRetry\<close> in lib/rust-auth.ts.
\<close>

section \<open>Headers and urls\<close>

definition headers_set :: "string \<Rightarrow> string \<Rightarrow> headers \<Rightarrow> headers" where
  "headers_set k v hs = List.filter (\<lambda>(a, b). toLowerCase a \<noteq> toLowerCase k) hs @ [(toLowerCase k, v)]"

definition headers_set_all :: "headers \<Rightarrow> headers \<Rightarrow> headers" where
  "headers_set_all new hs = foldl (\<lambda>h (k, v). headers_set k v h) hs new"

definition hex_upper :: "nat \<Rightarrow> char" where
  "hex_upper d = (if d < 10 then char_of (48 + d) else char_of (55 + d))"

definition percent :: "nat \<Rightarrow> string" where
  "percent b = [CHR ''%'', hex_upper (b div 16), hex_upper (b mod 16)]"

text \<open>The UTF-8 bytes of a code unit below 256.\<close>

definition utf8 :: "char \<Rightarrow> nat list" where
  "utf8 c = (let n = code c in if n < 128 then [n] else [192 + n div 64, 128 + n mod 64])"

definition is_alnum :: "char \<Rightarrow> bool" where
  "is_alnum c \<longleftrightarrow> is_digit c \<or> is_lower c \<or> is_upper c"

definition encodeURIComponent :: "string \<Rightarrow> string" where
  "encodeURIComponent s = concat (map (\<lambda>c.
     if is_alnum c \<or> c \<in> {CHR ''-'', CHR ''_'', CHR ''.'', CHR ''!'', CHR ''~'', CHR ''*'', CHR 0x27, CHR ''('', CHR '')''}
     then [c] else concat (map percent (utf8 c))) s)"

text \<open>\<open>new URLSearchParams(..).toString()\<close>.\<close>

definition form_encode :: "string \<Rightarrow> string" where
  "form_encode s = concat (map (\<lambda>c.
     if is_alnum c \<or> c \<in> {CHR ''*'', CHR ''-'', CHR ''.'', CHR ''_''} then [c]
     else if c = CHR '' '' then ''+'' else concat (map percent (utf8 c))) s)"

definition search_params :: "(string \<times> string) list \<Rightarrow> string" where
  "search_params ps = join ''&'' (map (\<lambda>(k, v). form_encode k @ ''='' @ form_encode v) ps)"

definition with_query :: "string \<Rightarrow> (string \<times> string) list \<Rightarrow> string" where
  "with_query url ps = url @ (let qs = search_params ps in if qs = [] then [] else ''?'' @ qs)"

section \<open>Retries\<close>

definition HTTP_MAX_RETRIES :: nat where "HTTP_MAX_RETRIES = 3"
definition HTTP_BASE_DELAY_MS :: int where "HTTP_BASE_DELAY_MS = 200"

text \<open>One turn of the loop: a response to return, or the error to remember.\<close>

definition fetch_once :: "fetch_request \<Rightarrow> (exn + fetch_response) prog" where
  "fetch_once q =
     catch
       (bnd trace_headers (\<lambda>th.
        bnd (fetch (q\<lparr>fq_headers := headers_set_all th (headers_set_all (fq_headers q) [])\<rparr>)) (\<lambda>res.
        if fr_ok res \<or> (400 \<le> fr_status res \<and> fr_status res < 500) then Ret (Inr res)
        else Ret (Inl (JsError (''Gateway returned '' @ show_int (fr_status res)))))))
       (\<lambda>e. Ret (Inl e))"

definition retry_delay :: "nat \<Rightarrow> int" where
  "retry_delay attempt_no = min (HTTP_BASE_DELAY_MS * 2 ^ attempt_no) 5000"

text \<open>\<open>left\<close> counts the retries that remain, \<open>attempt_no\<close> the turns already made.\<close>

primrec fetch_loop :: "nat \<Rightarrow> nat \<Rightarrow> fetch_request \<Rightarrow> fetch_response prog" where
  "fetch_loop 0 attempt_no q = bnd (fetch_once q) (\<lambda>r. case r of Inr res \<Rightarrow> Ret res | Inl e \<Rightarrow> Throw e)"
| "fetch_loop (Suc left) attempt_no q = bnd (fetch_once q) (\<lambda>r. case r of
     Inr res \<Rightarrow> Ret res
   | Inl e \<Rightarrow> bnd random (\<lambda>u.
       sq (sleep \<lfloor>u * of_int (retry_delay attempt_no)\<rfloor>) (fetch_loop left (Suc attempt_no) q)))"

definition fetchWithRetry :: "fetch_request \<Rightarrow> fetch_response prog" where
  "fetchWithRetry q = fetch_loop HTTP_MAX_RETRIES 0 q"

section \<open>Lemmas\<close>

definition is_fetch :: "call \<Rightarrow> bool" where
  "is_fetch c = (case c of CFetch _ \<Rightarrow> True | _ \<Rightarrow> False)"

definition fetches :: "'w environment \<Rightarrow> 'a prog \<Rightarrow> process \<Rightarrow> 'w \<Rightarrow> nat" where
  "fetches E p s w = length (List.filter is_fetch (trace E p s w))"

definition final_response :: "fetch_response \<Rightarrow> bool" where
  "final_response res \<longleftrightarrow> fr_ok res \<or> (400 \<le> fr_status res \<and> fr_status res < 500)"

lemma fetches_bnd: "fetches E (bnd p f) s w = fetches E p s w +
    (case run E p s w of (Inl e, sw) \<Rightarrow> 0 | (Inr x, s', w') \<Rightarrow> fetches E (f x) s' w')"
  by (simp add: fetches_def trace_bnd split: prod.splits sum.splits)

lemma fetches_catch: "fetches E (catch p h) s w = fetches E p s w +
    (case run E p s w of (Inl e, s', w') \<Rightarrow> fetches E (h e) s' w' | (Inr x, sw) \<Rightarrow> 0)"
  by (simp add: fetches_def trace_catch split: prod.splits sum.splits)

lemma fetches_Ret [simp]: "fetches E (Ret x) s w = 0" "fetches E (Throw e) s w = 0"
  by (simp_all add: fetches_def)

lemma fetches_none: "all_calls (\<lambda>c. \<not> is_fetch c) p \<Longrightarrow> fetches E p s w = 0"
  using all_calls_trace [of "\<lambda>c. \<not> is_fetch c" p _ E s w] by (auto simp: fetches_def filter_empty_conv)

lemma is_fetch_simps [simp]: "is_fetch (CFetch q)" "\<not> is_fetch (CRedis rc)" "\<not> is_fetch (CCloudSecret p n)"
  "\<not> is_fetch (CReadFile f)" "\<not> is_fetch CTrace" "\<not> is_fetch CAuth" "\<not> is_fetch (CDb dq)"
  by (simp_all add: is_fetch_def)

lemma run_fetch: "\<exists>x w'. run E (fetch q) s w = (x, s, w') \<and> fetches E (fetch q) s w = 1"
  by (cases "answer E (CFetch q) w"; cases "fst (answer E (CFetch q) w)")
    (simp_all add: fetch_def fetches_def is_fetch_def)

lemma run_trace_headers: "\<exists>h w'. run E trace_headers s w = (Inr h, s, w') \<and> fetches E trace_headers s w = 0"
  by (cases "answer E CTrace w"; cases "fst (answer E CTrace w)")
    (simp_all add: trace_headers_def fetches_def is_fetch_def)

lemma run_random: "\<exists>u w'. run E random s w = (Inr u, s, w') \<and> fetches E random s w = 0"
  by (cases "answer E CRandom w"; cases "fst (answer E CRandom w)")
    (simp_all add: random_def fetches_def is_fetch_def)

lemma run_sleep: "\<exists>w'. run E (sleep ms) s w = (Inr (), s, w') \<and> fetches E (sleep ms) s w = 0"
  by (cases "answer E (CSleep ms) w") (simp add: sleep_def fetches_def is_fetch_def)

text \<open>One turn makes one request and never throws.\<close>

lemma fetch_once_turn:
  obtains r w' where "run E (fetch_once q) s w = (Inr r, s, w')" and "fetches E (fetch_once q) s w = 1"
    and "\<And>res. r = Inr res \<Longrightarrow> final_response res"
proof -
  obtain h w1 where h: "run E trace_headers s w = (Inr h, s, w1)" "fetches E trace_headers s w = 0"
    using run_trace_headers [of E s w] by blast
  obtain x w2 where x: "run E (fetch (q\<lparr>fq_headers := headers_set_all h (headers_set_all (fq_headers q) [])\<rparr>)) s w1 = (x, s, w2)"
    "fetches E (fetch (q\<lparr>fq_headers := headers_set_all h (headers_set_all (fq_headers q) [])\<rparr>)) s w1 = 1"
    using run_fetch [of E _ s w1] by blast
  have "fetches E (fetch_once q) s w = 1"
    using h x by (cases x) (simp_all add: fetch_once_def fetches_catch fetches_bnd run_bnd)
  moreover have "\<exists>r. run E (fetch_once q) s w = (Inr r, s, w2) \<and> (\<forall>res. r = Inr res \<longrightarrow> final_response res)"
    using h x by (cases x) (auto simp: fetch_once_def run_catch run_bnd final_response_def)
  ultimately show ?thesis using that by blast
qed

lemma fetch_loop_bounds:
  "1 \<le> fetches E (fetch_loop n k q) s w \<and> fetches E (fetch_loop n k q) s w \<le> Suc n \<and>
   (case run E (fetch_loop n k q) s w of
      (Inl e, s', w') \<Rightarrow> fetches E (fetch_loop n k q) s w = Suc n \<and> s' = s
    | (Inr res, s', w') \<Rightarrow> final_response res \<and> s' = s)"
proof (induction n arbitrary: k w)
  case 0
  obtain r w' where "run E (fetch_once q) s w = (Inr r, s, w')" "fetches E (fetch_once q) s w = 1"
    "\<And>res. r = Inr res \<Longrightarrow> final_response res" using fetch_once_turn [of E q s w] by metis
  then show ?case by (cases r) (simp_all add: fetches_bnd run_bnd)
next
  case (Suc n)
  obtain r w' where r: "run E (fetch_once q) s w = (Inr r, s, w')" "fetches E (fetch_once q) s w = 1"
    "\<And>res. r = Inr res \<Longrightarrow> final_response res" using fetch_once_turn [of E q s w] by metis
  show ?case
  proof (cases r)
    case (Inl e)
    obtain u w1 where rd: "run E random s w' = (Inr u, s, w1)" "fetches E random s w' = 0"
      using run_random [of E s w'] by blast
    obtain w2 where sl: "run E (sleep \<lfloor>u * of_int (retry_delay k)\<rfloor>) s w1 = (Inr (), s, w2)"
      "fetches E (sleep \<lfloor>u * of_int (retry_delay k)\<rfloor>) s w1 = 0"
      using run_sleep [of E _ s w1] by blast
    have "run E (fetch_loop (Suc n) k q) s w = run E (fetch_loop n (Suc k) q) s w2"
      using r rd sl by (simp add: run_bnd run_sq Inl)
    moreover have "fetches E (fetch_loop (Suc n) k q) s w = Suc (fetches E (fetch_loop n (Suc k) q) s w2)"
      using r rd sl by (simp add: fetches_bnd run_bnd sq_def Inl)
    ultimately show ?thesis using Suc.IH [of "Suc k" w2] by (simp split: prod.splits sum.splits)
  next
    case (Inr res)
    then show ?thesis using r by (simp add: fetches_bnd run_bnd)
  qed
qed

lemma all_calls_fetch_loop [simp]:
  "P CTrace \<Longrightarrow> P CRandom \<Longrightarrow> (\<And>ms. P (CSleep ms)) \<Longrightarrow>
   (\<And>hs. P (CFetch (q\<lparr>fq_headers := hs\<rparr>))) \<Longrightarrow> all_calls P (fetch_loop n k q)"
  by (induction n arbitrary: k) (simp_all add: fetch_once_def)

end
