(* ===== verification/Rust_Auth.thy ===== *)
theory Rust_Auth
  imports Secrets Http
begin

text \<open>
  lib/rust-auth.ts: the client of the Rust auth gateway. \<open>fetchWithRetry\<close> is in theory
  \<open>Http\<close>; here are the validation of a token, the registration of a session and its
  revocation, which try the internal API tokens one after the other. The locale
  \<open>token_gateway\<close> describes a gateway whose answer to an internal request depends on the
  token only; under it the token loops compute the answer of the first token that is not
  rejected.
\<close>

section \<open>Results\<close>

datatype gateway_result = GwData json | GwRejected int string

datatype gw_result = GwOk | GwFail int string

record sync_params =
  sp_sessionId :: string
  sp_userId :: string
  sp_issuedAt :: "int option"
  sp_expiresAt :: int
  sp_deviceInfo :: "string option"

definition GATEWAY_PUBLIC :: "string prog" where
  "GATEWAY_PUBLIC = env_or ''RUST_AUTH_API_URL'' ''http://127.0.0.1:8081''"

definition GATEWAY_INTERNAL :: "string prog" where
  "GATEWAY_INTERNAL = env_or ''AUTH_GATEWAY_INTERNAL_URL'' ''http://127.0.0.1:9091''"

section \<open>Operations\<close>

text \<open>\<open>await res.json()\<close>.\<close>

definition res_json :: "fetch_response \<Rightarrow> json prog" where
  "res_json r = (case fr_json r of Some j \<Rightarrow> Ret j | None \<Rightarrow> Throw (JsError ''Unexpected token in JSON''))"

definition validateToken :: "string \<Rightarrow> gateway_result prog" where
  "validateToken token =
     bnd GATEWAY_PUBLIC (\<lambda>baseUrl.
     if baseUrl = [] then Ret (GwRejected 500 ''RUST_AUTH_API_URL is not configured'')
     else catch
       (bnd (fetchWithRetry \<lparr>fq_method = ''GET'', fq_url = baseUrl @ ''/v1/auth/session'',
               fq_headers = [(''Authorization'', ''Bearer '' @ token), (''Accept'', ''application/json'')],
               fq_body = None\<rparr>) (\<lambda>res.
        if \<not> fr_ok res
        then Ret (GwRejected (fr_status res) (''Gateway rejected token: '' @ show_int (fr_status res)))
        else bnd (res_json res) (\<lambda>data. Ret (GwData data))))
       (\<lambda>e. Ret (GwRejected 503 (exn_message e))))"

definition rejected :: "fetch_response \<Rightarrow> bool" where
  "rejected res \<longleftrightarrow> fr_status res = 401 \<or> fr_status res = 403"

text \<open>The loop over the tokens: the first response that is not a rejection is final.\<close>

primrec token_loop :: "(string \<Rightarrow> fetch_response prog) \<Rightarrow> (fetch_response \<Rightarrow> 'a) \<Rightarrow> 'a prog \<Rightarrow> string list \<Rightarrow> 'a prog" where
  "token_loop send final none [] = none"
| "token_loop send final none (t # ts) =
     bnd (send t) (\<lambda>res. if rejected res then token_loop send final none ts else Ret (final res))"

definition sync_request :: "string \<Rightarrow> sync_params \<Rightarrow> string \<Rightarrow> fetch_response prog" where
  "sync_request baseUrl p token =
     bnd (case sp_issuedAt p of Some t \<Rightarrow> Ret t | None \<Rightarrow> bnd now (\<lambda>t. Ret (t div 1000))) (\<lambda>issued.
     fetchWithRetry \<lparr>fq_method = ''POST'', fq_url = baseUrl @ ''/v1/auth/session'',
       fq_headers = [(''Content-Type'', ''application/json''), (''x-internal-api-token'', token)],
       fq_body = Some (JObj [(''sid'', JStr (sp_sessionId p)), (''user_id'', JStr (sp_userId p)),
         (''issued_at'', JNum issued),
         (''device_info'', case sp_deviceInfo p of Some d \<Rightarrow> JStr d | None \<Rightarrow> JNull),
         (''expires_at'', JNum (sp_expiresAt p))])\<rparr>)"

definition sync_final :: "fetch_response \<Rightarrow> gw_result" where
  "sync_final res = (if fr_ok res then GwOk
     else GwFail (fr_status res) (''Session sync failed: '' @ show_int (fr_status res) @ '' '' @ fr_text res))"

definition syncSession :: "sync_params \<Rightarrow> gw_result prog" where
  "syncSession p =
     bnd GATEWAY_INTERNAL (\<lambda>baseUrl.
     bnd getInternalApiTokenCandidates (\<lambda>tokenCandidates.
     if baseUrl = [] \<or> tokenCandidates = [] then Ret (GwFail 500 ''Internal gateway not configured'')
     else catch
       (token_loop (sync_request baseUrl p) sync_final
          (sq (invalidateSecret ''INTERNAL_API_TOKEN'')
              (Ret (GwFail 401 ''Session sync failed: 401 Invalid internal API token'')))
          tokenCandidates)
       (\<lambda>e. Ret (GwFail 503 (exn_message e)))))"

definition revoke_url :: "string \<Rightarrow> string \<Rightarrow> string option \<Rightarrow> int option \<Rightarrow> string" where
  "revoke_url baseUrl sid jti tokenExp =
     with_query (baseUrl @ ''/v1/auth/session/'' @ encodeURIComponent sid)
       ((case jti of Some j \<Rightarrow> if j = [] then [] else [(''jti'', j)] | None \<Rightarrow> []) @
        (case tokenExp of Some e \<Rightarrow> if e = 0 then [] else [(''token_exp'', show_int e)] | None \<Rightarrow> []))"

definition revoke_request :: "string \<Rightarrow> string \<Rightarrow> fetch_response prog" where
  "revoke_request url token =
     fetchWithRetry \<lparr>fq_method = ''DELETE'', fq_url = url,
       fq_headers = [(''x-internal-api-token'', token)], fq_body = None\<rparr>"

definition revoke_final :: "fetch_response \<Rightarrow> gw_result" where
  "revoke_final res = (if fr_ok res \<or> fr_status res = 404 then GwOk
     else GwFail (fr_status res) (''Force revoke failed: '' @ show_int (fr_status res)))"

definition forceRevokeSession :: "string \<Rightarrow> string option \<Rightarrow> int option \<Rightarrow> gw_result prog" where
  "forceRevokeSession sid jti tokenExp =
     bnd GATEWAY_INTERNAL (\<lambda>baseUrl.
     bnd getInternalApiTokenCandidates (\<lambda>tokenCandidates.
     if baseUrl = [] \<or> tokenCandidates = [] then Ret (GwFail 500 ''Internal gateway not configured'')
     else catch
       (token_loop (revoke_request (revoke_url baseUrl sid jti tokenExp)) revoke_final
          (sq (invalidateSecret ''INTERNAL_API_TOKEN'')
              (Ret (GwFail 401 ''Force revoke failed: 401 Invalid internal API token'')))
          tokenCandidates)
       (\<lambda>e. Ret (GwFail 503 (exn_message e)))))"

section \<open>Lemmas\<close>

text \<open>The three operations never throw.\<close>

lemma validateToken_returns: "returns (\<lambda>_. True) (validateToken t)"
  unfolding validateToken_def GATEWAY_PUBLIC_def
  by (rule returns_bnd [where R = "\<lambda>_. True"]) (auto intro: returns_catch_True)

lemma syncSession_returns: "returns (\<lambda>_. True) (syncSession p)"
  unfolding syncSession_def GATEWAY_INTERNAL_def
  by (intro returns_bnd [where R = "\<lambda>_. True"] returns_mono [OF candidates_clean])
    (auto intro: returns_catch_True)

lemma forceRevokeSession_returns: "returns (\<lambda>_. True) (forceRevokeSession i j e)"
  unfolding forceRevokeSession_def GATEWAY_INTERNAL_def
  by (intro returns_bnd [where R = "\<lambda>_. True"] returns_mono [OF candidates_clean])
    (auto intro: returns_catch_True)

lemma header_get_set: "header_get (headers_set k v hs) k' =
    (if toLowerCase k' = toLowerCase k then Some v else header_get hs k')"
proof -
  have idem: "toLowerCase (toLowerCase x) = toLowerCase x" for x
    by (simp add: toLowerCase_def lower_char_idem)
  have "map_of (map (\<lambda>(a, b). (toLowerCase a, b)) (List.filter (\<lambda>(a, b). toLowerCase a \<noteq> toLowerCase k) hs)) j =
      (if j = toLowerCase k then None else map_of (map (\<lambda>(a, b). (toLowerCase a, b)) hs) j)" for j
    by (induction hs) auto
  then show ?thesis
    by (simp add: header_get_def headers_set_def map_add_def idem split: option.splits)
qed

lemma header_get_set_all:
  "toLowerCase k \<notin> (\<lambda>p. toLowerCase (fst p)) ` set new \<Longrightarrow> header_get (headers_set_all new hs) k = header_get hs k"
  by (induction new arbitrary: hs) (auto simp: headers_set_all_def header_get_set)

section \<open>A gateway that answers by token\<close>

abbreviation "token_header \<equiv> ''x-internal-api-token''"

locale token_gateway =
  fixes E :: "'w environment" and gate :: "string \<Rightarrow> fetch_response"
  assumes gate_law: "header_get (fq_headers q) token_header = Some t \<Longrightarrow> fst (answer E (CFetch q) w) = RFetch (gate t)"
    and gate_final: "final_response (gate t)"
    and trace_law: "fst (answer E CTrace w') = RPairs hs \<Longrightarrow> token_header \<notin> (\<lambda>p. toLowerCase (fst p)) ` set hs"
begin

lemma run_fetch_once:
  assumes "header_get (headers_set_all (fq_headers q) []) token_header = Some t"
  obtains w' where "run E (fetch_once q) s w = (Inr (Inr (gate t)), s, w')"
proof -
  have lower: "toLowerCase token_header = token_header" by code_simp
  define hs where "hs = (case fst (answer E CTrace w) of RPairs h \<Rightarrow> h | _ \<Rightarrow> [])"
  let ?q = "q\<lparr>fq_headers := headers_set_all hs (headers_set_all (fq_headers q) [])\<rparr>"
  let ?w1 = "snd (answer E CTrace w)"
  have "token_header \<notin> (\<lambda>p. toLowerCase (fst p)) ` set hs"
    using trace_law [of w] by (cases "fst (answer E CTrace w)") (simp_all add: hs_def)
  then have g: "fst (answer E (CFetch ?q) ?w1) = RFetch (gate t)"
    by (intro gate_law) (simp add: header_get_set_all assms lower)
  have h: "run E trace_headers s w = (Inr hs, s, ?w1)"
    by (simp add: trace_headers_def hs_def split: prod.splits reply.splits)
  have "run E (fetch ?q) s ?w1 = (Inr (gate t), s, snd (answer E (CFetch ?q) ?w1))"
    using g by (cases "answer E (CFetch ?q) ?w1") (simp add: fetch_def)
  then have "run E (fetch_once q) s w = (Inr (Inr (gate t)), s, snd (answer E (CFetch ?q) ?w1))"
    using gate_final [of t] by (simp add: fetch_once_def run_catch run_bnd h final_response_def)
  then show ?thesis by (rule that)
qed

lemma run_fetchWithRetry:
  assumes "header_get (headers_set_all (fq_headers q) []) token_header = Some t"
  obtains w' where "run E (fetchWithRetry q) s w = (Inr (gate t), s, w')"
proof -
  obtain w' where "run E (fetch_once q) s w = (Inr (Inr (gate t)), s, w')"
    using run_fetch_once [OF assms] by blast
  then have "run E (fetchWithRetry q) s w = (Inr (gate t), s, w')"
    by (simp add: fetchWithRetry_def HTTP_MAX_RETRIES_def numeral_eq_Suc run_bnd)
  then show ?thesis by (rule that)
qed

text \<open>The loop returns the answer to the first token that is not rejected.\<close>

lemma run_token_loop:
  assumes "\<And>t s w. \<exists>w'. run E (send t) s w = (Inr (gate t), s, w')"
  obtains w' where "run E (token_loop send final none ts) s w =
    (case find (\<lambda>t. \<not> rejected (gate t)) ts of
       Some t \<Rightarrow> (Inr (final (gate t)), s, w') | None \<Rightarrow> run E none s w')"
proof -
  have "\<exists>w'. run E (token_loop send final none ts) s w =
    (case find (\<lambda>t. \<not> rejected (gate t)) ts of
       Some t \<Rightarrow> (Inr (final (gate t)), s, w') | None \<Rightarrow> run E none s w')"
  proof (induction ts arbitrary: w)
    case (Cons t ts)
    obtain w1 where w1: "run E (send t) s w = (Inr (gate t), s, w1)" using assms by blast
    show ?case
    proof (cases "rejected (gate t)")
      case True
      then show ?thesis using Cons.IH [of w1] w1 by (simp add: run_bnd)
    next
      case False
      then show ?thesis using w1 by (simp add: run_bnd)
    qed
  qed auto
  then show ?thesis using that by blast
qed

lemma run_sync_request: "\<exists>w'. run E (sync_request b p t) s w = (Inr (gate t), s, w')"
proof -
  have h: "header_get (headers_set_all [(''Content-Type'', ''application/json''), (token_header, t)] []) token_header = Some t"
    by (simp add: headers_set_all_def header_get_set)
  obtain iss w1 where i: "run E (case sp_issuedAt p of Some t \<Rightarrow> Ret t | None \<Rightarrow> bnd now (\<lambda>t. Ret (t div 1000))) s w = (Inr iss, s, w1)"
    by (cases "clock E w"; cases "sp_issuedAt p") (simp_all add: now_def)
  obtain w2 where "run E (fetchWithRetry \<lparr>fq_method = ''POST'', fq_url = b @ ''/v1/auth/session'',
       fq_headers = [(''Content-Type'', ''application/json''), (token_header, t)],
       fq_body = Some (JObj [(''sid'', JStr (sp_sessionId p)), (''user_id'', JStr (sp_userId p)),
         (''issued_at'', JNum iss),
         (''device_info'', case sp_deviceInfo p of Some d \<Rightarrow> JStr d | None \<Rightarrow> JNull),
         (''expires_at'', JNum (sp_expiresAt p))])\<rparr>) s w1 = (Inr (gate t), s, w2)"
    by (rule run_fetchWithRetry [where t = t]) (use h in auto)
  then show ?thesis unfolding sync_request_def by (simp add: run_bnd [of E "case_option _ _ _"] i)
qed

lemma run_revoke_request: "\<exists>w'. run E (revoke_request u t) s w = (Inr (gate t), s, w')"
proof -
  have h: "header_get (headers_set_all [(token_header, t)] []) token_header = Some t"
    by (simp add: headers_set_all_def header_get_set)
  show ?thesis
    unfolding revoke_request_def by (rule run_fetchWithRetry [where t = t]) (use h in auto)
qed

end

section \<open>Properties\<close>

text \<open>C15: retries are bounded. \<open>fetchWithRetry\<close> sends the request at least once and at most four
  times; it returns only a success or a client error, and it throws only after all four
  attempts have failed.\<close>

theorem fetchWithRetry_bounded:
  "1 \<le> fetches E (fetchWithRetry q) s w \<and> fetches E (fetchWithRetry q) s w \<le> 4 \<and>
   (case fst (run E (fetchWithRetry q) s w) of
      Inl e \<Rightarrow> fetches E (fetchWithRetry q) s w = 4
    | Inr res \<Rightarrow> fr_ok res \<or> (400 \<le> fr_status res \<and> fr_status res < 500))"
  using fetch_loop_bounds [of E 3 0 q s w]
  by (cases "run E (fetchWithRetry q) s w")
    (auto simp: fetchWithRetry_def HTTP_MAX_RETRIES_def final_response_def split: sum.splits)


text \<open>An environment for examples: a gateway that accepts one token.\<close>

definition one_token_env :: "string \<Rightarrow> unit environment" where
  "one_token_env good = \<lparr>clock = (\<lambda>w. (0, w)), answer = (\<lambda>c w. (case c of
     CFetch q \<Rightarrow> RFetch \<lparr>fr_status = (if header_get (fq_headers q) token_header = Some good then 200 else 401),
       fr_json = None, fr_text = []\<rparr>
   | _ \<Rightarrow> RNil, w))\<rparr>"

definition one_token_gate :: "string \<Rightarrow> string \<Rightarrow> fetch_response" where
  "one_token_gate good t = \<lparr>fr_status = (if t = good then 200 else 401), fr_json = None, fr_text = []\<rparr>"

interpretation one_token: token_gateway "one_token_env good" "one_token_gate good" for good
  by unfold_locales (auto simp: one_token_env_def one_token_gate_def final_response_def fr_ok_def)

lemma one_token_gateway: "token_gateway (one_token_env good) (one_token_gate good)"
  by (rule one_token.token_gateway_axioms)


end
