(* ===== verification/Queue.thy ===== *)
theory Queue
  imports Redis_Service
begin

text \<open>
  lib/writeright-queue.ts: the Redis structures of the WriteRight jobs. Every exported
  function is a definition here: the queue (a sorted set by time), the status hash of
  a job, the stream of its results, the response cache, the per-minute rate limit and
  the responses kept for idempotent requests. The lemmas give the round trips, the
  order of the queue, the window of the rate limiter and the separation of the keys.
\<close>

section \<open>Payloads\<close>

record writing_job =
  j_id :: string
  j_chatId :: string
  j_userId :: string
  j_messageId :: string
  j_content :: string
  j_tone :: string
  j_mode :: string
  j_output_language :: "string option"
  j_history :: "(string \<times> string) list option" \<comment> \<open>role, content\<close>
  j_intensity :: "int option"
  j_quick :: "bool option"
  j_attempt :: int
  j_traceparent :: "string option"

text \<open>The object \<open>JSON.stringify\<close> sees: an absent optional member is skipped.\<close>

definition opt_member :: "string \<Rightarrow> ('a \<Rightarrow> json) \<Rightarrow> 'a option \<Rightarrow> (string \<times> json) list" where
  "opt_member k f v = (case v of None \<Rightarrow> [] | Some x \<Rightarrow> [(k, f x)])"

definition history_json :: "(string \<times> string) list \<Rightarrow> json" where
  "history_json hs = JArr (map (\<lambda>(r, c). JObj [(''role'', JStr r), (''content'', JStr c)]) hs)"

definition job_json :: "writing_job \<Rightarrow> json" where
  "job_json j = JObj ([(''id'', JStr (j_id j)), (''chatId'', JStr (j_chatId j)), (''userId'', JStr (j_userId j)),
      (''messageId'', JStr (j_messageId j)), (''content'', JStr (j_content j)), (''tone'', JStr (j_tone j)),
      (''mode'', JStr (j_mode j))]
      @ opt_member ''output_language'' JStr (j_output_language j)
      @ opt_member ''history'' history_json (j_history j)
      @ opt_member ''intensity'' JNum (j_intensity j)
      @ opt_member ''quick'' JBool (j_quick j)
      @ [(''attempt'', JNum (j_attempt j))]
      @ opt_member ''traceparent'' JStr (j_traceparent j))"

datatype job_status = Pending | Processing | Completed | Failed_status | Retrying

fun status_name :: "job_status \<Rightarrow> string" where
  "status_name Pending = ''pending''"
| "status_name Processing = ''processing''"
| "status_name Completed = ''completed''"
| "status_name Failed_status = ''failed''"
| "status_name Retrying = ''retrying''"

record job_status_payload =
  st_status :: string
  st_created_at :: string
  st_user_id :: string
  st_chat_id :: string
  st_error :: "string option"

section \<open>Keys\<close>

definition jobsKey :: string where "jobsKey = ns [''writeright'', ''jobs'']"
definition jobStatusKey :: "string \<Rightarrow> string" where "jobStatusKey i = ns [''writeright'', ''job'', i]"
definition jobResultKey :: "string \<Rightarrow> string" where "jobResultKey i = ns [''writeright'', ''result'', i]"
definition cacheKey :: "string \<Rightarrow> string" where "cacheKey h = ns [''writeright'', ''cache'', h]"
definition rateLimitKey :: "string \<Rightarrow> string" where "rateLimitKey u = ns [''writeright'', ''ratelimit'', u]"
definition idempotencyKey :: "string \<Rightarrow> string \<Rightarrow> string" where
  "idempotencyKey u k = ns [''writeright'', ''idempotency'', u, k]"

lemmas key_defs = jobsKey_def jobStatusKey_def jobResultKey_def cacheKey_def rateLimitKey_def
  idempotencyKey_def ns_def

section \<open>The queue\<close>

definition enqueueWriteRightJob :: "writing_job \<Rightarrow> unit prog" where
  "enqueueWriteRightJob job =
     bnd isCircuitOpen (\<lambda>op.
     if op then Throw (createApiError REDIS_UNAVAILABLE ''[writeright-queue] Cannot enqueue: Redis circuit is open'' 503)
     else sq getRedisPool
       (bnd now (\<lambda>score.
        bnd now (\<lambda>t.
        let n = toISOString t; statusKey = jobStatusKey (j_id job) in
        redis_unit (PIPELINE
          [ZADD jobsKey score (stringify (job_json job)),
           HSET statusKey
             [(''status'', ''pending''), (''updated_at'', n), (''created_at'', n), (''user_id'', j_userId job),
              (''chat_id'', j_chatId job),
              (''output_language'', case j_output_language job of Some l \<Rightarrow> l | None \<Rightarrow> ''en'')],
           EXPIRE statusKey 3600])))))"

text \<open>The even positions of the flat reply; a member that does not parse is dropped.\<close>

fun parse_members :: "string list \<Rightarrow> json list" where
  "parse_members [] = []"
| "parse_members [m] = (case parse m of Some j \<Rightarrow> [j] | None \<Rightarrow> [])"
| "parse_members (m # sc # rest) =
     (case parse m of Some j \<Rightarrow> j # parse_members rest | None \<Rightarrow> parse_members rest)"

definition dequeueWriteRightJobs :: "int \<Rightarrow> json list prog" where
  "dequeueWriteRightJobs batchSize =
     bnd isCircuitOpen (\<lambda>op.
     if op then Ret []
     else sq getRedisPool
       (bnd (redis_list (ZPOPMIN jobsKey batchSize)) (\<lambda>results. Ret (parse_members results))))"

section \<open>Status\<close>

definition setJobStatus :: "string \<Rightarrow> job_status \<Rightarrow> int \<Rightarrow> (string \<times> string) list \<Rightarrow> unit prog" where
  "setJobStatus jobId st ttlSecs extra =
     sq getRedisPool
       (bnd now (\<lambda>t.
        redis_unit (PIPELINE
          [HSET (jobStatusKey jobId)
             (hash_put extra [(''status'', status_name st), (''updated_at'', toISOString t)]),
           EXPIRE (jobStatusKey jobId) ttlSecs])))"

definition or_else :: "'a option \<Rightarrow> 'a \<Rightarrow> 'a" where
  "or_else x d = (case x of Some v \<Rightarrow> v | None \<Rightarrow> d)"

definition getJobStatus :: "string \<Rightarrow> job_status_payload option prog" where
  "getJobStatus jobId =
     sq getRedisPool
       (bnd (redis_hash (HGETALL (jobStatusKey jobId))) (\<lambda>data.
        if data = [] then Ret None
        else Ret (Some \<lparr>st_status = or_else (map_of data ''status'') ''pending'',
               st_created_at = or_else (map_of data ''created_at'') [],
               st_user_id = or_else (map_of data ''user_id'') [],
               st_chat_id = or_else (map_of data ''chat_id'') [],
               st_error = map_of data ''error''\<rparr>)))"

section \<open>Results\<close>

definition publishJobResult :: "string \<Rightarrow> json \<Rightarrow> unit prog" where
  "publishJobResult jobId result =
     sq getRedisPool
       (sq (redis_unit (XADD (jobResultKey jobId) ''data'' (stringify result)))
           (redis_unit (EXPIRE (jobResultKey jobId) 3600)))"

definition readJobResult :: "string \<Rightarrow> json option prog" where
  "readJobResult jobId =
     bnd isCircuitOpen (\<lambda>op.
     if op then Ret None
     else sq getRedisPool
       (bnd (redis_entries (XRANGE_FIRST (jobResultKey jobId))) (\<lambda>entries.
        case entries of
          [] \<Rightarrow> Ret None
        | (i, flds) # _ \<Rightarrow> (case map_of flds ''data'' of
              Some d \<Rightarrow> Ret (parse d)
            | None \<Rightarrow> Ret None))))"

section \<open>Response cache\<close>

definition computeInputHash :: "string \<Rightarrow> string \<Rightarrow> string \<Rightarrow> string \<Rightarrow> int \<Rightarrow> string prog" where
  "computeInputHash text tone mode lang intensity =
     call_str (CSha256 (text @ '':'' @ tone @ '':'' @ mode @ '':'' @ lang @ '':'' @ show_int intensity))"

definition cacheAIResponse :: "string \<Rightarrow> json \<Rightarrow> int \<Rightarrow> unit prog" where
  "cacheAIResponse inputHash result ttlSecs =
     bnd isCircuitOpen (\<lambda>op.
     if op then Ret ()
     else sq getRedisPool (redis_unit (SETEX (cacheKey inputHash) ttlSecs (stringify result))))"

text \<open>\<open>if (!cached) return null\<close> and the parse that both readers share.\<close>

definition parse_cached :: "string option \<Rightarrow> json option" where
  "parse_cached c = (case c of None \<Rightarrow> None | Some x \<Rightarrow> if x = [] then None else parse x)"

definition getCachedAIResponse :: "string \<Rightarrow> json option prog" where
  "getCachedAIResponse inputHash =
     bnd isCircuitOpen (\<lambda>op.
     if op then Ret None
     else sq getRedisPool
       (bnd (redis_str (GET (cacheKey inputHash))) (\<lambda>cached. Ret (parse_cached cached))))"

section \<open>Rate limit\<close>

record rate_limit =
  allowed :: bool
  remaining :: int

definition checkRateLimit :: "string \<Rightarrow> int \<Rightarrow> rate_limit prog" where
  "checkRateLimit uid maxPerMinute =
     bnd isCircuitOpen (\<lambda>op.
     if op then Ret \<lparr>allowed = True, remaining = maxPerMinute\<rparr>
     else sq getRedisPool
       (bnd (redis_int (INCR (rateLimitKey uid))) (\<lambda>count.
        sq (whenP (count = 1) (redis_unit (EXPIRE (rateLimitKey uid) 60)))
           (Ret \<lparr>allowed = (count \<le> maxPerMinute), remaining = max 0 (maxPerMinute - count)\<rparr>))))"

section \<open>Idempotent responses\<close>

definition getIdempotentResponse :: "string \<Rightarrow> string \<Rightarrow> json option prog" where
  "getIdempotentResponse uid requestKey =
     bnd isCircuitOpen (\<lambda>op.
     if op then Ret None
     else sq getRedisPool
       (bnd (redis_str (GET (idempotencyKey uid requestKey))) (\<lambda>cached. Ret (parse_cached cached))))"

definition setIdempotentResponse :: "string \<Rightarrow> string \<Rightarrow> json \<Rightarrow> int \<Rightarrow> unit prog" where
  "setIdempotentResponse uid requestKey resp ttlSecs =
     bnd isCircuitOpen (\<lambda>op.
     if op then Ret ()
     else sq getRedisPool (redis_unit (SETEX (idempotencyKey uid requestKey) ttlSecs (stringify resp))))"

lemmas queue_defs = enqueueWriteRightJob_def dequeueWriteRightJobs_def setJobStatus_def getJobStatus_def
  publishJobResult_def readJobResult_def cacheAIResponse_def getCachedAIResponse_def checkRateLimit_def
  getIdempotentResponse_def setIdempotentResponse_def

section \<open>Lemmas\<close>

lemma all_calls_queue [simp]:
  "(\<And>c. P (CRedis c)) \<Longrightarrow> all_calls P (enqueueWriteRightJob job)"
  "(\<And>c. P (CRedis c)) \<Longrightarrow> all_calls P (setJobStatus i st n ex)"
  "(\<And>c. P (CRedis c)) \<Longrightarrow> all_calls P (getJobStatus i)"
  "(\<And>c. P (CRedis c)) \<Longrightarrow> all_calls P (publishJobResult i r)"
  "(\<And>c. P (CRedis c)) \<Longrightarrow> all_calls P (readJobResult i)"
  "(\<And>c. P (CRedis c)) \<Longrightarrow> all_calls P (cacheAIResponse h r n)"
  "(\<And>c. P (CRedis c)) \<Longrightarrow> all_calls P (getCachedAIResponse h)"
  "(\<And>c. P (CRedis c)) \<Longrightarrow> all_calls P (checkRateLimit u m)"
  "(\<And>c. P (CRedis c)) \<Longrightarrow> all_calls P (getIdempotentResponse u k)"
  "(\<And>c. P (CRedis c)) \<Longrightarrow> all_calls P (setIdempotentResponse u k r n)"
  by (simp_all add: queue_defs)

lemma wf_job_json [simp]: "wf_json (job_json j)"
  by (auto simp: job_json_def opt_member_def history_json_def list_all_iff split: option.splits)

lemma job_json_inject: "job_json i = job_json j \<Longrightarrow> j_id i = j_id j"
  by (simp add: job_json_def)

text \<open>Two keys are equal only when they belong to the same family.\<close>

lemma key_eq [simp]:
  "jobStatusKey i = jobStatusKey j \<longleftrightarrow> i = j" "jobResultKey i = jobResultKey j \<longleftrightarrow> i = j"
  "cacheKey i = cacheKey j \<longleftrightarrow> i = j" "rateLimitKey i = rateLimitKey j \<longleftrightarrow> i = j"
  "jobStatusKey i \<noteq> jobsKey" "jobsKey \<noteq> jobStatusKey i"
  by (simp_all add: key_defs)

lemma parse_pops: "map snd z = map (\<lambda>j. stringify (job_json j)) jobs \<Longrightarrow>
    parse_members (flatten_pops z) = map job_json jobs"
  by (induction z arbitrary: jobs) (auto simp: flatten_pops_def parse_stringify)

lemma distinct_jobs: "distinct (map j_id jobs) \<Longrightarrow> distinct (map (\<lambda>j. stringify (job_json j)) jobs)"
  by (induction jobs) (auto dest!: stringify_inject [OF wf_job_json wf_job_json] job_json_inject)

sublocale redis_service \<subseteq> wr_limit: window_limiter E time keys "checkRateLimit uid mx" "rateLimitKey uid" 60
  "\<lambda>n. \<lparr>allowed = (n \<le> mx), remaining = max 0 (mx - n)\<rparr>" for uid mx
proof unfold_locales
  fix s w assume u: "up s (time w)"
  then have "up s (time (ticked w))" by (rule up_later [OF _ time_ticked])
  then show "\<exists>w1. keys w1 = keys w \<and> time w \<le> time w1 \<and> run E (checkRateLimit uid mx) s w =
      run E (limit_core (rateLimitKey uid) 60 (\<lambda>n. \<lparr>allowed = (n \<le> mx), remaining = max 0 (mx - n)\<rparr>)) s w1"
    by (intro exI [of _ "ticked w"])
      (simp add: time_ticked checkRateLimit_def limit_core_def run_bnd run_sq run_circuit up_def run_getRedisPool)
qed simp

context redis_service
begin

lemma run_open_check:
  "up s (time w) \<Longrightarrow> run E (bnd isCircuitOpen (\<lambda>op. if op then p else sq getRedisPool q)) s w = run E q s (ticked w)"
  using time_ticked [of w] by (simp add: run_bnd run_sq run_circuit up_def run_getRedisPool)

text \<open>A value written with a life time is read back until the time is over.\<close>

lemma setex_written:
  assumes "up s (time w)" and "0 < ttl"
  obtains w1 where
    "run E (bnd isCircuitOpen (\<lambda>op. if op then Ret () else sq getRedisPool (redis_unit (SETEX k ttl v)))) s w
      = (Inr (), s, w1)"
    and "keys w1 = (keys w)(k \<mapsto> (VStr v, Some (time w1 + 1000 * ttl)))" and "time w \<le> time w1"
proof
  let ?w1 = "after (SETEX k ttl v) (ticked w)"
  show "run E (bnd isCircuitOpen (\<lambda>op. if op then Ret () else sq getRedisPool (redis_unit (SETEX k ttl v)))) s w
      = (Inr (), s, ?w1)"
    using assms(2) by (simp add: run_open_check [OF assms(1)] run_redis)
  show "keys ?w1 = (keys w)(k \<mapsto> (VStr v, Some (time ?w1 + 1000 * ttl)))"
    using assms(2) by (simp add: keys_after ttl_at_def)
  show "time w \<le> time ?w1" using time_ticked time_after order_trans by blast
qed

lemma cached_read:
  assumes "up s (time w)" and "keys w k = Some (VStr v, Some e)"
  obtains w1 where
    "run E (bnd isCircuitOpen (\<lambda>op. if op then Ret None else sq getRedisPool
        (bnd (redis_str (GET k)) (\<lambda>c. Ret (parse_cached c))))) s w
      = (Inr (parse_cached (if time w1 < e then Some v else None)), s, w1)"
    and "keys w1 = keys w" and "time w \<le> time w1"
proof
  let ?w1 = "after (GET k) (ticked w)"
  have l: "live t (keys w) k = (if t < e then Some (VStr v, Some e) else None)" for t
    using assms(2) by (simp add: live_def)
  show "run E (bnd isCircuitOpen (\<lambda>op. if op then Ret None else sq getRedisPool
        (bnd (redis_str (GET k)) (\<lambda>c. Ret (parse_cached c))))) s w
      = (Inr (parse_cached (if time ?w1 < e then Some v else None)), s, ?w1)"
    unfolding run_open_check [OF assms(1)] by (simp add: run_bnd run_redis l)
  show "keys ?w1 = keys w" by (simp add: keys_after l)
  show "time w \<le> time ?w1" using time_ticked time_after order_trans by blast
qed

lemma enqueue_step:
  assumes "up s (time w)" and "get_zset (time w) (keys w) jobsKey = Some (z, None)"
    and "\<forall>(sc, m) \<in> set z. sc < time w \<and> m \<noteq> stringify (job_json job)"
    and "\<And>c w. time w < time (after c w)"
  obtains w' sc where "run E (enqueueWriteRightJob job) s w = (Inr (), s, w')"
    and "get_zset (time w') (keys w') jobsKey = Some (z @ [(sc, stringify (job_json job))], None)"
    and "sc < time w'" and "time w \<le> sc"
proof -
  let ?w2 = "ticked (ticked (ticked w))"
  let ?n = "toISOString (time ?w2)"
  let ?sc = "time (ticked (ticked w))"
  let ?c = "PIPELINE [ZADD jobsKey ?sc (stringify (job_json job)),
     HSET (jobStatusKey (j_id job)) [(''status'', ''pending''), (''updated_at'', ?n), (''created_at'', ?n),
       (''user_id'', j_userId job), (''chat_id'', j_chatId job),
       (''output_language'', case j_output_language job of Some l \<Rightarrow> l | None \<Rightarrow> ''en'')],
     EXPIRE (jobStatusKey (j_id job)) 3600]"
  let ?w3 = "after ?c ?w2"
  have t: "time w \<le> ?sc" "?sc \<le> time ?w2" "time ?w2 < time ?w3"
    using time_ticked [of w] time_ticked [of "ticked w"] time_ticked [of "ticked (ticked w)"] assms(4) by simp_all
  have "run E (enqueueWriteRightJob job) s w = (Inr (), s, ?w3)"
    unfolding enqueueWriteRightJob_def run_open_check [OF assms(1)]
    by (simp add: run_bnd run_redis Let_def)
  moreover have z: "get_zset (time ?w3) (keys w) jobsKey = Some (z, None)"
    using assms(2) t by (auto simp: get_zset_def live_def split: option.splits if_splits rval.splits)
  have "zset_add ?sc (stringify (job_json job)) z = z @ [(?sc, stringify (job_json job))]"
    using assms(3) t(1) by (intro zset_add_last) auto
  then have k: "snd (redis_exec (time ?w3) (ZADD jobsKey ?sc (stringify (job_json job))) (keys w)) jobsKey =
      Some (VZset (z @ [(?sc, stringify (job_json job))]), None)"
    by (simp add: z put_zset_def)
  have "keys ?w3 jobsKey = Some (VZset (z @ [(?sc, stringify (job_json job))]), None)"
    unfolding k [symmetric] keys_after
    by (simp add: redis_exec_frame keys_ticked del: redis_exec.simps(7,8,14))
  then have "get_zset (time ?w3) (keys ?w3) jobsKey = Some (z @ [(?sc, stringify (job_json job))], None)"
    by (simp add: get_zset_def live_def)
  ultimately show ?thesis using that t by auto
qed

lemma enqueue_all:
  assumes "up s (time w)" and "get_zset (time w) (keys w) jobsKey = Some (z, None)"
    and "\<forall>(sc, m) \<in> set z. sc < time w" and "distinct (map snd z @ map (\<lambda>j. stringify (job_json j)) jobs)"
    and "\<And>c w. time w < time (after c w)"
  shows "\<exists>us w' z'. run E (mapM enqueueWriteRightJob jobs) s w = (Inr us, s, w') \<and> time w \<le> time w' \<and>
    get_zset (time w') (keys w') jobsKey = Some (z @ z', None) \<and> map snd z' = map (\<lambda>j. stringify (job_json j)) jobs"
  using assms(1-4)
proof (induction jobs arbitrary: w z)
  case (Cons job jobs)
  have fresh: "\<forall>(sc, m) \<in> set z. sc < time w \<and> m \<noteq> stringify (job_json job)"
    using Cons.prems(3,4) by force
  obtain w1 sc where w1: "run E (enqueueWriteRightJob job) s w = (Inr (), s, w1)"
      "get_zset (time w1) (keys w1) jobsKey = Some (z @ [(sc, stringify (job_json job))], None)"
      "sc < time w1" "time w \<le> sc"
    using enqueue_step [OF Cons.prems(1,2) fresh assms(5)] by blast
  have "\<exists>us w' z'. run E (mapM enqueueWriteRightJob jobs) s w1 = (Inr us, s, w') \<and> time w1 \<le> time w' \<and>
    get_zset (time w') (keys w') jobsKey = Some ((z @ [(sc, stringify (job_json job))]) @ z', None) \<and>
    map snd z' = map (\<lambda>j. stringify (job_json j)) jobs"
    using Cons.prems(3,4) w1(3,4) up_later [OF Cons.prems(1), of "time w1"]
    by (intro Cons.IH w1(2)) auto
  then obtain us w' z' where "run E (mapM enqueueWriteRightJob jobs) s w1 = (Inr us, s, w')" "time w1 \<le> time w'"
      "get_zset (time w') (keys w') jobsKey = Some ((z @ [(sc, stringify (job_json job))]) @ z', None)"
      "map snd z' = map (\<lambda>j. stringify (job_json j)) jobs" by blast
  with w1(1,3,4) show ?case
    by (intro exI [of _ "() # us"] exI [of _ w'] exI [of _ "(sc, stringify (job_json job)) # z'"])
      (simp add: run_bnd)
qed (use assms(2) in auto)

lemma fifo:
  assumes "up s (time w)" and "live (time w) (keys w) jobsKey = None"
    and "distinct (map j_id jobs)" and "\<And>c w. time w < time (after c w)"
  shows "fst (run E (sq (mapM enqueueWriteRightJob jobs) (dequeueWriteRightJobs n)) s w) =
    Inr (map job_json (take (nat n) jobs))"
proof -
  have "get_zset (time w) (keys w) jobsKey = Some ([], None)" using assms(2) by (simp add: get_zset_def)
  then obtain us w' z where w': "run E (mapM enqueueWriteRightJob jobs) s w = (Inr us, s, w')" "time w \<le> time w'"
      "get_zset (time w') (keys w') jobsKey = Some (z, None)" "map snd z = map (\<lambda>j. stringify (job_json j)) jobs"
    using enqueue_all [OF assms(1) _ _ _ assms(4), of "[]" jobs] distinct_jobs [OF assms(3)] by auto
  let ?w2 = "after (ZPOPMIN jobsKey n) (ticked w')"
  have "time w' \<le> time ?w2" using time_ticked time_after order_trans by blast
  then have z: "get_zset (time ?w2) (keys w') jobsKey = Some (z, None)"
    using w'(3) by (auto simp: get_zset_def live_def split: option.splits if_splits rval.splits)
  have m: "map snd (take (nat n) z) = map (\<lambda>j. stringify (job_json j)) (take (nat n) jobs)"
    using w'(4) by (metis take_map)
  have "run E (dequeueWriteRightJobs n) s w' = (Inr (map job_json (take (nat n) jobs)), s, ?w2)"
    unfolding dequeueWriteRightJobs_def run_open_check [OF up_later [OF assms(1) w'(2)]]
    by (simp add: run_bnd run_redis z parse_pops [OF m])
  then show ?thesis by (simp add: run_sq w'(1))
qed

lemmas rate_limited = wr_limit.window_requests

lemma run_getJobStatus:
  assumes "up s (time w)" and "keys w (jobStatusKey i) = Some (VHash h, Some e)" and "h \<noteq> []"
  shows "run E (getJobStatus i) s w =
    (Inr (if time (after (HGETALL (jobStatusKey i)) w) < e
          then Some \<lparr>st_status = or_else (map_of h ''status'') ''pending'',
               st_created_at = or_else (map_of h ''created_at'') [], st_user_id = or_else (map_of h ''user_id'') [],
               st_chat_id = or_else (map_of h ''chat_id'') [], st_error = map_of h ''error''\<rparr>
          else None), s, after (HGETALL (jobStatusKey i)) w)"
proof -
  have l: "live t (keys w) (jobStatusKey i) = (if t < e then Some (VHash h, Some e) else None)" for t
    using assms(2) by (simp add: live_def)
  show ?thesis
    using assms(1,3) by (simp add: getJobStatus_def run_sq run_getRedisPool up_def run_bnd run_redis l)
qed

lemma enqueue_then_status:
  assumes "up s (time w)" and "live (time w) (keys w) (jobStatusKey (j_id job)) = None"
  obtains w1 n where "run E (enqueueWriteRightJob job) s w = (Inr (), s, w1)" and "time w \<le> time w1"
    and "fst (run E (getJobStatus (j_id job)) s w1) =
      Inr (if time (snd (snd (run E (getJobStatus (j_id job)) s w1))) < time w1 + 3600000
           then Some \<lparr>st_status = ''pending'', st_created_at = n, st_user_id = j_userId job,
                  st_chat_id = j_chatId job, st_error = None\<rparr>
           else None)"
proof -
  let ?w2 = "ticked (ticked (ticked w))"
  let ?n = "toISOString (time ?w2)"
  let ?k = "jobStatusKey (j_id job)"
  let ?z = "ZADD jobsKey (time (ticked (ticked w))) (stringify (job_json job))"
  let ?fs = "[(''status'', ''pending''), (''updated_at'', ?n), (''created_at'', ?n),
       (''user_id'', j_userId job), (''chat_id'', j_chatId job),
       (''output_language'', case j_output_language job of Some l \<Rightarrow> l | None \<Rightarrow> ''en'')]"
  let ?c = "PIPELINE [?z, HSET ?k ?fs, EXPIRE ?k 3600]"
  let ?w3 = "after ?c ?w2"
  have t: "time w \<le> time ?w3"
    using time_ticked [of w] time_ticked [of "ticked w"] time_ticked [of "ticked (ticked w)"] time_after [of ?w2 ?c]
    by linarith
  have r: "run E (enqueueWriteRightJob job) s w = (Inr (), s, ?w3)"
    unfolding enqueueWriteRightJob_def run_open_check [OF assms(1)] by (simp add: run_bnd run_redis Let_def)
  have "snd (redis_exec (time ?w3) ?z (keys w)) ?k = keys w ?k"
    by (rule redis_exec_frame) simp
  then have dead: "live (time ?w3) (snd (redis_exec (time ?w3) ?z (keys w))) ?k = None"
    using live_later [OF assms(2) t] by (simp only: live_def)
  have "hash_put ?fs [] = ?fs" by (simp add: hash_put_fresh)
  then have "keys ?w3 ?k = Some (VHash ?fs, Some (time ?w3 + 3600000))"
    by (simp add: keys_after dead ttl_at_def del: redis_exec.simps(8) hash_put.simps)
  note g = run_getJobStatus [OF up_later [OF assms(1) t] this]
  show ?thesis by (rule that [OF r t, of ?n]) (simp add: g or_else_def)
qed

text \<open>The first entry of a stream that is still alive survives a publication.\<close>

lemma publish_first:
  assumes "up s (time w)" and "live (time w) (keys w) (jobResultKey i) = None"
  obtains w1 en where "run E (publishJobResult i r) s w = (Inr (), s, w1)" and "time w \<le> time w1"
    and "keys w1 (jobResultKey i) = Some (VStream [(en, [(''data'', stringify r)])], Some (time w1 + 3600000))"
proof -
  let ?x = "XADD (jobResultKey i) ''data'' (stringify r)"
  let ?w1 = "after ?x w"
  let ?w2 = "after (EXPIRE (jobResultKey i) 3600) ?w1"
  have t: "time w \<le> time ?w1" "time ?w1 \<le> time ?w2" by (rule time_after)+
  have d: "live (time ?w1) (keys w) (jobResultKey i) = None" by (rule live_later [OF assms(2) t(1)])
  have k: "keys ?w1 = (keys w)(jobResultKey i \<mapsto>
      (VStream [(show_int (time ?w1) @ ''-0'', [(''data'', stringify r)])], None))"
    by (subst keys_after) (simp add: d)
  have "keys ?w2 (jobResultKey i) = Some (VStream [(show_int (time ?w1) @ ''-0'', [(''data'', stringify r)])],
      Some (time ?w2 + 3600000))"
    by (subst keys_after) (simp add: k ttl_at_def)
  moreover have "run E (publishJobResult i r) s w = (Inr (), s, ?w2)"
    using assms(1) by (simp add: publishJobResult_def run_sq run_getRedisPool up_def run_redis d k)
  ultimately show ?thesis using that t order_trans by blast
qed

lemma publish_next:
  assumes "up s (time w)" and "keys w (jobResultKey i) = Some (VStream (x # xs), Some e)"
    and "time (snd (snd (run E (publishJobResult i r) s w))) < e"
  obtains w1 ys e' where "run E (publishJobResult i r) s w = (Inr (), s, w1)" and "time w \<le> time w1"
    and "keys w1 (jobResultKey i) = Some (VStream (x # ys), Some (time w1 + 3600000))"
proof -
  let ?x = "XADD (jobResultKey i) ''data'' (stringify r)"
  let ?w1 = "after ?x w"
  let ?w2 = "after (EXPIRE (jobResultKey i) 3600) ?w1"
  have t: "time w \<le> time ?w1" "time ?w1 \<le> time ?w2" by (rule time_after)+
  have run: "run E (publishJobResult i r) s w = (if time ?w1 < e then (Inr (), s, ?w2)
      else run E (publishJobResult i r) s w)"
    using assms(1,2)
    by (simp add: publishJobResult_def run_sq run_getRedisPool up_def run_redis keys_after live_def Let_def)
  have "snd (snd (run E (redis_unit ?x) s w)) = ?w1"
    by (simp add: run_redis split: reply.splits)
  then have "time ?w1 \<le> time (snd (snd (run E (publishJobResult i r) s w)))"
    using assms(1) time_bnd [where p = "redis_unit ?x" and s = s and w = w]
    by (simp add: publishJobResult_def run_sq run_getRedisPool up_def sq_def run_bnd)
  then have alive: "time ?w1 < e" using assms(3) by simp
  then have k: "keys ?w1 (jobResultKey i) = Some (VStream (x # xs @
      [(show_int (time ?w1) @ ''-'' @ show_nat (length (x # xs)), [(''data'', stringify r)])]), Some e)"
    using assms(2) by (subst keys_after) (simp add: live_def Let_def)
  have "run E (publishJobResult i r) s w = (Inr (), s, ?w2)" using run alive by simp
  moreover from this have "time ?w2 < e" using assms(3) by simp
  with k have "keys ?w2 (jobResultKey i) = Some (VStream (x # xs @
      [(show_int (time ?w1) @ ''-'' @ show_nat (length (x # xs)), [(''data'', stringify r)])]), Some (time ?w2 + 3600000))"
    by (subst keys_after) (simp add: live_def ttl_at_def)
  ultimately show ?thesis using that t order_trans by blast
qed

lemma read_first:
  assumes "up s (time w)" and "keys w (jobResultKey i) = Some (VStream ((en, [(''data'', d)]) # xs), Some e)"
    and "time (snd (snd (run E (readJobResult i) s w))) < e"
  shows "fst (run E (readJobResult i) s w) = Inr (parse d)"
proof -
  let ?w1 = "after (XRANGE_FIRST (jobResultKey i)) (ticked w)"
  have "snd (snd (run E (readJobResult i) s w)) = ?w1"
    unfolding readJobResult_def run_open_check [OF assms(1)]
    using assms(2) by (simp add: run_bnd run_redis live_def)
  then have "time ?w1 < e" using assms(3) by simp
  then show ?thesis
    unfolding readJobResult_def run_open_check [OF assms(1)]
    using assms(2) by (simp add: run_bnd run_redis live_def)
qed

lemma publish_many:
  assumes "up s (time w)" and "keys w (jobResultKey i) = Some (VStream (x # xs), Some e)" and "T \<le> e"
    and "T \<le> time w + 3600000" and "time (snd (snd (run E (mapM (publishJobResult i) rs) s w))) < T"
  shows "\<exists>us w1 ys e'. run E (mapM (publishJobResult i) rs) s w = (Inr us, s, w1) \<and> time w \<le> time w1 \<and>
    keys w1 (jobResultKey i) = Some (VStream (x # ys), Some e') \<and> T \<le> e'"
  using assms
proof (induction rs arbitrary: w xs e)
  case (Cons r rs)
  have "time (snd (snd (run E (publishJobResult i r) s w))) < e"
    using time_bnd_less [of "publishJobResult i r" _ s w T] Cons.prems(3,5) by force
  then obtain w1 ys where w1: "run E (publishJobResult i r) s w = (Inr (), s, w1)" "time w \<le> time w1"
      "keys w1 (jobResultKey i) = Some (VStream (x # ys), Some (time w1 + 3600000))"
    using publish_next [OF Cons.prems(1,2)] by blast
  have "time (snd (snd (run E (mapM (publishJobResult i) rs) s w1))) < T"
    using Cons.prems(5) w1(1) by (cases "run E (mapM (publishJobResult i) rs) s w1") (auto simp: run_bnd split: sum.splits)
  with w1 Cons.prems(4) Cons.IH [OF up_later [OF Cons.prems(1) w1(2)] w1(3)]
  show ?case by (fastforce simp: run_bnd)
qed auto

lemma first_result_stays:
  assumes "up s (time w)" and "live (time w) (keys w) (jobResultKey i) = None" and "wf_json r"
    and "time (snd (snd (run E (sq (publishJobResult i r) (sq (mapM (publishJobResult i) rs) (readJobResult i))) s w)))
      < time w + 3600000"
  shows "fst (run E (sq (publishJobResult i r) (sq (mapM (publishJobResult i) rs) (readJobResult i))) s w) = Inr (Some r)"
proof -
  obtain w1 en where w1: "run E (publishJobResult i r) s w = (Inr (), s, w1)" "time w \<le> time w1"
      "keys w1 (jobResultKey i) = Some (VStream [(en, [(''data'', stringify r)])], Some (time w1 + 3600000))"
    using publish_first [OF assms(1,2)] by blast
  have "run E (sq (publishJobResult i r) (sq (mapM (publishJobResult i) rs) (readJobResult i))) s w =
      run E (bnd (mapM (publishJobResult i) rs) (\<lambda>_. readJobResult i)) s w1"
    unfolding run_sq [of E "publishJobResult i r"] by (simp add: w1(1) sq_def)
  then have "time (snd (snd (run E (mapM (publishJobResult i) rs) s w1))) < time w + 3600000"
    using assms(4) by (metis time_bnd_less)
  then obtain us w2 ys e where w2: "run E (mapM (publishJobResult i) rs) s w1 = (Inr us, s, w2)" "time w1 \<le> time w2"
      "keys w2 (jobResultKey i) = Some (VStream ((en, [(''data'', stringify r)]) # ys), Some e)" "time w + 3600000 \<le> e"
    using publish_many [OF up_later [OF assms(1) w1(2)] w1(3), of "time w + 3600000" rs] w1(2) by auto
  have "time (snd (snd (run E (readJobResult i) s w2))) < e"
    using assms(4) w1(1) w2(1,4) by (simp add: run_sq)
  then have "fst (run E (readJobResult i) s w2) = Inr (Some r)"
    using read_first [OF _ w2(3)] up_later [OF assms(1)] w1(2) w2(2) parse_stringify [OF assms(3)] by force
  then show ?thesis using w1(1) w2(1) by (simp add: run_sq)
qed

lemma cache_replay:
  assumes "up s (time w)" and "0 < ttl" and "wf_json r"
  obtains w1 where
    "run E (bnd isCircuitOpen (\<lambda>op. if op then Ret () else sq getRedisPool (redis_unit (SETEX k ttl (stringify r))))) s w
      = (Inr (), s, w1)"
    and "\<And>w2. keys w2 k = keys w1 k \<Longrightarrow> time w1 \<le> time w2 \<Longrightarrow>
      \<exists>w3. run E (bnd isCircuitOpen (\<lambda>op. if op then Ret None else sq getRedisPool
          (bnd (redis_str (GET k)) (\<lambda>c. Ret (parse_cached c))))) s w2
        = (Inr (if time w3 < time w1 + 1000 * ttl then Some r else None), s, w3)"
proof -
  obtain w1 where w1: "run E (bnd isCircuitOpen (\<lambda>op. if op then Ret ()
        else sq getRedisPool (redis_unit (SETEX k ttl (stringify r))))) s w = (Inr (), s, w1)"
      "keys w1 = (keys w)(k \<mapsto> (VStr (stringify r), Some (time w1 + 1000 * ttl)))" "time w \<le> time w1"
    using setex_written [OF assms(1,2)] by blast
  have "\<exists>w3. run E (bnd isCircuitOpen (\<lambda>op. if op then Ret None else sq getRedisPool
          (bnd (redis_str (GET k)) (\<lambda>c. Ret (parse_cached c))))) s w2
        = (Inr (if time w3 < time w1 + 1000 * ttl then Some r else None), s, w3)"
    if "keys w2 k = keys w1 k" "time w1 \<le> time w2" for w2
  proof -
    have "keys w2 k = Some (VStr (stringify r), Some (time w1 + 1000 * ttl))" using that(1) w1(2) by simp
    moreover have "up s (time w2)" using up_later [OF assms(1)] w1(3) that(2) by simp
    ultimately obtain w3 where "run E (bnd isCircuitOpen (\<lambda>op. if op then Ret None else sq getRedisPool
          (bnd (redis_str (GET k)) (\<lambda>c. Ret (parse_cached c))))) s w2
        = (Inr (parse_cached (if time w3 < time w1 + 1000 * ttl then Some (stringify r) else None)), s, w3)"
      using cached_read by blast
    then show ?thesis
      by (intro exI [of _ w3]) (simp add: parse_cached_def parse_stringify [OF assms(3)])
  qed
  then show ?thesis using that w1(1) by blast
qed

end

section \<open>Properties\<close>


definition sample_job :: "string \<Rightarrow> writing_job" where
  "sample_job i = \<lparr>j_id = i, j_chatId = ''c'', j_userId = ''u'', j_messageId = ''m'', j_content = ''hi'',
     j_tone = ''Friendly'', j_mode = ''email'', j_output_language = Some ''en'', j_history = None,
     j_intensity = Some 3, j_quick = Some False, j_attempt = 0, j_traceparent = None\<rparr>"

lemma sample_job_simps [simp]: "j_id (sample_job i) = i" "j_userId (sample_job i) = ''u''"
  "j_chatId (sample_job i) = ''c''"
  by (simp_all add: sample_job_def)

lemma up_node_process [simp]: "up node_process t \<longleftrightarrow> 0 \<le> t"
  by (simp add: up_def initial_circuit_def)

lemma mem_at_simps [simp]: "m_time (mem_at t) = t" "live t' (m_keys (mem_at t)) k = None"
  by (simp_all add: mem_at_def live_def)


text \<open>C7: the rate limit. In a window that starts fresh (no counter, or an expired one), of \<open>n\<close>
  requests of a user within sixty seconds exactly the first \<open>maxPerMinute\<close> are allowed, and
  the remaining budget that is reported counts down to zero.\<close>

theorem rate_limit_window:
  assumes "redis_service E time keys" and "up s (time w)"
    and "live (time w) (keys w) (rateLimitKey uid) = None"
    and "time (snd (snd (run E (mapM (\<lambda>_. checkRateLimit uid mx) (replicate n ())) s w))) < time w + 60000"
  shows "fst (run E (mapM (\<lambda>_. checkRateLimit uid mx) (replicate n ())) s w) =
    Inr (map (\<lambda>i. \<lparr>allowed = (int i + 1 \<le> mx), remaining = max 0 (mx - (int i + 1))\<rparr>) [0..<n])"
  using redis_service.rate_limited [OF assms(1-3), of mx "replicate n ()"] assms(4) by simp

theorem rate_limit_window_witness:
  "fst (run (mem_env (\<lambda>_. RNil)) (mapM (\<lambda>_. checkRateLimit ''u'' 2) (replicate 3 ())) node_process (mem_at 7)) =
    Inr (map (\<lambda>i. \<lparr>allowed = (int i + 1 \<le> 2), remaining = max 0 (2 - (int i + 1))\<rparr>) [0..<3])"
  by (rule rate_limit_window [OF mem_service]) (code_simp)+

text \<open>The status of a new job. After a job has been enqueued, \<open>getJobStatus\<close> reports it as
  pending, with its owner and its chat and no error, for one hour, and as unknown after
  that, even if the queue key itself holds a value of another type.\<close>

theorem enqueue_status_pending:
  assumes "redis_service E time keys" and "up s (time w)"
    and "live (time w) (keys w) (jobStatusKey (j_id job)) = None"
  shows "\<exists>w1 n. run E (enqueueWriteRightJob job) s w = (Inr (), s, w1) \<and>
    fst (run E (getJobStatus (j_id job)) s w1) =
      Inr (if time (snd (snd (run E (getJobStatus (j_id job)) s w1))) < time w1 + 3600000
           then Some \<lparr>st_status = ''pending'', st_created_at = n, st_user_id = j_userId job,
                  st_chat_id = j_chatId job, st_error = None\<rparr>
           else None)"
  using redis_service.enqueue_then_status [OF assms] by metis

theorem enqueue_status_pending_witness:
  "\<exists>w1 n. run (mem_env (\<lambda>_. RNil)) (enqueueWriteRightJob (sample_job ''j'')) node_process (mem_at 0) = (Inr (), node_process, w1) \<and>
    fst (run (mem_env (\<lambda>_. RNil)) (getJobStatus ''j'') node_process w1) =
      Inr (if m_time (snd (snd (run (mem_env (\<lambda>_. RNil)) (getJobStatus ''j'') node_process w1))) < m_time w1 + 3600000
           then Some \<lparr>st_status = ''pending'', st_created_at = n, st_user_id = ''u'',
                  st_chat_id = ''c'', st_error = None\<rparr>
           else None)"
  using enqueue_status_pending [OF mem_service, of node_process "mem_at 0" "sample_job ''j''" "\<lambda>_. RNil"]
  by (simp only: sample_job_simps up_node_process mem_at_simps order_refl simp_thms)

text \<open>Responses are replayed. A response stored under an idempotency key is returned for the
  same user and key until its life time is over, whatever happens to other keys in
  between, and is forgotten afterwards.\<close>

theorem idempotent_replay:
  assumes "redis_service E time keys" and "up s (time w)" and "0 < ttl" and "wf_json r"
  shows "\<exists>w1. run E (setIdempotentResponse uid k r ttl) s w = (Inr (), s, w1) \<and>
    (\<forall>w2. keys w2 (idempotencyKey uid k) = keys w1 (idempotencyKey uid k) \<and> time w1 \<le> time w2 \<longrightarrow>
      (\<exists>w3. run E (getIdempotentResponse uid k) s w2 =
        (Inr (if time w3 < time w1 + 1000 * ttl then Some r else None), s, w3)))"
  unfolding setIdempotentResponse_def getIdempotentResponse_def
  by (rule redis_service.cache_replay [OF assms, of "idempotencyKey uid k"]) blast

theorem idempotent_replay_witness:
  "\<exists>w1. run (mem_env (\<lambda>_. RNil)) (setIdempotentResponse ''u'' ''k'' (JStr ''x'') 60) node_process (mem_at 0) = (Inr (), node_process, w1) \<and>
    (\<forall>w2. m_keys w2 (idempotencyKey ''u'' ''k'') = m_keys w1 (idempotencyKey ''u'' ''k'') \<and> m_time w1 \<le> m_time w2 \<longrightarrow>
      (\<exists>w3. run (mem_env (\<lambda>_. RNil)) (getIdempotentResponse ''u'' ''k'') node_process w2 =
        (Inr (if m_time w3 < m_time w1 + 1000 * 60 then Some (JStr ''x'') else None), node_process, w3)))"
  by (rule idempotent_replay [OF mem_service]) simp_all

text \<open>The response cache. What is cached for an input hash is found again until the life time
  is over, and a later write for another input does not disturb it.\<close>

theorem cache_round_trip:
  assumes "redis_service E time keys" and "up s (time w)" and "0 < ttl" and "wf_json r"
  shows "\<exists>w1. run E (cacheAIResponse h r ttl) s w = (Inr (), s, w1) \<and>
    (\<forall>w2. keys w2 (cacheKey h) = keys w1 (cacheKey h) \<and> time w1 \<le> time w2 \<longrightarrow>
      (\<exists>w3. run E (getCachedAIResponse h) s w2 =
        (Inr (if time w3 < time w1 + 1000 * ttl then Some r else None), s, w3)))"
  unfolding cacheAIResponse_def getCachedAIResponse_def
  by (rule redis_service.cache_replay [OF assms, of "cacheKey h"]) blast

theorem cache_round_trip_witness:
  "\<exists>w1. run (mem_env (\<lambda>_. RNil)) (cacheAIResponse ''h'' (JArr []) 3600) node_process (mem_at 0) = (Inr (), node_process, w1) \<and>
    (\<forall>w2. m_keys w2 (cacheKey ''h'') = m_keys w1 (cacheKey ''h'') \<and> m_time w1 \<le> m_time w2 \<longrightarrow>
      (\<exists>w3. run (mem_env (\<lambda>_. RNil)) (getCachedAIResponse ''h'') node_process w2 =
        (Inr (if m_time w3 < m_time w1 + 1000 * 3600 then Some (JArr []) else None), node_process, w3)))"
  by (rule cache_round_trip [OF mem_service]) simp_all

text \<open>Which result is read. Of all the results published for a job within the hour,
  \<open>readJobResult\<close> returns the one published first, not the latest.\<close>

theorem first_result_read:
  assumes "redis_service E time keys" and "up s (time w)"
    and "live (time w) (keys w) (jobResultKey i) = None" and "wf_json r"
    and "time (snd (snd (run E (sq (publishJobResult i r) (sq (mapM (publishJobResult i) rs) (readJobResult i))) s w)))
      < time w + 3600000"
  shows "fst (run E (sq (publishJobResult i r) (sq (mapM (publishJobResult i) rs) (readJobResult i))) s w) = Inr (Some r)"
  by (rule redis_service.first_result_stays [OF assms])

theorem first_result_read_witness:
  "fst (run (mem_env (\<lambda>_. RNil)) (sq (publishJobResult ''j'' (JNum 1))
      (sq (mapM (publishJobResult ''j'') [JNum 2, JNum 3]) (readJobResult ''j''))) node_process (mem_at 0)) = Inr (Some (JNum 1))"
  by (rule first_result_read [OF mem_service]) code_simp+

text \<open>The keys of the queue module do not collide: the status, result, cache and rate-limit
  keys are injective in their argument, the families are pairwise disjoint, and the queue
  key belongs to none of them. Idempotency keys are unambiguous for user ids without a
  colon.\<close>

theorem queue_keys_separate:
  assumes "CHR '':'' \<notin> set u" and "CHR '':'' \<notin> set u'"
  shows "(jobStatusKey i = jobStatusKey j \<longleftrightarrow> i = j) \<and> (jobResultKey i = jobResultKey j \<longleftrightarrow> i = j) \<and>
    (cacheKey i = cacheKey j \<longleftrightarrow> i = j) \<and> (rateLimitKey i = rateLimitKey j \<longleftrightarrow> i = j) \<and>
    (idempotencyKey u k = idempotencyKey u' k' \<longleftrightarrow> u = u' \<and> k = k') \<and>
    distinct [jobsKey, jobStatusKey a, jobResultKey b, cacheKey c, rateLimitKey d, idempotencyKey e k]"
  using assms by (simp add: key_defs append_eq_append_colon)

theorem queue_keys_separate_witness:
  "idempotencyKey ''user_1'' ''a:b'' \<noteq> idempotencyKey ''user_2'' ''a:b''"
  using queue_keys_separate [of "''user_1''" "''user_2''" "[]" "[]" "''a:b''" "''a:b''" "[]" "[]" "[]" "[]" "[]"] by simp

end
