(* ===== verification/Reconciliation.thy ===== *)
theory Reconciliation
  imports Redis_Service Rust_Auth Queue
begin

text \<open>
  lib/reconciliation-worker.ts: the durable queue of failed auth operations. An operation is
  enqueued at most once while it is pending (idempotency key), a worker takes due entries
  under a short lock, executes them against the auth gateway, and retries with exponential
  back-off until the attempts are exhausted and the entry moves to the dead-letter queue.
  Session versions keep a delayed session registration from undoing a later logout.
\<close>

section \<open>Operations and entries\<close>

datatype recon_op =
    TokenRevocation string int \<comment> \<open>\<open>jti\<close>, \<open>ttl_secs\<close>\<close>
  | SessionSync string string int int \<comment> \<open>\<open>sessionId\<close>, \<open>userId\<close>, \<open>expiresAt\<close>, \<open>expectedVersion\<close>\<close>
  | SessionRevoke string "string option" "int option" "int option" \<comment> \<open>\<open>sessionId\<close>, \<open>jti\<close>, \<open>tokenExp\<close>, \<open>targetVersion\<close>\<close>

record queue_entry =
  q_id :: string
  q_op :: recon_op
  q_attempt :: int
  q_maxAttempts :: int
  q_createdAt :: int
  q_traceparent :: "string option"
  q_tracestate :: "string option"
  q_lastError :: "string option"

fun op_json :: "recon_op \<Rightarrow> json" where
  "op_json (TokenRevocation jti ttl) =
     JObj [(''type'', JStr ''token_revocation''), (''jti'', JStr jti), (''ttl_secs'', JNum ttl)]"
| "op_json (SessionSync sid uid xp v) =
     JObj [(''type'', JStr ''session_sync''), (''sessionId'', JStr sid), (''userId'', JStr uid),
       (''expiresAt'', JNum xp), (''expectedVersion'', JNum v)]"
| "op_json (SessionRevoke sid jti xp tv) =
     JObj ([(''type'', JStr ''session_revoke''), (''sessionId'', JStr sid)] @ opt_member ''jti'' JStr jti @
       opt_member ''tokenExp'' JNum xp @ opt_member ''targetVersion'' JNum tv)"

definition entry_json :: "queue_entry \<Rightarrow> json" where
  "entry_json e = JObj ([(''id'', JStr (q_id e)), (''op'', op_json (q_op e)), (''attempt'', JNum (q_attempt e)),
      (''maxAttempts'', JNum (q_maxAttempts e)), (''createdAt'', JNum (q_createdAt e))]
      @ opt_member ''traceparent'' JStr (q_traceparent e) @ opt_member ''tracestate'' JStr (q_tracestate e)
      @ opt_member ''lastError'' JStr (q_lastError e))"

text \<open>
  The entry a parsed value stands for. The sources cast without a check; a value of
  another shape makes the accesses that follow throw, so it is \<^const>\<open>None\<close> here.
\<close>

definition read_op :: "json \<Rightarrow> recon_op option" where
  "read_op j =
     (case as_str (jfield ''type'' j) of
        None \<Rightarrow> None
      | Some ty \<Rightarrow>
          if ty = ''token_revocation'' then
            (case (as_str (jfield ''jti'' j), as_int (jfield ''ttl_secs'' j)) of
               (Some i, Some n) \<Rightarrow> Some (TokenRevocation i n) | _ \<Rightarrow> None)
          else if ty = ''session_sync'' then
            (case (as_str (jfield ''sessionId'' j), as_str (jfield ''userId'' j), as_int (jfield ''expiresAt'' j),
                   as_int (jfield ''expectedVersion'' j)) of
               (Some i, Some u, Some e, Some v) \<Rightarrow> Some (SessionSync i u e v) | _ \<Rightarrow> None)
          else if ty = ''session_revoke'' then
            (case as_str (jfield ''sessionId'' j) of
               Some i \<Rightarrow> Some (SessionRevoke i (as_str (jfield ''jti'' j)) (as_int (jfield ''tokenExp'' j))
                          (as_int (jfield ''targetVersion'' j)))
             | None \<Rightarrow> None)
          else None)"

definition read_entry :: "json \<Rightarrow> queue_entry option" where
  "read_entry j =
     (case (as_str (jfield ''id'' j), jfield ''op'' j, as_int (jfield ''attempt'' j),
            as_int (jfield ''maxAttempts'' j), as_int (jfield ''createdAt'' j)) of
        (Some i, Some o1, Some a, Some m, Some c) \<Rightarrow>
          (case read_op o1 of
             Some op \<Rightarrow> Some \<lparr>q_id = i, q_op = op, q_attempt = a, q_maxAttempts = m, q_createdAt = c,
                 q_traceparent = as_str (jfield ''traceparent'' j), q_tracestate = as_str (jfield ''tracestate'' j),
                 q_lastError = as_str (jfield ''lastError'' j)\<rparr>
           | None \<Rightarrow> None)
      | _ \<Rightarrow> None)"

section \<open>Constants and keys\<close>

definition PENDING_QUEUE :: string where "PENDING_QUEUE = ''reconciliation:pending''"
definition DLQ_QUEUE :: string where "DLQ_QUEUE = ''reconciliation:dlq''"
definition IDEM_PREFIX :: string where "IDEM_PREFIX = ''reconciliation:idem:''"
definition IDEM_TTL_SECS :: int where "IDEM_TTL_SECS = 86400"
definition MAX_ATTEMPTS :: int where "MAX_ATTEMPTS = 5"
definition BASE_DELAY_MS :: int where "BASE_DELAY_MS = 1000"
definition POLL_INTERVAL_MS :: int where "POLL_INTERVAL_MS = 5000"
definition BATCH_SIZE :: int where "BATCH_SIZE = 10"
definition MAX_QUEUE_SIZE :: int where "MAX_QUEUE_SIZE = 5000"
definition CIRCUIT_FAILURE_THRESHOLD :: int where "CIRCUIT_FAILURE_THRESHOLD = 20"
definition RECON_COOLDOWN_MS :: int where "RECON_COOLDOWN_MS = 30000"
definition WORKER_LOCK_TTL_SECS :: int where "WORKER_LOCK_TTL_SECS = 15"
definition MAX_ENQUEUE_PER_SECOND :: int where "MAX_ENQUEUE_PER_SECOND = 200"
definition SESSION_VERSION_PREFIX :: string where "SESSION_VERSION_PREFIX = ''session_version:''"

definition idemKey :: "string \<Rightarrow> string" where "idemKey i = IDEM_PREFIX @ i"
definition lockKey :: "string \<Rightarrow> string" where "lockKey i = ''reconciliation:lock:'' @ i"
definition sessionVersionKey :: "string \<Rightarrow> string" where "sessionVersionKey i = SESSION_VERSION_PREFIX @ i"

lemmas recon_key_defs = PENDING_QUEUE_def DLQ_QUEUE_def IDEM_PREFIX_def idemKey_def lockKey_def
  sessionVersionKey_def SESSION_VERSION_PREFIX_def

section \<open>Helpers\<close>

fun generateOperationId :: "recon_op \<Rightarrow> string" where
  "generateOperationId (TokenRevocation jti ttl) = ''revoke:'' @ jti"
| "generateOperationId (SessionSync sid uid xp v) = ''sync:'' @ sid @ '':v'' @ show_int v"
| "generateOperationId (SessionRevoke sid jti xp tv) =
     (case tv of Some v \<Rightarrow> ''logout:'' @ sid @ '':v'' @ show_int v | None \<Rightarrow> ''logout:'' @ sid)"

definition allowEnqueueNow :: "bool prog" where
  "allowEnqueueNow =
     bnd now (\<lambda>t. GetS (\<lambda>s.
       let sec = t div 1000;
           win = (if win_sec (window s) \<noteq> sec then \<lparr>win_sec = sec, win_count = 0\<rparr> else window s);
           win' = win\<lparr>win_count := win_count win + 1\<rparr>
       in PutS (s\<lparr>window := win'\<rparr>) (Ret (win_count win' \<le> MAX_ENQUEUE_PER_SECOND))))"

definition getSessionVersion :: "string \<Rightarrow> int prog" where
  "getSessionVersion sid =
     bnd (redis_str (GET (sessionVersionKey sid))) (\<lambda>raw.
     Ret (case raw of None \<Rightarrow> 0 | Some x \<Rightarrow> (case parseInt x of Some n \<Rightarrow> n | None \<Rightarrow> 0)))"

definition setSessionVersion :: "string \<Rightarrow> int \<Rightarrow> unit prog" where
  "setSessionVersion sid version =
     bnd (getSessionVersion sid) (\<lambda>current.
     whenP (current < version) (redis_unit (SETEX (sessionVersionKey sid) IDEM_TTL_SECS (show_int version))))"

fun ensureSessionVersion :: "recon_op \<Rightarrow> unit prog" where
  "ensureSessionVersion (SessionSync sid uid xp v) = setSessionVersion sid v"
| "ensureSessionVersion (SessionRevoke sid jti xp tv) =
     (case tv of Some v \<Rightarrow> setSessionVersion sid v | None \<Rightarrow> Ret ())"
| "ensureSessionVersion _ = Ret ()"

definition bumpSessionVersion :: "string \<Rightarrow> int prog" where
  "bumpSessionVersion sid =
     sq getRedisPool
       (catch
         (bnd (redis_int (INCR (sessionVersionKey sid))) (\<lambda>nxt.
          sq (redis_unit (EXPIRE (sessionVersionKey sid) IDEM_TTL_SECS)) (Ret nxt)))
         (\<lambda>_. Ret 0))"

definition readSessionVersion :: "string \<Rightarrow> int prog" where
  "readSessionVersion sid = sq getRedisPool (catch (getSessionVersion sid) (\<lambda>_. Ret 0))"

section \<open>Enqueue\<close>

definition enqueueReconciliation :: "recon_op \<Rightarrow> unit prog" where
  "enqueueReconciliation op =
     bnd allowEnqueueNow (\<lambda>ok.
     if \<not> ok then Ret ()
     else bnd now (\<lambda>created.
       let eid = generateOperationId op in
       bnd isCircuitOpen (\<lambda>opn.
       if opn then Ret ()
       else sq getRedisPool
         (attempt
           (bnd (redis_int (ZCARD PENDING_QUEUE)) (\<lambda>pendingCount.
            sq (redis_int (ZCARD DLQ_QUEUE))
              (if MAX_QUEUE_SIZE \<le> pendingCount then Ret ()
               else sq (ensureSessionVersion op)
                 (bnd trace_headers (\<lambda>th.
                  bnd (redis_int (EXISTS (idemKey eid))) (\<lambda>ex.
                  if ex \<noteq> 0 then Ret ()
                  else sq (redis_unit (SETEX (idemKey eid) IDEM_TTL_SECS ''1''))
                    (bnd now (\<lambda>score.
                     redis_unit (ZADD PENDING_QUEUE score (stringify (entry_json
                       \<lparr>q_id = eid, q_op = op, q_attempt = 0, q_maxAttempts = MAX_ATTEMPTS, q_createdAt = created,
                        q_traceparent = map_of th ''traceparent'', q_tracestate = map_of th ''tracestate'',
                        q_lastError = None\<rparr>)))))))))))))))"

section \<open>Execution\<close>

text \<open>\<open>lastu\<close> is \<open>lastUnauthorized\<close>.\<close>

primrec fallback_loop :: "fetch_request \<Rightarrow> fetch_response option \<Rightarrow> string list \<Rightarrow> fetch_response prog" where
  "fallback_loop q lastu [] = (case lastu of
     Some r \<Rightarrow> Ret r
   | None \<Rightarrow> Throw (createApiError INTERNAL_ERROR ''No internal API token candidates available'' 500))"
| "fallback_loop q lastu (t # ts) =
     bnd (fetch (q\<lparr>fq_headers := headers_set token_header t (headers_set_all (fq_headers q) [])\<rparr>)) (\<lambda>res.
     if fr_status res = 401 \<or> fr_status res = 403 then fallback_loop q (Some res) ts else Ret res)"

definition fetchWithTokenFallback :: "fetch_request \<Rightarrow> string list \<Rightarrow> fetch_response prog" where
  "fetchWithTokenFallback q tokens = fallback_loop q None tokens"

definition executeOperation :: "recon_op \<Rightarrow> unit prog" where
  "executeOperation op =
     bnd (env_or ''AUTH_GATEWAY_INTERNAL_URL'' ''http://127.0.0.1:9091'') (\<lambda>gatewayInternal.
     bnd getInternalApiTokenCandidates (\<lambda>internalTokens.
     if internalTokens = [] then Throw (createApiError INTERNAL_ERROR ''Internal API token is not configured'' 500)
     else bnd trace_headers (\<lambda>th.
     case op of
       TokenRevocation jti ttl \<Rightarrow>
         (if ttl \<le> 0 then Ret () else redis_unit (SETEX (''blacklist:'' @ jti) ttl ''1''))
     | SessionSync sid uid xp expected \<Rightarrow>
         bnd (getSessionVersion sid) (\<lambda>version.
         if version \<noteq> expected then Ret ()
         else bnd now (\<lambda>t.
           bnd (fetchWithTokenFallback \<lparr>fq_method = ''POST'', fq_url = gatewayInternal @ ''/v1/auth/session'',
                  fq_headers = (''Content-Type'', ''application/json'') # th,
                  fq_body = Some (JObj [(''sid'', JStr sid), (''user_id'', JStr uid), (''issued_at'', JNum (t div 1000)),
                    (''device_info'', JNull), (''expires_at'', JNum xp)])\<rparr> internalTokens) (\<lambda>res.
           if \<not> fr_ok res
           then Throw (createApiError INTERNAL_ERROR (''Session sync failed: '' @ show_int (fr_status res)) (fr_status res))
           else Ret ())))
     | SessionRevoke sid jti xp tv \<Rightarrow>
         sq (case tv of
               Some v \<Rightarrow> bnd (getSessionVersion sid) (\<lambda>version. whenP (version < v) (setSessionVersion sid v))
             | None \<Rightarrow> Ret ())
           (bnd (fetchWithTokenFallback \<lparr>fq_method = ''DELETE'', fq_url = revoke_url gatewayInternal sid jti xp,
                   fq_headers = th, fq_body = None\<rparr> internalTokens) (\<lambda>res.
            if \<not> fr_ok res \<and> fr_status res \<noteq> 404
            then Throw (createApiError INTERNAL_ERROR (''Session revoke failed: '' @ show_int (fr_status res)) (fr_status res))
            else Ret ())))))"

section \<open>The worker\<close>

definition onFailure :: "int \<Rightarrow> recon_circuit \<Rightarrow> recon_circuit" where
  "onFailure t c = (let c1 = c\<lparr>rc_failures := rc_failures c + 1\<rparr> in
     if CIRCUIT_FAILURE_THRESHOLD \<le> rc_failures c1 then c1\<lparr>rc_openUntil := t + RECON_COOLDOWN_MS\<rparr> else c1)"

definition onSuccess :: "recon_circuit \<Rightarrow> recon_circuit" where
  "onSuccess c = c\<lparr>rc_failures := 0\<rparr>"

definition set_rcircuit :: "(recon_circuit \<Rightarrow> recon_circuit) \<Rightarrow> unit prog" where
  "set_rcircuit f = GetS (\<lambda>s. PutS (s\<lparr>rcircuit := f (rcircuit s)\<rparr>) (Ret ()))"

text \<open>The clock is read only when the threshold is reached.\<close>

definition count_failure :: "unit prog" where
  "count_failure = GetS (\<lambda>s. if CIRCUIT_FAILURE_THRESHOLD \<le> rc_failures (rcircuit s) + 1
     then bnd now (\<lambda>t. set_rcircuit (onFailure t)) else set_rcircuit (onFailure 0))"

text \<open>The \<open>catch\<close> branch: count the failure, then the dead-letter queue or a later retry.\<close>

definition entry_failed :: "int \<Rightarrow> queue_entry \<Rightarrow> exn \<Rightarrow> unit prog" where
  "entry_failed batch_time en err =
     (let en' = en\<lparr>q_lastError := Some (exn_message err)\<rparr> in
      sq count_failure
        (if q_maxAttempts en' \<le> q_attempt en' then
           sq (redis_unit (ZADD DLQ_QUEUE batch_time (stringify (entry_json en'))))
             (bnd now (\<lambda>t.
              sq (redis_unit (ZREMRANGEBYSCORE DLQ_QUEUE (t - 7 * 24 * 60 * 60 * 1000)))
              (sq (redis_unit (DEL [idemKey (q_id en')])) (redis_unit (DEL [lockKey (q_id en')])))))
         else
           bnd now (\<lambda>t.
           sq (redis_unit (ZADD PENDING_QUEUE (t + BASE_DELAY_MS * 2 ^ nat (q_attempt en' - 1)) (stringify (entry_json en'))))
             (redis_unit (DEL [lockKey (q_id en')])))))"

text \<open>The inner \<open>try\<close> and its \<open>catch\<close>.\<close>

definition try_entry :: "int \<Rightarrow> queue_entry \<Rightarrow> bool prog" where
  "try_entry batch_time en =
     catch
       (sq (executeOperation (q_op en))
         (sq (redis_unit (DEL [idemKey (q_id en)]))
         (sq (redis_unit (DEL [lockKey (q_id en)]))
         (sq (set_rcircuit onSuccess) (Ret True)))))
       (\<lambda>err. sq (entry_failed batch_time en err) (Ret False))"

text \<open>One turn of the loop over the due entries; the result says whether \<open>processed\<close> grows.\<close>

definition process_entry :: "string \<Rightarrow> int \<Rightarrow> string \<Rightarrow> bool prog" where
  "process_entry owner batch_time entryJson =
     (case parse entryJson of
        None \<Rightarrow> sq (redis_unit (ZREM PENDING_QUEUE entryJson))
                  (sq (redis_unit (ZADD DLQ_QUEUE batch_time entryJson)) (Ret False))
      | Some j \<Rightarrow> (case read_entry j of
          None \<Rightarrow> Throw (JsError ''malformed entry'')
        | Some en0 \<Rightarrow>
            bnd now (\<lambda>t.
            bnd (redis_str (SET_EX_NX (lockKey (q_id en0)) (owner @ '':'' @ show_int t) WORKER_LOCK_TTL_SECS)) (\<lambda>claimed.
            if claimed \<noteq> Some ''OK'' then Ret False
            else bnd (redis_int (ZREM PENDING_QUEUE entryJson)) (\<lambda>removed.
              if removed = 0 then sq (redis_unit (DEL [lockKey (q_id en0)])) (Ret False)
              else try_entry batch_time (en0\<lparr>q_attempt := q_attempt en0 + 1\<rparr>))))))"

text \<open>The outer \<open>try\<close> ends the batch at the first exception and keeps the count.\<close>

primrec process_batch :: "string \<Rightarrow> int \<Rightarrow> int \<Rightarrow> string list \<Rightarrow> int prog" where
  "process_batch owner batch_time n [] = Ret n"
| "process_batch owner batch_time n (e # es) =
     bnd (catch (bnd (process_entry owner batch_time e) (\<lambda>b. Ret (Some b))) (\<lambda>_. Ret None)) (\<lambda>r.
     case r of None \<Rightarrow> Ret n | Some b \<Rightarrow> process_batch owner batch_time (if b then n + 1 else n) es)"

definition processPendingOperations :: "string \<Rightarrow> int prog" where
  "processPendingOperations owner =
     bnd (bnd now (\<lambda>t. GetS (\<lambda>s. if t < rc_openUntil (rcircuit s) then Ret True else isCircuitOpen))) (\<lambda>op.
     if op then Ret 0
     else sq getRedisPool
       (bnd now (\<lambda>batch_time.
        bnd (catch (redis_list (ZRANGEBYSCORE PENDING_QUEUE (Some batch_time) (Some BATCH_SIZE))) (\<lambda>_. Ret []))
          (\<lambda>entries. process_batch owner batch_time 0 entries))))"

text \<open>\<open>startWorker\<close> with the number of rounds until a shutdown signal arrives.\<close>

primrec worker_loop :: "string \<Rightarrow> nat \<Rightarrow> unit prog" where
  "worker_loop owner 0 = Ret ()"
| "worker_loop owner (Suc n) =
     sq (attempt (sq (processPendingOperations owner) (Ret ())))
     (sq (sleep POLL_INTERVAL_MS) (worker_loop owner n))"

definition startWorker :: "string \<Rightarrow> nat \<Rightarrow> unit prog" where
  "startWorker owner rounds =
     bnd (get_env ''NEXT_RUNTIME'') (\<lambda>rt. if rt \<noteq> Some ''nodejs'' then Ret () else worker_loop owner rounds)"

definition getQueueStats :: "(int \<times> int) option prog" where
  "getQueueStats =
     sq getRedisPool
       (catch
         (bnd (redis_list (ZRANGEBYSCORE PENDING_QUEUE None None)) (\<lambda>pending.
          bnd (redis_list (ZRANGEBYSCORE DLQ_QUEUE None None)) (\<lambda>dlq.
          Ret (Some (int (length pending), int (length dlq))))))
         (\<lambda>_. Ret None))"

section \<open>Lemmas\<close>

lemma read_op_json [simp]: "read_op (op_json op) = Some op"
  by (cases op) (auto simp: read_op_def as_str_def as_int_def opt_member_def split: option.splits)

lemma read_entry_json [simp]: "read_entry (entry_json e) = Some e"
  by (cases e) (auto simp: read_entry_def entry_json_def as_str_def as_int_def opt_member_def split: option.splits)

lemma wf_op_json [simp]: "wf_json (op_json op)"
  by (cases op) (auto simp: opt_member_def split: option.splits)

lemma wf_entry_json [simp]: "wf_json (entry_json e)"
  by (auto simp: entry_json_def opt_member_def split: option.splits)

lemma recon_keys_distinct [simp]:
  "PENDING_QUEUE \<noteq> DLQ_QUEUE" "DLQ_QUEUE \<noteq> PENDING_QUEUE"
  "lockKey i \<noteq> PENDING_QUEUE" "lockKey i \<noteq> DLQ_QUEUE" "PENDING_QUEUE \<noteq> lockKey i" "DLQ_QUEUE \<noteq> lockKey i"
  "idemKey i \<noteq> PENDING_QUEUE" "idemKey i \<noteq> DLQ_QUEUE" "PENDING_QUEUE \<noteq> idemKey i" "DLQ_QUEUE \<noteq> idemKey i"
  "idemKey i \<noteq> lockKey j" "lockKey j \<noteq> idemKey i"
  "sessionVersionKey i \<noteq> PENDING_QUEUE" "sessionVersionKey i \<noteq> DLQ_QUEUE" "sessionVersionKey i \<noteq> idemKey j"
  "PENDING_QUEUE \<noteq> sessionVersionKey i" "idemKey j \<noteq> sessionVersionKey i"
  by (simp_all add: recon_key_defs)

interpretation recon_breaker: circuit_breaker rc_failures rc_openUntil onFailure onSuccess
  CIRCUIT_FAILURE_THRESHOLD RECON_COOLDOWN_MS
  by unfold_locales (simp_all add: onFailure_def onSuccess_def RECON_COOLDOWN_MS_def Let_def)

lemma all_calls_fallback_loop [simp]:
  "(\<And>hs. P (CFetch (q\<lparr>fq_headers := hs\<rparr>))) \<Longrightarrow> all_calls P (fallback_loop q l ts)"
  by (induction ts arbitrary: l) auto

lemma all_calls_session_version [simp]:
  "P (CRedis (GET (sessionVersionKey i))) \<Longrightarrow> all_calls P (getSessionVersion i)"
  "P (CRedis (GET (sessionVersionKey i))) \<Longrightarrow>
   P (CRedis (SETEX (sessionVersionKey i) IDEM_TTL_SECS (show_int v))) \<Longrightarrow> all_calls P (setSessionVersion i v)"
  by (simp_all add: getSessionVersion_def setSessionVersion_def)

text \<open>What an execution of an operation may call: no sorted set is written.\<close>

definition plain_call :: "call \<Rightarrow> bool" where
  "plain_call c = (case c of CRedis rc \<Rightarrow> (case rc of GET _ \<Rightarrow> True | SETEX _ _ _ \<Rightarrow> True | _ \<Rightarrow> False)
     | CFetch _ \<Rightarrow> True | CTrace \<Rightarrow> True | CCloudSecret _ _ \<Rightarrow> True | CReadFile _ \<Rightarrow> True | _ \<Rightarrow> False)"

lemma all_calls_executeOperation: "(\<And>c. plain_call c \<Longrightarrow> P c) \<Longrightarrow> all_calls P (executeOperation op)"
  by (cases op) (auto simp: executeOperation_def fetchWithTokenFallback_def plain_call_def)

text \<open>The sorted-set commands that processing an entry may issue.\<close>

definition retry_of :: "queue_entry \<Rightarrow> string \<Rightarrow> queue_entry" where
  "retry_of en err = en\<lparr>q_attempt := q_attempt en + 1, q_lastError := Some err\<rparr>"

definition retry_discipline :: "int \<Rightarrow> queue_entry \<Rightarrow> call \<Rightarrow> bool" where
  "retry_discipline batch_time en c = (case c of
     CRedis (ZADD k sc m) \<Rightarrow> (\<exists>err. m = stringify (entry_json (retry_of en err))) \<and>
       (if q_attempt en + 1 < q_maxAttempts en then k = PENDING_QUEUE else k = DLQ_QUEUE \<and> sc = batch_time)
   | CRedis (ZREM k m) \<Rightarrow> k = PENDING_QUEUE \<and> m = stringify (entry_json en)
   | CRedis (ZPOPMIN k n) \<Rightarrow> False
   | _ \<Rightarrow> True)"

lemma retry_discipline_simps [simp]:
  "retry_discipline bt en (CRedis (ZADD k sc (stringify (entry_json
      (en\<lparr>q_attempt := q_attempt en + 1, q_lastError := Some err\<rparr>))))) \<longleftrightarrow>
     (if q_attempt en + 1 < q_maxAttempts en then k = PENDING_QUEUE else k = DLQ_QUEUE \<and> sc = bt)"
  "retry_discipline bt en (CRedis (ZREM k m)) \<longleftrightarrow> k = PENDING_QUEUE \<and> m = stringify (entry_json en)"
  "retry_discipline bt en (CRedis (DEL kl))" "retry_discipline bt en (CRedis (ZREMRANGEBYSCORE k n))"
  "retry_discipline bt en (CRedis (SET_EX_NX k v n))"
  by (auto simp: retry_discipline_def retry_of_def)

lemma process_entry_discipline:
  "all_calls (retry_discipline batch_time en) (process_entry owner batch_time (stringify (entry_json en)))"
proof -
  have x: "all_calls (retry_discipline batch_time en) (executeOperation op)" for op
    by (rule all_calls_executeOperation) (auto simp: plain_call_def retry_discipline_def split: call.splits rcmd.splits)
  have f: "all_calls (retry_discipline batch_time en)
      (entry_failed batch_time (en\<lparr>q_attempt := q_attempt en + 1\<rparr>) err)" for err
    by (simp add: entry_failed_def Let_def count_failure_def set_rcircuit_def)
  show ?thesis
    unfolding process_entry_def
    by (simp add: parse_stringify try_entry_def set_rcircuit_def x f)
qed

text \<open>The session an operation is about, and a version key that holds a string or nothing.\<close>

fun op_session :: "recon_op \<Rightarrow> string option" where
  "op_session (SessionSync sid uid xp v) = Some sid"
| "op_session (SessionRevoke sid jti xp tv) = Some sid"
| "op_session _ = None"

definition version_readable :: "keyspace \<Rightarrow> string \<Rightarrow> bool" where
  "version_readable ks sid \<longleftrightarrow> (case ks (sessionVersionKey sid) of Some (VStr _, _) \<Rightarrow> True | None \<Rightarrow> True | _ \<Rightarrow> False)"

context redis_service
begin

text \<open>A pending entry that no other worker holds is taken out of the queue under the lock.\<close>

lemma claim_entry:
  assumes "zset_at (keys w) PENDING_QUEUE z" and "(sc, stringify (entry_json en)) \<in> set z"
    and "live (time w) (keys w) (lockKey (q_id en)) = None"
  obtains w1 v e where
    "run E (process_entry owner bt (stringify (entry_json en))) s w =
       run E (try_entry bt (en\<lparr>q_attempt := q_attempt en + 1\<rparr>)) s w1"
    and "keys w1 = put_zset PENDING_QUEUE (zset_del (stringify (entry_json en)) z) None
           ((keys w)(lockKey (q_id en) \<mapsto> (v, e)))"
    and "time w \<le> time w1"
proof -
  let ?js = "stringify (entry_json en)"
  let ?v = "owner @ CHR '':'' # show_int (time (ticked w))"
  let ?c1 = "SET_EX_NX (lockKey (q_id en)) ?v WORKER_LOCK_TTL_SECS"
  let ?w1 = "after ?c1 (ticked w)"
  let ?w2 = "after (ZREM PENDING_QUEUE ?js) ?w1"
  have t: "time w \<le> time ?w1" "time ?w1 \<le> time ?w2"
    using time_ticked time_after order_trans by blast+
  have free: "live (time ?w1) (keys w) (lockKey (q_id en)) = None" by (rule live_later [OF assms(3) t(1)])
  have k1: "keys ?w1 = (keys w)(lockKey (q_id en) \<mapsto> (VStr ?v, ttl_at (time ?w1) WORKER_LOCK_TTL_SECS))"
    by (subst keys_after) (simp add: free)
  have "zset_at (keys ?w1) PENDING_QUEUE z" by (rule zset_at_cong [OF _ assms(1)]) (simp add: k1)
  note z = get_zset_at [OF this]
  have mem: "?js \<in> snd ` set z" using assms(2) by force
  have k2: "keys ?w2 = put_zset PENDING_QUEUE (zset_del ?js z) None (keys ?w1)"
    by (subst keys_after) (simp add: z)
  have "run E (process_entry owner bt ?js) s w = run E (try_entry bt (en\<lparr>q_attempt := q_attempt en + 1\<rparr>)) s ?w2"
    by (simp add: process_entry_def parse_stringify run_bnd run_redis free z mem)
  then show ?thesis
    using t by (intro that [of ?w2]) (simp_all add: k2 k1)
qed

text \<open>A failed attempt: the entry goes back with a later score, or to the dead-letter queue.\<close>

lemma run_set_rcircuit: "run E (set_rcircuit f) s w = (Inr (), s\<lparr>rcircuit := f (rcircuit s)\<rparr>, w)"
  by (simp add: set_rcircuit_def)

lemma run_count_failure:
  obtains s' w' where "run E count_failure s w = (Inr (), s', w')" and "keys w' = keys w" and "time w \<le> time w'"
  by (cases "CIRCUIT_FAILURE_THRESHOLD \<le> rc_failures (rcircuit s) + 1")
    (simp_all add: count_failure_def run_bnd run_now run_set_rcircuit time_ticked)

lemma failed_retry:
  assumes "zset_at (keys w) PENDING_QUEUE z" and "q_attempt en < q_maxAttempts en"
  obtains s' w' t where "run E (entry_failed bt en err) s w = (Inr (), s', w')"
    and "zset_at (keys w') PENDING_QUEUE (zset_add (t + 1000 * 2 ^ nat (q_attempt en - 1))
           (stringify (entry_json (en\<lparr>q_lastError := Some (exn_message err)\<rparr>))) z)"
    and "time w \<le> t" and "t \<le> time w'" and "keys w' (lockKey (q_id en)) = None"
    and "\<And>k. k \<noteq> PENDING_QUEUE \<Longrightarrow> k \<noteq> lockKey (q_id en) \<Longrightarrow> keys w' k = keys w k"
proof -
  let ?m = "stringify (entry_json (en\<lparr>q_lastError := Some (exn_message err)\<rparr>))"
  obtain s1 w1 where w1: "run E count_failure s w = (Inr (), s1, w1)" "keys w1 = keys w" "time w \<le> time w1"
    by (rule run_count_failure)
  let ?t = "time (ticked w1)"
  let ?sc = "?t + 1000 * 2 ^ nat (q_attempt en - 1)"
  let ?w2 = "after (ZADD PENDING_QUEUE ?sc ?m) (ticked w1)"
  let ?w3 = "after (DEL [lockKey (q_id en)]) ?w2"
  have z: "get_zset t (keys w) PENDING_QUEUE = Some (z, None)" for t
    by (rule get_zset_at [OF assms(1)])
  have k2: "keys ?w2 = put_zset PENDING_QUEUE (zset_add ?sc ?m z) None (keys w)"
    by (subst keys_after) (simp add: z w1(2))
  have k3: "keys ?w3 = (\<lambda>k. if k = lockKey (q_id en) then None else keys ?w2 k)"
    by (subst keys_after) simp
  have r: "run E (entry_failed bt en err) s w = (Inr (), s1, ?w3)"
    using assms(2) by (simp add: entry_failed_def Let_def run_sq w1(1) run_bnd run_redis w1(2) z BASE_DELAY_MS_def)
  have "zset_at (keys ?w3) PENDING_QUEUE (zset_add ?sc ?m z)"
    by (rule zset_at_cong [OF _ zset_at_put]) (simp add: k3 k2)
  then show ?thesis
    using r w1(3) time_ticked [of w1] time_after [of "ticked w1"] time_after [of ?w2]
    by (intro that [of s1 ?w3 ?t]) (auto simp: k3 k2 intro: order_trans)
qed

lemma failed_dlq:
  assumes "zset_at (keys w) DLQ_QUEUE d" and "q_maxAttempts en \<le> q_attempt en"
  obtains s' w' t where "run E (entry_failed bt en err) s w = (Inr (), s', w')"
    and "zset_at (keys w') DLQ_QUEUE (List.filter (\<lambda>(sc, m). t - 604800000 < sc)
           (zset_add bt (stringify (entry_json (en\<lparr>q_lastError := Some (exn_message err)\<rparr>))) d))"
    and "time w \<le> t" and "t \<le> time w'" and "keys w' (lockKey (q_id en)) = None" and "keys w' (idemKey (q_id en)) = None"
    and "\<And>k. k \<noteq> DLQ_QUEUE \<Longrightarrow> k \<noteq> lockKey (q_id en) \<Longrightarrow> k \<noteq> idemKey (q_id en) \<Longrightarrow> keys w' k = keys w k"
proof -
  let ?m = "stringify (entry_json (en\<lparr>q_lastError := Some (exn_message err)\<rparr>))"
  obtain s1 w1 where w1: "run E count_failure s w = (Inr (), s1, w1)" "keys w1 = keys w" "time w \<le> time w1"
    by (rule run_count_failure)
  let ?w2 = "after (ZADD DLQ_QUEUE bt ?m) w1"
  let ?t = "time (ticked ?w2)"
  let ?w3 = "after (ZREMRANGEBYSCORE DLQ_QUEUE (?t - 604800000)) (ticked ?w2)"
  let ?w4 = "after (DEL [idemKey (q_id en)]) ?w3"
  let ?w5 = "after (DEL [lockKey (q_id en)]) ?w4"
  let ?d = "List.filter (\<lambda>(sc, m). ?t - 604800000 < sc) (zset_add bt ?m d)"
  have z: "get_zset t (keys w) DLQ_QUEUE = Some (d, None)" for t by (rule get_zset_at [OF assms(1)])
  have k2: "keys ?w2 = put_zset DLQ_QUEUE (zset_add bt ?m d) None (keys w)"
    by (subst keys_after) (simp add: z w1(2))
  have z2: "get_zset t (keys ?w2) DLQ_QUEUE = Some (zset_add bt ?m d, None)" for t
    by (rule get_zset_at) (simp add: k2)
  have k3: "keys ?w3 = put_zset DLQ_QUEUE ?d None (keys ?w2)" by (subst keys_after) (simp add: z2)
  have k5: "keys ?w5 = (\<lambda>k. if k = lockKey (q_id en) then None else keys ?w4 k)"
    and k4: "keys ?w4 = (\<lambda>k. if k = idemKey (q_id en) then None else keys ?w3 k)"
    by (subst keys_after, simp)+
  have r: "run E (entry_failed bt en err) s w = (Inr (), s1, ?w5)"
    using assms(2) by (simp add: entry_failed_def Let_def run_sq w1(1) run_bnd run_redis w1(2) z z2)
  have t: "time w \<le> ?t" "?t \<le> time ?w5"
    using w1(3) time_after time_ticked by (meson order_trans)+
  have "zset_at (keys ?w5) DLQ_QUEUE ?d"
    by (rule zset_at_cong [OF _ zset_at_put]) (simp add: k5 k4 k3)
  then show ?thesis
    using r t by (intro that [of s1 ?w5 ?t]) (auto simp: k5 k4 k3 k2)
qed

lemma succeeded:
  assumes "run E (executeOperation (q_op en)) s w = (Inr (), s1, w1)"
  obtains w' where "run E (try_entry bt en) s w = (Inr True, s1\<lparr>rcircuit := onSuccess (rcircuit s1)\<rparr>, w')"
    and "keys w' = (\<lambda>k. if k = lockKey (q_id en) \<or> k = idemKey (q_id en) then None else keys w1 k)"
    and "time w1 \<le> time w'"
proof -
  let ?w2 = "after (DEL [idemKey (q_id en)]) w1"
  let ?w3 = "after (DEL [lockKey (q_id en)]) ?w2"
  have "keys ?w3 = (\<lambda>k. if k = lockKey (q_id en) then None else keys ?w2 k)"
    "keys ?w2 = (\<lambda>k. if k = idemKey (q_id en) then None else keys w1 k)"
    by (subst keys_after, simp)+
  moreover have "run E (try_entry bt en) s w = (Inr True, s1\<lparr>rcircuit := onSuccess (rcircuit s1)\<rparr>, ?w3)"
    by (simp add: try_entry_def run_catch run_sq assms run_redis run_set_rcircuit)
  ultimately show ?thesis
    using time_after [of w1] time_after [of ?w2] by (intro that [of ?w3]) (auto intro: order_trans)
qed

lemma process_failing:
  assumes "zset_at (keys w) PENDING_QUEUE z" and "zset_at (keys w) DLQ_QUEUE d"
    and "(sc, stringify (entry_json en)) \<in> set z" and "live (time w) (keys w) (lockKey (q_id en)) = None"
    and "\<And>w1. \<exists>e s2 w2. run E (executeOperation (q_op en)) s w1 = (Inl e, s2, w2) \<and> keys w2 = keys w1"
  shows "\<exists>s' w' err t. run E (process_entry owner bt (stringify (entry_json en))) s w = (Inr False, s', w') \<and>
    keys w' (lockKey (q_id en)) = None \<and> time w \<le> t \<and> t \<le> time w' \<and>
    (if q_attempt en + 1 < q_maxAttempts en
     then zset_at (keys w') PENDING_QUEUE (zset_add (t + 1000 * 2 ^ nat (q_attempt en))
            (stringify (entry_json (retry_of en err))) (zset_del (stringify (entry_json en)) z)) \<and>
          zset_at (keys w') DLQ_QUEUE d
     else zset_at (keys w') PENDING_QUEUE (zset_del (stringify (entry_json en)) z) \<and>
          zset_at (keys w') DLQ_QUEUE (List.filter (\<lambda>(sc, m). t - 604800000 < sc)
            (zset_add bt (stringify (entry_json (retry_of en err))) d)) \<and>
          keys w' (idemKey (q_id en)) = None)"
proof -
  let ?js = "stringify (entry_json en)"
  let ?en = "en\<lparr>q_attempt := q_attempt en + 1\<rparr>"
  obtain w1 v e where w1: "run E (process_entry owner bt ?js) s w = run E (try_entry bt ?en) s w1"
      "keys w1 = put_zset PENDING_QUEUE (zset_del ?js z) None ((keys w)(lockKey (q_id en) \<mapsto> (v, e)))" "time w \<le> time w1"
    by (rule claim_entry [OF assms(1,3,4)])
  obtain err s2 w2 where x: "run E (executeOperation (q_op en)) s w1 = (Inl err, s2, w2)" "keys w2 = keys w1"
    using assms(5) by blast
  have t: "time w \<le> time w2" using time_run [OF x(1)] w1(3) by simp
  have tr: "run E (try_entry bt ?en) s w1 = run E (sq (entry_failed bt ?en err) (Ret False)) s2 w2"
    by (simp add: try_entry_def run_catch run_sq x(1))
  have pz: "zset_at (keys w2) PENDING_QUEUE (zset_del ?js z)" by (simp add: x(2) w1(2))
  have dz: "zset_at (keys w2) DLQ_QUEUE d" by (rule zset_at_cong [OF _ assms(2)]) (simp add: x(2) w1(2))
  show ?thesis
  proof (cases "q_attempt en + 1 < q_maxAttempts en")
    case True
    then obtain s3 w3 t where f: "run E (entry_failed bt ?en err) s2 w2 = (Inr (), s3, w3)"
        "zset_at (keys w3) PENDING_QUEUE (zset_add (t + 1000 * 2 ^ nat (q_attempt en))
           (stringify (entry_json (retry_of en (exn_message err)))) (zset_del ?js z))"
        "time w2 \<le> t" "t \<le> time w3" "keys w3 (lockKey (q_id en)) = None"
        "\<And>k. k \<noteq> PENDING_QUEUE \<Longrightarrow> k \<noteq> lockKey (q_id en) \<Longrightarrow> keys w3 k = keys w2 k"
      using failed_retry [OF pz, of ?en bt err s2] by (auto simp: retry_of_def)
    have "zset_at (keys w3) DLQ_QUEUE d" by (rule zset_at_cong [OF _ dz]) (simp add: f(6))
    with True f t show ?thesis
      by (intro exI [of _ s3] exI [of _ w3] exI [of _ "exn_message err"] exI [of _ t]) (simp add: w1(1) tr run_sq)
  next
    case False
    then obtain s3 w3 t where f: "run E (entry_failed bt ?en err) s2 w2 = (Inr (), s3, w3)"
        "zset_at (keys w3) DLQ_QUEUE (List.filter (\<lambda>(sc, m). t - 604800000 < sc)
           (zset_add bt (stringify (entry_json (retry_of en (exn_message err)))) d))"
        "time w2 \<le> t" "t \<le> time w3" "keys w3 (lockKey (q_id en)) = None" "keys w3 (idemKey (q_id en)) = None"
        "\<And>k. k \<noteq> DLQ_QUEUE \<Longrightarrow> k \<noteq> lockKey (q_id en) \<Longrightarrow> k \<noteq> idemKey (q_id en) \<Longrightarrow> keys w3 k = keys w2 k"
      using failed_dlq [OF dz, of ?en bt err s2] by (auto simp: retry_of_def)
    have "zset_at (keys w3) PENDING_QUEUE (zset_del ?js z)" by (rule zset_at_cong [OF _ pz]) (simp add: f(7))
    with False f t show ?thesis
      by (intro exI [of _ s3] exI [of _ w3] exI [of _ "exn_message err"] exI [of _ t]) (simp add: w1(1) tr run_sq)
  qed
qed

text \<open>Bumping the version of a session.\<close>

lemma run_bump:
  assumes "redis_ready s"
    and "keys w (sessionVersionKey sid) = None \<and> v = 0 \<or>
      (\<exists>e. keys w (sessionVersionKey sid) = Some (VStr (show_int v), Some e) \<and>
        time (snd (snd (run E (bumpSessionVersion sid) s w))) < e)"
  obtains w1 where "run E (bumpSessionVersion sid) s w = (Inr (v + 1), s, w1)" and "time w \<le> time w1"
    and "keys w1 (sessionVersionKey sid) = Some (VStr (show_int (v + 1)), Some (time w1 + 86400000))"
proof -
  let ?k = "sessionVersionKey sid"
  let ?w1 = "after (INCR ?k) w"
  let ?w2 = "after (EXPIRE ?k IDEM_TTL_SECS) ?w1"
  have t: "time w \<le> time ?w1" "time ?w1 \<le> time ?w2" by (rule time_after)+
  have run: "run E (bumpSessionVersion sid) s w = (Inr (if live (time ?w1) (keys w) ?k = None then 1 else v + 1), s, ?w2)"
    if "keys w ?k = None \<or> (\<exists>e. keys w ?k = Some (VStr (show_int v), Some e))"
    using that by (auto simp: bumpSessionVersion_def run_sq run_getRedisPool [OF assms(1)] run_catch run_bnd run_redis
        live_def split: option.splits if_splits prod.splits)
  have shape: "keys w ?k = None \<and> v = 0 \<or> (\<exists>e. keys w ?k = Some (VStr (show_int v), Some e) \<and> time ?w2 < e)"
    using assms(2) run by auto
  then have r: "run E (bumpSessionVersion sid) s w = (Inr (v + 1), s, ?w2)"
    using run t by (auto simp: live_def split: option.splits)
  have "\<exists>e. keys ?w1 ?k = Some (VStr (show_int (v + 1)), e) \<and> (e = None \<or> (\<exists>x. e = Some x \<and> time ?w2 < x))"
    using shape t by (subst keys_after) (auto simp: live_def)
  then have "keys ?w2 ?k = Some (VStr (show_int (v + 1)), Some (time ?w2 + 86400000))"
    by (subst keys_after) (auto simp: live_def ttl_at_def IDEM_TTL_SECS_def)
  then show ?thesis using r t by (intro that [of ?w2]) auto
qed

text \<open>A session registration for another version does not reach the gateway.\<close>

lemma stale_sync:
  assumes "keys w (sessionVersionKey sid) = Some (VStr (show_int n), Some e)" and "n \<noteq> v"
    and "time (snd (snd (run E (executeOperation (SessionSync sid uid xp v)) s w))) < e"
  shows "fetches E (executeOperation (SessionSync sid uid xp v)) s w = 0"
proof -
  let ?k = "sessionVersionKey sid"
  obtain g where g: "run E (env_or ''AUTH_GATEWAY_INTERNAL_URL'' ''http://127.0.0.1:9091'') s w = (Inr g, s, w)"
    by (simp add: env_or_def get_env_def)
  obtain ts s1 w1 where c: "run E getInternalApiTokenCandidates s w = (Inr ts, s1, w1)"
    using returns_run [OF candidates_clean, of E s w] by (cases "run E getInternalApiTokenCandidates s w") auto
  have k1: "keys w1 = keys w" by (rule keys_run [OF _ c]) simp
  have f: "fetches E (env_or ''AUTH_GATEWAY_INTERNAL_URL'' ''http://127.0.0.1:9091'') s w = 0"
    "fetches E getInternalApiTokenCandidates s w = 0" by (simp_all add: fetches_none)
  show ?thesis
  proof (cases "ts = []")
    case True
    then show ?thesis by (simp add: executeOperation_def fetches_bnd f g c)
  next
    case False
    obtain th w2 where th: "run E trace_headers s1 w1 = (Inr th, s1, w2)" "fetches E trace_headers s1 w1 = 0"
      using run_trace_headers [of E s1 w1] by blast
    have k2: "keys w2 = keys w" using keys_run [OF _ th(1)] k1 by simp
    let ?w3 = "after (GET ?k) w2"
    have ver: "snd (snd (run E (getSessionVersion sid) s1 w2)) = ?w3"
      by (auto simp: getSessionVersion_def run_bnd run_redis split: reply.splits)
    define h where "h = (\<lambda>version. if version \<noteq> v then Ret ()
         else bnd now (\<lambda>t.
           bnd (fetchWithTokenFallback \<lparr>fq_method = ''POST'', fq_url = g @ ''/v1/auth/session'',
                  fq_headers = (''Content-Type'', ''application/json'') # th,
                  fq_body = Some (JObj [(''sid'', JStr sid), (''user_id'', JStr uid), (''issued_at'', JNum (t div 1000)),
                    (''device_info'', JNull), (''expires_at'', JNum xp)])\<rparr> ts) (\<lambda>res.
           if \<not> fr_ok res
           then Throw (createApiError INTERNAL_ERROR (''Session sync failed: '' @ show_int (fr_status res)) (fr_status res))
           else Ret ())))"
    have whole: "run E (executeOperation (SessionSync sid uid xp v)) s w = run E (bnd (getSessionVersion sid) h) s1 w2"
      unfolding executeOperation_def run_bnd [of E "env_or _ _"] using False
      by (simp add: g run_bnd [of E getInternalApiTokenCandidates] c run_bnd [of E trace_headers] th(1) h_def)
    have cnt: "fetches E (executeOperation (SessionSync sid uid xp v)) s w = fetches E (bnd (getSessionVersion sid) h) s1 w2"
      unfolding executeOperation_def using False
      by (simp add: fetches_bnd [of E "env_or _ _"] f g fetches_bnd [of E getInternalApiTokenCandidates] c
          fetches_bnd [of E trace_headers] th h_def)
    have "time ?w3 < e" using time_bnd_less [where p = "getSessionVersion sid" and s = s1 and w = w2] assms(3) whole ver by auto
    then have "run E (getSessionVersion sid) s1 w2 = (Inr n, s1, ?w3)"
      using assms(1) by (simp add: getSessionVersion_def run_bnd run_redis k2 live_def)
    moreover have "fetches E (getSessionVersion sid) s1 w2 = 0" by (simp add: fetches_none)
    ultimately show ?thesis using assms(2) by (simp add: cnt fetches_bnd h_def)
  qed
qed

text \<open>Enqueueing an operation that is not pending yet.\<close>

lemma idem_ttl_pos [simp]: "\<not> IDEM_TTL_SECS \<le> 0"
  by (simp add: IDEM_TTL_SECS_def)

lemma run_getSessionVersion:
  assumes "version_readable (keys w) sid"
  shows "\<exists>n. run E (getSessionVersion sid) s w = (Inr n, s, after (GET (sessionVersionKey sid)) w) \<and>
    keys (after (GET (sessionVersionKey sid)) w) = keys w"
proof -
  let ?t = "time (after (GET (sessionVersionKey sid)) w)"
  have "live ?t (keys w) (sessionVersionKey sid) = None \<or> (\<exists>v e. live ?t (keys w) (sessionVersionKey sid) = Some (VStr v, e))"
    using assms by (auto simp: version_readable_def live_def split: option.splits prod.splits rval.splits)
  then show ?thesis
    by (auto simp: getSessionVersion_def run_bnd run_redis keys_after)
qed

lemma run_setSessionVersion:
  assumes "version_readable (keys w) sid"
  obtains w' where "run E (setSessionVersion sid v) s w = (Inr (), s, w')" and "time w \<le> time w'"
    and "\<And>k. k \<noteq> sessionVersionKey sid \<Longrightarrow> keys w' k = keys w k"
proof -
  let ?w1 = "after (GET (sessionVersionKey sid)) w"
  let ?c = "SETEX (sessionVersionKey sid) IDEM_TTL_SECS (show_int v)"
  obtain n where n: "run E (getSessionVersion sid) s w = (Inr n, s, ?w1)" "keys ?w1 = keys w"
    using run_getSessionVersion [OF assms, of s] by blast
  have t: "time w \<le> time ?w1" "time ?w1 \<le> time (after ?c ?w1)" by (rule time_after)+
  show ?thesis
  proof (cases "n < v")
    case True
    have "run E (setSessionVersion sid v) s w = (Inr (), s, after ?c ?w1)"
      using n True by (simp add: setSessionVersion_def run_bnd whenP_def run_redis)
    moreover have "keys (after ?c ?w1) = (keys w)(sessionVersionKey sid \<mapsto> (VStr (show_int v), ttl_at (time (after ?c ?w1)) IDEM_TTL_SECS))"
      by (subst keys_after) (simp add: n(2))
    ultimately show ?thesis using t by (intro that [of "after ?c ?w1"]) auto
  next
    case False
    then show ?thesis using n t by (intro that [of ?w1]) (simp_all add: setSessionVersion_def run_bnd whenP_def)
  qed
qed

lemma run_ensureSessionVersion:
  assumes "\<And>sid. op_session op = Some sid \<Longrightarrow> version_readable (keys w) sid"
  obtains w' where "run E (ensureSessionVersion op) s w = (Inr (), s, w')" and "time w \<le> time w'"
    and "\<And>k. (\<forall>sid. k \<noteq> sessionVersionKey sid) \<Longrightarrow> keys w' k = keys w k"
proof (cases op)
  case (TokenRevocation jti ttl)
  then show ?thesis by (intro that [of w]) simp_all
next
  case (SessionSync sid uid xp v)
  then have "version_readable (keys w) sid" using assms by simp
  then show ?thesis
    by (rule run_setSessionVersion [where v = v and s = s]) (simp add: SessionSync that)
next
  case (SessionRevoke sid jti xp tv)
  then have vr: "version_readable (keys w) sid" using assms by simp
  show ?thesis
  proof (cases tv)
    case None
    then show ?thesis by (intro that [of w]) (simp_all add: SessionRevoke)
  next
    case (Some v)
    show ?thesis
      by (rule run_setSessionVersion [OF vr, where v = v and s = s]) (simp add: SessionRevoke Some that)
  qed
qed

lemma enqueue_fresh:
  assumes "up s (time w)" and "run E allowEnqueueNow s w = (Inr True, s1, w0)" and "zset_at (keys w) PENDING_QUEUE z"
    and "zset_at (keys w) DLQ_QUEUE d" and "length z < 5000"
    and "keys w (idemKey (generateOperationId op)) = None"
    and "\<And>sid. op_session op = Some sid \<Longrightarrow> version_readable (keys w) sid"
  shows "\<exists>w' sc en. run E (enqueueReconciliation op) s w = (Inr (), s1, w') \<and> time w \<le> sc \<and> sc \<le> time w' \<and>
    q_op en = op \<and> q_id en = generateOperationId op \<and> q_attempt en = 0 \<and> q_maxAttempts en = MAX_ATTEMPTS \<and>
    zset_at (keys w') PENDING_QUEUE (zset_add sc (stringify (entry_json en)) z) \<and>
    keys w' (idemKey (generateOperationId op)) \<noteq> None"
proof -
  let ?id = "idemKey (generateOperationId op)"
  have w0: "keys w0 = keys w" "time w \<le> time w0"
    using keys_run [OF _ assms(2)] time_run [OF assms(2)] by (simp_all add: allowEnqueueNow_def)
  have s1: "redis_ready s1" "circuit s1 = circuit s"
    using assms(1,2) by (auto simp: up_def redis_ready_def allowEnqueueNow_def run_bnd run_now Let_def)
  let ?w1 = "ticked (ticked w0)"
  have up1: "\<not> time ?w1 < openUntil (circuit s1)"
    using assms(1) w0(2) time_ticked [of w0] time_ticked [of "ticked w0"] by (simp add: s1 up_def)
  let ?w2 = "after (ZCARD PENDING_QUEUE) ?w1"
  let ?w3 = "after (ZCARD DLQ_QUEUE) ?w2"
  have z: "get_zset t (keys w) PENDING_QUEUE = Some (z, None)" "get_zset t (keys w) DLQ_QUEUE = Some (d, None)" for t
    by (rule get_zset_at [OF assms(3)], rule get_zset_at [OF assms(4)])
  have k3: "keys ?w2 = keys w" "keys ?w3 = keys w" by (simp_all add: keys_after w0 z)
  obtain w4 where w4: "run E (ensureSessionVersion op) s1 ?w3 = (Inr (), s1, w4)" "time ?w3 \<le> time w4"
      "\<And>k. (\<forall>sid. k \<noteq> sessionVersionKey sid) \<Longrightarrow> keys w4 k = keys w k"
    using run_ensureSessionVersion [of op ?w3 s1] assms(7) k3(2) by auto
  obtain th w5 where th: "run E trace_headers s1 w4 = (Inr th, s1, w5)"
    using run_trace_headers [of E s1 w4] by blast
  have k5: "keys w5 = keys w4" by (rule keys_run [OF _ th]) simp
  let ?w6 = "after (EXISTS ?id) w5"
  let ?w7 = "after (SETEX ?id IDEM_TTL_SECS ''1'') ?w6"
  let ?en = "\<lparr>q_id = generateOperationId op, q_op = op, q_attempt = 0, q_maxAttempts = MAX_ATTEMPTS,
     q_createdAt = time (ticked w0), q_traceparent = map_of th ''traceparent'', q_tracestate = map_of th ''tracestate'',
     q_lastError = None\<rparr>"
  let ?sc = "time (ticked ?w7)"
  let ?w8 = "after (ZADD PENDING_QUEUE ?sc (stringify (entry_json ?en))) (ticked ?w7)"
  have idem: "keys w4 ?id = None" using w4(3) [of ?id] assms(6) by simp
  have k6: "keys ?w6 = keys w4" by (simp add: keys_after k5)
  have free: "live t (keys w4) ?id = None" for t by (simp add: live_def idem)
  have k7: "keys ?w7 = (keys w4)(?id \<mapsto> (VStr ''1'', ttl_at (time ?w7) IDEM_TTL_SECS))"
    by (subst keys_after) (simp add: k6)
  have "zset_at (keys ?w7) PENDING_QUEUE z" by (rule zset_at_cong [OF _ assms(3)]) (simp add: k7 w4(3))
  note z7 = get_zset_at [OF this]
  have k8: "keys ?w8 = put_zset PENDING_QUEUE (zset_add ?sc (stringify (entry_json ?en)) z) None (keys ?w7)"
    by (subst keys_after) (simp add: z7)
  have t: "time w \<le> ?sc" "?sc \<le> time ?w8"
    using w0(2) w4(2) time_run [OF th] time_ticked [of w0] time_ticked [of "ticked w0"] time_after [of ?w1 "ZCARD PENDING_QUEUE"]
      time_after [of ?w2 "ZCARD DLQ_QUEUE"] time_after [of w5 "EXISTS ?id"] time_after [of ?w6 "SETEX ?id IDEM_TTL_SECS ''1''"]
      time_ticked [of ?w7] time_after [of "ticked ?w7" "ZADD PENDING_QUEUE ?sc (stringify (entry_json ?en))"]
    by linarith+
  have "run E (enqueueReconciliation op) s w = (Inr (), s1, ?w8)"
    using assms(5) up1
    by (simp add: enqueueReconciliation_def run_bnd assms(2) run_now run_circuit Let_def run_sq run_getRedisPool [OF s1(1)]
        attempt_def run_catch run_redis w0(1) z k3 MAX_QUEUE_SIZE_def w4(1) th k5 free k6 z7)
  then show ?thesis
    using t by (intro exI [of _ ?w8] exI [of _ ?sc] exI [of _ ?en]) (simp add: k8 k7)
qed

end

lemma throttle_step:
  assumes "t div 1000 = k" and "clock E w = (t, w1)"
    and "win_sec (window s) = k \<and> c = win_count (window s) \<or> win_sec (window s) \<noteq> k \<and> c = 0"
  shows "run E allowEnqueueNow s w = (Inr (c + 1 \<le> 200), s\<lparr>window := \<lparr>win_sec = k, win_count = c + 1\<rparr>\<rparr>, w1)"
proof -
  have "(window s)\<lparr>win_count := c + 1\<rparr> = \<lparr>win_sec = win_sec (window s), win_count = c + 1\<rparr>" by (cases "window s") simp
  with assms show ?thesis
    by (auto simp: allowEnqueueNow_def now_def MAX_ENQUEUE_PER_SECOND_def Let_def)
qed

lemma throttle_many:
  assumes "\<And>w. fst (clock E w) div 1000 = k"
    and "win_sec (window s) = k \<and> c = win_count (window s) \<or> win_sec (window s) \<noteq> k \<and> c = 0"
  shows "fst (run E (mapM (\<lambda>_. allowEnqueueNow) xs) s w) = Inr (map (\<lambda>i. c + 1 + int i \<le> 200) [0..<length xs])"
  using assms(2)
proof (induction xs arbitrary: s w c)
  case (Cons x xs)
  let ?s = "s\<lparr>window := \<lparr>win_sec = k, win_count = c + 1\<rparr>\<rparr>"
  obtain w1 where r: "run E allowEnqueueNow s w = (Inr (c + 1 \<le> 200), ?s, w1)"
    using throttle_step [of "fst (clock E w)" k E w] assms(1) Cons.prems by (cases "clock E w") fastforce
  have "fst (run E (mapM (\<lambda>_. allowEnqueueNow) xs) ?s w1) = Inr (map (\<lambda>i. c + 1 + 1 + int i \<le> 200) [0..<length xs])"
    by (rule Cons.IH) simp
  moreover have "map (\<lambda>i. c + 1 + int i \<le> 200) [0..<Suc (length xs)] =
      (c + 1 \<le> 200) # map (\<lambda>i. c + 1 + 1 + int i \<le> 200) [0..<length xs]"
    by (simp add: map_upt_Suc ac_simps del: upt_Suc)
  ultimately show ?case
    using r by (cases "run E (mapM (\<lambda>_. allowEnqueueNow) xs) ?s w1") (simp add: run_bnd del: upt_Suc)
qed simp

section \<open>Properties\<close>

text \<open>C17: attempts are bounded. Whatever Redis and the gateway answer, while a worker processes an
  entry it removes only that entry from the pending queue, and puts back only the same entry
  with its attempt counted: into the pending queue when attempts remain, and otherwise into
  the dead-letter queue under the time of the batch.\<close>

theorem reconciliation_retry_discipline:
  assumes "c \<in> set (trace E (process_entry owner batch_time (stringify (entry_json en))) s w)"
  shows "(\<forall>k sc m. c = CRedis (ZADD k sc m) \<longrightarrow>
       (\<exists>err. m = stringify (entry_json (en\<lparr>q_attempt := q_attempt en + 1, q_lastError := Some err\<rparr>))) \<and>
       (if q_attempt en + 1 < q_maxAttempts en then k = PENDING_QUEUE else k = DLQ_QUEUE \<and> sc = batch_time)) \<and>
    (\<forall>k m. c = CRedis (ZREM k m) \<longrightarrow> k = PENDING_QUEUE \<and> m = stringify (entry_json en))"
  using all_calls_trace [OF process_entry_discipline assms]
  by (auto simp: retry_discipline_def retry_of_def split: if_splits)

text \<open>C18: a failed entry is not lost. On a working Redis, an entry whose operation fails goes back
  to the pending queue with one more attempt, due after one second doubled for every earlier
  attempt, and to the dead-letter queue (pruned of what is older than seven days) when it was
  the last attempt; then its idempotency key is gone. The worker lock is released in both
  cases.\<close>

theorem reconciliation_backoff:
  assumes "redis_service E time keys"
    and "zset_at (keys w) PENDING_QUEUE z" and "zset_at (keys w) DLQ_QUEUE d"
    and "(sc, stringify (entry_json en)) \<in> set z" and "live (time w) (keys w) (lockKey (q_id en)) = None"
    and "\<And>w1. \<exists>e s2 w2. run E (executeOperation (q_op en)) s w1 = (Inl e, s2, w2) \<and> keys w2 = keys w1"
  shows "\<exists>s' w' err t. run E (process_entry owner bt (stringify (entry_json en))) s w = (Inr False, s', w') \<and>
    keys w' (lockKey (q_id en)) = None \<and> time w \<le> t \<and> t \<le> time w' \<and>
    (if q_attempt en + 1 < q_maxAttempts en
     then zset_at (keys w') PENDING_QUEUE (zset_add (t + 1000 * 2 ^ nat (q_attempt en))
            (stringify (entry_json (retry_of en err))) (zset_del (stringify (entry_json en)) z)) \<and>
          zset_at (keys w') DLQ_QUEUE d
     else zset_at (keys w') PENDING_QUEUE (zset_del (stringify (entry_json en)) z) \<and>
          zset_at (keys w') DLQ_QUEUE (List.filter (\<lambda>(sc, m). t - 604800000 < sc)
            (zset_add bt (stringify (entry_json (retry_of en err))) d)) \<and>
          keys w' (idemKey (q_id en)) = None)"
  by (rule redis_service.process_failing [OF assms])

text \<open>An example: no internal API token is configured, so every operation fails.\<close>

lemma no_token_fails:
  "\<exists>e s2 w2. run (mem_env (\<lambda>_. RNil)) (executeOperation op) node_process w1 = (Inl e, s2, w2) \<and> m_keys w2 = m_keys w1"
  by (simp add: executeOperation_def getInternalApiTokenCandidates_def getSecret_def getSecretWithOptions_def fetch_secret_def
      PROVIDER_def env_or_empty_def env_or_def readTokensFromFile_def node_process_def quiet_process_def run_bnd run_catch
      prim_defs mem_env_def uniqueNonEmpty_def parseTokenList_def)

definition sample_entry :: "int \<Rightarrow> queue_entry" where
  "sample_entry n = \<lparr>q_id = ''revoke:j'', q_op = TokenRevocation ''j'' 60, q_attempt = n, q_maxAttempts = 5,
     q_createdAt = 0, q_traceparent = None, q_tracestate = None, q_lastError = None\<rparr>"

definition sample_world :: mem where
  "sample_world = \<lparr>m_time = 5, m_keys = [PENDING_QUEUE \<mapsto> (VZset [(3, stringify (entry_json (sample_entry 2)))], None)]\<rparr>"

theorem reconciliation_backoff_witness:
  "\<exists>s' w' err t. run (mem_env (\<lambda>_. RNil)) (process_entry ''worker:1'' 5 (stringify (entry_json (sample_entry 2))))
      node_process sample_world = (Inr False, s', w')
    \<and> zset_at (m_keys w') PENDING_QUEUE (zset_add (t + 4000) (stringify (entry_json (retry_of (sample_entry 2) err))) [])"
proof -
  let ?js = "stringify (entry_json (sample_entry 2))"
  have f: "q_attempt (sample_entry 2) = 2" "q_maxAttempts (sample_entry 2) = 5" by (simp_all add: sample_entry_def)
  have pz: "zset_at (m_keys sample_world) PENDING_QUEUE [(3, ?js)]" by (simp add: zset_at_def sample_world_def)
  have dz: "zset_at (m_keys sample_world) DLQ_QUEUE []" by (simp add: zset_at_def sample_world_def)
  have lk: "live (m_time sample_world) (m_keys sample_world) (lockKey (q_id (sample_entry 2))) = None"
    by (simp add: live_def sample_world_def)
  have mem: "(3, ?js) \<in> set [(3, ?js)]" by simp
  show ?thesis
    using reconciliation_backoff [OF mem_service pz dz mem lk no_token_fails, of "''worker:1''" 5]
    by (simp add: f zset_del_def) blast
qed

theorem reconciliation_retry_discipline_witness:
  "list_all (\<lambda>c. case c of CRedis (ZADD k sc m) \<Rightarrow> k = PENDING_QUEUE
      | CRedis (ZREM k m) \<Rightarrow> m = stringify (entry_json (sample_entry 2)) | _ \<Rightarrow> True)
     (trace (mem_env (\<lambda>_. RNil)) (process_entry ''worker:1'' 5 (stringify (entry_json (sample_entry 2)))) node_process sample_world)"
proof -
  have "q_attempt (sample_entry 2) + 1 < q_maxAttempts (sample_entry 2)" by (simp add: sample_entry_def)
  then show ?thesis
    by (auto simp: list_all_iff split: call.split rcmd.split dest!: reconciliation_retry_discipline)
qed

text \<open>C19: a logout cancels a pending registration. When the session version is \<open>v\<close> and a logout bumps
  it, a session registration that was enqueued for version \<open>v\<close> and runs later, before the
  version key expires, sends nothing to the gateway.\<close>

theorem logout_cancels_sync:
  assumes "redis_service E time keys" and "redis_ready s"
    and "keys w (sessionVersionKey sid) = None \<and> v = 0 \<or>
      (\<exists>e. keys w (sessionVersionKey sid) = Some (VStr (show_int v), Some e) \<and>
        time (snd (snd (run E (bumpSessionVersion sid) s w))) < e)"
  shows "\<exists>w1. run E (bumpSessionVersion sid) s w = (Inr (v + 1), s, w1) \<and>
    (\<forall>s2 w2. keys w2 (sessionVersionKey sid) = keys w1 (sessionVersionKey sid) \<and>
       time (snd (snd (run E (executeOperation (SessionSync sid uid xp v)) s2 w2))) < time w1 + 86400000 \<longrightarrow>
       fetches E (executeOperation (SessionSync sid uid xp v)) s2 w2 = 0)"
proof (rule redis_service.run_bump [OF assms])
  fix w1 assume w1: "run E (bumpSessionVersion sid) s w = (Inr (v + 1), s, w1)"
    "keys w1 (sessionVersionKey sid) = Some (VStr (show_int (v + 1)), Some (time w1 + 86400000))"
  show ?thesis
    using w1 redis_service.stale_sync [OF assms(1), of _ sid "v + 1" "time w1 + 86400000" v uid xp]
    by (intro exI [of _ w1]) simp
qed

theorem logout_cancels_sync_witness:
  "\<exists>w1. run (mem_env (\<lambda>_. RNil)) (bumpSessionVersion ''sess'') node_process (mem_at 10) = (Inr (0 + 1), node_process, w1) \<and>
    (\<forall>s2 w2. m_keys w2 (sessionVersionKey ''sess'') = m_keys w1 (sessionVersionKey ''sess'') \<and>
       m_time (snd (snd (run (mem_env (\<lambda>_. RNil)) (executeOperation (SessionSync ''sess'' ''u'' 99 0)) s2 w2))) < m_time w1 + 86400000 \<longrightarrow>
       fetches (mem_env (\<lambda>_. RNil)) (executeOperation (SessionSync ''sess'' ''u'' 99 0)) s2 w2 = 0)"
  by (rule logout_cancels_sync [OF mem_service]) (simp_all add: mem_at_def)

text \<open>C20: the enqueue throttle. Of the operations that reach \<open>enqueueReconciliation\<close> within one clock
  second, the first two hundred pass the throttle and the others are dropped.\<close>

theorem enqueue_throttle:
  assumes "\<And>w. fst (clock E w) div 1000 = k" and "win_sec (window s) \<noteq> k"
  shows "fst (run E (mapM (\<lambda>_. allowEnqueueNow) (replicate n ())) s w) = Inr (map (\<lambda>i. int i < 200) [0..<n])"
proof -
  have "(0 :: int) + 1 + int i \<le> 200 \<longleftrightarrow> int i < 200" for i by linarith
  then show ?thesis using throttle_many [of E k s 0 "replicate n ()" w] assms by simp
qed

theorem enqueue_throttle_witness:
  "fst (run (fixed_env 5500 RNil) (mapM (\<lambda>_. allowEnqueueNow) (replicate 250 ())) quiet_process ()) =
    Inr (map (\<lambda>i. int i < 200) [0..<250])"
  by (rule enqueue_throttle [where k = 5]) (simp_all add: fixed_env_def quiet_process_def)

end
