(* ===== verification/Auth_Routes.thy ===== *)
theory Auth_Routes
  imports Reconciliation
begin

text \<open>
  app/api/auth/logout/route.ts and app/api/auth/sync/route.ts: the two handlers that keep
  the auth gateway in step with Clerk. Both fall back to the reconciliation queue when the
  gateway cannot be reached.
\<close>

section \<open>Handlers\<close>

text \<open>\<open>status === 429 || status >= 500\<close>, the test of both routes.\<close>

definition isRetryableFailure :: "int \<Rightarrow> bool" where
  "isRetryableFailure st \<longleftrightarrow> st = 429 \<or> 500 \<le> st"

text \<open>Stage 1 of the logout; an exception counts as a failure.\<close>

definition public_logout :: "string \<Rightarrow> string \<Rightarrow> string \<Rightarrow> bool prog" where
  "public_logout gateway token nonce =
     catch
       (bnd trace_headers (\<lambda>th.
        bnd (fetch \<lparr>fq_method = ''POST'', fq_url = gateway @ ''/v1/auth/logout'',
               fq_headers = [(''Authorization'', ''Bearer '' @ token), (''Content-Type'', ''application/json''),
                 (''x-request-nonce'', nonce)] @ th,
               fq_body = None\<rparr>) (\<lambda>res.
        Ret (fr_ok res \<or> fr_status res = 204))))
       (\<lambda>_. Ret False)"

text \<open>\<open>if (!x)\<close> on an optional string.\<close>

definition missing :: "string option \<Rightarrow> bool" where
  "missing x \<longleftrightarrow> x = None \<or> x = Some []"

definition logout_POST :: "request \<Rightarrow> response prog" where
  "logout_POST req = withErrorHandler req
     (bnd get_session (\<lambda>ses.
      if missing (sessionId ses) then Ret (ok_json [(''ok'', JBool True)])
      else let sid = the (sessionId ses) in
        bnd (bumpSessionVersion sid) (\<lambda>sessionVersion.
        bnd (call_stro CGetToken) (\<lambda>token.
        if missing token then
          bnd (forceRevokeSession sid None None) (\<lambda>result.
          sq (case result of
                GwOk \<Rightarrow> Ret ()
              | GwFail st reason \<Rightarrow> enqueueReconciliation (SessionRevoke sid None None (Some sessionVersion)))
            (Ret (ok_json [(''ok'', JBool True)])))
        else
          let jti = as_str (jopt ''jti'' (sessionClaims ses)); xp = as_int (jopt ''exp'' (sessionClaims ses)) in
          bnd (call_str CUuid) (\<lambda>nonce.
          bnd GATEWAY_PUBLIC (\<lambda>gateway.
          bnd (public_logout gateway (the token) nonce) (\<lambda>publicSucceeded.
          sq (if publicSucceeded then Ret ()
              else bnd (forceRevokeSession sid jti xp) (\<lambda>result.
                case result of
                  GwOk \<Rightarrow> Ret ()
                | GwFail st reason \<Rightarrow>
                    whenP (isRetryableFailure st)
                      (enqueueReconciliation (SessionRevoke sid jti xp (Some sessionVersion)))))
            (Ret (ok_json [(''ok'', JBool True)])))))))))"

definition sync_POST :: "request \<Rightarrow> response prog" where
  "sync_POST req = withErrorHandler req
     (bnd get_session (\<lambda>ses.
      if missing (userId ses) \<or> missing (sessionId ses)
      then Throw (createApiError UNAUTHORIZED ''Not authenticated'' 401)
      else let uid = the (userId ses); sid = the (sessionId ses) in
        (case as_int (jopt ''exp'' (sessionClaims ses)) of
           None \<Rightarrow> Throw (createApiError VALIDATION_ERROR ''Missing session expiration claim'' 400)
         | Some xp \<Rightarrow>
           if xp = 0 then Throw (createApiError VALIDATION_ERROR ''Missing session expiration claim'' 400)
           else
             bnd (readSessionVersion sid) (\<lambda>expectedVersion.
             bnd (syncSession \<lparr>sp_sessionId = sid, sp_userId = uid, sp_issuedAt = None, sp_expiresAt = xp,
                    sp_deviceInfo = None\<rparr>) (\<lambda>result.
             case result of
               GwOk \<Rightarrow> Ret (ok_json [(''ok'', JBool True), (''sessionId'', JStr sid)])
             | GwFail st reason \<Rightarrow>
                 let enqueued = isRetryableFailure st in
                 sq (whenP enqueued (enqueueReconciliation (SessionSync sid uid xp expectedVersion)))
                   (Ret (json_response st []
                     [(''error'', JStr reason),
                      (''reconciliation'', JStr (if enqueued then ''enqueued'' else ''skipped''))])))))))"

end
