(* ===== verification/Validators.thy ===== *)
theory Validators
  imports Auth_Routes
begin

text \<open>
  lib/writeright-validators.ts and the schemas of single routes. The schemas are data; the zod
  library that interprets them is not part of the repository and is the parameter \<open>zod\<close> of the
  handlers: given a schema and a JSON value it returns the issues or the parsed members. The
  locale \<open>zod_contract\<close> states what the sources rely on, and \<open>zod_ref\<close> is a function that
  satisfies it.
\<close>

section \<open>Schemas\<close>

datatype zpresence = ZRequired | ZOptional | ZDefault json | ZNullish

datatype ztype =
    ZStr bool "nat option" "nat option" bool \<comment> \<open>\<open>trim\<close>, \<open>min\<close>, \<open>max\<close>, \<open>uuid\<close>\<close>
  | ZEmail
  | ZDateStr \<comment> \<open>a string that \<open>Date.parse\<close> reads\<close>
  | ZEnum "string list"
  | ZInt bool "int option" "int option" \<comment> \<open>\<open>coerce\<close>, \<open>min\<close>, \<open>max\<close>\<close>
  | ZNumber
  | ZBool
  | ZRecord
  | ZArray ztype "nat option" "nat option" \<comment> \<open>\<open>min\<close>, \<open>max\<close>\<close>
  | ZObject bool "(string \<times> ztype \<times> zpresence) list" \<comment> \<open>\<open>strict\<close>\<close>

type_synonym zschema = "(string \<times> ztype \<times> zpresence) list"

type_synonym zparser = "zschema \<Rightarrow> json \<Rightarrow> json + (string \<times> json) list"

abbreviation z_text :: "nat \<Rightarrow> nat \<Rightarrow> ztype" where
  "z_text lo hi \<equiv> ZStr False (Some lo) (Some hi) False"

abbreviation z_uuid :: ztype where "z_uuid \<equiv> ZStr False None None True"
abbreviation z_string :: ztype where "z_string \<equiv> ZStr False None None False"

definition MODES :: "string list" where
  "MODES = [''email'', ''paragraph'', ''linkedin'', ''whatsapp'']"

definition TONES :: "string list" where
  "TONES = [''Professional'', ''Friendly'', ''Concise'', ''Academic'', ''Assertive'']"

definition MessageSchema :: zschema where
  "MessageSchema =
     [(''chatId'', z_uuid, ZRequired),
      (''text'', z_text 1 10000, ZRequired),
      (''tone'', ZEnum TONES, ZRequired),
      (''mode'', ZEnum MODES, ZRequired),
      (''output_language'', ZEnum [''en'', ''hindi'', ''tamil'', ''marathi'', ''bengali'', ''telugu''], ZDefault (JStr ''en'')),
      (''intensity'', ZInt False (Some 1) (Some 5), ZDefault (JNum 3)),
      (''quick'', ZBool, ZDefault (JBool False))]"

definition CreateChatSchema :: zschema where
  "CreateChatSchema =
     [(''title'', ZStr False None (Some 200) False, ZDefault (JStr ''Untitled Chat'')),
      (''mode'', ZEnum MODES, ZDefault (JStr ''email''))]"

definition FeedbackSchema :: zschema where
  "FeedbackSchema =
     [(''jobId'', z_uuid, ZRequired), (''chatId'', z_uuid, ZRequired), (''rating'', ZEnum [''up'', ''down''], ZRequired),
      (''reason'', ZStr False None (Some 500) False, ZOptional), (''mode'', z_string, ZOptional),
      (''tone'', z_string, ZOptional), (''metadata'', ZRecord, ZOptional)]"

definition SearchSchema :: zschema where
  "SearchSchema = [(''query'', z_text 1 100, ZRequired)]"

definition ListChatsQuerySchema :: zschema where
  "ListChatsQuerySchema =
     [(''page'', ZInt True (Some 0) None, ZDefault (JNum 0)),
      (''limit'', ZInt True (Some 1) (Some 100), ZDefault (JNum 20))]"

definition ExportSchema :: zschema where
  "ExportSchema =
     [(''format'', ZEnum [''json'', ''txt'', ''markdown'', ''gmail'', ''notion''], ZDefault (JStr ''json'')),
      (''from'', z_string, ZOptional), (''to'', z_string, ZOptional)]"

definition ShareSchema :: zschema where
  "ShareSchema = [(''chatId'', z_uuid, ZRequired), (''jobId'', z_uuid, ZRequired)]"

definition TemplateCreateSchema :: zschema where
  "TemplateCreateSchema =
     [(''name'', z_text 1 200, ZRequired), (''content'', z_text 1 10000, ZRequired),
      (''mode'', ZEnum MODES, ZRequired), (''tone'', ZEnum TONES, ZRequired)]"

definition TemplateRenameSchema :: zschema where
  "TemplateRenameSchema = [(''name'', ZStr True (Some 1) (Some 200) False, ZRequired)]"

definition GmailImportSchema :: zschema where
  "GmailImportSchema =
     [(''messageId'', z_text 1 100, ZRequired), (''subject'', ZStr False None (Some 500) False, ZOptional),
      (''action'', ZEnum [''improve'', ''summarize'', ''rewrite'', ''change_tone'', ''shorten'', ''professionalize'', ''reply''],
        ZDefault (JStr ''improve'')),
      (''targetTone'', ZEnum TONES, ZDefault (JStr ''Professional''))]"

section \<open>The contract of zod\<close>

fun ztype_ok :: "ztype \<Rightarrow> json \<Rightarrow> bool" where
  "ztype_ok (ZStr tr lo hi uu) (JStr x) =
     ((tr \<longrightarrow> trim x = x) \<and> (case lo of Some n \<Rightarrow> n \<le> length x | None \<Rightarrow> True) \<and>
      (case hi of Some n \<Rightarrow> length x \<le> n | None \<Rightarrow> True))"
| "ztype_ok ZEmail (JStr x) = (CHR ''@'' \<in> set x)"
| "ztype_ok ZDateStr (JStr x) = True"
| "ztype_ok (ZEnum xs) (JStr x) = (x \<in> set xs)"
| "ztype_ok (ZInt c lo hi) (JNum i) =
     ((case lo of Some n \<Rightarrow> n \<le> i | None \<Rightarrow> True) \<and> (case hi of Some n \<Rightarrow> i \<le> n | None \<Rightarrow> True))"
| "ztype_ok ZNumber (JNum i) = True"
| "ztype_ok ZNumber (JDec m e) = True"
| "ztype_ok ZBool (JBool b) = True"
| "ztype_ok ZRecord (JObj ps) = True"
| "ztype_ok (ZArray t lo hi) (JArr js) =
     (list_all (\<lambda>j. ztype_ok t j) js \<and> (case lo of Some n \<Rightarrow> n \<le> length js | None \<Rightarrow> True) \<and>
      (case hi of Some n \<Rightarrow> length js \<le> n | None \<Rightarrow> True))"
| "ztype_ok (ZObject strict sch) (JObj ps) =
     (list_all (\<lambda>(k, ty, pr). case map_of ps k of
          Some j \<Rightarrow> ztype_ok ty j \<or> (pr = ZNullish \<and> j = JNull)
        | None \<Rightarrow> pr = ZOptional \<or> pr = ZNullish) sch \<and>
      set (map fst ps) \<subseteq> set (map fst sch))"
| "ztype_ok _ _ = False"

definition zmember_ok :: "ztype \<Rightarrow> zpresence \<Rightarrow> json option \<Rightarrow> bool" where
  "zmember_ok ty pr v = (case v of
     Some j \<Rightarrow> ztype_ok ty j \<or> (pr = ZNullish \<and> j = JNull)
   | None \<Rightarrow> pr = ZOptional \<or> pr = ZNullish)"

definition zod_ok :: "zschema \<Rightarrow> (string \<times> json) list \<Rightarrow> bool" where
  "zod_ok sch ps = (list_all (\<lambda>(k, ty, pr). zmember_ok ty pr (map_of ps k)) sch \<and>
     set (map fst ps) \<subseteq> set (map fst sch))"

lemma zod_ok_member: "zod_ok sch ps \<Longrightarrow> (k, ty, pr) \<in> set sch \<Longrightarrow> zmember_ok ty pr (map_of ps k)"
  by (auto simp: zod_ok_def list_all_iff)

text \<open>Members that coerce take \<open>null\<close> for 0.\<close>

fun coerces :: "ztype \<Rightarrow> bool" where
  "coerces (ZInt c lo hi) = c"
| "coerces _ = False"

locale zod_contract =
  fixes zod :: zparser
  assumes zod_sound: "zod sch j = Inr ps \<Longrightarrow> zod_ok sch ps"
    and zod_null: "(k, ty, pr) \<in> set sch \<Longrightarrow> pr \<noteq> ZNullish \<Longrightarrow> \<not> coerces ty \<Longrightarrow> jfield k j = Some JNull \<Longrightarrow>
      \<exists>issues. zod sch j = Inl issues"
begin

lemma zod_member:
  assumes "zod sch j = Inr ps" and "(k, ty, pr) \<in> set sch"
  shows "zmember_ok ty pr (map_of ps k)"
  using zod_ok_member [OF zod_sound [OF assms(1)] assms(2)] .

end

text \<open>A parser that satisfies the contract: members are taken from the object, trimmed or
  replaced by their default, and checked; issues are the names of the bad members.\<close>

definition zod_value :: "ztype \<Rightarrow> zpresence \<Rightarrow> json option \<Rightarrow> json option" where
  "zod_value ty pr v = (case v of
     None \<Rightarrow> (case pr of ZDefault d \<Rightarrow> Some d | _ \<Rightarrow> None)
   | Some j \<Rightarrow> (case (ty, j) of
       (ZStr True lo hi uu, JStr x) \<Rightarrow> Some (JStr (trim x))
     | (ZInt True lo hi, JStr x) \<Rightarrow> (case parseInt x of Some n \<Rightarrow> Some (JNum n) | None \<Rightarrow> Some j)
     | _ \<Rightarrow> Some j))"

definition zod_ref :: zparser where
  "zod_ref sch j =
     (case j of
        JObj ps \<Rightarrow>
          (let out = concat (map (\<lambda>(k, ty, pr). case zod_value ty pr (map_of ps k) of Some v \<Rightarrow> [(k, v)] | None \<Rightarrow> []) sch)
           in if zod_ok sch out then Inr out
              else Inl (JArr (map (\<lambda>(k, ty, pr). JStr k)
                     (List.filter (\<lambda>(k, ty, pr). \<not> zmember_ok ty pr (map_of out k)) sch))))
      | _ \<Rightarrow> Inl (JArr []))"

lemma zod_value_null: "zod_value ty pr (Some JNull) = Some JNull"
  by (cases ty) (auto simp: zod_value_def split: bool.splits)

lemma map_of_concat_null:
  assumes "\<And>ty pr. f k ty pr = Some v" and "k \<in> fst ` set sch"
  shows "map_of (concat (map (\<lambda>(k', ty, pr). case f k' ty pr of Some x \<Rightarrow> [(k', x)] | None \<Rightarrow> []) sch)) k = Some v"
  using assms(2)
proof (induction sch)
  case (Cons e sch)
  obtain k' ty pr where "e = (k', ty, pr)" by (cases e)
  then show ?case using Cons assms(1) by (cases "k' = k") (auto split: option.splits)
qed simp

interpretation zod_reference: zod_contract zod_ref
proof unfold_locales
  fix sch j ps assume "zod_ref sch j = Inr ps"
  then show "zod_ok sch ps" by (auto simp: zod_ref_def Let_def split: json.splits if_splits)
next
  fix k ty pr and sch :: zschema and j
  assume m: "(k, ty, pr) \<in> set sch" and n: "pr \<noteq> ZNullish" and j: "jfield k j = Some JNull"
  obtain ps where ps: "j = JObj ps" "map_of ps k = Some JNull" using j by (cases j) auto
  let ?out = "concat (map (\<lambda>(k, ty, pr). case zod_value ty pr (map_of ps k) of Some v \<Rightarrow> [(k, v)] | None \<Rightarrow> []) sch)"
  have "map_of ?out k = Some JNull"
    using m by (intro map_of_concat_null [where f = "\<lambda>k ty pr. zod_value ty pr (map_of ps k)"])
      (force simp: ps(2) zod_value_null)+
  moreover have "\<not> ztype_ok ty JNull" by (cases ty) auto
  ultimately have "\<not> zmember_ok ty pr (map_of ?out k)" using n by (simp add: zmember_ok_def)
  then have "\<not> zod_ok sch ?out" using zod_ok_member [OF _ m] by blast
  then show "\<exists>issues. zod_ref sch j = Inl issues" by (simp add: zod_ref_def ps(1) Let_def)
qed

section \<open>Identifiers\<close>

text \<open>\<open>UUID_RE\<close>: groups of 8, 4, 4, 4 and 12 hexadecimal digits.\<close>

definition is_hex :: "char \<Rightarrow> bool" where
  "is_hex c \<longleftrightarrow> hex_val c \<noteq> None"

definition validateUuid :: "string \<Rightarrow> bool" where
  "validateUuid s \<longleftrightarrow> length s = 36 \<and>
     list_all (\<lambda>i. if i \<in> {8, 13, 18, 23} then s ! i = CHR ''-'' else is_hex (s ! i)) [0..<36]"

section \<open>Reading parsed members\<close>

definition zstr :: "string \<Rightarrow> (string \<times> json) list \<Rightarrow> string" where
  "zstr k ps = (case map_of ps k of Some (JStr x) \<Rightarrow> x | _ \<Rightarrow> [])"

definition zint :: "string \<Rightarrow> (string \<times> json) list \<Rightarrow> int" where
  "zint k ps = (case map_of ps k of Some (JNum i) \<Rightarrow> i | _ \<Rightarrow> 0)"

definition zbool :: "string \<Rightarrow> (string \<times> json) list \<Rightarrow> bool" where
  "zbool k ps = (case map_of ps k of Some (JBool b) \<Rightarrow> b | _ \<Rightarrow> False)"

text \<open>\<open>x || null\<close> on an optional string member.\<close>

definition zor_null :: "string \<Rightarrow> (string \<times> json) list \<Rightarrow> json" where
  "zor_null k ps = (case map_of ps k of Some v \<Rightarrow> if truthy v then v else JNull | None \<Rightarrow> JNull)"

text \<open>A valid identifier has no separator of a Redis key, no slash and no query character.\<close>

lemma uuid_chars:
  assumes "validateUuid s" and "c \<in> set s"
  shows "is_hex c \<or> c = CHR ''-''"
proof -
  have len: "length s = 36"
    and all: "\<forall>i \<in> set [0..<36]. if i \<in> {8, 13, 18, 23} then s ! i = CHR ''-'' else is_hex (s ! i)"
    using assms(1) unfolding validateUuid_def list_all_iff by blast+
  obtain i where i: "i < length s" "s ! i = c" using assms(2) by (metis in_set_conv_nth)
  then have "i \<in> set [0..<36]" unfolding set_upt atLeastLessThan_iff using len by simp
  then have "if i \<in> {8, 13, 18, 23} then s ! i = CHR ''-'' else is_hex (s ! i)" using all by blast
  then show ?thesis using i(2) by (simp split: if_splits)
qed

end
