(* ===== verification/Routes.thy ===== *)
theory Routes
  imports Validators
begin

text \<open>
  What the API handlers share: the Supabase client of lib/supabase.ts, the authentication
  prologue, body parsing, row access, and the contracts \<open>authed_route\<close> of a handler for signed-in
  users and \<open>user_route\<close> of one that serves the rows of that user only. Interpretations of the
  locales are in the theories of the routes; their lemmas say that an anonymous request is answered
  with 401 before any other service is called, and that every database query of a signed-in request
  is confined to that user.
\<close>

section \<open>lib/supabase.ts\<close>

definition getSupabaseUrl :: "string prog" where
  "getSupabaseUrl =
     bnd (get_env ''NEXT_PUBLIC_SUPABASE_URL'') (\<lambda>a.
     bnd (get_env ''SUPABASE_URL'') (\<lambda>b.
     case (case a of Some x \<Rightarrow> Some x | None \<Rightarrow> b) of
       Some url \<Rightarrow> if url = [] then Throw (createApiError MISSING_SECRET ''[supabase] NEXT_PUBLIC_SUPABASE_URL is not configured. Set it in your environment.'' 500)
                  else Ret url
     | None \<Rightarrow> Throw (createApiError MISSING_SECRET ''[supabase] NEXT_PUBLIC_SUPABASE_URL is not configured. Set it in your environment.'' 500)))"

definition getServiceRoleKey :: "string prog" where
  "getServiceRoleKey =
     bnd (get_env ''SUPABASE_SERVICE_ROLE_KEY'') (\<lambda>k.
     if missing k then Throw (createApiError MISSING_SECRET ''[supabase] SUPABASE_SERVICE_ROLE_KEY is not configured. Set it in your environment.'' 500)
     else Ret (the k))"

definition getSupabaseAdmin :: "unit prog" where
  "getSupabaseAdmin =
     GetS (\<lambda>s. if supabase_client s then Ret ()
       else sq getSupabaseUrl (sq getServiceRoleKey
         (GetS (\<lambda>s'. PutS (s'\<lparr>supabase_client := True\<rparr>) (Ret ())))))"

section \<open>Prologue and bodies\<close>

definition unauthorized :: exn where
  "unauthorized = createApiError UNAUTHORIZED ''Not authenticated'' 401"

definition authed :: "(string \<Rightarrow> response prog) \<Rightarrow> response prog" where
  "authed h = bnd get_session (\<lambda>ses. if missing (userId ses) then Throw unauthorized else h (the (userId ses)))"

text \<open>\<open>await req.json()\<close> with the error of the \<open>catch\<close>, and with \<open>.catch(() => ({}))\<close>.\<close>

definition json_body :: "request \<Rightarrow> exn \<Rightarrow> json prog" where
  "json_body req e = (case req_body req of Some j \<Rightarrow> Ret j | None \<Rightarrow> Throw e)"

definition json_body_or_empty :: "request \<Rightarrow> json" where
  "json_body_or_empty req = (case req_body req of Some j \<Rightarrow> j | None \<Rightarrow> JObj [])"

abbreviation invalid_body :: exn where
  "invalid_body \<equiv> createApiError INVALID_BODY ''Invalid JSON body'' 400"

abbreviation invalid_input :: exn where
  "invalid_input \<equiv> createApiError VALIDATION_ERROR ''Invalid input'' 400"

text \<open>\<open>safeParse\<close> and the error that carries the issues.\<close>

definition parsed :: "zparser \<Rightarrow> zschema \<Rightarrow> json \<Rightarrow> (string \<times> json) list prog" where
  "parsed zod sch j = (case zod sch j of
     Inr ps \<Rightarrow> Ret ps
   | Inl issues \<Rightarrow> Throw (createApiErrorM VALIDATION_ERROR ''Invalid input'' (Some 400)
       \<lparr>meta_headers = None, meta_fields = [(''issues'', issues)]\<rparr>))"

definition check_uuid :: "string \<Rightarrow> unit prog" where
  "check_uuid i = (if validateUuid i then Ret () else Throw (createApiError VALIDATION_ERROR ''Invalid ID'' 400))"

section \<open>Rows\<close>

definition jval :: "json option \<Rightarrow> json" where
  "jval x = (case x of Some j \<Rightarrow> j | None \<Rightarrow> JNull)"

text \<open>\<open>data ?? []\<close>.\<close>

definition rows_of :: "db_result \<Rightarrow> json" where
  "rows_of r = nullish (db_data r) (JArr [])"

definition row_list :: "db_result \<Rightarrow> json list" where
  "row_list r = arr_items (db_data r)"

text \<open>\<open>error || !data\<close>.\<close>

definition db_missing :: "db_result \<Rightarrow> bool" where
  "db_missing r \<longleftrightarrow> db_err r \<noteq> None \<or> \<not> truthyo (db_data r)"

definition not_single :: "db_result \<Rightarrow> bool" where
  "not_single r \<longleftrightarrow> (case db_err r of Some e \<Rightarrow> db_code e = ''PGRST116'' | None \<Rightarrow> False)"

abbreviation db_failed :: "string \<Rightarrow> exn" where
  "db_failed msg \<equiv> createApiError DB_ERROR msg 500"

abbreviation not_found :: exn where
  "not_found \<equiv> createApiError NOT_FOUND ''Not found'' 404"

text \<open>A list query: an error is a 500, otherwise the rows.\<close>

definition db_many :: "query \<Rightarrow> string \<Rightarrow> db_result prog" where
  "db_many q msg = bnd (db q) (\<lambda>r. if db_err r \<noteq> None then Throw (db_failed msg) else Ret r)"

text \<open>A query for one row: \<open>PGRST116\<close> is a 404, every other failure a 500.\<close>

definition db_one :: "query \<Rightarrow> string \<Rightarrow> json prog" where
  "db_one q msg = bnd (db q) (\<lambda>r.
     if db_missing r then Throw (if not_single r then not_found else db_failed msg)
     else Ret (jval (db_data r)))"

text \<open>The members of a row that are present.\<close>

definition pick :: "string list \<Rightarrow> json \<Rightarrow> (string \<times> json) list" where
  "pick ks row = concat (map (\<lambda>k. case jfield k row of Some v \<Rightarrow> [(k, v)] | None \<Rightarrow> []) ks)"

section \<open>Reading unchecked bodies\<close>

text \<open>Reading a member of \<open>null\<close>, or calling a method a value does not have, is a \<open>TypeError\<close>.\<close>

definition type_error :: exn where
  "type_error = JsError ''TypeError''"

definition body_member :: "string \<Rightarrow> json \<Rightarrow> json option prog" where
  "body_member k j = (if j = JNull then Throw type_error else Ret (jfield k j))"

text \<open>\<open>x?.trim() ?? ""\<close>.\<close>

definition trimmed :: "json option \<Rightarrow> string prog" where
  "trimmed v = (case v of
     None \<Rightarrow> Ret [] | Some JNull \<Rightarrow> Ret [] | Some (JStr x) \<Rightarrow> Ret (trim x) | Some _ \<Rightarrow> Throw type_error)"

text \<open>A member whose value is \<open>undefined\<close> is not serialized.\<close>

definition member :: "string \<Rightarrow> json option \<Rightarrow> (string \<times> json) list" where
  "member k v = (case v of Some j \<Rightarrow> [(k, j)] | None \<Rightarrow> [])"

text \<open>\<open>String(v)\<close> in a concatenation.\<close>

fun js_string :: "json \<Rightarrow> string" where
  "js_string JNull = ''null''"
| "js_string (JBool b) = (if b then ''true'' else ''false'')"
| "js_string (JNum n) = show_int n"
| "js_string (JDec m e) = show_dec m e"
| "js_string (JStr x) = x"
| "js_string (JArr js) = join '','' (map (\<lambda>j. if j = JNull then [] else js_string j) js)"
| "js_string (JObj ps) = ''[object Object]''"

text \<open>A value, possibly \<open>undefined\<close>, in a template literal.\<close>

definition literal :: "json option \<Rightarrow> string" where
  "literal v = (case v of None \<Rightarrow> ''undefined'' | Some j \<Rightarrow> js_string j)"

definition nl :: char where "nl = CHR 0x0A"

text \<open>\<open>x ?? n\<close> on a numeric column: the integer columns of the schema hold integers or \<open>null\<close>.\<close>

definition int_or :: "int \<Rightarrow> json option \<Rightarrow> int" where
  "int_or d v = (case v of Some (JNum n) \<Rightarrow> n | _ \<Rightarrow> d)"

text \<open>\<open>Promise.all\<close>: every operation is started, the first rejection is thrown.\<close>

definition settled :: "'a prog \<Rightarrow> (exn + 'a) prog" where
  "settled p = catch (bnd p (\<lambda>x. Ret (Inr x))) (\<lambda>e. Ret (Inl e))"

fun all_of :: "(exn + 'a) list \<Rightarrow> 'a list prog" where
  "all_of [] = Ret []"
| "all_of (Inl e # rs) = Throw e"
| "all_of (Inr x # rs) = bnd (all_of rs) (\<lambda>xs. Ret (x # xs))"

definition promise_all :: "'a prog list \<Rightarrow> 'a list prog" where
  "promise_all ps = bnd (mapM settled ps) all_of"

definition promise_both :: "'a prog \<Rightarrow> 'b prog \<Rightarrow> ('a \<times> 'b) prog" where
  "promise_both p q = bnd (settled p) (\<lambda>a. bnd (settled q) (\<lambda>b.
     case a of Inl e \<Rightarrow> Throw e | Inr x \<Rightarrow> (case b of Inl e \<Rightarrow> Throw e | Inr y \<Rightarrow> Ret (x, y))))"

section \<open>Tenants\<close>

text \<open>A query that touches only rows of the user: a filter on the column of the owner, or a row that
  carries it. The Gmail tables call the column \<open>clerk_user_id\<close>.\<close>

definition row_of_user :: "string \<Rightarrow> json \<Rightarrow> bool" where
  "row_of_user uid row \<longleftrightarrow> jfield ''user_id'' row = Some (JStr uid) \<or> jfield ''clerk_user_id'' row = Some (JStr uid)"

fun query_scoped :: "string \<Rightarrow> query \<Rightarrow> bool" where
  "query_scoped uid (Query t op fs ms md) =
     (case op of
        Insert row \<Rightarrow> row_of_user uid row
      | Upsert row k ig \<Rightarrow> row_of_user uid row
      | _ \<Rightarrow> Eq ''user_id'' (JStr uid) \<in> set fs \<or> Eq ''clerk_user_id'' (JStr uid) \<in> set fs)"
| "query_scoped uid (Rpc name args) = (jfield ''p_user_id'' args = Some (JStr uid))"

fun tenant :: "string \<Rightarrow> call \<Rightarrow> bool" where
  "tenant uid (CDb q) = query_scoped uid q"
| "tenant uid _ = True"

text \<open>A handler that answers signed-in users only, and one that besides serves their rows only.\<close>

locale authed_route =
  fixes handler :: "request \<Rightarrow> response prog" and body :: "request \<Rightarrow> string \<Rightarrow> response prog"
  assumes handler_eq: "handler req = withErrorHandler req (authed (body req))"
begin

text \<open>Without a user the answer is 401 and nothing but the session has been asked for.\<close>

lemma anonymous:
  assumes "answer E CAuth w = (RSession ses, w1)" and "missing (userId ses)"
  shows "\<exists>resp w2. run E (handler req) s w = (Inr resp, s, w2) \<and> resp_status resp = 401 \<and>
    trace E (handler req) s w = [CAuth, CAuth]"
  using assms
  by (auto simp: handler_eq run_withErrorHandler withErrorHandler_def authed_def run_catch run_bnd get_session_def
      trace_bnd trace_catch unauthorized_def createApiErrorM_def no_meta_def Let_def json_response_def sq_def
      split: prod.splits reply.splits)

text \<open>Every execution ends with a response.\<close>

lemma total: "\<exists>resp. fst (run E (handler req) s w) = Inr resp"
  unfolding handler_eq using all_results_run [OF withErrorHandler_total] .

end

locale user_route = authed_route handler body
  for handler :: "request \<Rightarrow> response prog" and body :: "request \<Rightarrow> string \<Rightarrow> response prog" +
  assumes body_scoped: "all_calls (tenant uid) (body req uid)"
begin

text \<open>With a user every query is confined to the user's rows.\<close>

lemma isolated:
  assumes "answer E CAuth w = (RSession ses, w1)" and "userId ses = Some uid" and "uid \<noteq> []"
    and "c \<in> set (trace E (handler req) s w)"
  shows "tenant uid c"
proof -
  let ?k = "bnd (catch (body req uid) toApiResponse) (\<lambda>response.
     sq (catch (sq get_session (Ret ())) (\<lambda>_. Ret ())) (Ret response))"
  have "all_calls (tenant uid) ?k"
    by (intro all_calls_bnd all_calls_catch all_calls_sq) (simp_all add: body_scoped all_calls_toApiResponse)
  moreover have "trace E (handler req) s w = CAuth # trace E ?k s w1"
    using assms(1-3)
    by (simp add: handler_eq withErrorHandler_def authed_def get_session_def missing_def)
  ultimately show ?thesis using assms(4) all_calls_trace by fastforce
qed

end

section \<open>Lemmas\<close>

lemma all_calls_supabase [simp]: "all_calls P getSupabaseAdmin"
  by (auto simp: getSupabaseAdmin_def getSupabaseUrl_def getServiceRoleKey_def split: option.splits)

lemma all_calls_bodies [simp]: "all_calls P (json_body req e)" "all_calls P (parsed zod sch j)" "all_calls P (check_uuid i)"
  by (auto simp: json_body_def parsed_def check_uuid_def split: option.splits sum.splits)

lemma all_calls_unchecked [simp]: "all_calls P (body_member k j)" "all_calls P (trimmed v)" "all_calls P (all_of rs)"
proof -
  show "all_calls P (all_of rs)" by (induction rs rule: all_of.induct) simp_all
qed (simp_all add: body_member_def trimmed_def)

lemma all_calls_settled [simp]: "all_calls P p \<Longrightarrow> all_calls P (settled p)"
  by (simp add: settled_def)

lemma all_calls_promises [simp]:
  "(\<And>p. p \<in> set ps \<Longrightarrow> all_calls P p) \<Longrightarrow> all_calls P (promise_all ps)"
  "all_calls P p \<Longrightarrow> all_calls P q \<Longrightarrow> all_calls P (promise_both p q)"
  by (simp_all add: promise_all_def promise_both_def)

lemma all_calls_promise_map [simp]:
  "(\<And>x. x \<in> set xs \<Longrightarrow> all_calls P (f x)) \<Longrightarrow> all_calls P (promise_all (map f xs))"
  by (rule all_calls_promises) auto

lemma all_calls_db [simp]: "P (CDb q) \<Longrightarrow> all_calls P (db_many q m)" "P (CDb q) \<Longrightarrow> all_calls P (db_one q m)"
  by (simp_all add: db_many_def db_one_def)

lemma tenant_redis [simp]: "all_calls (tenant uid) (redis_unit rc)" "all_calls (tenant uid) (redis_int rc)"
  by simp_all

end
