(* ===== verification/Chat_Routes.thy ===== *)
theory Chat_Routes
  imports Routes
begin

text \<open>
  The chats: app/api/writeright/chat (create, list), chat/[id] (read, soft delete, rename),
  chat/[id]/messages, and the feedback route. Each handler is its authenticated body in
  \<open>withErrorHandler\<close>; the interpretations of \<open>user_route\<close> discharge the tenant contract.
  Rows returned by the database are JSON objects.
\<close>

section \<open>Chats\<close>

definition stats_key :: "string \<Rightarrow> string" where
  "stats_key uid = ns [''writeright'', ''stats'', uid]"

text \<open>\<open>if (!isCircuitOpen()) try { redis.del(stats) } catch {}\<close>.\<close>

definition drop_stats :: "string \<Rightarrow> unit prog" where
  "drop_stats uid = bnd isCircuitOpen (\<lambda>op.
     if op then Ret () else attempt (pool_unit (DEL [stats_key uid])))"

definition chat_title :: "string \<Rightarrow> string" where
  "chat_title raw = (if trim raw \<noteq> [] then take 200 (trim raw) else ''Untitled Chat'')"

definition chat_POST_body :: "zparser \<Rightarrow> request \<Rightarrow> string \<Rightarrow> response prog" where
  "chat_POST_body zod req uid =
     bnd (json_body req invalid_body) (\<lambda>body.
     bnd (parsed zod CreateChatSchema body) (\<lambda>ps.
     sq getSupabaseAdmin
       (bnd (db (Query ''writeright_chats''
          (Insert (JObj [(''user_id'', JStr uid), (''title'', JStr (chat_title (zstr ''title'' ps))),
             (''mode'', nullish (map_of ps ''mode'') (JStr ''email''))]))
          [] [Returning ''id, user_id, title, mode, created_at, updated_at''] Single)) (\<lambda>r.
        if db_err r \<noteq> None then Throw (db_failed ''Failed to create chat'')
        else Ret (json_response 201 [] [(''chat'', jval (db_data r))])))))"

definition chat_POST :: "zparser \<Rightarrow> request \<Rightarrow> response prog" where
  "chat_POST zod req = withErrorHandler req (authed (chat_POST_body zod req))"

text \<open>The count of the embedded messages: a number, or the integer a text starts with.\<close>

definition list_count :: "json \<Rightarrow> json" where
  "list_count chat = (case jfield ''writeright_messages'' chat of
     Some (JArr (c # _)) \<Rightarrow> (case jfield ''count'' c of
         Some (JNum n) \<Rightarrow> JNum n
       | Some (JDec m e) \<Rightarrow> JDec m e
       | Some (JStr x) \<Rightarrow> (case parseInt x of Some n \<Rightarrow> JNum n | None \<Rightarrow> JNum 0)
       | _ \<Rightarrow> JNum 0)
   | _ \<Rightarrow> JNum 0)"

definition list_chat :: "json \<Rightarrow> json" where
  "list_chat chat = JObj (pick [''id'', ''user_id'', ''title'', ''mode'', ''created_at'', ''updated_at''] chat
     @ [(''message_count'', list_count chat)])"

definition query_obj :: "request \<Rightarrow> string list \<Rightarrow> json" where
  "query_obj req ks = JObj (concat (map (\<lambda>k. case query_get req k of Some v \<Rightarrow> [(k, JStr v)] | None \<Rightarrow> []) ks))"

definition chat_GET_body :: "zparser \<Rightarrow> request \<Rightarrow> string \<Rightarrow> response prog" where
  "chat_GET_body zod req uid =
     bnd (parsed zod ListChatsQuerySchema (query_obj req [''page'', ''limit''])) (\<lambda>ps.
     let page = zint ''page'' ps; lim = zint ''limit'' ps; offset = page * lim in
     sq getSupabaseAdmin
       (bnd (db_many (Query ''writeright_chats''
          (Select ''id, user_id, title, mode, created_at, updated_at, writeright_messages(count)'')
          [Eq ''user_id'' (JStr uid), IsNull ''deleted_at'']
          [Order ''updated_at'' False, Range offset (offset + lim - 1)] Many) ''Failed to list chats'') (\<lambda>r.
        Ret (ok_json [(''chats'', JArr (map list_chat (row_list r))), (''page'', JNum page), (''limit'', JNum lim)]))))"

definition chat_GET :: "zparser \<Rightarrow> request \<Rightarrow> response prog" where
  "chat_GET zod req = withErrorHandler req (authed (chat_GET_body zod req))"

section \<open>One chat\<close>

definition one_count :: "json \<Rightarrow> (string \<times> json) list" where
  "one_count chat = (case jfield ''writeright_messages'' chat of
     Some (JArr (c # _)) \<Rightarrow> (case jfield ''count'' c of Some v \<Rightarrow> [(''message_count'', v)] | None \<Rightarrow> [])
   | _ \<Rightarrow> [(''message_count'', JNum 0)])"

definition owned_chat :: "string \<Rightarrow> string \<Rightarrow> filter list" where
  "owned_chat chatId uid = [Eq ''id'' (JStr chatId), Eq ''user_id'' (JStr uid), IsNull ''deleted_at'']"

definition chat_id_GET_body :: "request \<Rightarrow> string \<Rightarrow> response prog" where
  "chat_id_GET_body req uid =
     (let chatId = param_get req ''id'' in
      sq (check_uuid chatId)
      (sq getSupabaseAdmin
        (bnd (db_one (Query ''writeright_chats''
           (Select ''id, user_id, title, mode, metadata, created_at, updated_at, writeright_messages(count)'')
           (owned_chat chatId uid) [] Single) ''Failed to get chat'') (\<lambda>chat.
         Ret (ok_json [(''chat'', JObj (pick [''id'', ''user_id'', ''title'', ''mode'', ''metadata'', ''created_at'', ''updated_at''] chat
           @ one_count chat))])))))"

definition chat_id_GET :: "request \<Rightarrow> response prog" where
  "chat_id_GET req = withErrorHandler req (authed (chat_id_GET_body req))"

definition chat_id_DELETE_body :: "request \<Rightarrow> string \<Rightarrow> response prog" where
  "chat_id_DELETE_body req uid =
     (let chatId = param_get req ''id'' in
      sq (check_uuid chatId)
      (sq getSupabaseAdmin
        (bnd now (\<lambda>t.
         bnd (db_many (Query ''writeright_chats'' (Update (JObj [(''deleted_at'', JStr (toISOString t))]))
           (owned_chat chatId uid) [Returning ''id''] Many) ''Failed to delete chat'') (\<lambda>r.
         if row_list r = [] then Throw (createApiError NOT_FOUND ''Chat not found or already deleted'' 404)
         else Ret (ok_json [(''ok'', JBool True)]))))))"

definition chat_id_DELETE :: "request \<Rightarrow> response prog" where
  "chat_id_DELETE req = withErrorHandler req (authed (chat_id_DELETE_body req))"

definition chat_id_PATCH_body :: "zparser \<Rightarrow> request \<Rightarrow> string \<Rightarrow> response prog" where
  "chat_id_PATCH_body zod req uid =
     (let chatId = param_get req ''id'' in
      sq (check_uuid chatId)
      (bnd (json_body req invalid_body) (\<lambda>body.
       bnd (parsed zod TemplateRenameSchema body) (\<lambda>ps.
       let title = take 200 (trim (zstr ''name'' ps)) in
       sq getSupabaseAdmin
         (bnd (db_one (Query ''writeright_chats'' (Update (JObj [(''title'', JStr title)]))
            (owned_chat chatId uid) [Returning ''id, title, updated_at''] Single) ''Failed to rename chat'') (\<lambda>chat.
          sq (drop_stats uid) (Ret (ok_json [(''chat'', chat)]))))))))"

definition chat_id_PATCH :: "zparser \<Rightarrow> request \<Rightarrow> response prog" where
  "chat_id_PATCH zod req = withErrorHandler req (authed (chat_id_PATCH_body zod req))"

section \<open>Messages\<close>

definition meta_of :: "json \<Rightarrow> json" where
  "meta_of row = nullish (jfield ''metadata'' row) (JObj [])"

definition obj_members :: "json \<Rightarrow> (string \<times> json) list" where
  "obj_members j = (case j of JObj ps \<Rightarrow> ps | _ \<Rightarrow> [])"

definition str_or_null :: "json option \<Rightarrow> json" where
  "str_or_null v = (case v of Some (JStr x) \<Rightarrow> JStr x | _ \<Rightarrow> JNull)"

definition assistant_job_ids :: "json list \<Rightarrow> string list" where
  "assistant_job_ids rows = concat (map (\<lambda>row. case jfield ''job_id'' (meta_of row) of
     Some (JStr i) \<Rightarrow> if i \<noteq> ''cached'' \<and> i \<noteq> [] then [i] else [] | _ \<Rightarrow> []) rows)"

definition normalize_message :: "bool \<Rightarrow> (string \<times> json) list \<Rightarrow> json \<Rightarrow> json" where
  "normalize_message compare jobs row =
     (let m = meta_of row;
          meta = obj_set ''original_text'' (str_or_null (jfield ''original_text'' m))
                   (obj_set ''input_hash'' (str_or_null (jfield ''input_hash'' m)) (obj_members m));
          base = obj_set ''metadata'' (JObj meta) (obj_members row)
      in case jfield ''job_id'' m of
           Some (JStr i) \<Rightarrow> if compare \<and> i \<noteq> []
             then JObj (obj_set ''scores'' (nullish (jopt ''scores'' (map_of (rev jobs) i)) JNull) base)
             else JObj base
         | _ \<Rightarrow> JObj base)"

definition job_outputs :: "json list \<Rightarrow> (string \<times> json) list" where
  "job_outputs jobs = concat (map (\<lambda>j. case jfield ''id'' j of Some (JStr i) \<Rightarrow> [(i, jval (jfield ''output'' j))] | _ \<Rightarrow> []) jobs)"

definition messages_GET_body :: "request \<Rightarrow> string \<Rightarrow> response prog" where
  "messages_GET_body req uid =
     (let chatId = param_get req ''id''; includeCompare = (query_get req ''compare'' = Some ''true'') in
      sq (check_uuid chatId)
      (sq getSupabaseAdmin
        (bnd (db (Query ''writeright_chats'' (Select ''id'') (owned_chat chatId uid) [] Single)) (\<lambda>c.
         if db_missing c then Throw (createApiError NOT_FOUND ''Chat not found'' 404)
         else bnd (db_many (Query ''writeright_messages''
                (Select ''id, chat_id, user_id, role, content, metadata, created_at'')
                [Eq ''chat_id'' (JStr chatId), Eq ''user_id'' (JStr uid), IsNull ''deleted_at'']
                [Order ''created_at'' True] Many) ''Failed to fetch messages'') (\<lambda>r.
           let rows = row_list r; ids = assistant_job_ids rows in
           bnd (if includeCompare \<and> ids \<noteq> []
                then bnd (db_many (Query ''writeright_ai_jobs'' (Select ''id, output, status'')
                       [Eq ''user_id'' (JStr uid), In ''id'' (map JStr ids)] [] Many) ''Failed to fetch message scores'')
                       (\<lambda>js. Ret (job_outputs (row_list js)))
                else Ret []) (\<lambda>jobs.
           Ret (ok_json [(''messages'', JArr (map (normalize_message includeCompare jobs) rows))])))))))"

definition messages_GET :: "request \<Rightarrow> response prog" where
  "messages_GET req = withErrorHandler req (authed (messages_GET_body req))"

section \<open>Feedback\<close>

text \<open>Only a \<open>WriteRightError\<close> passes the \<open>catch\<close> around the rate limit.\<close>

fun is_write_right :: "exn \<Rightarrow> bool" where
  "is_write_right (WriteRightError c m st meta) = True"
| "is_write_right _ = False"

definition feedback_limit :: "string \<Rightarrow> unit prog" where
  "feedback_limit uid =
     catch (bnd (checkRateLimit uid 30) (\<lambda>rl.
            if \<not> allowed rl then Throw (createApiError RATE_LIMITED ''Rate limit exceeded'' 429) else Ret ()))
       (\<lambda>e. if is_write_right e then Throw e else Ret ())"

definition feedback_POST_body :: "zparser \<Rightarrow> request \<Rightarrow> string \<Rightarrow> response prog" where
  "feedback_POST_body zod req uid =
     bnd (json_body req invalid_body) (\<lambda>body.
     bnd (parsed zod FeedbackSchema body) (\<lambda>ps.
     sq (feedback_limit uid)
     (sq getSupabaseAdmin
       (bnd (db (Query ''writeright_chats'' (Select ''id'') (owned_chat (zstr ''chatId'' ps) uid) [] Single)) (\<lambda>c.
        if db_missing c then Throw (createApiError CHAT_NOT_FOUND ''Chat not found'' 404)
        else sq (db_many (Query ''writeright_feedback''
               (Insert (JObj [(''user_id'', JStr uid), (''chat_id'', JStr (zstr ''chatId'' ps)),
                  (''job_id'', JStr (zstr ''jobId'' ps)), (''rating'', JStr (zstr ''rating'' ps)),
                  (''reason'', zor_null ''reason'' ps), (''mode'', zor_null ''mode'' ps), (''tone'', zor_null ''tone'' ps),
                  (''metadata'', case map_of ps ''metadata'' of Some m \<Rightarrow> m | None \<Rightarrow> JObj [])]))
               [] [] Many) ''Failed to save feedback'')
          (sq (drop_stats uid) (Ret (ok_json [(''success'', JBool True)]))))))))"

definition feedback_POST :: "zparser \<Rightarrow> request \<Rightarrow> response prog" where
  "feedback_POST zod req = withErrorHandler req (authed (feedback_POST_body zod req))"

section \<open>The contract\<close>

lemma all_calls_drop_stats [simp]: "(\<And>c. P (CRedis c)) \<Longrightarrow> all_calls P (drop_stats uid)"
  by (simp add: drop_stats_def)

lemma all_calls_feedback_limit [simp]: "(\<And>c. P (CRedis c)) \<Longrightarrow> all_calls P (feedback_limit uid)"
  by (simp add: feedback_limit_def)

lemma owned_chat_scoped [simp]: "Eq ''user_id'' (JStr uid) \<in> set (owned_chat i uid)"
  by (simp add: owned_chat_def)

interpretation chat_create: user_route "chat_POST zod" "chat_POST_body zod" for zod
  by unfold_locales (simp_all add: chat_POST_def chat_POST_body_def row_of_user_def)

interpretation chat_list: user_route "chat_GET zod" "chat_GET_body zod" for zod
  by unfold_locales (simp_all add: chat_GET_def chat_GET_body_def)

interpretation chat_read: user_route chat_id_GET chat_id_GET_body
  by unfold_locales (simp_all add: chat_id_GET_def chat_id_GET_body_def)

interpretation chat_delete: user_route chat_id_DELETE chat_id_DELETE_body
  by unfold_locales (simp_all add: chat_id_DELETE_def chat_id_DELETE_body_def)

interpretation chat_rename: user_route "chat_id_PATCH zod" "chat_id_PATCH_body zod" for zod
  by unfold_locales (simp_all add: chat_id_PATCH_def chat_id_PATCH_body_def)

interpretation chat_messages: user_route messages_GET messages_GET_body
  by unfold_locales (simp_all add: messages_GET_def messages_GET_body_def)

interpretation feedback: user_route "feedback_POST zod" "feedback_POST_body zod" for zod
  by unfold_locales (simp_all add: feedback_POST_def feedback_POST_body_def row_of_user_def)

end
