(* ===== verification/Template_Routes.thy ===== *)
theory Template_Routes
  imports Chat_Routes
begin

text \<open>
  app/api/writeright/templates: list and create, [id] (rename, delete), [id]/use, order and
  suggest. The formatting of a date in the locale of the host, \<open>toLocaleDateString()\<close>, is the
  parameter \<open>localeDate\<close> of the creation. \<open>dominant\<close> counts names as the objects of the source do
  for names that are not integer indices.
\<close>

section \<open>List and create\<close>

definition VALID_MODES :: "string list" where
  "VALID_MODES = [''email'', ''paragraph'', ''linkedin'', ''whatsapp'']"

definition VALID_TONES :: "string list" where
  "VALID_TONES = [''Professional'', ''Friendly'', ''Concise'', ''Academic'', ''Assertive'']"

definition PYTHON_WORKER_URL :: "string prog" where
  "PYTHON_WORKER_URL = env_or_empty ''PYTHON_WORKER_URL'' ''http://127.0.0.1:8000''"

definition generateTemplateName :: "string \<Rightarrow> json option \<Rightarrow> string option prog" where
  "generateTemplateName content mode =
     catch
       (bnd PYTHON_WORKER_URL (\<lambda>url.
        bnd getPreferredInternalApiToken (\<lambda>token.
        bnd (fetch \<lparr>fq_method = ''POST'', fq_url = url @ ''/generate-name'',
               fq_headers = [(''Content-Type'', ''application/json''), (''X-Internal-API-Token'', token)],
               fq_body = Some (JObj ((''content'', JStr (take 500 content)) # member ''mode'' mode))\<rparr>) (\<lambda>res.
        if \<not> fr_ok res then Ret None
        else case fr_json res of
            None \<Rightarrow> Throw (JsError ''SyntaxError'')
          | Some d \<Rightarrow> Ret (case jfield ''name'' d of
                Some (JStr name) \<Rightarrow> if trim name \<noteq> [] then Some (take 60 (trim name)) else None
              | _ \<Rightarrow> None)))))
       (\<lambda>_. Ret None)"

definition template_cols :: string where
  "template_cols = ''id, name, content, mode, tone, use_count, created_at, updated_at''"

definition templates_GET_body :: "request \<Rightarrow> string \<Rightarrow> response prog" where
  "templates_GET_body req uid =
     sq getSupabaseAdmin
       (bnd (db_many (Query ''writeright_templates'' (Select template_cols)
          [Eq ''user_id'' (JStr uid), IsNull ''deleted_at''] [Order ''use_count'' False] Many) ''Failed to fetch templates'') (\<lambda>r.
        Ret (ok_json [(''templates'', rows_of r)])))"

definition templates_GET :: "request \<Rightarrow> response prog" where
  "templates_GET req = withErrorHandler req (authed (templates_GET_body req))"

text \<open>\<open>VALID.includes(x ?? d) ? x : d\<close>: an absent value stays absent.\<close>

definition valid_or :: "string list \<Rightarrow> string \<Rightarrow> json option \<Rightarrow> json option" where
  "valid_or valid d v = (if nullish v (JStr d) \<in> JStr ` set valid then v else Some (JStr d))"

definition invalid_json :: exn where
  "invalid_json = createApiError VALIDATION_ERROR ''Invalid JSON body'' 400"

definition templates_POST_body :: "(int \<Rightarrow> string) \<Rightarrow> request \<Rightarrow> string \<Rightarrow> response prog" where
  "templates_POST_body localeDate req uid =
     bnd (json_body req invalid_json) (\<lambda>body.
     bnd (body_member ''content'' body) (\<lambda>c.
     bnd (trimmed c) (\<lambda>content.
     if content = [] then Throw (createApiError VALIDATION_ERROR ''Template content is required'' 400)
     else
       let mode = valid_or VALID_MODES ''email'' (jfield ''mode'' body);
           tone = valid_or VALID_TONES ''Professional'' (jfield ''tone'' body);
           providedName = (case jfield ''name'' body of Some (JStr x) \<Rightarrow> trim x | _ \<Rightarrow> []) in
       bnd (if providedName \<noteq> [] then Ret None else generateTemplateName content mode) (\<lambda>generatedName.
       bnd (if providedName \<noteq> [] then Ret providedName
            else case generatedName of
                Some g \<Rightarrow> Ret g
              | None \<Rightarrow> bnd now (\<lambda>t. Ret (literal mode @ '' template '' @ localeDate t))) (\<lambda>name.
       sq getSupabaseAdmin
         (bnd (db (Query ''writeright_templates''
            (Insert (JObj ([(''user_id'', JStr uid), (''name'', JStr (take 120 name)), (''content'', JStr (take 10000 content))]
               @ member ''mode'' mode @ member ''tone'' tone
               @ [(''metadata'', nullish (jfield ''metadata'' body) (JObj []))])))
            [] [Returning template_cols] Single)) (\<lambda>r.
          if db_missing r then Throw (db_failed ''Failed to create template'')
          else Ret (json_response 201 [] [(''template'', jval (db_data r))]))))))))"

definition templates_POST :: "(int \<Rightarrow> string) \<Rightarrow> request \<Rightarrow> response prog" where
  "templates_POST localeDate req = withErrorHandler req (authed (templates_POST_body localeDate req))"

section \<open>One template\<close>

definition owned_template :: "string \<Rightarrow> string \<Rightarrow> filter list" where
  "owned_template i uid = [Eq ''id'' (JStr i), Eq ''user_id'' (JStr uid)]"

definition template_PATCH_body :: "request \<Rightarrow> string \<Rightarrow> response prog" where
  "template_PATCH_body req uid =
     (let i = param_get req ''id'' in
      sq (check_uuid i)
      (bnd (json_body req invalid_json) (\<lambda>body.
       bnd (body_member ''name'' body) (\<lambda>n.
       bnd (trimmed n) (\<lambda>name.
       if name = [] then Throw (createApiError VALIDATION_ERROR ''Template name is required'' 400)
       else sq getSupabaseAdmin
         (bnd (db_one (Query ''writeright_templates'' (Update (JObj [(''name'', JStr (take 120 name))]))
            (owned_template i uid) [Returning template_cols] Single) ''Failed to update template'') (\<lambda>t.
          Ret (ok_json [(''template'', t)]))))))))"

definition template_PATCH :: "request \<Rightarrow> response prog" where
  "template_PATCH req = withErrorHandler req (authed (template_PATCH_body req))"

text \<open>\<open>!count\<close>.\<close>

definition no_count :: "db_result \<Rightarrow> bool" where
  "no_count r \<longleftrightarrow> db_count r = None \<or> db_count r = Some 0"

definition template_DELETE_body :: "request \<Rightarrow> string \<Rightarrow> response prog" where
  "template_DELETE_body req uid =
     (let i = param_get req ''id'' in
      sq (check_uuid i)
      (sq getSupabaseAdmin
        (bnd (db_many (Query ''writeright_templates'' Delete (owned_template i uid) [] CountHead) ''Failed to delete template'') (\<lambda>r.
         if no_count r then Throw not_found else Ret (ok_json [(''ok'', JBool True)])))))"

definition template_DELETE :: "request \<Rightarrow> response prog" where
  "template_DELETE req = withErrorHandler req (authed (template_DELETE_body req))"

definition template_use_POST_body :: "request \<Rightarrow> string \<Rightarrow> response prog" where
  "template_use_POST_body req uid =
     (let i = param_get req ''id'' in
      sq (check_uuid i)
      (sq getSupabaseAdmin
        (bnd (db_one (Query ''writeright_templates'' (Select ''use_count'') (owned_template i uid) [] Single)
           ''Failed to update template usage'') (\<lambda>existing.
         let nextUseCount = max 0 (int_or 0 (jfield ''use_count'' existing) + 1) in
         bnd (db (Query ''writeright_templates'' (Update (JObj [(''use_count'', JNum nextUseCount)]))
           (owned_template i uid) [Returning ''id, use_count, updated_at''] Single)) (\<lambda>r.
         if db_missing r then Throw (db_failed ''Failed to update template usage'')
         else Ret (ok_json [(''template'', jval (db_data r))]))))))"

definition template_use_POST :: "request \<Rightarrow> response prog" where
  "template_use_POST req = withErrorHandler req (authed (template_use_POST_body req))"

section \<open>Order\<close>

definition OrderSchema :: zschema where
  "OrderSchema = [(''ids'', ZArray z_uuid None None, ZRequired)]"

text \<open>One update per identifier, its place in the list the new \<open>sort_order\<close>.\<close>

definition order_update :: "string \<Rightarrow> json \<Rightarrow> nat \<Rightarrow> int \<Rightarrow> query" where
  "order_update uid i index t = Query ''writeright_templates''
     (Update (JObj [(''sort_order'', JNum (int index)), (''updated_at'', JStr (toISOString t))]))
     [Eq ''id'' i, Eq ''user_id'' (JStr uid)] [] Many"

definition template_order_PUT_body :: "zparser \<Rightarrow> request \<Rightarrow> string \<Rightarrow> response prog" where
  "template_order_PUT_body zod req uid =
     bnd (json_body req invalid_body) (\<lambda>body.
     bnd (parsed zod OrderSchema body) (\<lambda>ps.
     let ids = arr_items (map_of ps ''ids'') in
     sq getSupabaseAdmin
       (bnd (mapM (\<lambda>_. now) ids) (\<lambda>ts.
        bnd (promise_all (map (\<lambda>(index, i, t). db (order_update uid i index t)) (zip [0..<length ids] (zip ids ts)))) (\<lambda>results.
        if list_ex (\<lambda>r. db_err r \<noteq> None) results then Throw (db_failed ''Failed to update templates ordering'')
        else Ret (ok_json [(''success'', JBool True)]))))))"

definition template_order_PUT :: "zparser \<Rightarrow> request \<Rightarrow> response prog" where
  "template_order_PUT zod req = withErrorHandler req (authed (template_order_PUT_body zod req))"

section \<open>Suggestions\<close>

text \<open>\<open>count[k] = (count[k] || 0) + 1\<close>: a new name is appended.\<close>

fun count_up :: "'k \<Rightarrow> ('k \<times> int) list \<Rightarrow> ('k \<times> int) list" where
  "count_up k [] = [(k, 1)]"
| "count_up k ((k', n) # cs) = (if k' = k then (k', n + 1) # cs else (k', n) # count_up k cs)"

definition tally :: "'k list \<Rightarrow> ('k \<times> int) list" where
  "tally ks = foldl (\<lambda>cs k. count_up k cs) [] ks"

text \<open>\<open>entries.sort((a, b) => b[1] - a[1])[0]?.[0]\<close>: the sort is stable.\<close>

definition dominant :: "('k \<times> int) list \<Rightarrow> 'k option" where
  "dominant cs = (case sort_key (\<lambda>c. - snd c) cs of [] \<Rightarrow> None | c # _ \<Rightarrow> Some (fst c))"

definition meta_names :: "string \<Rightarrow> json list \<Rightarrow> string list" where
  "meta_names k rows = List.map_filter (\<lambda>row. as_str (jopt k (jfield ''metadata'' row))) rows"

definition suggestion :: "string \<Rightarrow> string \<Rightarrow> string \<Rightarrow> json" where
  "suggestion msg mode tone = JObj [(''message'', JStr msg), (''mode'', JStr mode), (''tone'', JStr tone)]"

text \<open>\<open>x || d\<close> on the dominant name.\<close>

definition name_or :: "string \<Rightarrow> string option \<Rightarrow> string" where
  "name_or d x = (case x of Some n \<Rightarrow> if n = [] then d else n | None \<Rightarrow> d)"

definition suggestions :: "json list \<Rightarrow> json list" where
  "suggestions messages =
     (let mode = name_or ''email'' (dominant (tally (meta_names ''mode'' messages)));
          tone = name_or ''Professional'' (dominant (tally (meta_names ''tone'' messages)))
      in [suggestion (''You frequently write '' @ (if mode = ''email'' then ''emails'' else mode) @ '' with a '' @ tone
            @ '' tone. Would you like a template for that?'') mode tone,
          (if mode \<noteq> ''email'' then suggestion ''Create a professional email draft template.'' ''email'' ''Professional''
           else suggestion ''Create a friendly LinkedIn pitch template.'' ''linkedin'' ''Friendly''),
          suggestion ''Create a concise WhatsApp message template.'' ''whatsapp'' ''Concise''])"

definition template_suggest_GET_body :: "request \<Rightarrow> string \<Rightarrow> response prog" where
  "template_suggest_GET_body req uid =
     sq getSupabaseAdmin
       (bnd (db_many (Query ''writeright_messages'' (Select ''metadata'')
          [Eq ''user_id'' (JStr uid), Eq ''role'' (JStr ''user'')]
          [Order ''created_at'' False, Limit 10] Many) ''Failed to retrieve logs for suggestions'') (\<lambda>r.
        Ret (ok_json [(''success'', JBool True), (''suggestions'', JArr (suggestions (row_list r)))])))"

definition template_suggest_GET :: "request \<Rightarrow> response prog" where
  "template_suggest_GET req = withErrorHandler req (authed (template_suggest_GET_body req))"

section \<open>The contract\<close>

lemma all_calls_generateTemplateName [simp]:
  "(\<And>p n. P (CCloudSecret p n)) \<Longrightarrow> (\<And>f. P (CReadFile f)) \<Longrightarrow> (\<And>q. P (CFetch q)) \<Longrightarrow>
   all_calls P (generateTemplateName c m)"
  by (simp add: generateTemplateName_def PYTHON_WORKER_URL_def env_or_empty_def getPreferredInternalApiToken_def)

lemma owned_template_scoped [simp]: "Eq ''user_id'' (JStr uid) \<in> set (owned_template i uid)"
  by (simp add: owned_template_def)

interpretation templates_list: user_route templates_GET templates_GET_body
  by unfold_locales (simp_all add: templates_GET_def templates_GET_body_def)

interpretation template_create: user_route "templates_POST ld" "templates_POST_body ld" for ld
  by unfold_locales (simp_all add: templates_POST_def templates_POST_body_def row_of_user_def)

interpretation template_rename: user_route template_PATCH template_PATCH_body
  by unfold_locales (simp_all add: template_PATCH_def template_PATCH_body_def)

interpretation template_delete: user_route template_DELETE template_DELETE_body
  by unfold_locales (simp_all add: template_DELETE_def template_DELETE_body_def)

interpretation template_use: user_route template_use_POST template_use_POST_body
  by unfold_locales (simp_all add: template_use_POST_def template_use_POST_body_def)

interpretation template_order: user_route "template_order_PUT zod" "template_order_PUT_body zod" for zod
  by unfold_locales (simp_all add: template_order_PUT_def template_order_PUT_body_def order_update_def)

interpretation template_suggest: user_route template_suggest_GET template_suggest_GET_body
  by unfold_locales (simp_all add: template_suggest_GET_def template_suggest_GET_body_def)

end
