(* ===== verification/Account_Routes.thy ===== *)
theory Account_Routes
  imports Template_Routes
begin

text \<open>
  Settings and counters of the signed-in user: app/api/writeright/preferences, streak and quota.
  Rows have the column types of supabase/migrations.
\<close>

section \<open>Dates\<close>

text \<open>\<open>new Date(s)\<close> for the formats of the database: a date, or a date and a time with fraction
  and zone. \<^const>\<open>None\<close> is an invalid date.\<close>

definition days_from_civil :: "int \<Rightarrow> int \<Rightarrow> int \<Rightarrow> int" where
  "days_from_civil y0 m d =
     (let y = (if m \<le> 2 then y0 - 1 else y0); era = y div 400; yoe = y - era * 400;
          doy = (153 * (if m > 2 then m - 3 else m + 9) + 2) div 5 + d - 1;
          doe = yoe * 365 + yoe div 4 - yoe div 100 + doy
      in era * 146097 + doe - 719468)"

definition digits_of :: "nat \<Rightarrow> string \<Rightarrow> (int \<times> string) option" where
  "digits_of n s = (if length (takeWhile is_digit (take n s)) = n then Some (int (read_digits (take n s)), drop n s) else None)"

definition expect :: "char \<Rightarrow> string \<Rightarrow> string option" where
  "expect c s = (case s of [] \<Rightarrow> None | x # xs \<Rightarrow> if x = c then Some xs else None)"

definition zone_ms :: "int \<Rightarrow> string \<Rightarrow> int option" where
  "zone_ms local s =
     (if s = [] then Some local else if s = ''Z'' then Some 0
      else if hd s = CHR ''+'' \<or> hd s = CHR ''-'' then
        Option.bind (digits_of 2 (tl s)) (\<lambda>(h, r). Option.bind (expect (CHR '':'') r) (\<lambda>r.
        Option.bind (digits_of 2 r) (\<lambda>(m, r).
          if r = [] then Some ((if hd s = CHR ''-'' then -1 else 1) * (h * 3600000 + m * 60000)) else None)))
      else None)"

text \<open>Digits of the fraction beyond milliseconds are dropped.\<close>

definition fraction_ms :: "string \<Rightarrow> int \<times> string" where
  "fraction_ms s = (case s of
     c # r \<Rightarrow> if c = CHR ''.'' then (int (read_digits (take 3 (takeWhile is_digit r @ ''000''))), dropWhile is_digit r) else (0, s)
   | [] \<Rightarrow> (0, []))"

definition parse_time :: "int \<Rightarrow> string \<Rightarrow> int option" where
  "parse_time local s =
     Option.bind (digits_of 4 s) (\<lambda>(y, r). Option.bind (expect (CHR ''-'') r) (\<lambda>r.
     Option.bind (digits_of 2 r) (\<lambda>(mo, r). Option.bind (expect (CHR ''-'') r) (\<lambda>r.
     Option.bind (digits_of 2 r) (\<lambda>(d, r).
     let day = days_from_civil y mo d * 86400000 in
     if mo < 1 \<or> 12 < mo \<or> d < 1 \<or> 31 < d then None
     else if r = [] then Some day
     else Option.bind (expect (CHR ''T'') r) (\<lambda>r.
       Option.bind (digits_of 2 r) (\<lambda>(h, r). Option.bind (expect (CHR '':'') r) (\<lambda>r.
       Option.bind (digits_of 2 r) (\<lambda>(mi, r). Option.bind (expect (CHR '':'') r) (\<lambda>r.
       Option.bind (digits_of 2 r) (\<lambda>(sec, r).
       case fraction_ms r of (ms, r) \<Rightarrow>
       Option.bind (zone_ms local r) (\<lambda>z. Some (day + h * 3600000 + mi * 60000 + sec * 1000 + ms - z)))))))))))))"

definition date_of_json :: "int \<Rightarrow> json \<Rightarrow> int option" where
  "date_of_json local j = (case j of JStr s \<Rightarrow> parse_time local s | JNum n \<Rightarrow> Some n | _ \<Rightarrow> None)"

definition local_offset :: "int prog" where
  "local_offset = GetS (\<lambda>s. Ret (tz_offset s))"

section \<open>preferences\<close>

definition UIPreferencesSchema :: "(string \<times> ztype \<times> zpresence) list" where
  "UIPreferencesSchema =
     [(''sidebarOpen'', ZBool, ZOptional), (''analyticsOpen'', ZBool, ZOptional), (''coachBarEnabled'', ZBool, ZOptional),
      (''splitViewDefault'', ZBool, ZOptional), (''focusModeEnabled'', ZBool, ZOptional), (''grammarScanEnabled'', ZBool, ZOptional)]"

definition PutPreferencesSchema :: zschema where
  "PutPreferencesSchema =
     [(''preferredTone'', ZEnum TONES, ZOptional), (''preferredMode'', ZEnum MODES, ZOptional),
      (''preferredIntensity'', ZInt False (Some 1) (Some 5), ZOptional),
      (''preferredOutputLang'', ZStr False None (Some 20) False, ZOptional),
      (''favouriteChips'', ZArray (ZStr False None (Some 200) False) None (Some 10), ZOptional),
      (''uiPreferences'', ZObject True UIPreferencesSchema, ZOptional)]"

definition DEFAULT_PREFERENCES :: json where
  "DEFAULT_PREFERENCES = JObj
     [(''preferredTone'', JStr ''Professional''), (''preferredMode'', JStr ''email''), (''preferredIntensity'', JNum 1),
      (''preferredOutputLang'', JStr ''en''), (''favouriteChips'', JArr []),
      (''uiPreferences'', JObj [(''sidebarOpen'', JBool True), (''analyticsOpen'', JBool False),
         (''coachBarEnabled'', JBool True), (''splitViewDefault'', JBool False)])]"

text \<open>\<open>Object.keys(v).length > 0\<close>.\<close>

fun has_keys :: "json \<Rightarrow> bool" where
  "has_keys (JObj ps) = (ps \<noteq> [])"
| "has_keys (JArr js) = (js \<noteq> [])"
| "has_keys (JStr s) = (s \<noteq> [])"
| "has_keys _ = False"

definition stored_preferences :: "json option \<Rightarrow> json" where
  "stored_preferences d = (case jopt ''preferences'' d of
     Some p \<Rightarrow> if truthy p \<and> has_keys p then p else DEFAULT_PREFERENCES
   | None \<Rightarrow> DEFAULT_PREFERENCES)"

definition preferences_GET_body :: "request \<Rightarrow> string \<Rightarrow> response prog" where
  "preferences_GET_body req uid =
     sq getSupabaseAdmin
       (bnd (db_many (Query ''writeright_user_settings'' (Select ''preferences'') [Eq ''user_id'' (JStr uid)] [] MaybeSingle)
          ''Failed to retrieve user preferences'') (\<lambda>r.
        Ret (ok_json [(''success'', JBool True), (''preferences'', stored_preferences (db_data r))])))"

definition preferences_GET :: "request \<Rightarrow> response prog" where
  "preferences_GET req = withErrorHandler req (authed (preferences_GET_body req))"

definition preferences_PUT_body :: "zparser \<Rightarrow> request \<Rightarrow> string \<Rightarrow> response prog" where
  "preferences_PUT_body zod req uid =
     bnd (json_body req invalid_body) (\<lambda>body.
     bnd (parsed zod PutPreferencesSchema body) (\<lambda>ps.
     sq getSupabaseAdmin
       (bnd now (\<lambda>t.
        bnd (db_many (Query ''writeright_user_settings''
          (Upsert (JObj [(''user_id'', JStr uid), (''preferences'', JObj ps), (''updated_at'', JStr (toISOString t))]) [] False)
          [] [] Many) ''Failed to persist user preferences'') (\<lambda>r.
        Ret (ok_json [(''success'', JBool True)]))))))"

definition preferences_PUT :: "zparser \<Rightarrow> request \<Rightarrow> response prog" where
  "preferences_PUT zod req = withErrorHandler req (authed (preferences_PUT_body zod req))"

section \<open>streak\<close>

definition DAY_MS :: int where "DAY_MS = 86400000"

definition milestones :: "int list" where "milestones = [3, 7, 14, 30, 60, 100, 365]"

definition nextMilestone :: "int \<Rightarrow> int" where
  "nextMilestone current = (case List.find (\<lambda>m. current < m) milestones of Some m \<Rightarrow> m | None \<Rightarrow> current + 100)"

definition dayNames :: "string list" where
  "dayNames = [''Sunday'', ''Monday'', ''Tuesday'', ''Wednesday'', ''Thursday'', ''Friday'', ''Saturday'']"

text \<open>\<open>new Date(row.created_at).getDay()\<close> of the rows that have a date; \<^const>\<open>None\<close> is \<open>NaN\<close>.\<close>

definition usage_days :: "int \<Rightarrow> json list \<Rightarrow> nat option list" where
  "usage_days local rows = List.map_filter (\<lambda>row. case jfield ''created_at'' row of
     Some c \<Rightarrow> if truthy c then Some (map_option (\<lambda>t. weekday (t + local)) (date_of_json local c)) else None
   | None \<Rightarrow> None) rows"

definition best_day :: "int \<Rightarrow> int \<Rightarrow> json list \<Rightarrow> nat option" where
  "best_day local today rows = (case dominant (tally (usage_days local rows)) of
     Some d \<Rightarrow> d | None \<Rightarrow> Some (weekday (today + local)))"

definition streak_view :: "int \<Rightarrow> int \<Rightarrow> json option \<Rightarrow> json list \<Rightarrow> (string \<times> json) list" where
  "streak_view local today strk rows =
     (let lastActivity = nullish (jopt ''last_activity_date'' strk) JNull;
          improvedToday = (lastActivity = JStr (dateKey today));
          current = int_or 0 (jopt ''current_streak'' strk);
          atRisk = (\<not> improvedToday \<and> lastActivity = JStr (dateKey (today - DAY_MS)) \<and> 0 < current)
      in [(''current'', JNum current), (''longest'', JNum (int_or 0 (jopt ''longest_streak'' strk))),
          (''last_activity_date'', lastActivity), (''at_risk'', JBool atRisk), (''improved_today'', JBool improvedToday)]
         @ (case best_day local today rows of Some d \<Rightarrow> [(''best_writing_day'', JStr (dayNames ! d))] | None \<Rightarrow> [])
         @ [(''milestone_next'', JNum (max 0 (nextMilestone current - current)))])"

definition streak_GET_body :: "request \<Rightarrow> string \<Rightarrow> response prog" where
  "streak_GET_body req uid =
     sq getSupabaseAdmin
       (bnd now (\<lambda>today. bnd now (\<lambda>t.
        bnd (promise_both
          (db (Query ''writeright_streaks'' (Select ''current_streak, longest_streak, last_activity_date'')
             [Eq ''user_id'' (JStr uid), IsNull ''deleted_at''] [] MaybeSingle))
          (db (Query ''writeright_usage'' (Select ''created_at'')
             [Eq ''user_id'' (JStr uid), IsNull ''deleted_at'', Gte ''created_at'' (JStr (toISOString (t - 90 * DAY_MS)))] [] Many))) (\<lambda>(st, us).
        bnd local_offset (\<lambda>local.
        Ret (ok_json (streak_view local today (db_data st) (row_list us))))))))"

definition streak_GET :: "request \<Rightarrow> response prog" where
  "streak_GET req = withErrorHandler req (authed (streak_GET_body req))"

definition streak_POST_body :: "request \<Rightarrow> string \<Rightarrow> response prog" where
  "streak_POST_body req uid =
     sq getSupabaseAdmin
       (bnd now (\<lambda>t.
        bnd (db (Query ''writeright_streaks''
          (Update (JObj [(''metadata'', JObj [(''streak_at_risk_notified'', JBool True), (''notified_at'', JStr (toISOString t))])]))
          [Eq ''user_id'' (JStr uid)] [] Many)) (\<lambda>_.
        Ret (ok_json [(''ok'', JBool True)]))))"

definition streak_POST :: "request \<Rightarrow> response prog" where
  "streak_POST req = withErrorHandler req (authed (streak_POST_body req))"

section \<open>quota\<close>

record tier_limits =
  lim_requests :: int
  lim_tokens :: int

definition TIER_LIMITS :: "string \<Rightarrow> tier_limits option" where
  "TIER_LIMITS tier =
     (if tier = ''free'' then Some \<lparr>lim_requests = 50, lim_tokens = 200000\<rparr>
      else if tier = ''pro'' then Some \<lparr>lim_requests = 500, lim_tokens = 2000000\<rparr>
      else if tier = ''team'' then Some \<lparr>lim_requests = 2000, lim_tokens = 10000000\<rparr>
      else None)"

definition tier_limits_of :: "json \<Rightarrow> tier_limits" where
  "tier_limits_of tier = (case tier of
     JStr x \<Rightarrow> (case TIER_LIMITS x of Some l \<Rightarrow> l | None \<Rightarrow> the (TIER_LIMITS ''free''))
   | _ \<Rightarrow> the (TIER_LIMITS ''free''))"

definition period_of :: "int \<Rightarrow> string" where
  "period_of ms = (case civil_from_days (ms div 86400000) of (y, m, d) \<Rightarrow> show_int y @ ''-'' @ pad2 m)"

definition currentPeriodKey :: "string prog" where
  "currentPeriodKey = bnd now (\<lambda>t. bnd local_offset (\<lambda>local. Ret (period_of (t + local))))"

definition req_tok :: "json \<Rightarrow> json \<Rightarrow> json" where
  "req_tok r t = JObj [(''requests'', r), (''tokens'', t)]"

definition quota_view :: "string \<Rightarrow> json option \<Rightarrow> json option \<Rightarrow> (string \<times> json) list" where
  "quota_view period settings quota =
     (let tier = nullish (jopt ''tier'' settings) (JStr ''free''); limits = tier_limits_of tier;
          usedRequests = int_or 0 (jopt ''requests'' quota); usedTokens = int_or 0 (jopt ''tokens'' quota)
      in [(''tier'', tier), (''period'', JStr period),
          (''limits'', req_tok (JNum (lim_requests limits)) (JNum (lim_tokens limits))),
          (''used'', req_tok (JNum usedRequests) (JNum usedTokens)),
          (''remaining'', req_tok (JNum (max 0 (lim_requests limits - usedRequests))) (JNum (max 0 (lim_tokens limits - usedTokens)))),
          (''exhausted'', req_tok (JBool (lim_requests limits \<le> usedRequests)) (JBool (lim_tokens limits \<le> usedTokens)))])"

definition quota_GET_body :: "request \<Rightarrow> string \<Rightarrow> response prog" where
  "quota_GET_body req uid =
     sq getSupabaseAdmin
       (bnd currentPeriodKey (\<lambda>period.
        bnd (promise_both
          (db (Query ''writeright_user_settings'' (Select ''tier'') [Eq ''user_id'' (JStr uid)] [] MaybeSingle))
          (db (Query ''writeright_quota'' (Select ''requests, tokens'')
             [Eq ''user_id'' (JStr uid), Eq ''period_key'' (JStr period)] [] MaybeSingle))) (\<lambda>(se, qu).
        Ret (ok_json (quota_view period (db_data se) (db_data qu))))))"

definition quota_GET :: "request \<Rightarrow> response prog" where
  "quota_GET req = withErrorHandler req (authed (quota_GET_body req))"

section \<open>The contract\<close>

lemma all_calls_local [simp]: "all_calls P local_offset" "all_calls P currentPeriodKey"
  by (simp_all add: local_offset_def currentPeriodKey_def)

interpretation preferences_read: user_route preferences_GET preferences_GET_body
  by unfold_locales (simp_all add: preferences_GET_def preferences_GET_body_def)

interpretation preferences_write: user_route "preferences_PUT zod" "preferences_PUT_body zod" for zod
  by unfold_locales (simp_all add: preferences_PUT_def preferences_PUT_body_def row_of_user_def)

interpretation streak_read: user_route streak_GET streak_GET_body
  by unfold_locales (simp_all add: streak_GET_def streak_GET_body_def)

interpretation streak_defend: user_route streak_POST streak_POST_body
  by unfold_locales (simp_all add: streak_POST_def streak_POST_body_def)

interpretation quota_read: user_route quota_GET quota_GET_body
  by unfold_locales (simp_all add: quota_GET_def quota_GET_body_def)

end
