(* ===== verification/Gmail.thy ===== *)
theory Gmail
  imports Account_Routes
begin

text \<open>
  lib/gmail-service.ts and the Gmail handlers under app/api/gmail but for those that link an account
  and schedule a message (theory Gmail_Link). The gateway is reached with the preferred internal token; its refusals become
  \<open>GATEWAY_ERROR\<close> with the status of the gateway, and a failed \<open>fetch\<close> becomes
  \<open>GATEWAY_OFFLINE\<close>. Time stamps of messages are in the formats of \<open>parse_time\<close>.
\<close>

section \<open>gmail-service.ts\<close>

definition GW :: "string prog" where
  "GW = env_or ''AUTH_GATEWAY_INTERNAL_URL'' ''http://127.0.0.1:9091''"

definition gateway_offline :: exn where
  "gateway_offline = createApiError GATEWAY_OFFLINE ''Auth gateway offline'' 503"

text \<open>The refusal of the gateway: \<open>e.message ?? `Gateway ${r.status}`\<close>; a body that is not JSON counts
  as \<open>{}\<close>.\<close>

definition gateway_refused :: "fetch_response \<Rightarrow> exn" where
  "gateway_refused r = (case fr_json r of
     Some JNull \<Rightarrow> type_error
   | e \<Rightarrow> createApiError GATEWAY_ERROR (js_string (nullish (jopt ''message'' e) (JStr (''Gateway '' @ show_int (fr_status r))))) (fr_status r))"

definition gw_reply :: "fetch_response \<Rightarrow> json prog" where
  "gw_reply r = (if \<not> fr_ok r then Throw (gateway_refused r)
     else case fr_json r of Some j \<Rightarrow> Ret j | None \<Rightarrow> Throw (JsError ''SyntaxError''))"

definition gw_post :: "string \<Rightarrow> json \<Rightarrow> json prog" where
  "gw_post path body =
     bnd getPreferredInternalApiToken (\<lambda>token. bnd GW (\<lambda>gw.
     bnd (catch (fetch \<lparr>fq_method = ''POST'', fq_url = gw @ path,
            fq_headers = [(''Content-Type'', ''application/json''), (''x-internal-api-token'', token)], fq_body = Some body\<rparr>)
            (\<lambda>_. Throw gateway_offline)) gw_reply))"

definition gw_get :: "string \<Rightarrow> json prog" where
  "gw_get path =
     bnd getPreferredInternalApiToken (\<lambda>token. bnd GW (\<lambda>gw.
     bnd (catch (fetch \<lparr>fq_method = ''GET'', fq_url = gw @ path, fq_headers = [(''x-internal-api-token'', token)], fq_body = None\<rparr>)
            (\<lambda>_. Throw gateway_offline)) gw_reply))"

definition generateAuthUrl :: "string \<Rightarrow> json option prog" where
  "generateAuthUrl uid = bnd (gw_post ''/v1/gmail/url'' (JObj [(''clerk_user_id'', JStr uid)])) (body_member ''url'')"

definition handleCallback :: "string \<Rightarrow> string \<Rightarrow> string \<Rightarrow> json prog" where
  "handleCallback authCode state uid = gw_post ''/v1/gmail/callback''
     (JObj [(''code'', JStr authCode), (''state'', JStr state), (''clerk_user_id'', JStr uid)])"

definition getGmailConnection :: "string \<Rightarrow> json option prog" where
  "getGmailConnection uid = bnd (gw_get (''/v1/gmail/status/'' @ uid)) (body_member ''connection'')"

record list_params =
  lp_maxResults :: int
  lp_unreadOnly :: bool
  lp_pageToken :: "string option"
  lp_labelId :: string

definition fetchRecentEmails :: "string \<Rightarrow> list_params \<Rightarrow> json prog" where
  "fetchRecentEmails uid p = gw_get (''/v1/gmail/emails/'' @ uid @ ''?'' @ search_params
     ([(''max_results'', show_int (lp_maxResults p)), (''unread_only'', if lp_unreadOnly p then ''true'' else ''false''),
       (''label'', lp_labelId p)] @ (if missing (lp_pageToken p) then [] else [(''page_token'', the (lp_pageToken p))])))"

definition recent :: "int \<Rightarrow> list_params" where
  "recent n = \<lparr>lp_maxResults = n, lp_unreadOnly = False, lp_pageToken = None, lp_labelId = ''INBOX''\<rparr>"

definition fetchEmailById :: "string \<Rightarrow> string \<Rightarrow> json option prog" where
  "fetchEmailById uid i = bnd (gw_get (''/v1/gmail/emails/'' @ uid @ ''/'' @ i)) (body_member ''email'')"

definition disconnectGmail :: "string \<Rightarrow> json prog" where
  "disconnectGmail uid = gw_post ''/v1/gmail/disconnect'' (JObj [(''clerk_user_id'', JStr uid)])"

section \<open>Connection\<close>

definition offline_text :: string where "offline_text = ''Auth gateway offline''"

definition gmail_status_GET_body :: "request \<Rightarrow> string \<Rightarrow> response prog" where
  "gmail_status_GET_body req uid =
     catch
       (bnd (getGmailConnection uid) (\<lambda>connection.
        if \<not> truthyo connection then Ret (ok_json [(''connected'', JBool False), (''connection'', JNull)])
        else Ret (ok_json [(''connected'', JBool True),
               (''connection'', JObj (pick [''gmail_email'', ''connected_at'', ''last_synced_at''] (jval connection)))])))
       (\<lambda>err. if exn_message err = offline_text
              then Ret (ok_json [(''connected'', JBool False), (''connection'', JNull), (''error'', JStr offline_text)])
              else Throw err)"

definition gmail_status_GET :: "request \<Rightarrow> response prog" where
  "gmail_status_GET req = withErrorHandler req (authed (gmail_status_GET_body req))"

definition gmail_disconnect_POST_body :: "request \<Rightarrow> string \<Rightarrow> response prog" where
  "gmail_disconnect_POST_body req uid =
     sq (catch (bnd (disconnectGmail uid) (\<lambda>_. Ret ()))
          (\<lambda>err. if exn_message err = offline_text
                 then Throw (createApiError GATEWAY_OFFLINE ''Authentication gateway is offline'' 503)
                 else Throw (db_failed ''Failed to disconnect Gmail'')))
       (Ret (ok_json [(''disconnected'', JBool True)]))"

definition gmail_disconnect_POST :: "request \<Rightarrow> response prog" where
  "gmail_disconnect_POST req = withErrorHandler req (authed (gmail_disconnect_POST_body req))"

section \<open>Messages\<close>

definition ListEmailsQuerySchema :: zschema where
  "ListEmailsQuerySchema =
     [(''maxResults'', ZInt True (Some 1) (Some 50), ZDefault (JNum 20)),
      (''unreadOnly'', ZEnum [''true'', ''false''], ZDefault (JStr ''false'')),
      (''pageToken'', z_string, ZOptional),
      (''label'', ZEnum [''INBOX'', ''SENT'', ''DRAFT'', ''SPAM'', ''TRASH''], ZDefault (JStr ''INBOX''))]"

text \<open>\<open>searchParams.get(k)\<close> is \<open>null\<close> when the parameter is absent; two of the four are passed as they are.\<close>

definition emails_query :: "request \<Rightarrow> json" where
  "emails_query req = JObj
     ([(''maxResults'', case query_get req ''maxResults'' of Some x \<Rightarrow> JStr x | None \<Rightarrow> JNull),
       (''unreadOnly'', case query_get req ''unreadOnly'' of Some x \<Rightarrow> JStr x | None \<Rightarrow> JNull)]
      @ member ''pageToken'' (map_option JStr (query_get req ''pageToken''))
      @ member ''label'' (map_option JStr (query_get req ''label'')))"

definition emails_error :: "exn \<Rightarrow> exn" where
  "emails_error err =
     (let msg = exn_message err in
      if msg = offline_text then createApiError GATEWAY_OFFLINE ''Authentication gateway is offline'' 503
      else if str_includes msg ''No active Gmail connection'' then createApiError GMAIL_NOT_CONNECTED ''Gmail not connected'' 404
      else if str_includes msg ''Invalid Credentials'' \<or> str_includes msg ''401''
      then createApiError GMAIL_TOKEN_EXPIRED ''Gmail token expired. Please reconnect.'' 401
      else createApiError GMAIL_FETCH_FAILED ''Failed to fetch emails'' 500)"

text \<open>\<open>result.emails.length\<close>: without a list of emails a \<open>TypeError\<close>.\<close>

definition gmail_emails_GET_body :: "zparser \<Rightarrow> request \<Rightarrow> string \<Rightarrow> response prog" where
  "gmail_emails_GET_body zod req uid =
     bnd (parsed zod ListEmailsQuerySchema (emails_query req)) (\<lambda>ps.
     bnd (catch (fetchRecentEmails uid \<lparr>lp_maxResults = zint ''maxResults'' ps, lp_unreadOnly = (zstr ''unreadOnly'' ps = ''true''),
            lp_pageToken = as_str (map_of ps ''pageToken''), lp_labelId = zstr ''label'' ps\<rparr>)
            (\<lambda>err. Throw (emails_error err))) (\<lambda>result.
     if nullish (jfield ''emails'' result) JNull = JNull then Throw type_error
     else Ret \<lparr>resp_status = 200, resp_body = BJson result, resp_headers = []\<rparr>))"

definition gmail_emails_GET :: "zparser \<Rightarrow> request \<Rightarrow> response prog" where
  "gmail_emails_GET zod req = withErrorHandler req (authed (gmail_emails_GET_body zod req))"

definition email_error :: "exn \<Rightarrow> exn" where
  "email_error err =
     (let msg = exn_message err in
      if msg = offline_text then createApiError GATEWAY_OFFLINE ''Authentication gateway is offline'' 503
      else if str_includes msg ''No active Gmail connection'' then createApiError GMAIL_NOT_CONNECTED ''Gmail not connected'' 404
      else if str_includes msg ''404'' \<or> str_includes msg ''not found'' then createApiError NOT_FOUND ''Email not found'' 404
      else createApiError GMAIL_FETCH_FAILED ''Failed to fetch email'' 500)"

definition bad_gmail_id :: "string \<Rightarrow> bool" where
  "bad_gmail_id i \<longleftrightarrow> i = [] \<or> 100 < length i"

definition import_row :: "string \<Rightarrow> string \<Rightarrow> json \<Rightarrow> int \<Rightarrow> json" where
  "import_row uid messageId email t = JObj
     ([(''clerk_user_id'', JStr uid), (''gmail_message_id'', JStr messageId)]
      @ member ''gmail_thread_id'' (jfield ''thread_id'' email) @ member ''subject'' (jfield ''subject'' email)
      @ member ''sender_email'' (jfield ''sender_email'' email) @ member ''sender_name'' (jfield ''sender_name'' email)
      @ member ''snippet'' (jfield ''snippet'' email) @ [(''imported_at'', JStr (toISOString t))])"

text \<open>The audit row is written inside a \<open>try\<close> that swallows everything, a missing email included.\<close>

definition gmail_email_GET_body :: "request \<Rightarrow> string \<Rightarrow> response prog" where
  "gmail_email_GET_body req uid =
     (let messageId = param_get req ''id'' in
      if bad_gmail_id messageId then Throw invalid_input
      else
        bnd (catch (fetchEmailById uid messageId) (\<lambda>err. Throw (email_error err))) (\<lambda>email.
        sq (attempt (sq getSupabaseAdmin
              (if email = None \<or> email = Some JNull then Throw type_error
               else bnd now (\<lambda>t. sq (db (Query ''gmail_imported_emails''
                 (Upsert (import_row uid messageId (jval email) t) ''clerk_user_id,gmail_message_id'' True) [] [] Many)) (Ret ())))))
          (Ret (ok_json (member ''email'' email)))))"

definition gmail_email_GET :: "request \<Rightarrow> response prog" where
  "gmail_email_GET req = withErrorHandler req (authed (gmail_email_GET_body req))"

definition gmail_read_POST_body :: "request \<Rightarrow> string \<Rightarrow> response prog" where
  "gmail_read_POST_body req uid =
     (if bad_gmail_id (param_get req ''id'') then Throw invalid_input else Ret (ok_json [(''success'', JBool True)]))"

definition gmail_read_POST :: "request \<Rightarrow> response prog" where
  "gmail_read_POST req = withErrorHandler req (authed (gmail_read_POST_body req))"

section \<open>Scheduled sends\<close>

definition gmail_scheduled_GET_body :: "request \<Rightarrow> string \<Rightarrow> response prog" where
  "gmail_scheduled_GET_body req uid =
     sq getSupabaseAdmin
       (bnd (db_many (Query ''gmail_scheduled_sends'' (Select ''*'') [Eq ''clerk_user_id'' (JStr uid)]
          [Order ''scheduled_at'' True] Many) ''Failed to retrieve scheduled sends'') (\<lambda>r.
        Ret (ok_json [(''success'', JBool True),
          (''scheduledSends'', if truthyo (db_data r) then jval (db_data r) else JArr [])])))"

definition gmail_scheduled_GET :: "request \<Rightarrow> response prog" where
  "gmail_scheduled_GET req = withErrorHandler req (authed (gmail_scheduled_GET_body req))"

text \<open>\<open>/^[0-9a-f-]{36}$/i\<close>.\<close>

definition schedule_id_ok :: "string \<Rightarrow> bool" where
  "schedule_id_ok i \<longleftrightarrow> length i = 36 \<and> list_all (\<lambda>c. is_hex c \<or> c = CHR ''-'') i"

definition gmail_schedule_DELETE_body :: "request \<Rightarrow> string \<Rightarrow> response prog" where
  "gmail_schedule_DELETE_body req uid =
     (let i = param_get req ''id'' in
      if \<not> schedule_id_ok i then Throw invalid_input
      else sq getSupabaseAdmin
        (bnd now (\<lambda>t.
         bnd (db_one (Query ''gmail_scheduled_sends''
           (Update (JObj [(''status'', JStr ''cancelled''), (''updated_at'', JStr (toISOString t))]))
           [Eq ''id'' (JStr i), Eq ''clerk_user_id'' (JStr uid)] [Returning ''*''] Single) ''Failed to cancel scheduled send'') (\<lambda>row.
         Ret (ok_json [(''success'', JBool True), (''scheduledSend'', row)])))))"

definition gmail_schedule_DELETE :: "request \<Rightarrow> response prog" where
  "gmail_schedule_DELETE req = withErrorHandler req (authed (gmail_schedule_DELETE_body req))"

section \<open>Summaries\<close>

definition chat_request :: "string \<Rightarrow> string \<Rightarrow> string \<Rightarrow> int \<Rightarrow> json \<Rightarrow> fetch_request" where
  "chat_request apiKey system user max_tokens temperature =
     \<lparr>fq_method = ''POST'', fq_url = ''https://generativelanguage.googleapis.com/v1beta/openai/chat/completions'',
      fq_headers = [(''Authorization'', ''Bearer '' @ apiKey), (''Content-Type'', ''application/json'')],
      fq_body = Some (JObj [(''model'', JStr ''gemini-2.0-flash''),
        (''messages'', JArr [JObj [(''role'', JStr ''system''), (''content'', JStr system)],
                            JObj [(''role'', JStr ''user''), (''content'', JStr user)]]),
        (''max_tokens'', JNum max_tokens), (''temperature'', temperature)])\<rparr>"

text \<open>\<open>data.choices?.[0]?.message?.content\<close>; a body that is \<open>null\<close> throws.\<close>

definition first_content :: "json \<Rightarrow> json option" where
  "first_content d = (case arr_items (jfield ''choices'' d) of [] \<Rightarrow> None | c # cs \<Rightarrow> jopt ''content'' (jfield ''message'' c))"

definition answer_json :: "fetch_response \<Rightarrow> json prog" where
  "answer_json r = (case fr_json r of
     None \<Rightarrow> Throw (JsError ''SyntaxError'') | Some JNull \<Rightarrow> Throw type_error | Some d \<Rightarrow> Ret d)"

text \<open>\<open>if (summary) x = summary.trim()\<close>.\<close>

definition trimmed_or :: "string \<Rightarrow> json option \<Rightarrow> string prog" where
  "trimmed_or d v = (if truthyo v then (case v of Some (JStr x) \<Rightarrow> Ret (trim x) | _ \<Rightarrow> Throw type_error) else Ret d)"

definition summarize :: "fetch_request \<Rightarrow> string \<Rightarrow> string prog" where
  "summarize q d = bnd (fetch q) (\<lambda>r. if fr_ok r then bnd (answer_json r) (\<lambda>j. trimmed_or d (first_content j)) else Ret d)"

definition thread_prompt :: string where
  "thread_prompt = ''You are an elite productivity coach. Summarize this email thread in exactly 2 short sentences. Focus on the latest status, key request, and who needs to act next. Be extremely concise.''"

definition mapped_email :: "json \<Rightarrow> json" where
  "mapped_email e = JObj
     (member ''id'' (jfield ''gmail_message_id'' e) @ member ''thread_id'' (jfield ''gmail_thread_id'' e)
      @ member ''subject'' (jfield ''subject'' e) @ member ''sender_email'' (jfield ''sender_email'' e)
      @ member ''sender_name'' (jfield ''sender_name'' e) @ member ''snippet'' (jfield ''snippet'' e)
      @ [(''body_plain'', JStr [])] @ member ''body_preview'' (jfield ''snippet'' e) @ member ''timestamp'' (jfield ''imported_at'' e)
      @ [(''is_unread'', JBool False), (''labels'', JArr []), (''word_count'', JNum 0)])"

text \<open>\<open>map.set(k, v)\<close>: an existing key keeps its place.\<close>

fun map_set :: "'k \<Rightarrow> 'v \<Rightarrow> ('k \<times> 'v) list \<Rightarrow> ('k \<times> 'v) list" where
  "map_set k v [] = [(k, v)]"
| "map_set k v ((k', v') # ps) = (if k' = k then (k, v) # ps else (k', v') # map_set k v ps)"

definition merge_emails :: "json list \<Rightarrow> json list" where
  "merge_emails es = map snd (foldl (\<lambda>m e. map_set (jfield ''id'' e) e m) [] es)"

definition email_time :: "int \<Rightarrow> json \<Rightarrow> int" where
  "email_time local e = (case Option.bind (jfield ''timestamp'' e) (date_of_json local) of Some t \<Rightarrow> t | None \<Rightarrow> 0)"

definition recent_in_thread :: "string \<Rightarrow> string \<Rightarrow> json list prog" where
  "recent_in_thread uid threadId =
     catch (bnd (fetchRecentEmails uid (recent 40)) (\<lambda>r.
            Ret (List.filter (\<lambda>e. jfield ''thread_id'' e = Some (JStr threadId)) (arr_items (jfield ''emails'' r)))))
       (\<lambda>_. Ret [])"

definition thread_text :: "json list \<Rightarrow> string" where
  "thread_text ms = join [nl, nl] (map (\<lambda>m.
     ''From: '' @ literal (jfield ''sender_name'' m) @ '' <'' @ literal (jfield ''sender_email'' m) @ ''>'' @ [nl] @
     ''Date: '' @ literal (jfield ''timestamp'' m) @ [nl] @ ''Content: '' @ literal (jfield ''snippet'' m)) ms)"

definition gmail_thread_GET_body :: "request \<Rightarrow> string \<Rightarrow> response prog" where
  "gmail_thread_GET_body req uid =
     (let threadId = param_get req ''threadId'' in
      if bad_gmail_id threadId then Throw invalid_input
      else sq getSupabaseAdmin
        (bnd (db (Query ''gmail_imported_emails'' (Select ''*'')
           [Eq ''clerk_user_id'' (JStr uid), Eq ''gmail_thread_id'' (JStr threadId)] [Order ''imported_at'' True] Many)) (\<lambda>r.
         bnd (recent_in_thread uid threadId) (\<lambda>recents.
         bnd local_offset (\<lambda>local.
         let ms = sort_key (email_time local) (merge_emails (map mapped_email (row_list r) @ recents)) in
         if ms = [] then Ret (ok_json [(''messages'', JArr []), (''brief'', JStr ''No messages found in this thread.'')])
         else
           let brief0 = ''This thread contains discussion regarding: '' @ literal (jfield ''subject'' (hd ms)) in
           bnd (get_env ''GOOGLE_AI_STUDIO_API_KEY'') (\<lambda>apiKey.
           bnd (if missing apiKey then Ret brief0
                else catch (summarize (chat_request (the apiKey) thread_prompt (thread_text ms) 120 (JDec 3 1)) brief0) (\<lambda>_. Ret brief0)) (\<lambda>brief.
           Ret (ok_json [(''messages'', JArr ms), (''brief'', JStr brief)]))))))))"

definition gmail_thread_GET :: "request \<Rightarrow> response prog" where
  "gmail_thread_GET req = withErrorHandler req (authed (gmail_thread_GET_body req))"

section \<open>Bulk actions\<close>

definition BulkActionSchema :: zschema where
  "BulkActionSchema = [(''action'', ZEnum [''summarize'', ''read'', ''unread''], ZRequired),
     (''emailIds'', ZArray (ZStr False (Some 1) None False) (Some 1) None, ZRequired)]"

definition bulk_prompt :: string where
  "bulk_prompt = ''You are an AI assistant. Given a list of selected emails, generate a bulleted summary highlighting critical tasks, deadlines, action items, and key takeaways across the entire batch. Keep it organized and clear.''"

definition email_details :: "string \<Rightarrow> json \<Rightarrow> json option prog" where
  "email_details uid i =
     bnd (db (Query ''gmail_imported_emails'' (Select ''subject, sender_name, snippet'')
        [Eq ''clerk_user_id'' (JStr uid), Eq ''gmail_message_id'' i] [] MaybeSingle)) (\<lambda>r.
     if truthyo (db_data r) then Ret (db_data r)
     else catch (fetchEmailById uid (js_string i)) (\<lambda>_. Ret None))"

definition bulk_text :: "json list \<Rightarrow> string" where
  "bulk_text es = join [nl, nl] (map (\<lambda>(n, e).
     ''Email '' @ show_nat (n + 1) @ '':'' @ [nl] @ ''Sender: '' @ literal (jfield ''sender_name'' e) @ [nl] @
     ''Subject: '' @ literal (jfield ''subject'' e) @ [nl] @ ''Snippet: '' @ literal (jfield ''snippet'' e)) (zip [0..<length es] es))"

definition gmail_bulk_POST_body :: "zparser \<Rightarrow> request \<Rightarrow> string \<Rightarrow> response prog" where
  "gmail_bulk_POST_body zod req uid =
     bnd (json_body req invalid_body) (\<lambda>body.
     bnd (parsed zod BulkActionSchema body) (\<lambda>ps.
     let emailIds = arr_items (map_of ps ''emailIds'') in
     if 10 < length emailIds then Throw invalid_input
     else sq getSupabaseAdmin
       (if zstr ''action'' ps = ''summarize'' then
          bnd (promise_all (map (email_details uid) emailIds)) (\<lambda>details.
          let emails = List.filter truthy (List.map_filter (\<lambda>x. x) details) in
          if emails = [] then Throw not_found
          else bnd (get_env ''GOOGLE_AI_STUDIO_API_KEY'') (\<lambda>apiKey.
            if missing apiKey then Throw (createApiError MISSING_SECRET ''AI Studio API key is not configured'' 500)
            else bnd (fetch (chat_request (the apiKey) bulk_prompt (bulk_text emails) 400 (JDec 4 1))) (\<lambda>response.
              if \<not> fr_ok response then Throw (createApiError WORKER_ERROR ''Failed to generate batch summary'' 502)
              else bnd (answer_json response) (\<lambda>d.
                Ret (ok_json [(''success'', JBool True),
                  (''summary'', if truthyo (first_content d) then jval (first_content d) else JStr ''No summary generated.'')])))))
        else Ret (ok_json [(''success'', JBool True)]))))"

definition gmail_bulk_POST :: "zparser \<Rightarrow> request \<Rightarrow> response prog" where
  "gmail_bulk_POST zod req = withErrorHandler req (authed (gmail_bulk_POST_body zod req))"

section \<open>The contract\<close>

lemma all_calls_gateway [simp]:
  assumes "\<And>p n. P (CCloudSecret p n)" and "\<And>f. P (CReadFile f)" and "\<And>q. P (CFetch q)"
  shows "all_calls P (gw_get path)" "all_calls P (gw_post path body)" "all_calls P (getGmailConnection uid)"
    "all_calls P (fetchRecentEmails uid lp)" "all_calls P (fetchEmailById uid i)" "all_calls P (disconnectGmail uid)"
  using assms by (simp_all add: gw_get_def gw_post_def gw_reply_def GW_def env_or_def getPreferredInternalApiToken_def
      getGmailConnection_def fetchRecentEmails_def fetchEmailById_def disconnectGmail_def)

lemma all_calls_summaries [simp]:
  "all_calls P (answer_json r)" "all_calls P (trimmed_or d v)" "(\<And>q. P (CFetch q)) \<Longrightarrow> all_calls P (summarize q d)"
  by (auto simp: answer_json_def trimmed_or_def summarize_def)

interpretation gmail_status: user_route gmail_status_GET gmail_status_GET_body
  by unfold_locales (simp_all add: gmail_status_GET_def gmail_status_GET_body_def)

interpretation gmail_disconnect: user_route gmail_disconnect_POST gmail_disconnect_POST_body
  by unfold_locales (simp_all add: gmail_disconnect_POST_def gmail_disconnect_POST_body_def)

interpretation gmail_emails: user_route "gmail_emails_GET zod" "gmail_emails_GET_body zod" for zod
  by unfold_locales (simp_all add: gmail_emails_GET_def gmail_emails_GET_body_def)

interpretation gmail_email: user_route gmail_email_GET gmail_email_GET_body
  by unfold_locales (simp_all add: gmail_email_GET_def gmail_email_GET_body_def import_row_def row_of_user_def)

interpretation gmail_read: user_route gmail_read_POST gmail_read_POST_body
  by unfold_locales (simp_all add: gmail_read_POST_def gmail_read_POST_body_def)

interpretation gmail_scheduled: user_route gmail_scheduled_GET gmail_scheduled_GET_body
  by unfold_locales (simp_all add: gmail_scheduled_GET_def gmail_scheduled_GET_body_def)

interpretation gmail_schedule_cancel: user_route gmail_schedule_DELETE gmail_schedule_DELETE_body
  by unfold_locales (simp_all add: gmail_schedule_DELETE_def gmail_schedule_DELETE_body_def)

interpretation gmail_thread: user_route gmail_thread_GET gmail_thread_GET_body
  by unfold_locales (simp_all add: gmail_thread_GET_def gmail_thread_GET_body_def recent_in_thread_def)

interpretation gmail_bulk: user_route "gmail_bulk_POST zod" "gmail_bulk_POST_body zod" for zod
  by unfold_locales (simp_all add: gmail_bulk_POST_def gmail_bulk_POST_body_def email_details_def)

section \<open>Properties\<close>



text \<open>The list of emails cannot be asked for without the \<open>unreadOnly\<close> parameter: the absent parameter
  is passed to the schema as \<open>null\<close>, which its default does not cover, and the request is refused
  with 400 before the gateway is called.\<close>

theorem emails_need_unreadOnly:
  assumes "zod_contract zod" and "query_get req ''unreadOnly'' = None"
  shows "\<exists>issues. gmail_emails_GET_body zod req uid = Throw (createApiErrorM VALIDATION_ERROR ''Invalid input'' (Some 400)
    \<lparr>meta_headers = None, meta_fields = [(''issues'', issues)]\<rparr>)"
proof -
  obtain issues where "zod ListEmailsQuerySchema (emails_query req) = Inl issues"
    using zod_contract.zod_null [OF assms(1), of "''unreadOnly''" "ZEnum [''true'', ''false'']" "ZDefault (JStr ''false'')" ListEmailsQuerySchema "emails_query req"]
      assms(2) by (auto simp: ListEmailsQuerySchema_def emails_query_def)
  then show ?thesis by (auto simp: gmail_emails_GET_body_def parsed_def)
qed

theorem emails_need_unreadOnly_witness:
  "\<exists>issues. gmail_emails_GET_body zod_ref \<lparr>req_method = ''GET'', req_path = ''/api/gmail/emails'', req_query = [], req_headers = [],
       req_body = None, req_params = []\<rparr> ''u'' = Throw (createApiErrorM VALIDATION_ERROR ''Invalid input'' (Some 400)
    \<lparr>meta_headers = None, meta_fields = [(''issues'', issues)]\<rparr>)"
  by (rule emails_need_unreadOnly [OF zod_reference.zod_contract_axioms]) (simp add: query_get_def)

end
