(* ===== verification/Message_Route.thy ===== *)
theory Message_Route
  imports Gmail
begin

text \<open>
  app/api/writeright/message: the submission of a text. The handler validates and sanitizes,
  replays an earlier response to the same idempotency key, checks the quota by calling the quota
  route, the rate limit and the length of the queue, stores the message, answers from the response
  cache or creates a job, and enqueues it. \<open>normalize("NFC")\<close> is the identity on the model's
  characters.
\<close>

section \<open>Helpers\<close>

definition MAX_TEXT_LENGTH :: nat where "MAX_TEXT_LENGTH = 10000"
definition HISTORY_LIMIT :: int where "HISTORY_LIMIT = 6"
definition IDEMPOTENCY_KEY_MAX_LENGTH :: nat where "IDEMPOTENCY_KEY_MAX_LENGTH = 120"

text \<open>\<open>[\x00-\x08\x0B\x0C\x0E-\x1F\x7F]\<close>.\<close>

definition is_control :: "char \<Rightarrow> bool" where
  "is_control c \<longleftrightarrow> (let n = code c in n \<le> 8 \<or> n = 11 \<or> n = 12 \<or> (14 \<le> n \<and> n \<le> 31) \<or> n = 127)"

definition sanitizeInput :: "string \<Rightarrow> string" where
  "sanitizeInput text = List.filter (\<lambda>c. \<not> is_control c) (take MAX_TEXT_LENGTH text)"

definition getMaxRequestsPerMinute :: "int prog" where
  "getMaxRequestsPerMinute = bnd (env_or ''WRITERIGHT_RATE_LIMIT_PER_MINUTE'' ''10'') (\<lambda>v.
     Ret (case parseInt v of Some n \<Rightarrow> if 0 < n then n else 10 | None \<Rightarrow> 10))"

definition TIER_RATE_LIMITS :: "string \<Rightarrow> int option" where
  "TIER_RATE_LIMITS tier = (if tier = ''free'' then Some 5 else if tier = ''pro'' then Some 30
     else if tier = ''team'' then Some 120 else None)"

definition invalidateStatsCache :: "string \<Rightarrow> unit prog" where
  "invalidateStatsCache uid = bnd isCircuitOpen (\<lambda>op.
     if op then Ret () else attempt (pool_unit (DEL [ns [''writeright'', ''stats'', uid]])))"

definition incrementQuotaUsage :: "string \<Rightarrow> int \<Rightarrow> unit prog" where
  "incrementQuotaUsage uid estimatedTokens =
     attempt (bnd currentPeriodKey (\<lambda>period.
       bnd (db (Rpc ''increment_wr_quota'' (JObj [(''p_user_id'', JStr uid), (''p_period'', JStr period),
          (''p_reqs'', JNum 1), (''p_tokens'', JNum estimatedTokens)]))) (\<lambda>r.
       whenP (db_err r \<noteq> None)
         (bnd currentPeriodKey (\<lambda>period'.
          sq (db (Query ''writeright_quota''
            (Upsert (JObj [(''user_id'', JStr uid), (''period_key'', JStr period'), (''requests'', JNum 1),
               (''tokens'', JNum estimatedTokens)]) ''user_id,period_key'' False) [] [] Many)) (Ret ()))))))"

definition normalizeIdempotencyKey :: "string option \<Rightarrow> string option" where
  "normalizeIdempotencyKey v = (if missing v then None
     else let normalized = take IDEMPOTENCY_KEY_MAX_LENGTH (trim (the v)) in
       if normalized \<noteq> [] then Some normalized else None)"

definition extractAssistantHistoryContent :: "string \<Rightarrow> string" where
  "extractAssistantHistoryContent content = (case parse content of
     Some j \<Rightarrow> (case jfield ''improved_text'' j of
         Some (JStr x) \<Rightarrow> if trim x \<noteq> [] then x else content
       | _ \<Rightarrow> content)
   | None \<Rightarrow> content)"

text \<open>A text column.\<close>

definition text_of :: "string \<Rightarrow> json \<Rightarrow> string" where
  "text_of k row = (case jfield k row of Some (JStr x) \<Rightarrow> x | _ \<Rightarrow> [])"

definition history_entry :: "json \<Rightarrow> string \<times> string" where
  "history_entry row = (if jfield ''role'' row = Some (JStr ''assistant'')
     then (''assistant'', extractAssistantHistoryContent (text_of ''content'' row))
     else (''user'', text_of ''content'' row))"

definition fetchChatHistory :: "string \<Rightarrow> json \<Rightarrow> (string \<times> string) list prog" where
  "fetchChatHistory chatId currentMessageId =
     bnd (db (Query ''writeright_messages'' (Select ''id, role, content'')
        [Eq ''chat_id'' (JStr chatId), Neq ''id'' currentMessageId, IsNull ''deleted_at'']
        [Order ''created_at'' False, Limit HISTORY_LIMIT] Many)) (\<lambda>r.
     if db_missing r then Ret []
     else Ret (List.filter (\<lambda>(role, content). trim content \<noteq> []) (map history_entry (rev (row_list r)))))"

definition buildRateLimitHeaders :: "int \<Rightarrow> int \<Rightarrow> headers prog" where
  "buildRateLimitHeaders limit rest = bnd now (\<lambda>t.
     Ret [(''X-RateLimit-Limit'', show_int limit), (''X-RateLimit-Remaining'', show_int rest),
          (''X-RateLimit-Reset'', show_int (t div 1000 + 60))])"

section \<open>Gates\<close>

fun exn_code :: "exn \<Rightarrow> error_code option" where
  "exn_code (WriteRightError c m st meta) = Some c"
| "exn_code _ = None"

definition body_json :: "response \<Rightarrow> json" where
  "body_json r = (case resp_body r of BJson j \<Rightarrow> j | _ \<Rightarrow> JNull)"

text \<open>Step 5: \<open>quota.exhausted\<close> is missing when the quota route failed, and reading its members throws.\<close>

definition quota_gate :: "string \<Rightarrow> json \<Rightarrow> unit prog" where
  "quota_gate text quota =
     (case jfield ''exhausted'' quota of
        Some (JObj ex) \<Rightarrow>
          if truthyo (map_of ex ''requests'') \<or> truthyo (map_of ex ''tokens'')
          then Throw (createApiErrorM QUOTA_EXCEEDED ''Monthly limit reached. Upgrade for more.'' (Some 402)
                 \<lparr>meta_headers = None, meta_fields = member ''tier'' (jfield ''tier'' quota)
                    @ [(''upgrade_url'', JStr ''https://brainmate.ai/pricing'')]\<rparr>)
          else if (case TIER_LIMITS (text_of ''tier'' quota) of Some l \<Rightarrow> lim_tokens l | None \<Rightarrow> 0) < int (length (trim text))
          then Throw (createApiError TEXT_TOO_LONG ''Text exceeds your plan limit.'' 400)
          else Ret ()
      | _ \<Rightarrow> Throw type_error)"

text \<open>Step 5.5: only a \<open>RATE_LIMITED\<close> error passes; a failing check lets the request through.\<close>

definition rate_limited_error :: "headers \<Rightarrow> exn" where
  "rate_limited_error hs = createApiErrorM RATE_LIMITED ''Rate limit exceeded'' (Some 429)
     \<lparr>meta_headers = Some (hs @ [(''Retry-After'', ''60'')]), meta_fields = []\<rparr>"

definition rate_gate :: "string \<Rightarrow> int \<Rightarrow> headers prog" where
  "rate_gate uid limit =
     catch
       (bnd (checkRateLimit uid limit) (\<lambda>rl.
        bnd (buildRateLimitHeaders limit (remaining rl)) (\<lambda>hs.
        if \<not> allowed rl then Throw (rate_limited_error hs) else Ret hs)))
       (\<lambda>err. if exn_code err = Some RATE_LIMITED then Throw err else buildRateLimitHeaders limit limit)"

definition queue_busy :: exn where
  "queue_busy = createApiErrorM QUEUE_ERROR ''Service is busy. Please try again in a moment.'' (Some 503)
     \<lparr>meta_headers = Some [(''Retry-After'', ''30'')], meta_fields = []\<rparr>"

definition depth_gate :: "unit prog" where
  "depth_gate = bnd isCircuitOpen (\<lambda>op.
     if op then Ret ()
     else catch (bnd (pool_int (ZCARD jobsKey)) (\<lambda>queueDepth. if 500 < queueDepth then Throw queue_busy else Ret ()))
       (\<lambda>err. if exn_code err = Some QUEUE_ERROR then Throw err else Ret ()))"

section \<open>The Gmail context\<close>

definition mentions_mail :: "string \<Rightarrow> bool" where
  "mentions_mail text \<longleftrightarrow> (let l = toLowerCase text in
     str_includes l ''gmail'' \<or> str_includes l ''email'' \<or> str_includes l ''mail'' \<or> str_includes l ''inbox'')"

definition context_text :: "json list \<Rightarrow> string" where
  "context_text es = join [nl] (map (\<lambda>(n, e). join [nl]
     [''Email '' @ show_nat (n + 1) @ '':'',
      ''Sender: '' @ literal (jfield ''sender_name'' e) @ '' <'' @ literal (jfield ''sender_email'' e) @ ''>'',
      ''Subject: '' @ literal (jfield ''subject'' e),
      ''Date: '' @ literal (jfield ''timestamp'' e),
      ''Snippet: '' @ literal (jfield ''snippet'' e),
      ''Content: '' @ literal (jfield ''body_preview'' e),
      ''---'']) (zip [0..<length es] es))"

definition gmail_context :: "string \<Rightarrow> string \<Rightarrow> string prog" where
  "gmail_context uid text =
     (if \<not> mentions_mail text then Ret text
      else catch
        (bnd (getGmailConnection uid) (\<lambda>connection.
         if \<not> truthyo connection then Ret text
         else bnd (fetchRecentEmails uid (recent 5)) (\<lambda>r.
           let es = arr_items (jfield ''emails'' r) in
           if es = [] then Ret text
           else Ret (''User's Recent Gmail Emails (for reference context):'' @ [nl] @ context_text es @ [nl, nl] @ text))))
        (\<lambda>_. Ret text))"

section \<open>The handler\<close>

definition message_meta :: "(string \<times> json) list \<Rightarrow> (string \<times> json) list" where
  "message_meta ps = member ''tone'' (map_of ps ''tone'') @ member ''mode'' (map_of ps ''mode'')
     @ member ''output_language'' (map_of ps ''output_language'') @ member ''intensity'' (map_of ps ''intensity'')
     @ member ''quick'' (map_of ps ''quick'')"

definition tokens_of :: "string \<Rightarrow> int" where
  "tokens_of text = (int (length text) + 3) div 4"

definition remember :: "string \<Rightarrow> string option \<Rightarrow> json \<Rightarrow> unit prog" where
  "remember uid key resp = (case key of Some k \<Rightarrow> setIdempotentResponse uid k resp 60 | None \<Rightarrow> Ret ())"

text \<open>Step 8: the answer from the cache; whatever fails in it is logged and the request goes on.\<close>

definition from_cache :: "string \<Rightarrow> (string \<times> json) list \<Rightarrow> string \<Rightarrow> string option \<Rightarrow> json \<Rightarrow> string \<Rightarrow> headers \<Rightarrow> response option prog" where
  "from_cache uid ps text key messageId inputHash hs =
     catch
       (bnd (getCachedAIResponse inputHash) (\<lambda>cached.
        if \<not> truthyo cached then Ret None
        else
          let responseBody = [(''jobId'', JStr ''cached''), (''messageId'', messageId), (''status'', JStr ''completed''),
                (''result'', jval cached)] in
          bnd (db (Query ''writeright_messages''
             (Insert (JObj [(''chat_id'', JStr (zstr ''chatId'' ps)), (''user_id'', JStr uid), (''role'', JStr ''assistant''),
                (''content'', JStr (stringify (jval cached))),
                (''metadata'', JObj (message_meta ps @ [(''result_type'', JStr ''ai_improvement''), (''cached'', JBool True),
                   (''input_hash'', JStr inputHash), (''job_id'', JStr ''cached'')]))])) [] [] Many)) (\<lambda>_.
          sq (remember uid key (JObj responseBody))
          (sq (incrementQuotaUsage uid (tokens_of text))
          (sq (invalidateStatsCache uid)
          (Ret (Some (json_response 200 hs responseBody))))))))
       (\<lambda>_. Ret None)"

definition job_of :: "string \<Rightarrow> (string \<times> json) list \<Rightarrow> string \<Rightarrow> string \<Rightarrow> string \<Rightarrow> (string \<times> string) list \<Rightarrow> headers \<Rightarrow> writing_job" where
  "job_of uid ps jobId messageId content history th =
     \<lparr>j_id = jobId, j_chatId = zstr ''chatId'' ps, j_userId = uid, j_messageId = messageId, j_content = content,
      j_tone = zstr ''tone'' ps, j_mode = zstr ''mode'' ps, j_output_language = Some (zstr ''output_language'' ps),
      j_history = Some history, j_intensity = Some (zint ''intensity'' ps), j_quick = Some (zbool ''quick'' ps),
      j_attempt = 0, j_traceparent = map_of th ''traceparent''\<rparr>"

text \<open>Step 11: on failure the job row is marked failed and the client is told to come back.\<close>

definition enqueue_job :: "string \<Rightarrow> string \<Rightarrow> json \<Rightarrow> writing_job \<Rightarrow> unit prog" where
  "enqueue_job uid text jobId job =
     catch
       (sq (enqueueWriteRightJob job) (sq (incrementQuotaUsage uid (tokens_of text)) (invalidateStatsCache uid)))
       (\<lambda>_. bnd (db (Query ''writeright_ai_jobs''
             (Update (JObj [(''status'', JStr ''failed''), (''error'', JStr ''Failed to enqueue to Redis'')]))
             [Eq ''id'' jobId] [] Many)) (\<lambda>_.
           Throw (createApiError QUEUE_ERROR ''Failed to enqueue job. Please try again.'' 503)))"

text \<open>Steps 9 to 12.\<close>

definition create_job ::
  "string \<Rightarrow> (string \<times> json) list \<Rightarrow> string \<Rightarrow> string option \<Rightarrow> json \<Rightarrow> string \<Rightarrow> (string \<times> string) list \<Rightarrow> headers \<Rightarrow> response prog" where
  "create_job uid ps text key messageId inputHash history hs =
     bnd (db (Query ''writeright_ai_jobs''
        (Insert (JObj [(''chat_id'', JStr (zstr ''chatId'' ps)), (''user_id'', JStr uid), (''message_id'', messageId),
           (''status'', JStr ''pending''),
           (''metadata'', JObj (message_meta ps @ [(''input_length'', JNum (int (length text))), (''input_hash'', JStr inputHash)]))]))
        [] [Returning ''id, created_at''] Single)) (\<lambda>r.
     if db_missing r then Throw (db_failed ''Failed to create AI job'')
     else
       let jobId = jval (jopt ''id'' (db_data r)) in
       bnd trace_headers (\<lambda>th.
       bnd (gmail_context uid text) (\<lambda>content.
       sq (enqueue_job uid text jobId (job_of uid ps (js_string jobId) (js_string messageId) content history th))
       (let responseBody = [(''jobId'', jobId), (''messageId'', messageId), (''status'', JStr ''pending'')] in
        sq (remember uid key (JObj responseBody)) (Ret (json_response 202 hs responseBody))))))"

text \<open>Steps 6 to 8.\<close>

definition store_message :: "string \<Rightarrow> (string \<times> json) list \<Rightarrow> string \<Rightarrow> string option \<Rightarrow> headers \<Rightarrow> response prog" where
  "store_message uid ps text key hs =
     (let chatId = zstr ''chatId'' ps in
      bnd (db (Query ''writeright_chats'' (Select ''id'') (owned_chat chatId uid) [] Single)) (\<lambda>c.
      if db_missing c then Throw (createApiError CHAT_NOT_FOUND ''Chat not found or does not belong to you'' 404)
      else
        bnd (db (Query ''writeright_messages''
          (Insert (JObj [(''chat_id'', JStr chatId), (''user_id'', JStr uid), (''role'', JStr ''user''), (''content'', JStr text),
             (''metadata'', JObj (message_meta ps @ [(''original_text'', JStr text)]))]))
          [] [Returning ''id, created_at''] Single)) (\<lambda>m.
        if db_missing m then Throw (db_failed ''Failed to save message'')
        else
          let messageId = jval (jopt ''id'' (db_data m)) in
          bnd (computeInputHash text (zstr ''tone'' ps) (zstr ''mode'' ps) (zstr ''output_language'' ps) (zint ''intensity'' ps)) (\<lambda>inputHash.
          bnd (fetchChatHistory chatId messageId) (\<lambda>history.
          bnd (from_cache uid ps text key messageId inputHash hs) (\<lambda>hit.
          case hit of
            Some resp \<Rightarrow> Ret resp
          | None \<Rightarrow> create_job uid ps text key messageId inputHash history hs))))))"

definition admit_message :: "request \<Rightarrow> string \<Rightarrow> (string \<times> json) list \<Rightarrow> string \<Rightarrow> string option \<Rightarrow> response prog" where
  "admit_message req uid ps text key =
     bnd (quota_GET req) (\<lambda>qr.
     let quota = body_json qr in
     sq (quota_gate text quota)
     (sq getSupabaseAdmin
     (sq (attempt (sq (db (Rpc ''increment_wr_daily_usage''
            (JObj [(''p_user_id'', JStr uid), (''p_chars'', JNum (int (length text))), (''p_reqs'', JNum 1)]))) (Ret ())))
     (bnd (case TIER_RATE_LIMITS (text_of ''tier'' quota) of Some n \<Rightarrow> Ret n | None \<Rightarrow> getMaxRequestsPerMinute) (\<lambda>limit.
      bnd (rate_gate uid limit) (\<lambda>hs.
      sq depth_gate (store_message uid ps text key hs)))))))"

definition message_POST_body :: "zparser \<Rightarrow> request \<Rightarrow> string \<Rightarrow> response prog" where
  "message_POST_body zod req uid =
     bnd (json_body req invalid_body) (\<lambda>body.
     bnd (parsed zod MessageSchema body) (\<lambda>ps.
     let text = sanitizeInput (zstr ''text'' ps) in
     if trim text = [] then Throw (createApiError EMPTY_TEXT ''Text is empty after sanitization'' 400)
     else
       let key = normalizeIdempotencyKey (header_get (req_headers req) ''X-Idempotency-Key'') in
       bnd (case key of Some k \<Rightarrow> getIdempotentResponse uid k | None \<Rightarrow> Ret None) (\<lambda>prior.
       if truthyo prior then Ret \<lparr>resp_status = 200, resp_body = BJson (jval prior), resp_headers = []\<rparr>
       else admit_message req uid ps text key)))"

definition message_POST :: "zparser \<Rightarrow> request \<Rightarrow> response prog" where
  "message_POST zod req = withErrorHandler req
     (withTimeout (authed (message_POST_body zod req)) 30000 ''POST /api/writeright/message'')"

section \<open>Lemmas\<close>

definition is_redis :: "call \<Rightarrow> bool" where
  "is_redis c = (case c of CRedis _ \<Rightarrow> True | _ \<Rightarrow> False)"

text \<open>The calls of a submission: those of the user, the lookups of the quota route, the history of
  the chat and the failure mark on the job.\<close>

fun message_query :: "string \<Rightarrow> query \<Rightarrow> bool" where
  "message_query uid (Query t (Select cols) fs ms md) =
     (query_scoped uid (Query t (Select cols) fs ms md) \<or>
      t = ''writeright_user_settings'' \<or> t = ''writeright_quota'' \<or>
      (t = ''writeright_messages'' \<and> (\<exists>chatId. Eq ''chat_id'' (JStr chatId) \<in> set fs)))"
| "message_query uid (Query t (Update row) fs ms md) =
     (query_scoped uid (Query t (Update row) fs ms md) \<or>
      (t = ''writeright_ai_jobs'' \<and> row = JObj [(''status'', JStr ''failed''), (''error'', JStr ''Failed to enqueue to Redis'')] \<and>
       (\<exists>i. fs = [Eq ''id'' i])))"
| "message_query uid q = query_scoped uid q"

fun message_call :: "string \<Rightarrow> call \<Rightarrow> bool" where
  "message_call uid (CDb q) = message_query uid q"
| "message_call uid _ = True"

lemma quota_calls: "all_calls (message_call uid) (quota_GET req)"
  by (simp add: quota_GET_def quota_GET_body_def authed_def all_calls_withErrorHandler)

lemma helper_calls [simp]:
  "all_calls (message_call uid) (incrementQuotaUsage uid n)" "all_calls (message_call uid) (invalidateStatsCache uid)"
  "all_calls (message_call uid) (fetchChatHistory chatId i)" "all_calls (message_call uid) (buildRateLimitHeaders a b)"
  "all_calls (message_call uid) getMaxRequestsPerMinute" "all_calls (message_call uid) (remember uid key r)"
  "all_calls (message_call uid) (quota_gate text q)" "all_calls (message_call uid) (rate_gate uid limit)"
  "all_calls (message_call uid) depth_gate" "all_calls (message_call uid) (gmail_context uid text)"
  by (simp_all add: incrementQuotaUsage_def row_of_user_def invalidateStatsCache_def fetchChatHistory_def
      buildRateLimitHeaders_def getMaxRequestsPerMinute_def env_or_def remember_def quota_gate_def rate_gate_def
      depth_gate_def gmail_context_def)

lemma create_calls: "all_calls (message_call uid) (create_job uid ps text key i h hist hs)"
  by (simp add: create_job_def enqueue_job_def row_of_user_def)

lemma cache_calls: "all_calls (message_call uid) (from_cache uid ps text key i h hs)"
  by (simp add: from_cache_def row_of_user_def)

lemma store_calls: "all_calls (message_call uid) (store_message uid ps text key hs)"
  by (simp add: store_message_def row_of_user_def create_calls cache_calls computeInputHash_def)

lemma incrementQuotaUsage_returns [simp]: "returns (\<lambda>_. True) (incrementQuotaUsage uid n)"
  by (simp add: incrementQuotaUsage_def)

lemma invalidateStatsCache_returns [simp]: "returns (\<lambda>_. True) (invalidateStatsCache uid)"
  by (simp add: invalidateStatsCache_def isCircuitOpen_def now_def)

lemma returns_then: "returns (\<lambda>_. True) p \<Longrightarrow> \<exists>x s' w'. run E p s w = (Inr x, s', w')"
  using returns_run [of "\<lambda>_. True" p E s w] by (cases "run E p s w") auto

definition rate_headers :: "int \<Rightarrow> int \<Rightarrow> int \<Rightarrow> headers" where
  "rate_headers limit rest t = [(''X-RateLimit-Limit'', show_int limit), (''X-RateLimit-Remaining'', show_int rest),
     (''X-RateLimit-Reset'', show_int (t div 1000 + 60))]"

lemma after_enqueue: "\<exists>s2 w2. run E (sq (incrementQuotaUsage uid n) (invalidateStatsCache uid)) s1 w1 = (Inr (), s2, w2)"
  using returns_then [OF returns_sq [of "\<lambda>_. True"], of "incrementQuotaUsage uid n" "invalidateStatsCache uid" E s1 w1] by simp

section \<open>Properties\<close>



text \<open>A free user who has made the fifty requests of the month.\<close>

definition quota_env :: "mem environment" where
  "quota_env = mem_env (\<lambda>c. case c of
     CAuth \<Rightarrow> RSession \<lparr>userId = Some ''u'', sessionId = None, sessionClaims = None\<rparr>
   | CDb q \<Rightarrow> RDb \<lparr>db_data = Some (JObj [(''requests'', JNum 50), (''tokens'', JNum 10)]), db_err = None, db_count = None\<rparr>
   | _ \<Rightarrow> RNil)"

definition quota_process :: process where
  "quota_process = node_process\<lparr>supabase_client := True\<rparr>"

definition sample_request :: request where
  "sample_request = \<lparr>req_method = ''POST'', req_path = ''/'', req_query = [], req_headers = [(''x-idempotency-key'', '' k '')],
     req_body = Some (JObj []), req_params = []\<rparr>"

lemma quota_env_exhausted:
  "\<exists>qr s1 w1 ex. run quota_env (quota_GET sample_request) quota_process (mem_at 0) = (Inr qr, s1, w1) \<and>
     jfield ''exhausted'' (body_json qr) = Some (JObj ex) \<and> truthyo (map_of ex ''requests'')"
  by (simp add: quota_GET_def quota_GET_body_def run_withErrorHandler run_catch run_bnd run_sq authed_def get_session_def
      quota_env_def mem_env_def getSupabaseAdmin_def quota_process_def missing_def currentPeriodKey_def local_offset_def now_def
      promise_both_def settled_def db_def quota_view_def body_json_def json_response_def tier_limits_of_def TIER_LIMITS_def
      int_or_def jopt_def nullish_def req_tok_def truthyo_def mem_at_def Let_def)

text \<open>The rate limit. When the counter answers, the request passes with the headers of the limit and
  the remaining requests, or is refused with 429, the same headers and \<open>Retry-After\<close>; when the
  check itself fails, the request passes.\<close>

theorem rate_gate_outcome:
  "case run E (checkRateLimit uid limit) s w of
     (Inr rl, s1, w1) \<Rightarrow>
       run E (rate_gate uid limit) s w =
         (if allowed rl then Inr (rate_headers limit (remaining rl) (fst (clock E w1)))
          else Inl (rate_limited_error (rate_headers limit (remaining rl) (fst (clock E w1)))), s1, snd (clock E w1))
   | (Inl e, s1, w1) \<Rightarrow> exn_code e \<noteq> Some RATE_LIMITED \<longrightarrow>
       run E (rate_gate uid limit) s w = (Inr (rate_headers limit limit (fst (clock E w1))), s1, snd (clock E w1))"
  by (auto simp: rate_gate_def run_bnd run_catch buildRateLimitHeaders_def now_def rate_headers_def
      rate_limited_error_def createApiErrorM_def split: prod.splits sum.splits)

theorem rate_gate_outcome_witness:
  "run (fixed_env 5000 (RErr (JsError ''down''))) (rate_gate ''u'' 5) node_process () = (Inr (rate_headers 5 5 5000), node_process, ())"
proof -
  have "run (fixed_env 5000 (RErr (JsError ''down''))) (checkRateLimit ''u'' 5) node_process () = (Inl (JsError ''down''), node_process, ())"
    by (simp add: run_getRedisPool checkRateLimit_def run_bnd run_sq run_isCircuitOpen fixed_env_def redis_int_def initial_circuit_def)
  then show ?thesis using rate_gate_outcome [of "fixed_env 5000 (RErr (JsError ''down''))" "''u''" 5 node_process "()"]
    by (simp add: fixed_env_def)
qed




text \<open>C3: a repeated submission is answered from memory. After a response has been remembered under an
  idempotency key, a valid request of the same user with the same key gets exactly that response while
  the minute lasts, and nothing but Redis is called: no message, no job, no quota.\<close>

theorem message_replayed:
  assumes "redis_service E time keys" and "up s (time w)" and "wf_json r" and "truthy r"
    and "req_body req = Some body" and "zod MessageSchema body = Inr ps" and "trim (sanitizeInput (zstr ''text'' ps)) \<noteq> []"
    and "normalizeIdempotencyKey (header_get (req_headers req) ''X-Idempotency-Key'') = Some k"
  shows "\<exists>w1. run E (remember uid (Some k) r) s w = (Inr (), s, w1) \<and>
    (\<forall>w2. keys w2 (idempotencyKey uid k) = keys w1 (idempotencyKey uid k) \<and> time w1 \<le> time w2 \<and>
       time (snd (snd (run E (getIdempotentResponse uid k) s w2))) < time w1 + 60000 \<longrightarrow>
       fst (run E (message_POST_body zod req uid) s w2) = Inr \<lparr>resp_status = 200, resp_body = BJson r, resp_headers = []\<rparr> \<and>
       list_all is_redis (trace E (message_POST_body zod req uid) s w2))"
proof -
  obtain w1 where w1: "run E (setIdempotentResponse uid k r 60) s w = (Inr (), s, w1)"
    and rd: "\<And>w2. keys w2 (idempotencyKey uid k) = keys w1 (idempotencyKey uid k) \<Longrightarrow> time w1 \<le> time w2 \<Longrightarrow>
      \<exists>w3. run E (getIdempotentResponse uid k) s w2 = (Inr (if time w3 < time w1 + 1000 * 60 then Some r else None), s, w3)"
    using redis_service.cache_replay [OF assms(1,2) _ assms(3), of 60 "idempotencyKey uid k"]
    unfolding setIdempotentResponse_def getIdempotentResponse_def by (metis zero_less_numeral)
  show ?thesis
  proof (intro exI [of _ w1] conjI allI impI; (elim conjE)?)
    show "run E (remember uid (Some k) r) s w = (Inr (), s, w1)" using w1 by (simp add: remember_def)
  next
    fix w2
    assume h: "keys w2 (idempotencyKey uid k) = keys w1 (idempotencyKey uid k)" "time w1 \<le> time w2"
      "time (snd (snd (run E (getIdempotentResponse uid k) s w2))) < time w1 + 60000"
    obtain w3 where w3: "run E (getIdempotentResponse uid k) s w2 = (Inr (Some r), s, w3)" using rd [OF h(1,2)] h(3) by auto
    note facts = message_POST_body_def json_body_def parsed_def assms(5-8) run_bnd trace_bnd w3
    show "fst (run E (message_POST_body zod req uid) s w2) = Inr \<lparr>resp_status = 200, resp_body = BJson r, resp_headers = []\<rparr>"
      using assms(4) by (simp add: facts truthyo_def jval_def Let_def)
    have "trace E (message_POST_body zod req uid) s w2 = trace E (getIdempotentResponse uid k) s w2"
      using assms(4) by (simp add: facts truthyo_def Let_def)
    moreover have "all_calls is_redis (getIdempotentResponse uid k)" by (simp add: is_redis_def)
    ultimately show "list_all is_redis (trace E (message_POST_body zod req uid) s w2)"
      unfolding list_all_iff using all_calls_trace by metis
  qed
qed

text \<open>A valid submission.\<close>

definition sample_message :: "(string \<times> json) list" where
  "sample_message = [(''chatId'', JStr ''c''), (''text'', JStr ''Hello''), (''tone'', JStr ''Friendly''), (''mode'', JStr ''email''),
     (''output_language'', JStr ''en''), (''intensity'', JNum 3), (''quick'', JBool False)]"

lemma sample_message_parses: "zod_ref MessageSchema (JObj sample_message) = Inr sample_message"
  by (simp add: zod_ref_def MessageSchema_def sample_message_def zod_value_def zod_ok_def zmember_ok_def Let_def TONES_def MODES_def)

lemma sample_message_text: "trim (sanitizeInput (zstr ''text'' sample_message)) \<noteq> []"
  by (simp add: sanitizeInput_def sample_message_def zstr_def trim_def is_control_def is_ws_def MAX_TEXT_LENGTH_def Let_def)

theorem message_replayed_witness:
  "\<exists>w1. run quota_env (remember ''u'' (Some ''k'') (JStr ''r'')) node_process (mem_at 0) = (Inr (), node_process, w1) \<and>
    (\<forall>w2. m_keys w2 (idempotencyKey ''u'' ''k'') = m_keys w1 (idempotencyKey ''u'' ''k'') \<and> m_time w1 \<le> m_time w2 \<and>
       m_time (snd (snd (run quota_env (getIdempotentResponse ''u'' ''k'') node_process w2))) < m_time w1 + 60000 \<longrightarrow>
       fst (run quota_env (message_POST_body zod_ref (sample_request\<lparr>req_body := Some (JObj sample_message)\<rparr>) ''u'') node_process w2) =
         Inr \<lparr>resp_status = 200, resp_body = BJson (JStr ''r''), resp_headers = []\<rparr> \<and>
       list_all is_redis (trace quota_env (message_POST_body zod_ref (sample_request\<lparr>req_body := Some (JObj sample_message)\<rparr>) ''u'') node_process w2))"
proof (rule message_replayed)
  show "redis_service quota_env m_time m_keys" unfolding quota_env_def by (rule mem_service)
  show "normalizeIdempotencyKey (header_get (req_headers (sample_request\<lparr>req_body := Some (JObj sample_message)\<rparr>)) ''X-Idempotency-Key'') = Some ''k''"
    by (simp add: sample_request_def) code_simp
  show "zod_ref MessageSchema (JObj sample_message) = Inr sample_message" by (rule sample_message_parses)
  show "trim (sanitizeInput (zstr ''text'' sample_message)) \<noteq> []" by (rule sample_message_text)
qed (simp_all add: up_def mem_at_def initial_circuit_def)

end
