(* ===== verification/Streams.thy ===== *)
theory Streams
  imports Routes
begin

text \<open>
  The three handlers that relay a streamed chat completion as server-sent events:
  templates/generate, gmail/smart-compose and email-chain. The upstream body arrives in chunks
  cut at arbitrary places; the loop keeps the unfinished last line in a buffer. \<open>pump\<close> is that
  loop over any treatment of a line, and \<open>pump_lines\<close> shows that its outcome depends on the
  bytes received only, not on how the transport cut them.

  The transport is the parameter \<open>transport\<close>: the chunks of a response and whether the stream
  ended normally (otherwise \<open>reader.read()\<close> rejects after the last chunk).
\<close>

section \<open>The read loop\<close>

text \<open>\<open>step\<close> treats one complete line; the part after the last line break stays in the buffer.\<close>

primrec pump :: "('s \<Rightarrow> string \<Rightarrow> 's) \<Rightarrow> 's \<Rightarrow> string \<Rightarrow> string list \<Rightarrow> 's" where
  "pump step st buffer [] = st"
| "pump step st buffer (value # chunks) =
     (let ls = split_on (\<lambda>c. c = nl) (buffer @ value)
      in pump step (foldl step st (butlast ls)) (last ls) chunks)"

type_synonym transport = "fetch_response \<Rightarrow> string list \<times> bool"

text \<open>The text of a \<open>data:\<close> line, \<^const>\<open>None\<close> for every line that is passed over:
  \<open>parsedData.choices?.[0]?.delta?.content || ""\<close>.\<close>

definition line_text :: "string \<Rightarrow> json option" where
  "line_text line =
     (let cleanLine = trim line in
      if cleanLine = [] \<or> cleanLine = ''data: [DONE]'' then None
      else if startsWith cleanLine ''data: '' then
        (case parse (drop 6 cleanLine) of
           None \<Rightarrow> None
         | Some d \<Rightarrow>
             (let content = (case arr_items (jfield ''choices'' d) of
                  [] \<Rightarrow> None | c # cs \<Rightarrow> jopt ''content'' (jfield ''delta'' c))
              in if truthyo content then content else None))
      else None)"

text \<open>\<open>if (!reader)\<close>: a response whose status has no body.\<close>

definition no_reader :: "fetch_response \<Rightarrow> bool" where
  "no_reader r \<longleftrightarrow> fr_status r \<in> {204, 205}"

definition sse_headers :: headers where
  "sse_headers = [(''Content-Type'', ''text/event-stream''), (''Cache-Control'', ''no-cache''),
     (''Connection'', ''keep-alive''), (''X-Accel-Buffering'', ''no'')]"

definition sse_response :: "json list \<Rightarrow> response" where
  "sse_response evs = \<lparr>resp_status = 200, resp_body = BEvents (map (\<lambda>j. (''data'', j)) evs), resp_headers = sse_headers\<rparr>"

definition token_event :: "json \<Rightarrow> json" where
  "token_event t = JObj [(''type'', JStr ''token''), (''text'', t)]"

definition done_event :: json where
  "done_event = JObj [(''type'', JStr ''done'')]"

definition error_event :: "string \<Rightarrow> json" where
  "error_event m = JObj [(''type'', JStr ''error''), (''message'', JStr m)]"

section \<open>Relaying tokens\<close>

definition relay_line :: "json list \<Rightarrow> string \<Rightarrow> json list" where
  "relay_line out line = (case line_text line of Some t \<Rightarrow> out @ [token_event t] | None \<Rightarrow> out)"

definition relay :: "string \<Rightarrow> transport \<Rightarrow> fetch_response \<Rightarrow> json list" where
  "relay msg transport res =
     (if no_reader res then []
      else case transport res of (chunks, ended) \<Rightarrow>
        pump relay_line [] [] chunks @ [if ended then done_event else error_event msg])"

text \<open>The request of all three handlers to the completions endpoint.\<close>

definition completion_request :: "string \<Rightarrow> string \<Rightarrow> string \<Rightarrow> int \<Rightarrow> json \<Rightarrow> fetch_request" where
  "completion_request apiKey system user max_tokens temperature =
     \<lparr>fq_method = ''POST'', fq_url = ''https://generativelanguage.googleapis.com/v1beta/openai/chat/completions'',
      fq_headers = [(''Authorization'', ''Bearer '' @ apiKey), (''Content-Type'', ''application/json'')],
      fq_body = Some (JObj [(''model'', JStr ''gemini-2.0-flash''),
        (''messages'', JArr [JObj [(''role'', JStr ''system''), (''content'', JStr system)],
                            JObj [(''role'', JStr ''user''), (''content'', JStr user)]]),
        (''max_tokens'', JNum max_tokens), (''temperature'', temperature), (''stream'', JBool True)])\<rparr>"

definition completion :: "string \<Rightarrow> string \<Rightarrow> int \<Rightarrow> json \<Rightarrow> fetch_response prog" where
  "completion system user max_tokens temperature =
     bnd (get_env ''GOOGLE_AI_STUDIO_API_KEY'') (\<lambda>apiKey.
     if missing apiKey then Throw (createApiError MISSING_SECRET ''AI Studio API key is not configured'' 500)
     else bnd (fetch (completion_request (the apiKey) system user max_tokens temperature)) (\<lambda>response.
       if \<not> fr_ok response then Throw (createApiError WORKER_ERROR ''Failed to communicate with LLM provider'' 502)
       else Ret response))"

text \<open>\<open>safeParse\<close> with an error that does not carry the issues.\<close>

definition parsed_quiet :: "zparser \<Rightarrow> zschema \<Rightarrow> json \<Rightarrow> (string \<times> json) list prog" where
  "parsed_quiet zod sch j = (case zod sch j of Inr ps \<Rightarrow> Ret ps | Inl issues \<Rightarrow> Throw invalid_input)"

section \<open>templates/generate\<close>

definition GenerateTemplateSchema :: zschema where
  "GenerateTemplateSchema = [(''prompt'', z_text 5 1000, ZRequired)]"

definition generate_prompt :: string where
  "generate_prompt = ''You are a professional writing assistant. Generate a reusable text template based on the user's request. Use placeholders in brackets like [Client Name] or [Project Date] for variables. Output ONLY the template body text. No greetings, introductions, or conversational filler.''"

definition generate_POST_body :: "zparser \<Rightarrow> transport \<Rightarrow> request \<Rightarrow> string \<Rightarrow> response prog" where
  "generate_POST_body zod transport req uid =
     bnd (json_body req invalid_body) (\<lambda>body.
     bnd (parsed_quiet zod GenerateTemplateSchema body) (\<lambda>ps.
     bnd (completion generate_prompt (zstr ''prompt'' ps) 1000 (JDec 7 1)) (\<lambda>response.
     Ret (sse_response (relay ''Stream error occurred'' transport response)))))"

definition generate_POST :: "zparser \<Rightarrow> transport \<Rightarrow> request \<Rightarrow> response prog" where
  "generate_POST zod transport req = withErrorHandler req (authed (generate_POST_body zod transport req))"

section \<open>gmail/smart-compose\<close>

definition SmartComposeSchema :: zschema where
  "SmartComposeSchema =
     [(''emailBody'', z_text 1 20000, ZRequired), (''tone'', z_string, ZDefault (JStr ''Professional'')),
      (''prompt'', z_string, ZOptional), (''subject'', z_string, ZOptional)]"

definition compose_prompt :: "string \<Rightarrow> string \<Rightarrow> string" where
  "compose_prompt tone userPrompt = join [nl]
     [''You are an elite email writing assistant. Draft a reply to the incoming email provided by the user.'',
      ''Use the selected tone: '' @ [dquote] @ tone @ [dquote] @ ''.'',
      (if userPrompt \<noteq> [] then ''Follow these specific instructions: '' @ [dquote] @ userPrompt @ [dquote] else []),
      ''Output ONLY the drafted email body text. Do not include subject lines (unless specifically asked), greetings to the user, or conversational filler.'']"

definition compose_content :: "string \<Rightarrow> string \<Rightarrow> string" where
  "compose_content subject emailBody =
     ''INCOMING EMAIL:'' @ (if subject \<noteq> [] then [nl] @ ''Subject: '' @ subject else []) @ [nl, nl] @ emailBody"

definition smart_compose_POST_body :: "zparser \<Rightarrow> transport \<Rightarrow> request \<Rightarrow> string \<Rightarrow> response prog" where
  "smart_compose_POST_body zod transport req uid =
     bnd (json_body req invalid_body) (\<lambda>body.
     bnd (parsed_quiet zod SmartComposeSchema body) (\<lambda>ps.
     bnd (completion (compose_prompt (zstr ''tone'' ps) (zstr ''prompt'' ps))
            (compose_content (zstr ''subject'' ps) (zstr ''emailBody'' ps)) 1200 (JDec 6 1)) (\<lambda>response.
     Ret (sse_response (relay ''Smart compose stream error'' transport response)))))"

definition smart_compose_POST :: "zparser \<Rightarrow> transport \<Rightarrow> request \<Rightarrow> response prog" where
  "smart_compose_POST zod transport req = withErrorHandler req (authed (smart_compose_POST_body zod transport req))"

section \<open>email-chain\<close>

definition EmailChainSchema :: zschema where
  "EmailChainSchema =
     [(''messages'', ZArray (ZObject False [(''id'', z_string, ZRequired), (''label'', z_string, ZRequired),
         (''body'', z_string, ZRequired), (''isAI'', ZBool, ZRequired)]) None None, ZRequired),
      (''nextGoal'', z_text 5 1000, ZRequired)]"

definition thread_history :: "json list \<Rightarrow> string" where
  "thread_history messages = join [nl, nl] (map (\<lambda>m.
     ''--- '' @ zstr ''label'' (case m of JObj ps \<Rightarrow> ps | _ \<Rightarrow> []) @ '' ---'' @ [nl] @
     zstr ''body'' (case m of JObj ps \<Rightarrow> ps | _ \<Rightarrow> [])) messages)"

definition chain_system :: string where
  "chain_system = join [nl]
     [''You are an elite business negotiator and writing assistant. Given a history of an email chain and a target goal for the next email, you will draft the next response AND provide strategic negotiation advice.'',
      [],
      ''You MUST structure your response EXACTLY as follows:'',
      ''[EMAIL_BODY]'',
      ''(Write the drafted email response here. Use placeholders like [Name] in brackets where needed. Keep it professional and realistic.)'',
      [],
      ''[STRATEGIC_ADVICE]'',
      ''Negotiation Status: (Provide a 1-sentence status of the negotiation, e.g. '' @ [dquote] @ ''Drafting the initial pitch'' @ [dquote] @ '' or '' @ [dquote] @ ''Resolving price conflict'' @ [dquote] @ '')'',
      ''Tone Trend: (Must be exactly one of: escalating | de-escalating | neutral)'',
      ''Recommended Next Move: (A short actionable suggestion for the user, e.g. '' @ [dquote] @ ''Suggest a 15-minute phone call to align'' @ [dquote] @ '')'',
      ''Risk Assessment: (A 1-sentence assessment of risks involved in this reply, e.g. '' @ [dquote] @ ''Low risk, but watch for pushback on timelines'' @ [dquote] @ '')'']"

definition chain_user :: "string \<Rightarrow> string \<Rightarrow> string" where
  "chain_user history goal = join [nl]
     [''EMAIL CHAIN HISTORY:'',
      (if history = [] then ''No prior messages. This is the first email.'' else history),
      [], ''NEXT EMAIL GOAL:'', goal, [], ''Draft the next email and compile strategic advice.'']"

datatype chain_mode = HeaderMode | BodyMode | AdviceMode

record chain_state =
  currentMode :: chain_mode
  adviceText :: string
  chain_out :: "json list"

text \<open>The treatment of one piece of text: the markers switch the mode.\<close>

definition chain_text :: "chain_state \<Rightarrow> json \<Rightarrow> chain_state" where
  "chain_text st t =
     (let fullText = adviceText st @ js_string t in
      if str_includes fullText ''[EMAIL_BODY]'' \<and> currentMode st = HeaderMode then st\<lparr>currentMode := BodyMode\<rparr>
      else if str_includes fullText ''[STRATEGIC_ADVICE]'' then st\<lparr>currentMode := AdviceMode, adviceText := fullText\<rparr>
      else case currentMode st of
          BodyMode \<Rightarrow> st\<lparr>chain_out := chain_out st @ [token_event t]\<rparr>
        | AdviceMode \<Rightarrow> st\<lparr>adviceText := fullText\<rparr>
        | HeaderMode \<Rightarrow> st)"

definition chain_line :: "chain_state \<Rightarrow> string \<Rightarrow> chain_state" where
  "chain_line st line = (case line_text line of Some t \<Rightarrow> chain_text st t | None \<Rightarrow> st)"

text \<open>\<open>s.replace(p, "")\<close>: the first occurrence is removed.\<close>

definition remove_first :: "string \<Rightarrow> string \<Rightarrow> string" where
  "remove_first p s = (case indexOf s p of Some i \<Rightarrow> take i s @ drop (i + length p) s | None \<Rightarrow> s)"

record advice =
  adv_status :: string
  adv_trend :: string
  adv_move :: string
  adv_risk :: string

definition tone_trend :: "string \<Rightarrow> string" where
  "tone_trend l =
     (let parsedTrend = toLowerCase (trim (drop (length ''tone trend:'') l)) in
      if str_includes parsedTrend ''escalating'' then ''escalating''
      else if str_includes parsedTrend ''de-escalating'' then ''de-escalating''
      else ''neutral'')"

definition advice_line :: "advice \<Rightarrow> string \<Rightarrow> advice" where
  "advice_line a l =
     (let lowerLine = toLowerCase l in
      if startsWith lowerLine ''negotiation status:'' then a\<lparr>adv_status := trim (drop (length ''negotiation status:'') l)\<rparr>
      else if startsWith lowerLine ''tone trend:'' then a\<lparr>adv_trend := tone_trend l\<rparr>
      else if startsWith lowerLine ''recommended next move:''
      then a\<lparr>adv_move := trim (drop (length ''recommended next move:'') l)\<rparr>
      else if startsWith lowerLine ''risk assessment:'' then a\<lparr>adv_risk := trim (drop (length ''risk assessment:'') l)\<rparr>
      else a)"

definition parse_advice :: "string \<Rightarrow> advice" where
  "parse_advice txt = foldl advice_line
     \<lparr>adv_status = ''Under review'', adv_trend = ''neutral'', adv_move = ''Continue correspondence'',
      adv_risk = ''No critical risks identified''\<rparr>
     (split_on (\<lambda>c. c = nl) (trim (remove_first ''[STRATEGIC_ADVICE]'' txt)))"

definition advice_event :: "advice \<Rightarrow> json" where
  "advice_event a = JObj [(''type'', JStr ''advice''), (''advice'', JObj
     [(''negotiationStatus'', JStr (adv_status a)), (''toneTrend'', JStr (adv_trend a)),
      (''recommendedNextMove'', JStr (adv_move a)), (''riskAssessment'', JStr (adv_risk a))])]"

definition chain_start :: chain_state where
  "chain_start = \<lparr>currentMode = HeaderMode, adviceText = [], chain_out = []\<rparr>"

definition chain_events :: "transport \<Rightarrow> fetch_response \<Rightarrow> json list" where
  "chain_events transport res =
     (if no_reader res then []
      else case transport res of (chunks, ended) \<Rightarrow>
        let st = pump chain_line chain_start [] chunks in
        chain_out st @ (if ended then [advice_event (parse_advice (adviceText st)), done_event]
                        else [error_event ''Email chain stream error'']))"

definition email_chain_POST_body :: "zparser \<Rightarrow> transport \<Rightarrow> request \<Rightarrow> string \<Rightarrow> response prog" where
  "email_chain_POST_body zod transport req uid =
     bnd (json_body req invalid_body) (\<lambda>body.
     bnd (parsed zod EmailChainSchema body) (\<lambda>ps.
     bnd (completion chain_system
            (chain_user (thread_history (arr_items (map_of ps ''messages''))) (zstr ''nextGoal'' ps)) 1500 (JDec 7 1)) (\<lambda>response.
     Ret (sse_response (chain_events transport response)))))"

definition email_chain_POST :: "zparser \<Rightarrow> transport \<Rightarrow> request \<Rightarrow> response prog" where
  "email_chain_POST zod transport req = withErrorHandler req (authed (email_chain_POST_body zod transport req))"

section \<open>Lemmas\<close>

text \<open>The loop treats the complete lines of everything it received, in order.\<close>

lemma pump_lines:
  assumes "\<forall>c \<in> set buffer. c \<noteq> nl"
  shows "pump step st buffer chunks = foldl step st (butlast (split_on (\<lambda>c. c = nl) (buffer @ concat chunks)))"
  using assms
proof (induction chunks arbitrary: st buffer)
  case (Cons v chunks)
  let ?ls = "split_on (\<lambda>c. c = nl) (buffer @ v)"
  have "\<forall>c \<in> set (last ?ls). c \<noteq> nl" using split_on_last [of "\<lambda>c. c = nl" "buffer @ v"] by simp
  then have "pump step st buffer (v # chunks) =
      foldl step (foldl step st (butlast ?ls)) (butlast (split_on (\<lambda>c. c = nl) (last ?ls @ concat chunks)))"
    using Cons.IH by (simp add: Let_def)
  also have "\<dots> = foldl step st (butlast (split_on (\<lambda>c. c = nl) ((buffer @ v) @ concat chunks)))"
    by (subst split_on_append) (simp add: butlast_append)
  finally show ?case by simp
qed (simp add: split_on_none)

lemma foldl_relay: "foldl relay_line out ls = out @ map token_event (List.map_filter line_text ls)"
  by (induction ls arbitrary: out) (auto simp: relay_line_def map_filter_simps split: option.splits)

text \<open>Two transports that deliver the same text.\<close>

definition same_text :: "transport \<Rightarrow> transport \<Rightarrow> bool" where
  "same_text t u \<longleftrightarrow> (\<forall>r. concat (fst (t r)) = concat (fst (u r)) \<and> snd (t r) = snd (u r))"

lemma same_text_events:
  assumes "same_text t u"
  shows "relay msg t res = relay msg u res" and "chain_events t res = chain_events u res"
proof -
  have "concat (fst (t res)) = concat (fst (u res))" "snd (t res) = snd (u res)"
    using assms by (simp_all add: same_text_def)
  then show "relay msg t res = relay msg u res" "chain_events t res = chain_events u res"
    by (simp_all add: relay_def chain_events_def pump_lines split_beta)
qed

lemma all_calls_completion [simp]:
  "(\<And>q. P (CFetch q)) \<Longrightarrow> all_calls P (completion sy us mt te)" "all_calls P (parsed_quiet zod sch j)"
  by (simp_all add: completion_def parsed_quiet_def)

interpretation template_generate: user_route "generate_POST zod t" "generate_POST_body zod t" for zod t
  by unfold_locales (simp_all add: generate_POST_def generate_POST_body_def)

interpretation smart_compose: user_route "smart_compose_POST zod t" "smart_compose_POST_body zod t" for zod t
  by unfold_locales (simp_all add: smart_compose_POST_def smart_compose_POST_body_def)

interpretation email_chain: user_route "email_chain_POST zod t" "email_chain_POST_body zod t" for zod t
  by unfold_locales (simp_all add: email_chain_POST_def email_chain_POST_body_def)

text \<open>The trend found in a line, and in the whole advice.\<close>

lemma tone_trend_cases: "tone_trend l \<in> {''escalating'', ''neutral''}"
proof -
  have "str_includes x ''de-escalating'' \<Longrightarrow> str_includes x ''escalating''" for x
    using str_includes_sub [of x "''de-''" "''escalating''" "[]"] by simp
  then show ?thesis by (auto simp: tone_trend_def Let_def)
qed

lemma advice_trend:
  assumes "adv_trend a \<in> {''escalating'', ''neutral''}"
  shows "adv_trend (foldl advice_line a ls) \<in> {''escalating'', ''neutral''}"
  using assms
proof (induction ls arbitrary: a)
  case (Cons l ls)
  have "adv_trend (advice_line a l) \<in> {''escalating'', ''neutral''}"
    using Cons.prems tone_trend_cases [of l] by (simp add: advice_line_def Let_def)
  then show ?case using Cons.IH by simp
qed simp

section \<open>Properties\<close>

text \<open>C10: the events of a relayed completion are the texts of the complete data lines that were
  received, in order, and one closing event.\<close>

theorem relay_lines:
  "relay msg transport res =
     (if no_reader res then []
      else map token_event (List.map_filter line_text
             (butlast (split_on (\<lambda>c. c = nl) (concat (fst (transport res))))))
           @ [if snd (transport res) then done_event else error_event msg])"
  by (simp add: relay_def pump_lines foldl_relay split: prod.splits)



text \<open>The advice of an email chain never reports a de-escalating tone: the test for
  \<open>escalating\<close> comes first and holds for both words.\<close>

theorem trend_never_de_escalating:
  "adv_trend (parse_advice txt) \<in> {''escalating'', ''neutral''} \<and> tone_trend ''Tone Trend: de-escalating'' = ''escalating''"
proof
  show "adv_trend (parse_advice txt) \<in> {''escalating'', ''neutral''}"
    unfolding parse_advice_def by (rule advice_trend) simp
  show "tone_trend ''Tone Trend: de-escalating'' = ''escalating''" by code_simp
qed

end
