(* ===== verification/Share_Routes.thy ===== *)
theory Share_Routes
  imports Chat_Routes
begin

text \<open>
  Share links: app/api/writeright/share (create), public/share/[token] (read, without a user) and
  the token check of og/[token]. A link carries a signed token; \<open>createHmac\<close> of Node is the
  service call \<open>CHmac\<close>, whose reply is the raw digest, one character per byte. Creation encodes
  with \<open>toString("base64")\<close> and three replacements, the check with \<open>digest("base64url")\<close>; both
  encodings are modelled as they are and shown equal.
\<close>

section \<open>Base 64\<close>

definition utf8_bytes :: "string \<Rightarrow> nat list" where
  "utf8_bytes s = concat (map utf8 s)"

definition raw_bytes :: "string \<Rightarrow> nat list" where
  "raw_bytes s = map of_char s"

text \<open>The characters of the standard alphabet and of the URL alphabet.\<close>

definition std_char :: "nat \<Rightarrow> char" where
  "std_char n = (if n < 26 then char_of (65 + n) else if n < 52 then char_of (71 + n)
     else if n < 62 then char_of (n - 4) else if n = 62 then CHR ''+'' else CHR ''/'')"

definition url_char :: "nat \<Rightarrow> char" where
  "url_char n = (if n = 62 then CHR ''-'' else if n < 62 then std_char n else CHR ''_'')"

fun sextets :: "nat list \<Rightarrow> nat list" where
  "sextets [] = []"
| "sextets [a] = [a div 4, a mod 4 * 16]"
| "sextets [a, b] = [a div 4, a mod 4 * 16 + b div 16, b mod 16 * 4]"
| "sextets (a # b # c # r) = a div 4 # (a mod 4 * 16 + b div 16) # (b mod 16 * 4 + c div 64) # c mod 64 # sextets r"

text \<open>\<open>toString("base64")\<close> pads with \<open>=\<close> to a multiple of four characters.\<close>

definition base64 :: "nat list \<Rightarrow> string" where
  "base64 bs = map std_char (sextets bs) @ replicate ((3 - length bs mod 3) mod 3) (CHR ''='')"

text \<open>\<open>digest("base64url")\<close>.\<close>

definition base64url :: "nat list \<Rightarrow> string" where
  "base64url bs = map url_char (sextets bs)"

definition url_safe :: "char \<Rightarrow> char" where
  "url_safe c = (if c = CHR ''+'' then CHR ''-'' else if c = CHR ''/'' then CHR ''_'' else c)"

definition strip_end :: "char \<Rightarrow> string \<Rightarrow> string" where
  "strip_end c s = rev (dropWhile (\<lambda>x. x = c) (rev s))"

definition base64Url :: "nat list \<Rightarrow> string" where
  "base64Url bs = strip_end (CHR ''='') (map url_safe (base64 bs))"

text \<open>\<open>Buffer.from(s, "base64url")\<close>: both alphabets are read, other characters are skipped and
  the input ends at \<open>=\<close>.\<close>

definition sextet_of :: "char \<Rightarrow> nat option" where
  "sextet_of ch = (let n = of_char ch in
     if 65 \<le> n \<and> n \<le> 90 then Some (n - 65) else if 97 \<le> n \<and> n \<le> 122 then Some (n - 71)
     else if 48 \<le> n \<and> n \<le> 57 then Some (n + 4)
     else if n = 43 \<or> n = 45 then Some 62 else if n = 47 \<or> n = 95 then Some 63 else None)"

fun unsextets :: "nat list \<Rightarrow> nat list" where
  "unsextets (x # y # z # u # r) = (x * 4 + y div 16) # (y mod 16 * 16 + z div 4) # (z mod 4 * 64 + u) # unsextets r"
| "unsextets [x, y, z] = [x * 4 + y div 16, y mod 16 * 16 + z div 4]"
| "unsextets [x, y] = [x * 4 + y div 16]"
| "unsextets _ = []"

definition from_base64url :: "string \<Rightarrow> nat list" where
  "from_base64url s = unsextets (List.map_filter sextet_of (takeWhile (\<lambda>c. c \<noteq> CHR ''='') s))"

text \<open>\<open>toString("utf-8")\<close>; \<^const>\<open>None\<close> for text outside the model's 256 characters.\<close>

fun from_utf8 :: "nat list \<Rightarrow> string option" where
  "from_utf8 [] = Some []"
| "from_utf8 (a # r) =
     (if a < 128 then map_option (\<lambda>s. char_of a # s) (from_utf8 r)
      else case r of
          b # r' \<Rightarrow> if (a = 194 \<or> a = 195) \<and> 128 \<le> b \<and> b < 192
                  then map_option (\<lambda>s. char_of ((a - 192) * 64 + (b - 128)) # s) (from_utf8 r') else None
        | [] \<Rightarrow> None)"

section \<open>Tokens\<close>

definition SHARE_TTL_SECS :: int where "SHARE_TTL_SECS = 7 * 24 * 60 * 60"

definition share_secret :: "string option prog" where
  "share_secret =
     bnd (get_env ''WRITERIGHT_SHARE_SECRET'') (\<lambda>a.
     bnd (get_env ''WRITERIGHT_SHARE_JWT_SECRET'') (\<lambda>b.
     bnd (get_env ''NEXTAUTH_SECRET'') (\<lambda>c.
     Ret (if \<not> missing a then a else if \<not> missing b then b else if \<not> missing c then c else None))))"

definition hmac :: "string \<Rightarrow> string \<Rightarrow> nat list prog" where
  "hmac secret text = bnd (call_str (CHmac secret text)) (\<lambda>d. Ret (raw_bytes d))"

definition token_header :: json where
  "token_header = JObj [(''alg'', JStr ''HS256''), (''typ'', JStr ''JWT'')]"

definition createShareToken :: "json \<Rightarrow> string \<Rightarrow> string prog" where
  "createShareToken payload secret =
     (let data = base64Url (utf8_bytes (stringify token_header)) @ ''.'' @ base64Url (utf8_bytes (stringify payload)) in
      bnd (hmac secret data) (\<lambda>signature. Ret (data @ ''.'' @ base64Url signature)))"

definition dots :: "string \<Rightarrow> string list" where
  "dots token = split_on (\<lambda>c. c = CHR ''.'') token"

text \<open>The check of the public route: format, secret, signature.\<close>

definition checked_payload :: "string \<Rightarrow> string prog" where
  "checked_payload token =
     (case dots token of
        [headerB64, payloadB64, signatureB64] \<Rightarrow>
          bnd share_secret (\<lambda>secret.
          case secret of
            None \<Rightarrow> Throw (createApiError MISSING_SECRET ''Share feature unavailable'' 503)
          | Some k \<Rightarrow>
              bnd (hmac k (headerB64 @ ''.'' @ payloadB64)) (\<lambda>d.
              if utf8_bytes signatureB64 \<noteq> utf8_bytes (base64url d)
              then Throw (createApiError INVALID_TOKEN ''Invalid or expired share link'' 400)
              else Ret payloadB64))
      | _ \<Rightarrow> Throw (createApiError INVALID_TOKEN ''Invalid token format'' 400))"

definition decode_payload :: "string \<Rightarrow> json prog" where
  "decode_payload payloadB64 =
     (case Option.bind (from_utf8 (from_base64url payloadB64)) parse of
        Some j \<Rightarrow> Ret j | None \<Rightarrow> Throw (JsError ''SyntaxError''))"

text \<open>\<open>payload.exp && payload.exp < now\<close> for a numeric \<open>exp\<close>.\<close>

definition expired :: "json \<Rightarrow> int \<Rightarrow> bool" where
  "expired payload t = (case jfield ''exp'' payload of
     Some (JNum e) \<Rightarrow> e \<noteq> 0 \<and> e < t
   | Some (JDec m e) \<Rightarrow> m < t * 10 ^ e
   | _ \<Rightarrow> False)"

definition read_token :: "string \<Rightarrow> json prog" where
  "read_token token =
     bnd (checked_payload token) (\<lambda>p64.
     bnd (decode_payload p64) (\<lambda>payload.
     bnd now (\<lambda>t.
     if payload = JNull then Throw type_error
     else if expired payload (t div 1000) then Throw (createApiError EXPIRED_TOKEN ''This share link has expired.'' 410)
     else Ret payload)))"

text \<open>The check of og/[token]: equal lengths in characters, then \<open>timingSafeEqual\<close>, which throws
  when the lengths in bytes differ.\<close>

definition timingSafeEqual :: "nat list \<Rightarrow> nat list \<Rightarrow> bool prog" where
  "timingSafeEqual a b = (if length a \<noteq> length b then Throw (JsError ''Input buffers must have the same byte length'') else Ret (a = b))"

definition verifyToken :: "string \<Rightarrow> unit prog" where
  "verifyToken token =
     bnd share_secret (\<lambda>secret.
     case secret of
       None \<Rightarrow> Throw (createApiError MISSING_SECRET ''Share feature unavailable'' 503)
     | Some k \<Rightarrow>
         (case dots token of
            [header, payload, signature] \<Rightarrow>
              bnd (hmac k (header @ ''.'' @ payload)) (\<lambda>d.
              let expected = base64url d in
              bnd (if length signature = length expected then timingSafeEqual (utf8_bytes signature) (utf8_bytes expected) else Ret False) (\<lambda>safe.
              if safe then Ret () else Throw (createApiError INVALID_TOKEN ''Invalid share link'' 400)))
          | _ \<Rightarrow> Throw (createApiError INVALID_TOKEN ''Invalid share link'' 400)))"

section \<open>share\<close>

definition share_payload :: "string \<Rightarrow> string \<Rightarrow> string \<Rightarrow> int \<Rightarrow> string \<Rightarrow> json" where
  "share_payload uid chatId jobId issued jti = JObj
     [(''sub'', JStr uid), (''chat_id'', JStr chatId), (''job_id'', JStr jobId), (''iat'', JNum issued),
      (''exp'', JNum (issued + SHARE_TTL_SECS)), (''jti'', JStr jti)]"

definition share_POST_body :: "zparser \<Rightarrow> request \<Rightarrow> string \<Rightarrow> response prog" where
  "share_POST_body zod req uid =
     bnd (json_body req invalid_body) (\<lambda>body.
     bnd (parsed zod ShareSchema body) (\<lambda>ps.
     let chatId = zstr ''chatId'' ps; jobId = zstr ''jobId'' ps in
     sq getSupabaseAdmin
     (bnd (db (Query ''writeright_ai_jobs'' (Select ''id, chat_id, user_id, status'')
        [Eq ''id'' (JStr jobId), Eq ''chat_id'' (JStr chatId), Eq ''user_id'' (JStr uid), IsNull ''deleted_at''] [] Single)) (\<lambda>job.
      if db_missing job then Throw not_found
      else if jopt ''status'' (db_data job) \<noteq> Some (JStr ''completed'')
      then Throw (createApiError VALIDATION_ERROR ''Can only share completed jobs'' 400)
      else
        bnd now (\<lambda>t.
        let issued = t div 1000 in
        bnd share_secret (\<lambda>secret.
        case secret of
          None \<Rightarrow> Throw (createApiError INTERNAL_ERROR ''Server misconfigured - missing secret'' 500)
        | Some k \<Rightarrow>
            bnd (call_str CUuid) (\<lambda>jti.
            bnd (createShareToken (share_payload uid chatId jobId issued jti) k) (\<lambda>token.
            let expiresAt = toISOString ((issued + SHARE_TTL_SECS) * 1000) in
            sq (db_many (Query ''writeright_shares''
                  (Insert (JObj [(''user_id'', JStr uid), (''chat_id'', JStr chatId), (''job_id'', JStr jobId),
                     (''token'', JStr token), (''expires_at'', JStr expiresAt),
                     (''metadata'', JObj [(''source'', JStr ''writeright_share_modal'')])])) [] [] Many) ''Failed to create share link'')
            (bnd (env_or_empty ''NEXT_PUBLIC_APP_URL'' ''https://brainmateai.com'') (\<lambda>appBaseUrl.
             let base = strip_end (CHR ''/'') appBaseUrl; cardUrl = base @ ''/api/writeright/og/'' @ token in
             Ret (json_response 201 []
               [(''shareUrl'', JStr (base @ ''/share/'' @ token)), (''expiresAt'', JStr expiresAt), (''cardUrl'', JStr cardUrl),
                (''og_meta'', JObj [(''title'', JStr ''I improved my writing score with WriteRight''),
                   (''description'', JStr ''A before-and-after writing improvement from BrainMate AI.''),
                   (''image'', JStr cardUrl)])])))))))))))"

definition share_POST :: "zparser \<Rightarrow> request \<Rightarrow> response prog" where
  "share_POST zod req = withErrorHandler req (authed (share_POST_body zod req))"

section \<open>public/share\<close>

definition publicShareKey :: "string \<Rightarrow> string" where
  "publicShareKey ip = ns [''writeright'', ''public_share_ratelimit'', ip]"

definition checkPublicShareRateLimit :: "string \<Rightarrow> rate_limit prog" where
  "checkPublicShareRateLimit ip =
     bnd isCircuitOpen (\<lambda>op.
     if op then Ret \<lparr>allowed = True, remaining = 60\<rparr>
     else sq getRedisPool
       (bnd (redis_int (INCR (publicShareKey ip))) (\<lambda>count.
        sq (whenP (count = 1) (redis_unit (EXPIRE (publicShareKey ip) 60)))
           (Ret \<lparr>allowed = (count \<le> 60), remaining = max 0 (60 - count)\<rparr>))))"

definition rate_limited_60 :: exn where
  "rate_limited_60 = createApiErrorM RATE_LIMITED ''Rate limit exceeded'' (Some 429)
     \<lparr>meta_headers = Some [(''Retry-After'', ''60'')], meta_fields = []\<rparr>"

text \<open>The text before the improvement: the message of the job, when there is one.\<close>

definition before_text :: "json option \<Rightarrow> json option prog" where
  "before_text job =
     (case jopt ''message_id'' job of
        Some m \<Rightarrow> if truthy m
          then bnd (db (Query ''writeright_messages'' (Select ''content'') [Eq ''id'' m] [] Single)) (\<lambda>r.
                 Ret (if truthyo (db_data r) then jopt ''content'' (db_data r) else Some (JStr [])))
          else Ret (Some (JStr []))
      | None \<Rightarrow> Ret (Some (JStr [])))"

definition public_share_GET :: "request \<Rightarrow> response prog" where
  "public_share_GET req = withErrorHandler req
     (let token = param_get req ''token'';
          ip = (case header_get (req_headers req) ''x-forwarded-for'' of Some x \<Rightarrow> if x = [] then ''unknown'' else x | None \<Rightarrow> ''unknown'') in
      bnd (checkPublicShareRateLimit ip) (\<lambda>rate.
      if \<not> allowed rate then Throw rate_limited_60
      else
        sq (read_token token)
        (sq getSupabaseAdmin
        (bnd (db (Query ''writeright_public_shares'' (Select ''*'') [Eq ''token'' (JStr token)] [] Single)) (\<lambda>share.
         if db_missing share then Throw not_found
         else bnd (db (Query ''writeright_shares'' (Select ''job_id, chat_id'') [Eq ''token'' (JStr token)] [] Single)) (\<lambda>link.
           if \<not> truthyo (db_data link) then Throw not_found
           else bnd (db (Query ''writeright_ai_jobs'' (Select ''input_hash, metadata, message_id'')
                  [Eq ''id'' (jval (jopt ''job_id'' (db_data link)))] [] Single)) (\<lambda>job.
             bnd (before_text (db_data job)) (\<lambda>beforeText.
             bnd (env_or_empty ''NEXT_PUBLIC_APP_URL'' ''https://brainmateai.com'') (\<lambda>appBaseUrl.
             let d = db_data share in
             Ret (ok_json (member ''before'' beforeText @ member ''after'' (jopt ''after_text'' d) @ member ''mode'' (jopt ''mode'' d)
               @ member ''tone'' (jopt ''tone'' d) @ member ''scores'' (jopt ''scores'' d)
               @ member ''created_at'' (jopt ''created_at'' d) @ member ''expires_at'' (jopt ''expires_at'' d)
               @ [(''branding'', JObj [(''app_name'', JStr ''WriteRight''), (''app_url'', JStr appBaseUrl)])])))))))))))"

section \<open>The encodings\<close>

lemma sextets_less: "\<forall>b \<in> set bs. b < 256 \<Longrightarrow> n \<in> set (sextets bs) \<Longrightarrow> n < 64"
  by (induction bs rule: sextets.induct) auto

lemma alphabet: "list_all (\<lambda>n. url_safe (std_char n) = url_char n \<and> url_char n \<noteq> CHR ''='' \<and> url_char n \<noteq> CHR ''.'' \<and>
    sextet_of (url_char n) = Some n) [0..<64]"
  by code_simp

lemma alphabet_facts [simp]:
  assumes "n < 64"
  shows "url_safe (std_char n) = url_char n" and "url_char n \<noteq> CHR ''=''" and "url_char n \<noteq> CHR ''.''"
    and "sextet_of (url_char n) = Some n"
  using alphabet assms unfolding list_all_iff by auto

lemma strip_end_replicate: "c \<notin> set s \<Longrightarrow> strip_end c (s @ replicate n c) = s"
proof -
  assume "c \<notin> set s"
  then have "dropWhile (\<lambda>x. x = c) (rev s) = rev s" by (cases s rule: rev_cases) auto
  moreover have "dropWhile (\<lambda>x. x = c) (replicate n c @ r) = dropWhile (\<lambda>x. x = c) r" for r
    by (induction n) simp_all
  ultimately show ?thesis by (simp add: strip_end_def)
qed

text \<open>The encoding of the creation is the encoding of the check.\<close>

lemma base64Url_eq: "\<forall>b \<in> set bs. b < 256 \<Longrightarrow> base64Url bs = base64url bs"
proof -
  assume b: "\<forall>b \<in> set bs. b < 256"
  have u: "url_safe (CHR ''='') = CHR ''=''" by (simp add: url_safe_def)
  have m: "map url_safe (map std_char (sextets bs)) = base64url bs"
    using sextets_less [OF b] by (simp add: base64url_def)
  have "CHR ''='' \<notin> set (base64url bs)"
    using alphabet_facts(2) sextets_less [OF b] unfolding base64url_def by (metis imageE set_map)
  then show ?thesis unfolding base64Url_def base64_def map_append m by (simp add: u strip_end_replicate)
qed

lemma unsextets_sextets: "\<forall>b \<in> set bs. b < 256 \<Longrightarrow> unsextets (sextets bs) = bs"
  by (induction bs rule: sextets.induct) auto

lemma from_base64url: "\<forall>b \<in> set bs. b < 256 \<Longrightarrow> from_base64url (base64url bs) = bs"
proof -
  assume b: "\<forall>b \<in> set bs. b < 256"
  have t: "takeWhile (\<lambda>c. c \<noteq> CHR ''='') (base64url bs) = base64url bs"
    using sextets_less [OF b] by (auto simp: base64url_def takeWhile_eq_all_conv)
  have "List.map_filter sextet_of (map url_char ns) = ns" if "\<forall>n \<in> set ns. n < 64" for ns
    using that by (induction ns) (simp_all add: map_filter_simps)
  then have "List.map_filter sextet_of (base64url bs) = sextets bs"
    using sextets_less [OF b] by (simp add: base64url_def)
  then show ?thesis by (simp add: from_base64url_def t unsextets_sextets [OF b])
qed

lemma from_utf8_char: "from_utf8 (utf8 c @ r) = map_option (\<lambda>s. c # s) (from_utf8 r)"
proof (cases "(of_char c :: nat) < 128")
  case False
  have n: "(of_char c :: nat) < 256" by simp
  then have "(of_char c :: nat) div 64 = 2 \<or> (of_char c :: nat) div 64 = 3" using False by linarith
  moreover have "(of_char c :: nat) mod 64 < 64" by simp
  moreover have "char_of ((of_char c :: nat) div 64 * 64 + of_char c mod 64) = c" by (simp add: div_mult_mod_eq)
  ultimately show ?thesis using False by (auto simp: utf8_def Let_def)
qed (simp add: utf8_def)

lemma from_utf8_bytes: "from_utf8 (utf8_bytes s) = Some s"
  by (induction s) (simp_all add: utf8_bytes_def from_utf8_char)

lemma all_calls_share [simp]:
  "all_calls P share_secret" "(\<And>k t. P (CHmac k t)) \<Longrightarrow> all_calls P (createShareToken j k)"
  by (simp_all add: share_secret_def createShareToken_def hmac_def)

interpretation share_create: user_route "share_POST zod" "share_POST_body zod" for zod
  by unfold_locales (simp_all add: share_POST_def share_POST_body_def row_of_user_def env_or_empty_def)

section \<open>Reading tokens\<close>

text \<open>The secret is set, and \<open>createHmac\<close> is a function of the key and the text.\<close>

definition share_ready :: "process \<Rightarrow> string \<Rightarrow> bool" where
  "share_ready s k \<longleftrightarrow> penv s ''WRITERIGHT_SHARE_SECRET'' = Some k \<and> k \<noteq> []"

definition hmac_service :: "'w environment \<Rightarrow> (string \<Rightarrow> string \<Rightarrow> string) \<Rightarrow> bool" where
  "hmac_service E mac \<longleftrightarrow> (\<forall>k t w. answer E (CHmac k t) w = (RStr (mac k t), w))"

lemma run_share_secret: "share_ready s k \<Longrightarrow> run E share_secret s w = (Inr (Some k), s, w)"
  by (simp add: share_secret_def share_ready_def missing_def prim_defs)

lemma run_hmac: "hmac_service E mac \<Longrightarrow> run E (hmac k t) s w = (Inr (raw_bytes (mac k t)), s, w)"
  by (simp add: hmac_def hmac_service_def call_str_def)

lemma raw_bytes_less: "\<forall>b \<in> set (raw_bytes d). b < 256"
  by (auto simp: raw_bytes_def)

lemma utf8_bytes_less: "\<forall>b \<in> set (utf8_bytes s). b < 256"
proof -
  have "b < 256" if "b \<in> set (utf8 c)" for b c
  proof -
    have "(of_char c :: nat) < 256" by simp
    then have "(of_char c :: nat) div 64 < 4" by linarith
    moreover have "(of_char c :: nat) mod 64 < 64" by simp
    ultimately show ?thesis using that by (auto simp: utf8_def Let_def split: if_splits)
  qed
  then show ?thesis by (auto simp: utf8_bytes_def)
qed

lemma utf8_bytes_inject [simp]: "utf8_bytes a = utf8_bytes b \<longleftrightarrow> a = b"
  by (metis from_utf8_bytes option.inject)

lemma base64url_no_dot: "\<forall>b \<in> set bs. b < 256 \<Longrightarrow> \<forall>c \<in> set (base64url bs). c \<noteq> CHR ''.''"
  using alphabet_facts(3) sextets_less unfolding base64url_def by (metis imageE set_map)

lemma dots_three:
  assumes "\<forall>c \<in> set a. c \<noteq> CHR ''.''" and "\<forall>c \<in> set b. c \<noteq> CHR ''.''" and "\<forall>c \<in> set d. c \<noteq> CHR ''.''"
  shows "dots (a @ ''.'' @ b @ ''.'' @ d) = [a, b, d]"
  using assms by (simp add: dots_def split_on_sep split_on_none)

text \<open>The parts of a created token.\<close>

definition signed_token :: "(string \<Rightarrow> string \<Rightarrow> string) \<Rightarrow> string \<Rightarrow> string \<Rightarrow> string \<Rightarrow> string" where
  "signed_token mac k h p = h @ ''.'' @ p @ ''.'' @ base64url (raw_bytes (mac k (h @ ''.'' @ p)))"

lemma run_createShareToken:
  assumes "hmac_service E mac"
  shows "run E (createShareToken payload k) s w =
    (Inr (signed_token mac k (base64url (utf8_bytes (stringify token_header))) (base64url (utf8_bytes (stringify payload)))), s, w)"
  by (simp add: createShareToken_def run_bnd run_hmac [OF assms] base64Url_eq [OF utf8_bytes_less]
      base64Url_eq [OF raw_bytes_less] signed_token_def)

lemma run_checked_payload:
  assumes "hmac_service E mac" and "share_ready s k" and "dots token = [h, p, g]"
  shows "run E (checked_payload token) s w =
    (if g = base64url (raw_bytes (mac k (h @ ''.'' @ p))) then Inr p
     else Inl (createApiError INVALID_TOKEN ''Invalid or expired share link'' 400), s, w)"
  by (simp add: checked_payload_def run_bnd run_share_secret [OF assms(2)] run_hmac [OF assms(1)] assms(3))

lemma run_read_signed:
  fixes h payload
  defines "p \<equiv> base64url (utf8_bytes (stringify payload))"
  assumes "hmac_service E mac" and "share_ready s k" and "\<forall>c \<in> set h. c \<noteq> CHR ''.''" and "wf_json payload" and "payload \<noteq> JNull"
  shows "run E (read_token (signed_token mac k h p)) s w =
    (if expired payload (fst (clock E w) div 1000) then Inl (createApiError EXPIRED_TOKEN ''This share link has expired.'' 410)
     else Inr payload, s, snd (clock E w))"
proof -
  have "dots (signed_token mac k h p) = [h, p, base64url (raw_bytes (mac k (h @ ''.'' @ p)))]"
    unfolding signed_token_def p_def
    by (intro dots_three assms(4) base64url_no_dot utf8_bytes_less raw_bytes_less)
  then have "run E (checked_payload (signed_token mac k h p)) s w = (Inr p, s, w)" for w
    using run_checked_payload [OF assms(2,3)] by simp
  moreover have "decode_payload p = Ret payload"
    by (simp add: decode_payload_def p_def from_base64url [OF utf8_bytes_less] from_utf8_bytes parse_stringify [OF assms(5)])
  ultimately show ?thesis using assms(6) by (simp add: read_token_def run_bnd now_def split: prod.splits)
qed

section \<open>Properties\<close>

text \<open>C8: a share link works for seven days. The token made at second \<open>issued\<close> is read back as its
  payload, by any process with the same secret, up to second \<open>issued + 604800\<close>, and is answered
  with 410 after it; the card route accepts its signature.\<close>

theorem share_link_round_trip:
  assumes "hmac_service E mac" and "share_ready s k" and "0 \<le> issued"
  shows "\<exists>token. run E (createShareToken (share_payload uid chatId jobId issued jti) k) s w = (Inr token, s, w) \<and>
    run E (read_token token) s w' =
      (if fst (clock E w') div 1000 \<le> issued + 604800 then Inr (share_payload uid chatId jobId issued jti)
       else Inl (createApiError EXPIRED_TOKEN ''This share link has expired.'' 410), s, snd (clock E w')) \<and>
    run E (verifyToken token) s w' = (Inr (), s, w')"
proof -
  let ?j = "share_payload uid chatId jobId issued jti"
  let ?h = "base64url (utf8_bytes (stringify token_header))" and ?p = "base64url (utf8_bytes (stringify ?j))"
  have wf: "wf_json ?j" "?j \<noteq> JNull" by (simp_all add: share_payload_def)
  have x: "expired ?j t \<longleftrightarrow> issued + 604800 < t" for t
    using assms(3) by (simp add: expired_def share_payload_def SHARE_TTL_SECS_def)
  have "dots (signed_token mac k ?h ?p) = [?h, ?p, base64url (raw_bytes (mac k (?h @ ''.'' @ ?p)))]"
    unfolding signed_token_def by (intro dots_three base64url_no_dot utf8_bytes_less raw_bytes_less)
  then have "run E (verifyToken (signed_token mac k ?h ?p)) s w' = (Inr (), s, w')"
    by (simp add: verifyToken_def run_bnd run_share_secret [OF assms(2)] run_hmac [OF assms(1)] Let_def timingSafeEqual_def)
  then show ?thesis
    using run_createShareToken [OF assms(1)]
      run_read_signed [OF assms(1,2) base64url_no_dot [OF utf8_bytes_less] wf, of _ w'] x
    by (simp add: not_le)
qed

text \<open>C9: the public route reads a token only when its third part is the signature of the first two
  under the server's secret.\<close>

theorem share_token_authentic:
  assumes "hmac_service E mac" and "share_ready s k" and "run E (read_token token) s w = (Inr payload, s', w')"
  shows "\<exists>h p. dots token = [h, p, base64url (raw_bytes (mac k (h @ ''.'' @ p)))] \<and> decode_payload p = Ret payload"
proof -
  have "\<exists>h p g. dots token = [h, p, g]"
  proof (rule ccontr)
    assume "\<nexists>h p g. dots token = [h, p, g]"
    then have "checked_payload token = Throw (createApiError INVALID_TOKEN ''Invalid token format'' 400)"
      by (auto simp: checked_payload_def split: list.splits)
    then show False using assms(3) by (simp add: read_token_def run_bnd)
  qed
  then obtain h p g where d: "dots token = [h, p, g]" by blast
  show ?thesis
    using assms(3) run_checked_payload [OF assms(1,2) d, of w]
    by (auto simp: read_token_def run_bnd decode_payload_def d now_def split: if_splits option.splits prod.splits)
qed

text \<open>The check of the card route and the check of the public route accept the same tokens.\<close>

theorem token_checks_agree:
  assumes "hmac_service E mac" and "share_ready s k"
  shows "(run E (verifyToken token) s w = (Inr (), s, w)) \<longleftrightarrow> (\<exists>p. run E (checked_payload token) s w = (Inr p, s, w))"
proof (cases "\<exists>h p g. dots token = [h, p, g]")
  case True
  then obtain h p g where d: "dots token = [h, p, g]" by blast
  show ?thesis
    using run_checked_payload [OF assms d, of w]
    by (auto simp: verifyToken_def run_bnd run_share_secret [OF assms(2)] run_hmac [OF assms(1)] Let_def
        timingSafeEqual_def d createApiErrorM_def)
next
  case False
  then have "checked_payload token = Throw (createApiError INVALID_TOKEN ''Invalid token format'' 400)"
    by (auto simp: checked_payload_def split: list.splits)
  moreover have "\<exists>e. run E (verifyToken token) s w = (Inl e, s, w)"
    using False by (auto simp: verifyToken_def run_bnd run_share_secret [OF assms(2)] split: list.splits)
  ultimately show ?thesis by auto
qed

text \<open>A concrete signing service and process.\<close>

definition mac_env :: "int environment" where
  "mac_env = \<lparr>clock = (\<lambda>t. (t, t)), answer = (\<lambda>c t. case c of CHmac k x \<Rightarrow> (RStr (take 4 (k @ rev x)), t) | _ \<Rightarrow> (RNil, t))\<rparr>"

definition share_process :: process where
  "share_process = quiet_process\<lparr>penv := [''WRITERIGHT_SHARE_SECRET'' \<mapsto> ''secret'']\<rparr>"

lemma mac_env_service: "hmac_service mac_env (\<lambda>k x. take 4 (k @ rev x))" "share_ready share_process ''secret''"
  by (simp_all add: hmac_service_def mac_env_def share_ready_def share_process_def)

theorem share_link_round_trip_witness:
  "\<exists>token. run mac_env (createShareToken (share_payload ''u'' ''c'' ''j'' 100 ''n'') ''secret'') share_process 0 = (Inr token, share_process, 0) \<and>
    run mac_env (read_token token) share_process 604900999 = (Inr (share_payload ''u'' ''c'' ''j'' 100 ''n''), share_process, 604900999) \<and>
    run mac_env (verifyToken token) share_process 604900999 = (Inr (), share_process, 604900999)"
  using share_link_round_trip [OF mac_env_service, of 100 "''u''" "''c''" "''j''" "''n''" 0 604900999]
  by (simp add: mac_env_def)

theorem share_token_authentic_witness:
  "\<exists>h p. dots (signed_token (\<lambda>k x. take 4 (k @ rev x)) ''secret'' [] (base64url (utf8_bytes (stringify (JNum 7))))) =
      [h, p, base64url (raw_bytes (take 4 (''secret'' @ rev (h @ ''.'' @ p))))] \<and> decode_payload p = Ret (JNum 7)"
proof (rule share_token_authentic [OF mac_env_service])
  show "run mac_env (read_token (signed_token (\<lambda>k x. take 4 (k @ rev x)) ''secret'' [] (base64url (utf8_bytes (stringify (JNum 7))))))
      share_process 0 = (Inr (JNum 7), share_process, 0)"
    by (subst run_read_signed [OF mac_env_service]) (simp_all add: expired_def mac_env_def)
qed

theorem token_checks_agree_witness:
  "(run mac_env (verifyToken ''a.b'') share_process 0 = (Inr (), share_process, 0)) \<longleftrightarrow>
   (\<exists>p. run mac_env (checked_payload ''a.b'') share_process 0 = (Inr p, share_process, 0))"
  by (rule token_checks_agree [OF mac_env_service])

end
