(* ===== verification/Job_Routes.thy ===== *)
theory Job_Routes
  imports Message_Route Streams Share_Routes
begin

text \<open>
  The life of a job after its submission: app/api/writeright/job/[jobId] (poll), [jobId]/complete
  (the callback of the worker, which has a shared secret instead of a user) and [jobId]/stream
  (server-sent events).

  The stream is the one loop of the API that waits: every quarter of a second it looks at the
  status of the job, in Redis or else in the database, for ninety seconds at most. Messages
  published by the worker are handled whenever the code waits; the model asks the connection for
  them after every \<open>await\<close> of the loop. The events are those accepted by the stream of the
  response before it is closed, or broken by an error of the loop.

  \<open>poll_loop\<close> takes the number of rounds as fuel. The locale \<open>sleepy\<close> says that a sleep takes its
  time; under it 361 rounds are enough for ninety seconds (\<open>poll_loop_ends\<close>).
\<close>

section \<open>Polling\<close>

abbreviation job_missing :: exn where
  "job_missing \<equiv> createApiError NOT_FOUND ''Job not found'' 404"

definition check_job_id :: "string \<Rightarrow> unit prog" where
  "check_job_id i = (if validateUuid i then Ret () else Throw (createApiError VALIDATION_ERROR ''Invalid job ID'' 400))"

text \<open>The fast path. Every error in it, also the 404 for a job of somebody else, is caught and
  leads to the database.\<close>

definition poll_redis :: "string \<Rightarrow> string \<Rightarrow> response option prog" where
  "poll_redis uid jobId =
     catch
       (bnd (getJobStatus jobId) (\<lambda>r. case r of
          None \<Rightarrow> Ret None
        | Some st \<Rightarrow>
            if st_user_id st \<noteq> [] \<and> st_user_id st \<noteq> uid then Throw job_missing
            else if st_status st = ''completed'' then
              bnd (readJobResult jobId) (\<lambda>result.
                Ret (Some (ok_json [(''status'', JStr ''completed''), (''result'', jval result)])))
            else if st_status st = ''failed'' then
              Ret (Some (ok_json [(''status'', JStr ''failed''), (''error'', JStr (or_else (st_error st) ''Job processing failed''))]))
            else Ret (Some (ok_json [(''status'', JStr (st_status st))]))))
       (\<lambda>_. Ret None)"

definition poll_db :: "string \<Rightarrow> string \<Rightarrow> response prog" where
  "poll_db uid jobId =
     sq getSupabaseAdmin
       (bnd (db (Query ''writeright_ai_jobs'' (Select ''id, status, output, error, created_at, completed_at'')
              [Eq ''id'' (JStr jobId), Eq ''user_id'' (JStr uid)] [] Single)) (\<lambda>r.
        if db_missing r then Throw job_missing
        else let status = jval (jopt ''status'' (db_data r)) in
          if status = JStr ''completed'' then
            bnd (catch (readJobResult jobId) (\<lambda>_. Ret None)) (\<lambda>result.
              Ret (ok_json [(''status'', JStr ''completed''),
                (''result'', nullish result (nullish (jopt ''output'' (db_data r)) JNull))]))
          else if status = JStr ''failed'' then
            Ret (ok_json [(''status'', JStr ''failed''),
              (''error'', nullish (jopt ''error'' (db_data r)) (JStr ''Job processing failed''))])
          else Ret (ok_json [(''status'', status)])))"

definition job_GET_body :: "request \<Rightarrow> string \<Rightarrow> response prog" where
  "job_GET_body req uid =
     (let jobId = param_get req ''jobId'' in
      sq (check_job_id jobId)
      (bnd (poll_redis uid jobId) (\<lambda>fast. case fast of Some resp \<Rightarrow> Ret resp | None \<Rightarrow> poll_db uid jobId)))"

definition job_GET :: "request \<Rightarrow> response prog" where
  "job_GET req = withErrorHandler req (authed (job_GET_body req))"

section \<open>The callback of the worker\<close>

text \<open>\<open>a + b\<close> on members of an unchecked body: strings and objects are concatenated, the rest is
  added as numbers, and \<open>NaN\<close> is written as \<open>null\<close>.\<close>

fun num_value :: "json option \<Rightarrow> (int \<times> nat) option" where
  "num_value (Some JNull) = Some (0, 0)"
| "num_value (Some (JBool b)) = Some (if b then 1 else 0, 0)"
| "num_value (Some (JNum n)) = Some (n, 0)"
| "num_value (Some (JDec m e)) = Some (m, e)"
| "num_value _ = None"

fun concatenates :: "json option \<Rightarrow> bool" where
  "concatenates (Some (JStr x)) = True"
| "concatenates (Some (JArr js)) = True"
| "concatenates (Some (JObj ps)) = True"
| "concatenates _ = False"

definition js_plus :: "json option \<Rightarrow> json option \<Rightarrow> json" where
  "js_plus a b =
     (if concatenates a \<or> concatenates b then JStr (literal a @ literal b)
      else case (num_value a, num_value b) of
          (Some (m, d), Some (n, e)) \<Rightarrow> mk_num (m * 10 ^ e + n * 10 ^ d) (d + e)
        | _ \<Rightarrow> JNull)"

text \<open>\<open>text.split(/\s+/).filter(Boolean).length\<close>.\<close>

definition word_count :: "string \<Rightarrow> int" where
  "word_count x = int (length (List.filter (\<lambda>w. w \<noteq> []) (split_runs is_ws x)))"

text \<open>\<open>JSON.stringify(undefined)\<close> is \<open>undefined\<close>, which ioredis sends as the empty string.\<close>

definition stringify_or_empty :: "json option \<Rightarrow> string" where
  "stringify_or_empty j = (case j of Some v \<Rightarrow> stringify v | None \<Rightarrow> [])"

definition worker_check :: "request \<Rightarrow> unit prog" where
  "worker_check req =
     (let secretHeader = or_else (header_get (req_headers req) ''X-Worker-Secret'') [] in
      bnd (env_or_empty ''WRITERIGHT_WORKER_SECRET'' ''fallback-secret'') (\<lambda>expectedSecret.
      if utf8_bytes secretHeader \<noteq> utf8_bytes expectedSecret
      then Throw (createApiError UNAUTHORIZED ''Invalid worker secret'' 401)
      else Ret ()))"

definition record_session :: "json \<Rightarrow> json \<Rightarrow> unit prog" where
  "record_session body job =
     attempt (case nullish (jfield ''result'' body) JNull of
        JNull \<Rightarrow> Throw type_error
      | result \<Rightarrow>
         let score = (\<lambda>k. nullish (jopt k (jfield ''scores'' result)) (JNum 7));
             mode = nullish (jopt ''mode'' (jfield ''metadata'' job)) (JStr ''email'') in
         bnd (case jfield ''improved_text'' result of
                Some (JStr x) \<Rightarrow> Ret (word_count x)
              | Some v \<Rightarrow> if truthy v then Throw type_error else Ret 0
              | None \<Rightarrow> Ret 0) (\<lambda>wordCount.
         bnd (db (Rpc ''upsert_writing_session''
                (JObj (member ''p_user_id'' (jfield ''user_id'' job) @
                  [(''p_clarity'', score ''clarity''), (''p_tone'', score ''tone''), (''p_impact'', score ''impact''),
                   (''p_tokens'', js_plus (jfield ''prompt_tokens'' body) (jfield ''completion_tokens'' body)),
                   (''p_mode'', mode), (''p_word_count'', JNum wordCount)])))) (\<lambda>_. Ret ())))"

text \<open>The keys this route writes. They are not those of lib/writeright-queue.ts.\<close>

definition done_stream_key :: "string \<Rightarrow> string" where
  "done_stream_key i = ns [''writeright'', ''job'', ''result'', i]"

definition done_status_key :: "string \<Rightarrow> string" where
  "done_status_key i = ns [''writeright'', ''job'', ''status'', i]"

definition done_cache_key :: "string \<Rightarrow> string" where
  "done_cache_key i = ns [''writeright'', ''cache'', i]"

definition user_cache_keys :: "string \<Rightarrow> string list" where
  "user_cache_keys u = map (\<lambda>k. ns [''writeright'', k, u]) [''stats'', ''analytics'', ''session-stats'']"

definition announce :: "string \<Rightarrow> json option \<Rightarrow> string \<Rightarrow> unit prog" where
  "announce jobId result owner =
     bnd isCircuitOpen (\<lambda>op.
     if op then Ret ()
     else attempt
       (sq getRedisPool
       (sq (redis_unit (XADD (done_stream_key jobId) ''data'' (stringify_or_empty result)))
       (sq (redis_unit (EXPIRE (done_stream_key jobId) 3600))
       (bnd now (\<lambda>t.
        sq (redis_unit (HSET (done_status_key jobId) [(''status'', ''completed''), (''updated_at'', toISOString t)]))
       (sq (redis_unit (SETEX (done_cache_key jobId) 3600 (stringify_or_empty result)))
       (bnd (mapM (\<lambda>k. settled (redis_unit (DEL [k]))) (user_cache_keys owner)) (\<lambda>_. Ret ())))))))))"

definition complete_body :: "request \<Rightarrow> response prog" where
  "complete_body req =
     (let jobId = param_get req ''jobId'' in
      sq (worker_check req)
      (bnd (json_body req invalid_body) (\<lambda>body.
       if body = JNull then Throw type_error
       else sq getSupabaseAdmin
         (bnd (db (Query ''writeright_ai_jobs'' (Select ''chat_id, user_id, message_id, metadata'')
                [Eq ''id'' (JStr jobId)] [] Single)) (\<lambda>r.
          if db_missing r then Throw job_missing
          else let job = jval (db_data r); result = jfield ''result'' body in
            sq (db (Query ''writeright_ai_jobs''
                 (Update (JObj ((''status'', JStr ''completed'') # member ''output'' result))) [Eq ''id'' (JStr jobId)] [] Many))
            (sq (db (Query ''writeright_usage''
                 (Insert (JObj (member ''user_id'' (jfield ''user_id'' job) @ [(''job_id'', JStr jobId)]
                    @ member ''chat_id'' (jfield ''chat_id'' job) @ member ''model'' (jfield ''model'' body)
                    @ member ''prompt_tokens'' (jfield ''prompt_tokens'' body)
                    @ member ''completion_tokens'' (jfield ''completion_tokens'' body)
                    @ [(''total_tokens'', js_plus (jfield ''prompt_tokens'' body) (jfield ''completion_tokens'' body))])))
                 [] [] Many))
            (sq (record_session body job)
            (sq (announce jobId result (literal (jfield ''user_id'' job)))
              (Ret (ok_json [(''received'', JBool True)]))))))))))"

definition complete_POST :: "request \<Rightarrow> response prog" where
  "complete_POST req = withErrorHandler req (complete_body req)"

section \<open>The stream of events\<close>

record stream_state =
  ended :: bool
  subscribed :: bool \<comment> \<open>\<open>subscriber !== null\<close>\<close>
  listening :: bool \<comment> \<open>the message handler is registered\<close>
  broken :: bool \<comment> \<open>\<open>start\<close> has thrown\<close>
  lastStatusSent :: json
  lastEventAt :: int
  sent :: "(string \<times> json) list"

definition MAX_MS :: int where "MAX_MS = 90000"
definition POLL_MS :: int where "POLL_MS = 250"

definition stream_channel :: "string \<Rightarrow> string" where
  "stream_channel i = ns [''writeright'', ''stream'', i]"

definition sendEvent :: "string \<Rightarrow> json \<Rightarrow> stream_state \<Rightarrow> stream_state prog" where
  "sendEvent event d st =
     (if ended st then Ret st
      else Call (CSend event d) (\<lambda>r. case r of
          RErr e \<Rightarrow> Ret (st\<lparr>ended := True\<rparr>)
        | _ \<Rightarrow> let st' = st\<lparr>sent := sent st @ [(event, d)]\<rparr> in
            if event \<noteq> ''ping'' then bnd now (\<lambda>t. Ret (st'\<lparr>lastEventAt := t\<rparr>)) else Ret st'))"

definition sub_unit :: "subscriber_op \<Rightarrow> unit prog" where
  "sub_unit a = Call (CSubscriber a) (\<lambda>r. case r of RErr e \<Rightarrow> Throw e | _ \<Rightarrow> Ret ())"

definition sub_usable :: "bool prog" where
  "sub_usable = bnd (call_str (CSubscriber Sub_status)) (\<lambda>x. Ret (x \<notin> {''end'', ''close'', ''reconnecting''}))"

text \<open>The handler of a published message. Text that is not JSON, and \<open>null\<close>, is passed on as it is.\<close>

definition stage_message :: "string \<Rightarrow> string" where
  "stage_message stage = (if stage = ''drafting'' then ''Writing initial draft...''
     else if stage = ''critiquing'' then ''Refining output...'' else ''Finalizing...'')"

definition message_event :: "string \<Rightarrow> (string \<times> json) option" where
  "message_event msg =
     (case parse msg of
        None \<Rightarrow> Some (''token'', JObj [(''chunk'', JStr msg), (''delta'', JStr msg)])
      | Some JNull \<Rightarrow> Some (''token'', JObj [(''chunk'', JStr msg), (''delta'', JStr msg)])
      | Some d \<Rightarrow>
          if truthyo (jfield ''stage'' d) then
            (case jfield ''stage'' d of
               Some (JStr stage) \<Rightarrow>
                 if stage \<in> {''drafting'', ''critiquing'', ''finalizing''}
                 then Some (''status'', JObj [(''stage'', JStr stage), (''message'', JStr (stage_message stage))])
                 else None
             | _ \<Rightarrow> None)
          else if truthyo (jfield ''chunk'' d) then
            Some (''token'', JObj [(''chunk'', jval (jfield ''chunk'' d)),
              (''delta'', nullish (jfield ''delta'' d) (jval (jfield ''chunk'' d)))])
          else None)"

definition on_message :: "string \<Rightarrow> string \<times> string \<Rightarrow> stream_state \<Rightarrow> stream_state prog" where
  "on_message channel m st =
     (if fst m \<noteq> channel then Ret st
      else case message_event (snd m) of Some (ev, d) \<Rightarrow> sendEvent ev d st | None \<Rightarrow> Ret st)"

primrec handle_messages :: "string \<Rightarrow> (string \<times> string) list \<Rightarrow> stream_state \<Rightarrow> stream_state prog" where
  "handle_messages channel [] st = Ret st"
| "handle_messages channel (m # ms) st = bnd (on_message channel m st) (handle_messages channel ms)"

text \<open>What has arrived while the code was waiting.\<close>

definition deliver :: "string \<Rightarrow> stream_state \<Rightarrow> stream_state prog" where
  "deliver channel st =
     (if listening st
      then Call (CSubscriber Received) (\<lambda>r. case r of RPairs ms \<Rightarrow> handle_messages channel ms st | _ \<Rightarrow> Ret st)
      else Ret st)"

text \<open>The handler stays registered while the connection is given up.\<close>

definition cleanupSubscriber :: "string \<Rightarrow> stream_state \<Rightarrow> stream_state prog" where
  "cleanupSubscriber channel st =
     (if \<not> subscribed st then Ret st
      else sq (attempt (bnd sub_usable (\<lambda>u. whenP u (sub_unit (Unsubscribe channel)))))
       (bnd (deliver channel st) (\<lambda>st.
        sq (catch (bnd sub_usable (\<lambda>u. whenP u (sub_unit Quit_sub))) (\<lambda>_. attempt (sub_unit Disconnect)))
       (bnd (deliver channel st) (\<lambda>st. Ret (st\<lparr>subscribed := False, listening := False\<rparr>))))))"

definition open_subscription :: "string \<Rightarrow> stream_state \<Rightarrow> stream_state prog" where
  "open_subscription channel st =
     bnd isCircuitOpen (\<lambda>op.
     if op then Ret st
     else bnd (settled getRedisPool) (\<lambda>p. case p of
         Inl e \<Rightarrow> Ret st
       | Inr _ \<Rightarrow> bnd (settled (sub_unit (Subscribe channel))) (\<lambda>r. case r of
             Inr _ \<Rightarrow> Ret (st\<lparr>subscribed := True, listening := True\<rparr>)
           | Inl e \<Rightarrow> cleanupSubscriber channel (st\<lparr>subscribed := True\<rparr>))))"

definition send_status :: "json \<Rightarrow> stream_state \<Rightarrow> stream_state prog" where
  "send_status status st =
     (if lastStatusSent st \<noteq> status
      then bnd (sendEvent ''status'' (JObj [(''status'', status)]) st) (\<lambda>st'. Ret (st'\<lparr>lastStatusSent := status\<rparr>))
      else Ret st)"

text \<open>How a part of a round ends: with a \<open>break\<close> (or by breaking the stream), with a status found in
  Redis, or without one.\<close>

datatype round_end = Break | Found | Absent

definition redis_round :: "string \<Rightarrow> string \<Rightarrow> stream_state \<Rightarrow> (round_end \<times> stream_state) prog" where
  "redis_round uid jobId st =
     (let channel = stream_channel jobId in
      bnd isCircuitOpen (\<lambda>op.
      if op then Ret (Absent, st)
      else bnd (settled (getJobStatus jobId)) (\<lambda>r.
        bnd (deliver channel st) (\<lambda>st.
        case r of
          Inl e \<Rightarrow> Ret (Absent, st)
        | Inr None \<Rightarrow> Ret (Absent, st)
        | Inr (Some status) \<Rightarrow>
            if st_user_id status \<noteq> [] \<and> st_user_id status \<noteq> uid then
              bnd (sendEvent ''error'' (JObj [(''code'', JStr ''UNAUTHORIZED''), (''error'', JStr ''Job not found'')]) st)
                (\<lambda>st. Ret (Break, st))
            else bnd (send_status (JStr (st_status status)) st) (\<lambda>st.
              if st_status status = ''completed'' then
                bnd (settled (readJobResult jobId)) (\<lambda>res.
                bnd (deliver channel st) (\<lambda>st. case res of
                  Inl e \<Rightarrow> Ret (Found, st)
                | Inr result \<Rightarrow>
                    bnd (sendEvent ''result'' (JObj [(''status'', JStr ''completed''), (''result'', jval result)]) st)
                      (\<lambda>st. Ret (Break, st))))
              else if st_status status = ''failed'' then
                bnd (sendEvent ''error'' (JObj [(''code'', JStr ''INTERNAL_ERROR''), (''status'', JStr ''failed''),
                       (''error'', JStr (or_else (st_error status) ''Job failed''))]) st) (\<lambda>st. Ret (Break, st))
              else Ret (Found, st))))))"

definition db_round :: "string \<Rightarrow> string \<Rightarrow> stream_state \<Rightarrow> (round_end \<times> stream_state) prog" where
  "db_round uid jobId st =
     (let channel = stream_channel jobId in
      bnd (settled (sq getSupabaseAdmin
         (db (Query ''writeright_ai_jobs'' (Select ''status, output, error'')
             [Eq ''id'' (JStr jobId), Eq ''user_id'' (JStr uid)] [] Single)))) (\<lambda>res. case res of
        Inl e \<Rightarrow> Ret (Break, st\<lparr>broken := True\<rparr>)
      | Inr r \<Rightarrow>
       bnd (deliver channel st) (\<lambda>st.
       if db_missing r then
         bnd (sendEvent ''error'' (JObj [(''code'', JStr ''NOT_FOUND''), (''error'', JStr ''Job not found'')]) st)
           (\<lambda>st. Ret (Break, st))
       else let status = jval (jopt ''status'' (db_data r)) in
         bnd (send_status status st) (\<lambda>st.
         if status = JStr ''completed'' then
           bnd (catch (readJobResult jobId) (\<lambda>_. Ret None)) (\<lambda>result.
           bnd (deliver channel st) (\<lambda>st.
           bnd (sendEvent ''result'' (JObj [(''status'', JStr ''completed''),
                  (''result'', nullish result (jval (jopt ''output'' (db_data r))))]) st) (\<lambda>st. Ret (Break, st))))
         else if status = JStr ''failed'' then
           bnd (sendEvent ''error'' (JObj [(''code'', JStr ''INTERNAL_ERROR''),
                  (''error'', nullish (jopt ''error'' (db_data r)) (JStr ''Job failed''))]) st) (\<lambda>st. Ret (Break, st))
         else Ret (Absent, st)))))"

text \<open>The end of a round: a ping after fifteen silent seconds, and a pause.\<close>

definition rest_round :: "string \<Rightarrow> stream_state \<Rightarrow> (bool \<times> stream_state) prog" where
  "rest_round jobId st =
     bnd now (\<lambda>t.
     bnd (if 15000 \<le> t - lastEventAt st then sendEvent ''ping'' (JObj []) st else Ret st) (\<lambda>st.
     sq (sleep POLL_MS)
     (bnd (deliver (stream_channel jobId) st) (\<lambda>st. Ret (False, st)))))"

text \<open>One round of the loop; \<^const>\<open>True\<close> is a \<open>break\<close>.\<close>

definition poll_round :: "string \<Rightarrow> string \<Rightarrow> stream_state \<Rightarrow> (bool \<times> stream_state) prog" where
  "poll_round uid jobId st =
     Call CAborted (\<lambda>a.
     if a = RInt 1 then Ret (True, st)
     else bnd (redis_round uid jobId st) (\<lambda>(en, st). case en of
         Break \<Rightarrow> Ret (True, st)
       | Found \<Rightarrow> rest_round jobId st
       | Absent \<Rightarrow> bnd (db_round uid jobId st) (\<lambda>(en', st).
           if en' = Break then Ret (True, st) else rest_round jobId st)))"

primrec poll_loop :: "nat \<Rightarrow> string \<Rightarrow> string \<Rightarrow> int \<Rightarrow> stream_state \<Rightarrow> stream_state option prog" where
  "poll_loop 0 uid jobId start st = Ret None"
| "poll_loop (Suc n) uid jobId start st =
     bnd now (\<lambda>t.
     if t - start < MAX_MS then
       bnd (poll_round uid jobId st) (\<lambda>(stop, st). if stop then Ret (Some st) else poll_loop n uid jobId start st)
     else Ret (Some st))"

definition timeout_update :: "string \<Rightarrow> query" where
  "timeout_update jobId = Query ''writeright_ai_jobs''
     (Update (JObj [(''status'', JStr ''failed''), (''error'', JStr ''timeout_90s'')]))
     [Eq ''id'' (JStr jobId), In ''status'' [JStr ''pending'', JStr ''processing'']] [] Many"

definition timeout_event :: json where
  "timeout_event = JObj [(''code'', JStr ''TIMEOUT''), (''error'', JStr ''This took too long. Try with shorter text.'')]"

definition poll_timeout :: "string \<Rightarrow> int \<Rightarrow> stream_state \<Rightarrow> stream_state prog" where
  "poll_timeout jobId start st =
     bnd now (\<lambda>t.
     if MAX_MS \<le> t - start then
       sq (attempt (sq getSupabaseAdmin (sq (db (timeout_update jobId)) (Ret ()))))
       (bnd (deliver (stream_channel jobId) st) (sendEvent ''error'' timeout_event))
     else Ret st)"

definition max_rounds :: nat where "max_rounds = 361"

text \<open>\<open>start(controller)\<close>. The result is the state in which the stream is closed or broken.\<close>

definition stream_start :: "string \<Rightarrow> string \<Rightarrow> stream_state prog" where
  "stream_start uid jobId =
     bnd now (\<lambda>t0.
     bnd (open_subscription (stream_channel jobId)
       \<lparr>ended = False, subscribed = False, listening = False, broken = False, lastStatusSent = JNull, lastEventAt = t0, sent = []\<rparr>) (\<lambda>st.
     bnd now (\<lambda>start.
     bnd (poll_loop max_rounds uid jobId start st) (\<lambda>final. case final of
       None \<Rightarrow> Throw (JsError ''out of rounds'')
     | Some st \<Rightarrow>
         if broken st then Ret st
         else bnd (poll_timeout jobId start st) (\<lambda>st.
         bnd (cleanupSubscriber (stream_channel jobId) st) (\<lambda>st. Ret (st\<lparr>ended := True\<rparr>)))))))"

definition cached_events :: response where
  "cached_events = \<lparr>resp_status = 200,
     resp_body = BEvents [(''result'', JObj [(''status'', JStr ''completed''), (''result'', JNull)])],
     resp_headers = [(''Content-Type'', ''text/event-stream''), (''Cache-Control'', ''no-cache''), (''Connection'', ''keep-alive'')]\<rparr>"

definition stream_GET_body :: "request \<Rightarrow> string \<Rightarrow> response prog" where
  "stream_GET_body req uid =
     (let jobId = param_get req ''jobId'' in
      if jobId = ''cached'' then Ret cached_events
      else sq (check_job_id jobId)
        (bnd (stream_start uid jobId) (\<lambda>st.
          Ret \<lparr>resp_status = 200, resp_body = BEvents (sent st), resp_headers = sse_headers\<rparr>)))"

definition stream_GET :: "request \<Rightarrow> response prog" where
  "stream_GET req = withErrorHandler req (authed (stream_GET_body req))"

section \<open>Lemmas\<close>

lemma tenant_calls [simp]:
  "tenant u (CSubscriber a)" "tenant u (CSend ev d)" "tenant u CAborted" "tenant u (CSleep ms)"
  by simp_all

lemma all_calls_job [simp]:
  "all_calls P (check_job_id i)"
  "(\<And>c. P (CRedis c)) \<Longrightarrow> all_calls P (poll_redis uid i)"
  by (simp_all add: check_job_id_def poll_redis_def)

lemma all_calls_send [simp]: "(\<And>ev d. P (CSend ev d)) \<Longrightarrow> all_calls P (sendEvent ev d st)"
  "(\<And>ev d. P (CSend ev d)) \<Longrightarrow> all_calls P (send_status j st)"
  by (auto simp: sendEvent_def send_status_def Let_def split: reply.split)

lemma all_calls_messages [simp]: "(\<And>ev d. P (CSend ev d)) \<Longrightarrow> all_calls P (handle_messages ch ms st)"
  by (induction ms arbitrary: st) (simp_all add: on_message_def)

lemma all_calls_sub_unit [simp]: "all_calls P (sub_unit a) \<longleftrightarrow> P (CSubscriber a)"
  by (auto simp: sub_unit_def split: reply.split)

lemma all_calls_subscriber [simp]:
  assumes "\<And>a. P (CSubscriber a)" and "\<And>ev d. P (CSend ev d)"
  shows "all_calls P (deliver ch st)" "all_calls P (cleanupSubscriber ch st)" "all_calls P (open_subscription ch st)"
proof -
  show d: "all_calls P (deliver ch st)" for st using assms by (auto simp: deliver_def split: reply.split)
  show c: "all_calls P (cleanupSubscriber ch st)" for st
    using assms d by (simp add: cleanupSubscriber_def sub_usable_def)
  show "all_calls P (open_subscription ch st)"
    using assms c by (simp add: open_subscription_def)
qed

text \<open>The queries of the stream: those of the user, and the mark on a job that took too long.\<close>

definition stream_call :: "string \<Rightarrow> string \<Rightarrow> call \<Rightarrow> bool" where
  "stream_call uid jobId c \<longleftrightarrow> tenant uid c \<or> c = CDb (timeout_update jobId)"

lemma stream_call_simps [simp]:
  "stream_call uid i (CRedis rc)" "stream_call uid i (CSubscriber a)" "stream_call uid i (CSend ev d)"
  "stream_call uid i CAborted" "stream_call uid i (CSleep ms)" "stream_call uid i (CDb (timeout_update i))"
  by (simp_all add: stream_call_def)

lemma all_calls_rounds [simp]:
  "all_calls (stream_call uid i) (redis_round uid i st)" "all_calls (stream_call uid i) (db_round uid i st)"
  "all_calls (stream_call uid i) (rest_round i st)"
  by (simp_all add: redis_round_def db_round_def rest_round_def stream_call_def Let_def split: round_end.splits)

lemma all_calls_poll_round [simp]: "all_calls (stream_call uid i) (poll_round uid i st)"
  by (simp add: poll_round_def split: round_end.split)

lemma all_calls_poll_loop [simp]: "all_calls (stream_call uid i) (poll_loop n uid i start st)"
  by (induction n arbitrary: st) simp_all

lemma stream_calls: "all_calls (stream_call uid i) (stream_start uid i)"
  by (simp add: stream_start_def poll_timeout_def)

interpretation job_poll: user_route job_GET job_GET_body
  by unfold_locales (simp_all add: job_GET_def job_GET_body_def poll_db_def)

interpretation job_stream: authed_route stream_GET stream_GET_body
  by unfold_locales (simp add: stream_GET_def)

section \<open>Time\<close>

text \<open>\<open>slept d Q p\<close>: an execution of \<open>p\<close> that returns a value in \<open>Q\<close> sleeps for \<open>d\<close> milliseconds in all.\<close>

primrec slept :: "int \<Rightarrow> ('a \<Rightarrow> bool) \<Rightarrow> 'a prog \<Rightarrow> bool" where
  "slept d Q (Ret x) = (Q x \<longrightarrow> d \<le> 0)"
| "slept d Q (Throw e) = True"
| "slept d Q (GetS k) = (\<forall>s. slept d Q (k s))"
| "slept d Q (PutS s p) = slept d Q p"
| "slept d Q (Clock k) = (\<forall>t. slept d Q (k t))"
| "slept d Q (Call c k) = (\<forall>r. slept (d - (case c of CSleep ms \<Rightarrow> max 0 ms | _ \<Rightarrow> 0)) Q (k r))"

lemma slept_mono: "slept d Q p \<Longrightarrow> d' \<le> d \<Longrightarrow> slept d' Q p"
proof (induction p arbitrary: d d')
  case (Call c k)
  show ?case unfolding slept.simps
  proof
    fix r
    have "slept (d - (case c of CSleep ms \<Rightarrow> max 0 ms | _ \<Rightarrow> 0)) Q (k r)" using Call.prems(1) by simp
    then show "slept (d' - (case c of CSleep ms \<Rightarrow> max 0 ms | _ \<Rightarrow> 0)) Q (k r)"
      by (rule Call.IH [OF rangeI]) (simp add: Call.prems(2))
  qed
qed (simp_all, linarith, (meson rangeI)+)

lemma slept_bnd: "(\<And>x. slept d Q (f x)) \<Longrightarrow> slept d Q (bnd p f)"
proof (induction p arbitrary: d)
  case (Call c k)
  have "slept (d - (case c of CSleep ms \<Rightarrow> max 0 ms | _ \<Rightarrow> 0)) Q (f x)" for x
    by (rule slept_mono [OF Call.prems]) (simp split: call.split)
  then show ?case using Call.IH by simp
qed auto

lemma slept_other: "all_results (\<lambda>r. \<forall>x. r = Inr x \<longrightarrow> \<not> Q x) p \<Longrightarrow> slept d Q p"
  by (induction p arbitrary: d) auto

text \<open>A timer does not fire early.\<close>

locale sleepy = forward_time E time for E :: "'w environment" and time :: "'w \<Rightarrow> int" +
  assumes sleep_forward: "answer E (CSleep ms) w = (r, w') \<Longrightarrow> time w + ms \<le> time w'"
begin

lemma slept_run: "slept d Q p \<Longrightarrow> run E p s w = (Inr x, s', w') \<Longrightarrow> Q x \<Longrightarrow> time w + d \<le> time w'"
proof (induction p arbitrary: d s w)
  case (GetS k)
  then show ?case using GetS.IH [of "k s" d s w] by simp
next
  case (Clock k)
  obtain t w1 where t: "clock E w = (t, w1)" by (cases "clock E w")
  have "time w1 + d \<le> time w'" using Clock.IH [of "k t" d s w1] Clock.prems t by simp
  then show ?case using clock_forward [OF t] by simp
next
  case (Call c k)
  obtain r w1 where r: "answer E c w = (r, w1)" by (cases "answer E c w")
  define ms where "ms = (case c of CSleep n \<Rightarrow> max 0 n | _ \<Rightarrow> 0)"
  have "time w1 + (d - ms) \<le> time w'" using Call.IH [of "k r" "d - ms" s w1] Call.prems r by (simp add: ms_def)
  moreover have "time w + ms \<le> time w1"
    using call_forward [OF r] sleep_forward r by (cases c) (force simp: ms_def)+
  ultimately show ?case by simp
qed auto

end

text \<open>A world that consists of the time; every other service answers by \<open>oth\<close>.\<close>

definition timer_env :: "(call \<Rightarrow> int \<Rightarrow> reply) \<Rightarrow> int environment" where
  "timer_env oth = \<lparr>clock = (\<lambda>t. (t, t)), answer = (\<lambda>c t. (oth c t, case c of CSleep ms \<Rightarrow> t + max 0 ms | _ \<Rightarrow> t))\<rparr>"

interpretation timer: sleepy "timer_env oth" "\<lambda>t. t" for oth
  by unfold_locales (auto simp: timer_env_def split: call.splits)

lemma rest_round_sleeps: "slept POLL_MS Q (rest_round i st)"
proof -
  have "slept POLL_MS Q (sq (sleep POLL_MS) (bnd (deliver ch st') (\<lambda>st. Ret (False, st))))" for ch st'
    by (simp add: sq_def sleep_def POLL_MS_def slept_bnd)
  then show ?thesis unfolding rest_round_def by (intro slept_bnd)
qed

lemma poll_round_sleeps: "slept POLL_MS (\<lambda>(stop, st). \<not> stop) (poll_round uid i st)"
proof -
  note sl = rest_round_sleeps [of "\<lambda>(stop, st). \<not> stop"]
  have "slept POLL_MS (\<lambda>(stop, st). \<not> stop) (bnd (db_round uid i st) (\<lambda>(en', st). if en' = Break then Ret (True, st) else rest_round i st))" for st
    by (rule slept_bnd) (auto simp: sl)
  then have "slept POLL_MS (\<lambda>(stop, st). \<not> stop) (bnd (redis_round uid i st) (\<lambda>(en, st). case en of
         Break \<Rightarrow> Ret (True, st) | Found \<Rightarrow> rest_round i st
       | Absent \<Rightarrow> bnd (db_round uid i st) (\<lambda>(en', st). if en' = Break then Ret (True, st) else rest_round i st)))"
    by (intro slept_bnd) (auto simp: sl split: round_end.split)
  then show ?thesis by (simp add: poll_round_def)
qed

text \<open>A loop that has rounds for the rest of the ninety seconds does not run out of them.\<close>

lemma poll_loop_ends:
  assumes "sleepy E time" and "start + MAX_MS \<le> time w + POLL_MS * int n"
  shows "fst (run E (poll_loop (Suc n) uid i start st) s w) \<noteq> Inr None"
  using assms(2)
proof (induction n arbitrary: st s w)
  case 0
  obtain t w1 where t: "clock E w = (t, w1)" by (cases "clock E w")
  then show ?case using 0 forward_time.clock_forward [OF sleepy.axioms(1) [OF assms(1)] t] by (simp add: now_def)
next
  case (Suc n)
  obtain t w1 where t: "clock E w = (t, w1)" by (cases "clock E w")
  obtain r s2 w2 where r: "run E (poll_round uid i st) s w1 = (r, s2, w2)" by (cases "run E (poll_round uid i st) s w1")
  have "fst (run E (poll_loop (Suc n) uid i start st') s2 w2) \<noteq> Inr None" if "r = Inr (False, st')" for st'
  proof (rule Suc.IH)
    have "time w1 + POLL_MS \<le> time w2"
      using sleepy.slept_run [OF assms(1) poll_round_sleeps r [unfolded that]] by simp
    then show "start + MAX_MS \<le> time w2 + POLL_MS * int n"
      using Suc.prems forward_time.clock_forward [OF sleepy.axioms(1) [OF assms(1)] t] by (simp add: POLL_MS_def)
  qed
  moreover have "(case r of Inl e \<Rightarrow> True | Inr (stop, st') \<Rightarrow> stop \<or> r = Inr (False, st'))" by (simp split: sum.split prod.split)
  ultimately show ?case using t r
    by (simp add: now_def run_bnd del: poll_loop.simps(2) add: poll_loop.simps(2) [of "Suc n"] split: sum.split prod.split bool.split)
qed

lemma returns_send [simp]: "returns (\<lambda>_. True) (sendEvent ev d st)" "returns (\<lambda>_. True) (send_status j st)"
proof -
  show "returns (\<lambda>_. True) (sendEvent ev d st)" for ev d st
    by (auto simp: sendEvent_def Let_def returns_bnd [where R = "\<lambda>_. True"] split: reply.split)
  then show "returns (\<lambda>_. True) (send_status j st)"
    by (auto simp: send_status_def intro!: returns_bnd [where R = "\<lambda>_. True"])
qed

lemma returns_settled [simp]: "returns (\<lambda>_. True) (settled p)"
  unfolding settled_def by (rule returns_catch_True) simp

lemma returns_circuit [simp]: "returns (\<lambda>_. True) isCircuitOpen"
  by (simp add: isCircuitOpen_def returns_bnd [where R = "\<lambda>_. True"])

lemma returns_messages [simp]: "returns (\<lambda>_. True) (handle_messages ch ms st)"
  by (induction ms arbitrary: st)
    (auto simp: on_message_def returns_bnd [where R = "\<lambda>_. True"] split: option.split)

lemma returns_deliver [simp]: "returns (\<lambda>_. True) (deliver ch st)"
  by (auto simp: deliver_def split: reply.split)

lemma returns_cleanup: "returns (\<lambda>st'. \<not> subscribed st') (cleanupSubscriber ch st)"
proof -
  have "returns (\<lambda>_. True) (catch p (\<lambda>_. attempt q))" for p q by (rule returns_catch_True) simp
  then show ?thesis
    by (auto simp: cleanupSubscriber_def sq_def intro!: returns_bnd [where R = "\<lambda>_. True"])
qed

lemmas returns_step = returns_bnd [where R = "\<lambda>_. True"]

lemma returns_catch_read [simp]: "returns (\<lambda>_. True) (catch p (\<lambda>_. Ret x))"
  by (rule returns_catch_True) simp

lemma returns_rounds [simp]:
  "returns (\<lambda>_. True) (redis_round uid i st)" "returns (\<lambda>_. True) (db_round uid i st)" "returns (\<lambda>_. True) (rest_round i st)"
  by (auto simp: redis_round_def db_round_def rest_round_def Let_def sq_def intro!: returns_step split: sum.split option.split)

lemma returns_poll_loop [simp]: "returns (\<lambda>_. True) (poll_loop n uid i start st)"
proof (induction n arbitrary: st)
  case (Suc n)
  have "returns (\<lambda>_. True) (poll_round uid i st)"
    by (auto simp: poll_round_def intro!: returns_step split: round_end.split)
  then show ?case using Suc by (auto intro!: returns_step)
qed simp

lemma returns_open [simp]: "returns (\<lambda>_. True) (open_subscription ch st)"
  by (auto simp: open_subscription_def intro!: returns_step returns_mono [OF returns_cleanup] split: sum.split)

lemma returns_timeout [simp]: "returns (\<lambda>_. True) (poll_timeout i start st)"
  by (auto simp: poll_timeout_def sq_def intro!: returns_step)

section \<open>Properties\<close>



text \<open>C25: polling a fresh job. After a job has been enqueued, its owner is told that it is pending for as
  long as the status is kept; anybody else is answered from the database alone, by a query for
  jobs of that user.\<close>

theorem enqueued_job_polled:
  assumes "redis_service E time keys" and "up s (time w)"
    and "live (time w) (keys w) (jobStatusKey (j_id job)) = None"
    and "validateUuid (j_id job)" and "param_get req ''jobId'' = j_id job" and "j_userId job \<noteq> []"
  shows "\<exists>w1. run E (enqueueWriteRightJob job) s w = (Inr (), s, w1) \<and>
    (case run E (getJobStatus (j_id job)) s w1 of (st, s2, w2) \<Rightarrow>
      (time w2 < time w1 + 3600000 \<longrightarrow>
        run E (job_GET_body req (j_userId job)) s w1 = (Inr (ok_json [(''status'', JStr ''pending'')]), s2, w2)) \<and>
      (\<forall>uid. uid \<noteq> j_userId job \<longrightarrow> run E (job_GET_body req uid) s w1 = run E (poll_db uid (j_id job)) s2 w2))"
proof -
  obtain w1 n where enq: "run E (enqueueWriteRightJob job) s w = (Inr (), s, w1)"
    and st: "fst (run E (getJobStatus (j_id job)) s w1) =
      Inr (if time (snd (snd (run E (getJobStatus (j_id job)) s w1))) < time w1 + 3600000
           then Some \<lparr>st_status = ''pending'', st_created_at = n, st_user_id = j_userId job,
                  st_chat_id = j_chatId job, st_error = None\<rparr>
           else None)"
    using redis_service.enqueue_then_status [OF assms(1-3)] by metis
  obtain x s2 w2 where r: "run E (getJobStatus (j_id job)) s w1 = (x, s2, w2)"
    by (cases "run E (getJobStatus (j_id job)) s w1")
  have x: "x = Inr (if time w2 < time w1 + 3600000
      then Some \<lparr>st_status = ''pending'', st_created_at = n, st_user_id = j_userId job, st_chat_id = j_chatId job, st_error = None\<rparr>
      else None)"
    using st r by simp
  show ?thesis
    by (rule exI [of _ w1])
      (use enq r x assms(4-6) in \<open>simp add: job_GET_body_def check_job_id_def poll_redis_def Let_def run_bnd run_sq run_catch\<close>)
qed

text \<open>A request for the job with the least identifier.\<close>

definition zero_uuid :: string where
  "zero_uuid = ''00000000-0000-0000-0000-000000000000''"

definition zero_request :: request where
  "zero_request = \<lparr>req_method = ''GET'', req_path = ''/api/writeright/job'', req_query = [], req_headers = [],
     req_body = None, req_params = [(''jobId'', zero_uuid)]\<rparr>"

lemma zero_uuid_valid: "validateUuid zero_uuid" "param_get zero_request ''jobId'' = zero_uuid"
  by code_simp+

theorem enqueued_job_polled_witness:
  "\<exists>w1. run (mem_env (\<lambda>_. RNil)) (enqueueWriteRightJob (sample_job zero_uuid)) node_process (mem_at 0) = (Inr (), node_process, w1) \<and>
    (case run (mem_env (\<lambda>_. RNil)) (getJobStatus (j_id (sample_job zero_uuid))) node_process w1 of (st, s2, w2) \<Rightarrow>
      (m_time w2 < m_time w1 + 3600000 \<longrightarrow>
        run (mem_env (\<lambda>_. RNil)) (job_GET_body zero_request (j_userId (sample_job zero_uuid))) node_process w1 =
          (Inr (ok_json [(''status'', JStr ''pending'')]), s2, w2)) \<and>
      (\<forall>uid. uid \<noteq> j_userId (sample_job zero_uuid) \<longrightarrow>
        run (mem_env (\<lambda>_. RNil)) (job_GET_body zero_request uid) node_process w1 =
          run (mem_env (\<lambda>_. RNil)) (poll_db uid (j_id (sample_job zero_uuid))) s2 w2))"
  by (rule enqueued_job_polled [OF mem_service])
    (simp_all only: sample_job_simps up_node_process mem_at_simps order_refl simp_thms zero_uuid_valid list.distinct)

lemma uuid_no_colon: "validateUuid i \<Longrightarrow> CHR '':'' \<notin> set i"
proof -
  have "\<not> is_hex CHR '':''" by code_simp
  then show "validateUuid i \<Longrightarrow> CHR '':'' \<notin> set i" using uuid_chars [of i "CHR '':''"] by auto
qed

lemma spares_simps [simp]:
  "spares k CAuth" "spares k CTraceId" "spares k (CDb q)" "spares k (CRedis rc) \<longleftrightarrow> k \<notin> touches rc"
  by (simp_all add: spares_def)

lemma complete_spares:
  assumes "\<And>j. k \<noteq> done_stream_key j" "\<And>j. k \<noteq> done_status_key j" "\<And>j. k \<noteq> done_cache_key j"
    and "\<And>u. k \<notin> set (user_cache_keys u)"
  shows "all_calls (spares k) (complete_POST req)"
proof -
  have "all_calls (spares k) (announce i r u)" for i r u
  proof -
    have "all_calls (spares k) (mapM (\<lambda>k. settled (redis_unit (DEL [k]))) (user_cache_keys u))"
      using assms(4) [of u] by (intro all_calls_mapM all_calls_settled) (auto simp: spares_def)
    then show ?thesis unfolding announce_def
      by (intro all_calls_bnd all_calls_attempt all_calls_sq) (simp_all add: assms(1-3))
  qed
  moreover have "all_calls (spares k) (record_session b j)" for b j
    by (simp add: record_session_def Let_def split: json.split option.split)
  ultimately show ?thesis
    by (simp add: complete_POST_def complete_body_def worker_check_def Let_def)
qed


text \<open>A worker without a configured secret that completes the job, and a database that knows it.\<close>

definition worker_request :: request where
  "worker_request = zero_request\<lparr>req_method := ''POST'', req_headers := [(''x-worker-secret'', ''fallback-secret'')],
     req_body := Some (JObj [(''result'', JObj [(''improved_text'', JStr ''a b'')]), (''prompt_tokens'', JNum 1), (''completion_tokens'', JNum 2)])\<rparr>"

definition worker_env :: "mem environment" where
  "worker_env = mem_env (\<lambda>c. case c of
     CDb q \<Rightarrow> RDb \<lparr>db_data = Some (JObj [(''user_id'', JStr ''u'')]), db_err = None, db_count = None\<rparr> | _ \<Rightarrow> RNil)"

definition worker_process :: process where
  "worker_process = node_process\<lparr>supabase_client := True\<rparr>"

lemma worker_accepted: "fst (run worker_env (complete_body worker_request) worker_process (mem_at 0)) = Inr (ok_json [(''received'', JBool True)])"
  by code_simp


end
