(* ===== verification/Search_Routes.thy ===== *)
theory Search_Routes
  imports Account_Routes Share_Routes
begin

text \<open>
  app/api/writeright/search: matches in chat titles and in the user's messages, merged per chat
  and sorted by the time of the last update. The character U+2026 that marks a shortened text is
  outside the model's alphabet and is the parameter \<open>ell\<close>. Time stamps of rows are those of the
  database, so they parse.
\<close>

section \<open>Handler\<close>

definition SEARCH_LIMIT :: nat where "SEARCH_LIMIT = 30"

definition searchRateKey :: "string \<Rightarrow> string" where
  "searchRateKey uid = ns [''writeright'', ''search'', ''ratelimit'', uid]"

definition checkSearchRateLimit :: "string \<Rightarrow> rate_limit prog" where
  "checkSearchRateLimit uid =
     bnd isCircuitOpen (\<lambda>op.
     if op then Ret \<lparr>allowed = True, remaining = 60\<rparr>
     else sq getRedisPool
       (bnd (redis_int (INCR (searchRateKey uid))) (\<lambda>count.
        sq (whenP (count = 1) (redis_unit (EXPIRE (searchRateKey uid) 60)))
           (Ret \<lparr>allowed = (count \<le> 60), remaining = max 0 (60 - count)\<rparr>))))"

text \<open>\<open>s.slice(a, b)\<close> for \<open>0 \<le> a\<close>.\<close>

definition slice :: "nat \<Rightarrow> nat \<Rightarrow> string \<Rightarrow> string" where
  "slice a b s = take (b - a) (drop a s)"

definition snippetForQuery :: "string \<Rightarrow> string \<Rightarrow> string \<Rightarrow> string" where
  "snippetForQuery ell content query =
     (let normalized = trim (squeeze_ws content); lower = toLowerCase normalized; q = toLowerCase query in
      case indexOf lower q of
        None \<Rightarrow> take 180 normalized
      | Some idx \<Rightarrow>
          (let start = idx - 40; stop = min (length normalized) (idx + length q + 90)
           in (if 0 < start then ell else []) @ slice start stop normalized @ (if stop < length normalized then ell else [])))"

text \<open>Quotes are doubled, the operators of a text query become spaces, runs of spaces collapse.\<close>

definition sanitizeSearchQuery :: "string \<Rightarrow> string" where
  "sanitizeSearchQuery query = trim (squeeze_ws (map (\<lambda>c. if c \<in> {CHR ''|'', CHR ''&'', CHR ''!'', CHR ''('', CHR '')''} then CHR '' '' else c)
     (concat (map (\<lambda>c. if c = CHR 0x27 then [c, c] else [c]) query))))"

definition search_limit :: "string \<Rightarrow> unit prog" where
  "search_limit uid =
     catch (bnd (checkSearchRateLimit uid) (\<lambda>rate. if \<not> allowed rate then Throw rate_limited_60 else Ret ()))
       (\<lambda>e. if is_write_right e then Throw e else Ret ())"

text \<open>\<open>Array.from(new Set(xs))\<close>.\<close>

fun uniq :: "'a list \<Rightarrow> 'a list \<Rightarrow> 'a list" where
  "uniq seen [] = []"
| "uniq seen (x # xs) = (if x \<in> set seen then uniq seen xs else x # uniq (x # seen) xs)"

definition chat_ids :: "json list \<Rightarrow> json list" where
  "chat_ids rows = uniq [] (List.filter truthy (List.map_filter (jfield ''chat_id'') rows))"

record search_hit =
  hit_chat :: json
  hit_title :: json
  hit_snippet :: string
  hit_mode :: json
  hit_updated :: json

definition epoch :: json where "epoch = JStr (toISOString 0)"

definition hit_of :: "json \<Rightarrow> json \<Rightarrow> string \<Rightarrow> search_hit" where
  "hit_of i row snip = \<lparr>hit_chat = i, hit_title = nullish (jfield ''title'' row) (JStr ''Untitled Chat''), hit_snippet = snip,
     hit_mode = nullish (jfield ''mode'' row) (JStr ''email''), hit_updated = nullish (jfield ''updated_at'' row) epoch\<rparr>"

text \<open>\<open>chatMeta.get(id)\<close>: the last row with the identifier.\<close>

definition chat_meta :: "json list \<Rightarrow> json \<Rightarrow> json option" where
  "chat_meta rows i = List.find (\<lambda>row. jfield ''id'' row = Some i) (rev rows)"

definition has_hit :: "json \<Rightarrow> search_hit list \<Rightarrow> bool" where
  "has_hit i hits \<longleftrightarrow> list_ex (\<lambda>h. hit_chat h = i) hits"

definition add_message :: "string \<Rightarrow> string \<Rightarrow> json list \<Rightarrow> search_hit list \<Rightarrow> json \<Rightarrow> search_hit list" where
  "add_message ell q rows hits row = (case jfield ''chat_id'' row of
     Some i \<Rightarrow> if truthy i \<and> \<not> has_hit i hits
       then (case chat_meta rows i of
               Some meta \<Rightarrow> hits @ [hit_of i meta (snippetForQuery ell (case jfield ''content'' row of Some (JStr c) \<Rightarrow> c | _ \<Rightarrow> []) q)]
             | None \<Rightarrow> hits)
       else hits
   | None \<Rightarrow> hits)"

definition add_title :: "string \<Rightarrow> search_hit list \<Rightarrow> json \<Rightarrow> search_hit list" where
  "add_title q hits row =
     (let i = jval (jfield ''id'' row) in
      if has_hit i hits then hits
      else hits @ [hit_of i row (''Title matches '' @ [dquote] @ q @ [dquote])])"

definition hit_time :: "int \<Rightarrow> search_hit \<Rightarrow> int" where
  "hit_time local h = (case date_of_json local (hit_updated h) of Some t \<Rightarrow> t | None \<Rightarrow> 0)"

definition hit_json :: "search_hit \<Rightarrow> json" where
  "hit_json h = JObj [(''chatId'', hit_chat h), (''chatTitle'', hit_title h), (''messageSnippet'', JStr (hit_snippet h)),
     (''mode'', hit_mode h), (''updatedAt'', hit_updated h)]"

definition search_hits :: "string \<Rightarrow> string \<Rightarrow> json list \<Rightarrow> json list \<Rightarrow> json list \<Rightarrow> search_hit list" where
  "search_hits ell q titles messages extra =
     foldl (add_title q) (foldl (add_message ell q (titles @ extra)) [] messages) titles"

definition search_results :: "int \<Rightarrow> search_hit list \<Rightarrow> search_hit list" where
  "search_results local hits = take SEARCH_LIMIT (sort_key (\<lambda>h. - hit_time local h) hits)"

definition search_GET_body :: "string \<Rightarrow> zparser \<Rightarrow> request \<Rightarrow> string \<Rightarrow> response prog" where
  "search_GET_body ell zod req uid =
     sq (search_limit uid)
     (let qp = trim (case query_get req ''q'' of Some x \<Rightarrow> x | None \<Rightarrow> []) in
      if qp = [] then Ret (ok_json [(''results'', JArr [])])
      else bnd (parsed zod SearchSchema (JObj [(''query'', JStr qp)])) (\<lambda>ps.
        let q = sanitizeSearchQuery (zstr ''query'' ps) in
        if q = [] then Throw (createApiError VALIDATION_ERROR ''Query too short'' 400)
        else sq getSupabaseAdmin
          (bnd (promise_both
             (db (Query ''writeright_chats'' (Select ''id, title, mode, updated_at'')
                [Eq ''user_id'' (JStr uid), IsNull ''deleted_at'', Ilike ''title'' (''%'' @ q @ ''%'')]
                [Order ''updated_at'' False, Limit (int SEARCH_LIMIT)] Many))
             (db (Query ''writeright_messages'' (Select ''chat_id, content, created_at'')
                [Eq ''user_id'' (JStr uid), Eq ''role'' (JStr ''user''), IsNull ''deleted_at'', Ilike ''content'' (''%'' @ q @ ''%'')]
                [Order ''created_at'' False, Limit (int SEARCH_LIMIT)] Many))) (\<lambda>(tr, mr).
           if db_err tr \<noteq> None \<or> db_err mr \<noteq> None then Throw (db_failed ''Search failed'')
           else let titles = row_list tr; messages = row_list mr; ids = chat_ids messages in
             bnd (if ids = [] then Ret []
                  else bnd (db_many (Query ''writeright_chats'' (Select ''id, title, mode, updated_at'')
                         [Eq ''user_id'' (JStr uid), IsNull ''deleted_at'', In ''id'' ids] [] Many) ''Search failed'')
                         (\<lambda>r. Ret (row_list r))) (\<lambda>extra.
             bnd local_offset (\<lambda>local.
             Ret (ok_json [(''results'', JArr (map hit_json (search_results local (search_hits ell q titles messages extra))))])))))))"

definition search_GET :: "string \<Rightarrow> zparser \<Rightarrow> request \<Rightarrow> response prog" where
  "search_GET ell zod req = withErrorHandler req (authed (search_GET_body ell zod req))"

section \<open>Lemmas\<close>

lemma all_calls_search_limit [simp]: "(\<And>c. P (CRedis c)) \<Longrightarrow> all_calls P (search_limit uid)"
  by (simp add: search_limit_def checkSearchRateLimit_def)

interpretation search_route: user_route "search_GET ell zod" "search_GET_body ell zod" for ell zod
  by unfold_locales (simp_all add: search_GET_def search_GET_body_def)

text \<open>The limiters of the search and of the public share page keep the contract of a window limiter.\<close>

sublocale redis_service \<subseteq> search_window: window_limiter E time keys "checkSearchRateLimit uid" "searchRateKey uid" 60
  "\<lambda>n. \<lparr>allowed = (n \<le> 60), remaining = max 0 (60 - n)\<rparr>" for uid
proof unfold_locales
  fix s w assume "up s (time w)"
  then show "\<exists>w1. keys w1 = keys w \<and> time w \<le> time w1 \<and> run E (checkSearchRateLimit uid) s w =
      run E (limit_core (searchRateKey uid) 60 (\<lambda>n. \<lparr>allowed = (n \<le> 60), remaining = max 0 (60 - n)\<rparr>)) s w1"
    by (intro exI [of _ "ticked w"]) (simp add: time_ticked checkSearchRateLimit_def limit_core_def run_open_check)
qed simp

sublocale redis_service \<subseteq> share_window: window_limiter E time keys "checkPublicShareRateLimit ip" "publicShareKey ip" 60
  "\<lambda>n. \<lparr>allowed = (n \<le> 60), remaining = max 0 (60 - n)\<rparr>" for ip
proof unfold_locales
  fix s w assume "up s (time w)"
  then show "\<exists>w1. keys w1 = keys w \<and> time w \<le> time w1 \<and> run E (checkPublicShareRateLimit ip) s w =
      run E (limit_core (publicShareKey ip) 60 (\<lambda>n. \<lparr>allowed = (n \<le> 60), remaining = max 0 (60 - n)\<rparr>)) s w1"
    by (intro exI [of _ "ticked w"]) (simp add: time_ticked checkPublicShareRateLimit_def limit_core_def run_open_check)
qed simp

text \<open>One hit per chat.\<close>

lemma has_hit_iff: "has_hit i hits \<longleftrightarrow> i \<in> hit_chat ` set hits"
  by (auto simp: has_hit_def list_ex_iff)

lemma distinct_add_message: "distinct (map hit_chat hits) \<Longrightarrow> distinct (map hit_chat (add_message ell q rows hits row))"
  by (auto simp: add_message_def has_hit_iff hit_of_def split: option.splits)

lemma distinct_add_title: "distinct (map hit_chat hits) \<Longrightarrow> distinct (map hit_chat (add_title q hits row))"
  by (auto simp: add_title_def Let_def has_hit_iff hit_of_def)

lemma distinct_foldl:
  assumes "\<And>h row. distinct (map hit_chat h) \<Longrightarrow> distinct (map hit_chat (f h row))" and "distinct (map hit_chat hits)"
  shows "distinct (map hit_chat (foldl f hits rows))"
  using assms(2) by (induction rows arbitrary: hits) (simp_all add: assms(1))

lemma distinct_search_hits: "distinct (map hit_chat (search_hits ell q titles messages extra))"
  unfolding search_hits_def by (intro distinct_foldl distinct_add_message distinct_add_title) simp_all

text \<open>A slice around a match.\<close>

lemma toLowerCase_simps [simp]: "toLowerCase (a @ b) = toLowerCase a @ toLowerCase b" "length (toLowerCase a) = length a"
  "toLowerCase (slice i j a) = slice i j (toLowerCase a)"
  by (simp_all add: toLowerCase_def slice_def take_map drop_map)

lemma slice_match:
  assumes "s = take i s @ q @ r" and "i + length q \<le> length s" and "a \<le> i" and "i + length q \<le> b"
  shows "str_includes (slice a b s) q"
proof -
  have "slice a b s = take (b - a) (drop a (take i s @ q @ r))" unfolding slice_def using assms(1) by simp
  also have "\<dots> = take (b - a) (drop a (take i s) @ q @ r)" using assms(2,3) by simp
  also have "\<dots> = drop a (take i s) @ q @ take (b - i - length q) r"
    using assms(2-4) by (simp add: min_absorb2)
  finally show ?thesis unfolding str_includes_iff by blast
qed

lemma str_includes_context: "str_includes s p \<Longrightarrow> str_includes (a @ s @ b) p"
  unfolding str_includes_iff by (metis append.assoc)

section \<open>Properties\<close>

text \<open>C22: the search returns at most thirty results, one per chat, ordered from the latest update
  to the earliest.\<close>

theorem search_results_ordered:
  "length (search_results local (search_hits ell q titles messages extra)) \<le> 30 \<and>
   distinct (map hit_chat (search_results local (search_hits ell q titles messages extra))) \<and>
   sorted_wrt (\<lambda>a b. hit_time local b \<le> hit_time local a) (search_results local (search_hits ell q titles messages extra))"
proof (intro conjI)
  let ?hits = "search_hits ell q titles messages extra"
  let ?s = "sort_key (\<lambda>h. - hit_time local h) ?hits"
  have "distinct (map hit_chat ?s)"
    using distinct_search_hits [of ell q titles messages extra]
    by (simp add: distinct_map)
  then show "distinct (map hit_chat (search_results local ?hits))"
    unfolding search_results_def by (metis distinct_take take_map)
  have "sorted (map (\<lambda>h. - hit_time local h) ?s)" by simp
  then have "sorted_wrt (\<lambda>a b. hit_time local b \<le> hit_time local a) ?s" by (simp add: sorted_map)
  then show "sorted_wrt (\<lambda>a b. hit_time local b \<le> hit_time local a) (search_results local ?hits)"
    unfolding search_results_def by (rule sorted_wrt_take)
qed (simp add: search_results_def SEARCH_LIMIT_def)

text \<open>When a message contains the query, up to case and white space, its snippet shows the match
  and at most 130 further characters besides the marks of omission.\<close>

theorem snippet_shows_match:
  assumes "str_includes (toLowerCase (trim (squeeze_ws content))) (toLowerCase query)"
  shows "str_includes (toLowerCase (snippetForQuery ell content query)) (toLowerCase query) \<and>
    length (snippetForQuery ell content query) \<le> length query + 130 + 2 * length ell"
proof -
  let ?n = "trim (squeeze_ws content)" and ?q = "toLowerCase query"
  obtain i where i: "indexOf (toLowerCase ?n) ?q = Some i" using assms by (auto simp: str_includes_def)
  then obtain r where r: "toLowerCase ?n = take i (toLowerCase ?n) @ ?q @ r" "i + length ?q \<le> length (toLowerCase ?n)"
    using indexOf_split by blast
  have "str_includes (slice (i - 40) (min (length ?n) (i + length ?q + 90)) (toLowerCase ?n)) ?q"
    using r(2) by (intro slice_match [OF r]) simp_all
  then have "str_includes (toLowerCase (snippetForQuery ell content query)) ?q"
    unfolding snippetForQuery_def Let_def i option.case toLowerCase_simps by (rule str_includes_context)
  moreover have "length (snippetForQuery ell content query) \<le> length query + 130 + 2 * length ell"
    unfolding snippetForQuery_def Let_def i option.case slice_def by (auto simp: min_def)
  ultimately show ?thesis by simp
qed

theorem snippet_shows_match_witness:
  "str_includes (toLowerCase (snippetForQuery ''..'' ''Please  Fix my  Draft'' ''fix MY'')) (toLowerCase ''fix MY'') \<and>
    length (snippetForQuery ''..'' ''Please  Fix my  Draft'' ''fix MY'') \<le> length ''fix MY'' + 130 + 2 * length ''..''"
proof (rule snippet_shows_match)
  show "str_includes (toLowerCase (trim (squeeze_ws ''Please  Fix my  Draft''))) (toLowerCase ''fix MY'')" by code_simp
qed

end
