(* ===== verification/Doubles.thy ===== *)
theory Doubles
  imports Json
begin

text \<open>
  The numbers of JavaScript. A finite double is a rational number; \<open>fl\<close> rounds a rational to the
  nearest one with a significand of 53 bits, ties to even, so that the arithmetic of the sources
  is \<open>fl\<close> of the exact operation. The exponent is unbounded: the quantities computed by the
  program (averages of scores, percentages, costs) stay far from overflow and underflow.

  \<open>fl\<close> is monotone and leaves integers below \<open>2 ^ 53\<close> alone, which bounds the rounded results.
\<close>

section \<open>Rounding\<close>

function bits :: "int \<Rightarrow> nat" where
  "bits n = (if n \<le> 0 then 0 else Suc (bits (n div 2)))"
  by pat_completeness auto
termination by (relation "measure nat") simp_all

declare bits.simps [simp del]

text \<open>The binary exponent of a positive number.\<close>

definition ilog2 :: "rat \<Rightarrow> int" where
  "ilog2 q = (case quotient_of q of (n, d) \<Rightarrow>
     let k = int (bits n) - int (bits d) in if q < 2 powi k then k - 1 else k)"

definition round_even :: "rat \<Rightarrow> int" where
  "round_even q = (let f = \<lfloor>q\<rfloor>; r = q - of_int f in
     if r < 1 / 2 then f else if 1 / 2 < r then f + 1 else if even f then f else f + 1)"

definition fl_pos :: "rat \<Rightarrow> rat" where
  "fl_pos q = (let u = 2 powi (ilog2 q - 52) in of_int (round_even (q / u)) * u)"

definition fl :: "rat \<Rightarrow> rat" where
  "fl q = (if q = 0 then 0 else if 0 < q then fl_pos q else - fl_pos (- q))"

text \<open>\<open>Math.round\<close>: ties go up.\<close>

definition js_round :: "rat \<Rightarrow> int" where
  "js_round q = \<lfloor>q + 1 / 2\<rfloor>"

text \<open>\<open>Math.round((a / b) * 100)\<close>.\<close>

definition percent_of :: "int \<Rightarrow> int \<Rightarrow> int" where
  "percent_of a b = js_round (fl (fl (of_int a / of_int b) * 100))"

definition fsum :: "rat list \<Rightarrow> rat" where
  "fsum xs = foldl (\<lambda>acc x. fl (acc + x)) 0 xs"

section \<open>Laws\<close>

lemma bits_bounds: "0 < n \<Longrightarrow> 2 ^ (bits n - 1) \<le> n \<and> n < 2 ^ bits n \<and> 0 < bits n"
proof (induction n rule: bits.induct)
  case (1 n)
  show ?case
  proof (cases "n div 2 \<le> 0")
    case True
    then have "n = 1" using 1 by simp
    then show ?thesis by (simp add: bits.simps [of 1] bits.simps [of 0])
  next
    case False
    then have "2 ^ (bits (n div 2) - 1) \<le> n div 2 \<and> n div 2 < 2 ^ bits (n div 2) \<and> 0 < bits (n div 2)" using 1 by simp
    moreover have "bits n = Suc (bits (n div 2))" using 1 by (simp add: bits.simps [of n])
    ultimately show ?thesis by (cases "bits (n div 2)") auto
  qed
qed

lemma bits_powi:
  assumes "0 < n"
  shows "(2 :: rat) powi (int (bits n) - 1) \<le> of_int n" and "(of_int n :: rat) < 2 powi int (bits n)"
proof -
  have A: "2 ^ (bits n - 1) \<le> n" "n < 2 ^ bits n" "0 < bits n" using bits_bounds [OF assms] by blast+
  have "(of_int (2 ^ (bits n - 1)) :: rat) \<le> of_int n" "(of_int n :: rat) < of_int (2 ^ bits n)"
    using A(1,2) unfolding of_int_le_iff of_int_less_iff .
  moreover have "int (bits n) - 1 = int (bits n - 1)" using A(3) by simp
  ultimately show "(2 :: rat) powi (int (bits n) - 1) \<le> of_int n" "(of_int n :: rat) < 2 powi int (bits n)"
    by (simp_all only: of_int_power of_int_numeral power_int_of_nat)
qed

lemma ilog2_bounds:
  assumes "0 < q"
  shows "2 powi ilog2 q \<le> q \<and> q < 2 powi (ilog2 q + 1)"
proof -
  obtain n d where nd: "quotient_of q = (n, d)" by (cases "quotient_of q")
  then have q: "q = of_int n / of_int d" and d: "0 < d" by (simp_all add: quotient_of_div quotient_of_denom_pos)
  with assms have n: "0 < n" by (simp add: zero_less_divide_iff)
  let ?a = "bits n" and ?b = "bits d"
  note a1 = bits_powi [OF n] and b1 = bits_powi [OF d]
  have lo: "2 powi (int ?a - int ?b - 1) \<le> q"
  proof -
    have "(2 :: rat) powi (int ?a - 1) / 2 powi int ?b \<le> of_int n / of_int d"
      using a1(1) b1(2) n d by (intro frac_le) auto
    then show ?thesis by (simp add: q power_int_diff power_int_add diff_diff_eq add.commute)
  qed
  have hi: "q < 2 powi (int ?a - int ?b + 1)"
  proof -
    have "(of_int n :: rat) / of_int d < 2 powi int ?a / 2 powi (int ?b - 1)"
      using a1(2) b1(1) n d by (intro frac_less) auto
    then show ?thesis by (simp add: q power_int_diff power_int_add field_simps)
  qed
  show ?thesis using lo hi nd by (simp add: ilog2_def Let_def not_less)
qed

lemma round_even_mono: "x \<le> y \<Longrightarrow> round_even x \<le> round_even y"
proof -
  assume xy: "x \<le> y"
  have f: "\<lfloor>x\<rfloor> \<le> \<lfloor>y\<rfloor>" using xy by (rule floor_mono)
  have r: "\<lfloor>z\<rfloor> \<le> round_even z \<and> round_even z \<le> \<lfloor>z\<rfloor> + 1" for z by (simp add: round_even_def Let_def)
  show ?thesis
  proof (cases "\<lfloor>x\<rfloor> = \<lfloor>y\<rfloor>")
    case True
    then show ?thesis using xy by (simp add: round_even_def Let_def)
  next
    case False
    then show ?thesis using f r [of x] r [of y] by linarith
  qed
qed

lemma round_even_int [simp]: "round_even (of_int n) = n"
  by (simp add: round_even_def)

lemma fl_pos_bounds:
  assumes "0 < q"
  shows "2 powi ilog2 q \<le> fl_pos q \<and> fl_pos q \<le> 2 powi (ilog2 q + 1)"
proof -
  let ?u = "(2 :: rat) powi (ilog2 q - 52)"
  have u: "0 < ?u" by simp
  have e: "2 powi ilog2 q = of_int (2 ^ 52) * ?u" "2 powi (ilog2 q + 1) = of_int (2 ^ 53) * ?u"
    by (simp_all add: power_int_diff power_int_add)
  have "of_int (2 ^ 52) \<le> q / ?u" "q / ?u \<le> of_int (2 ^ 53)"
    using ilog2_bounds [OF assms] u by (simp_all only: e pos_le_divide_eq pos_divide_le_eq less_imp_le)
  then have "2 ^ 52 \<le> round_even (q / ?u)" "round_even (q / ?u) \<le> 2 ^ 53"
    using round_even_mono round_even_int by metis+
  then show ?thesis using u unfolding fl_pos_def Let_def e
    by (metis mult_right_mono of_int_le_iff less_imp_le)
qed

lemma ilog2_mono:
  assumes "0 < x" and "x \<le> y"
  shows "ilog2 x \<le> ilog2 y"
proof (rule ccontr)
  assume "\<not> ?thesis"
  then have "(2 :: rat) powi (ilog2 y + 1) \<le> 2 powi ilog2 x" by (intro power_int_increasing) simp_all
  then show False using ilog2_bounds [of x] ilog2_bounds [of y] assms by simp
qed

lemma fl_pos_mono:
  assumes "0 < x" and "x \<le> y"
  shows "fl_pos x \<le> fl_pos y"
proof (cases "ilog2 x = ilog2 y")
  case True
  have "x / 2 powi (ilog2 y - 52) \<le> y / 2 powi (ilog2 y - 52)" using assms(2) by (simp add: divide_right_mono)
  then have "round_even (x / 2 powi (ilog2 y - 52)) \<le> round_even (y / 2 powi (ilog2 y - 52))" by (rule round_even_mono)
  then show ?thesis by (simp add: fl_pos_def True Let_def)
next
  case False
  then have "(2 :: rat) powi (ilog2 x + 1) \<le> 2 powi ilog2 y"
    using ilog2_mono [OF assms] by (intro power_int_increasing) simp_all
  then show ?thesis using fl_pos_bounds [of x] fl_pos_bounds [of y] assms by simp
qed

lemma fl_pos_pos: "0 < q \<Longrightarrow> 0 < fl_pos q"
  using fl_pos_bounds [of q] zero_less_power_int [of "2 :: rat" "ilog2 q"] by linarith

lemma fl_mono: "x \<le> y \<Longrightarrow> fl x \<le> fl y"
  using fl_pos_mono [of x y] fl_pos_mono [of "- y" "- x"] fl_pos_pos [of x] fl_pos_pos [of y] fl_pos_pos [of "- x"] fl_pos_pos [of "- y"]
  by (auto simp: fl_def)

lemma fl_pos_scaled: "0 < q \<Longrightarrow> q = of_int m * 2 powi (ilog2 q - 52) \<Longrightarrow> fl_pos q = q"
  by (metis (no_types) fl_pos_def nonzero_mult_div_cancel_right power_int_eq_0_iff round_even_int zero_neq_numeral)

lemma fl_nat:
  assumes "0 < n" and "n \<le> 2 ^ 53"
  shows "fl_pos (of_int n) = of_int n"
proof -
  let ?e = "ilog2 (of_int n)"
  have q: "(0 :: rat) < of_int n" using assms(1) by simp
  have e: "?e \<le> 53"
  proof (rule ccontr)
    assume "\<not> ?thesis"
    then have "(2 :: rat) powi 54 \<le> 2 powi ?e" by (intro power_int_increasing) simp_all
    also have "\<dots> \<le> of_int n" using ilog2_bounds [OF q] by simp
    also have "\<dots> \<le> of_int (2 ^ 53)" using assms(2) by (simp only: of_int_le_iff)
    finally show False by simp
  qed
  show ?thesis
  proof (cases "?e \<le> 52")
    case True
    then have "(of_int (n * 2 ^ nat (52 - ?e)) :: rat) * 2 powi (?e - 52) = of_int n * (2 powi (52 - ?e) * 2 powi (?e - 52))"
      by (simp add: power_int_def)
    also have "\<dots> = of_int n" by (simp flip: power_int_add)
    finally show ?thesis using fl_pos_scaled [OF q] by metis
  next
    case False
    then have "?e = 53" using e by simp
    then have "of_int (2 ^ 53) \<le> (of_int n :: rat)" using ilog2_bounds [OF q] by simp
    then have n: "n = 2 ^ 53" using assms(2) by (simp only: of_int_le_iff)
    show ?thesis by (rule fl_pos_scaled [OF q, of "2 ^ 52"]) (simp only: \<open>?e = 53\<close>, simp add: n)
  qed
qed

lemma fl_int: "\<bar>n\<bar> \<le> 2 ^ 53 \<Longrightarrow> fl (of_int n) = of_int n"
  using fl_nat [of n] fl_nat [of "- n"] by (auto simp: fl_def)

lemma js_round_mono: "x \<le> y \<Longrightarrow> js_round x \<le> js_round y"
  by (simp add: js_round_def floor_mono)

text \<open>A part of a whole is a percentage, whatever is lost in the division and in the product.\<close>

lemma percent_of_bounds:
  assumes "0 \<le> a" and "a \<le> b"
  shows "0 \<le> percent_of a b \<and> percent_of a b \<le> 100"
proof -
  have f: "fl 0 = 0" "fl 1 = 1" "fl 100 = 100" using fl_int [of 0] fl_int [of 1] fl_int [of 100] by simp_all
  let ?q = "of_int a / of_int b :: rat"
  have "b = 0 \<or> 0 < b" using assms by linarith
  then have "0 \<le> ?q" "?q \<le> 1" using assms by auto
  then have "0 \<le> fl ?q" "fl ?q \<le> 1" using fl_mono [of 0 ?q] fl_mono [of ?q 1] f by simp_all
  then have "0 \<le> fl (fl ?q * 100)" "fl (fl ?q * 100) \<le> 100"
    using fl_mono [of 0 "fl ?q * 100"] fl_mono [of "fl ?q * 100" 100] f by simp_all
  then have "js_round 0 \<le> percent_of a b" "percent_of a b \<le> js_round 100"
    unfolding percent_of_def by (auto intro: js_round_mono)
  moreover have "js_round 0 = 0" "js_round 100 = 100" by code_simp+
  ultimately show ?thesis by simp
qed

end
