(* ===== verification/Stats_Routes.thy ===== *)
theory Stats_Routes
  imports Account_Routes Doubles
begin

text \<open>
  Figures for the signed-in user: app/api/writeright/stats, session-stats and progress, and the
  erasure of the user's data, account/data. The first two keep their answer in Redis for five
  minutes. Averages and percentages are computed with doubles (theory \<open>Doubles\<close>); the integer
  columns of the database hold integers, and the offset of local time is fixed.
\<close>

section \<open>Answers kept in Redis\<close>

definition ok_value :: "json \<Rightarrow> response" where
  "ok_value j = \<lparr>resp_status = 200, resp_body = BJson j, resp_headers = []\<rparr>"

text \<open>Whatever goes wrong with the kept answer, it is computed anew.\<close>

definition kept_or :: "string \<Rightarrow> response prog \<Rightarrow> response prog" where
  "kept_or key p =
     bnd isCircuitOpen (\<lambda>op.
     if op then p
     else bnd (catch (bnd (pool_str (GET key)) (\<lambda>c. Ret (parse_cached c))) (\<lambda>_. Ret None)) (\<lambda>o'. case o' of
         Some j \<Rightarrow> Ret (ok_value j)
       | None \<Rightarrow> p))"

definition keep :: "string \<Rightarrow> int \<Rightarrow> json \<Rightarrow> unit prog" where
  "keep key ttl j = bnd isCircuitOpen (\<lambda>op.
     if op then Ret () else attempt (pool_unit (SETEX key ttl (stringify j))))"

section \<open>Numbers in rows\<close>

text \<open>The value of a JSON number.\<close>

definition num_of :: "json option \<Rightarrow> rat option" where
  "num_of j = (case j of
     Some (JNum n) \<Rightarrow> Some (fl (of_int n)) | Some (JDec m e) \<Rightarrow> Some (fl (of_int m / 10 ^ e)) | _ \<Rightarrow> None)"

definition int_sum :: "string \<Rightarrow> json list \<Rightarrow> int" where
  "int_sum k rows = sum_list (map (\<lambda>r. int_or 0 (jfield k r)) rows)"

text \<open>\<open>Math.round(q * 10) / 10\<close>: the double nearest to a number of tenths, which is printed with one
  decimal.\<close>

definition tenths :: "rat \<Rightarrow> int" where
  "tenths q = js_round (fl (q * 10))"

definition fmean :: "rat list \<Rightarrow> rat" where
  "fmean xs = fl (fsum xs / of_nat (length xs))"

section \<open>stats\<close>

definition local_day :: "int \<Rightarrow> int \<Rightarrow> int" where
  "local_day local t = (t + local) div DAY_MS"

text \<open>The place of a time in the week that ends today, oldest day first.\<close>

definition week_slot :: "int \<Rightarrow> int \<Rightarrow> json option \<Rightarrow> nat option" where
  "week_slot local today created =
     (case Option.bind created (date_of_json local) of
        None \<Rightarrow> None
      | Some t \<Rightarrow> let dayDiff = local_day local today - local_day local t in
          if 0 \<le> dayDiff \<and> dayDiff < 7 then Some (nat (6 - dayDiff)) else None)"

definition weekly_counts :: "int \<Rightarrow> int \<Rightarrow> json list \<Rightarrow> int list" where
  "weekly_counts local today rows = foldl (\<lambda>bs row.
     if \<not> truthyo (jfield ''created_at'' row) then bs
     else case week_slot local today (jfield ''created_at'' row) of
         Some i \<Rightarrow> bs[i := bs ! i + 1] | None \<Rightarrow> bs) (replicate 7 0) rows"

definition clarity_of :: "json \<Rightarrow> rat option" where
  "clarity_of row =
     (if \<not> truthyo (jfield ''created_at'' row) \<or> \<not> truthyo (jfield ''output'' row) then None
      else let scores = jopt ''scores'' (jfield ''output'' row) in
        if \<not> truthyo scores then None else num_of (jopt ''clarity'' scores))"

definition clarity_buckets :: "int \<Rightarrow> int \<Rightarrow> json list \<Rightarrow> rat list list" where
  "clarity_buckets local today rows = foldl (\<lambda>bs row. case clarity_of row of
       None \<Rightarrow> bs
     | Some c \<Rightarrow> (case week_slot local today (jfield ''created_at'' row) of
         Some i \<Rightarrow> bs[i := bs ! i @ [c]] | None \<Rightarrow> bs)) (replicate 7 []) rows"

definition avg_clarity :: "rat list \<Rightarrow> int" where
  "avg_clarity cs = (if cs = [] then 0 else js_round (fmean cs))"

text \<open>Names with their counts and percentages, most frequent first.\<close>

definition breakdown :: "string \<Rightarrow> json list \<Rightarrow> json" where
  "breakdown k rows =
     (let total = (if rows = [] then 1 else int (length rows));
          names = List.filter (\<lambda>n. n \<noteq> []) (meta_names k rows)
      in JArr (map (\<lambda>(n, c). JObj [(k, JStr n), (''count'', JNum c), (''percent'', JNum (percent_of c total))])
           (sort_key (\<lambda>c. - snd c) (tally names))))"

definition COST_PER_TOKEN_FLASH :: rat where "COST_PER_TOKEN_FLASH = fl (15 / 10 ^ 7)"
definition COST_PER_TOKEN_PRO :: rat where "COST_PER_TOKEN_PRO = fl (15 / 10 ^ 6)"

definition model_of :: "json \<Rightarrow> string" where
  "model_of row = (case jfield ''model'' row of Some (JStr m) \<Rightarrow> m | _ \<Rightarrow> [])"

definition estimateCost :: "json list \<Rightarrow> rat" where
  "estimateCost rows = foldl (\<lambda>acc row.
     let costPerToken = (if str_includes (toLowerCase (model_of row)) ''pro'' then COST_PER_TOKEN_PRO else COST_PER_TOKEN_FLASH)
     in fl (acc + fl (of_int (int_or 0 (jfield ''total_tokens'' row)) * costPerToken))) 0 rows"

fun add_to :: "'k \<Rightarrow> int \<Rightarrow> ('k \<times> int) list \<Rightarrow> ('k \<times> int) list" where
  "add_to k n [] = [(k, n)]"
| "add_to k n ((k', m) # cs) = (if k' = k then (k', m + n) # cs else (k', m) # add_to k n cs)"

definition by_model :: "json list \<Rightarrow> json" where
  "by_model rows =
     JArr (map (\<lambda>(m, n). JObj [(''model'', JStr m), (''tokens'', JNum n)])
       (sort_key (\<lambda>c. - snd c) (foldl (\<lambda>cs row. if model_of row = [] then cs
          else add_to (model_of row) (int_or 0 (jfield ''total_tokens'' row)) cs) [] rows)))"

definition token_usage :: "json list \<Rightarrow> json" where
  "token_usage rows = JObj
     [(''total_tokens'', JNum (int_sum ''total_tokens'' rows)), (''prompt_tokens'', JNum (int_sum ''prompt_tokens'' rows)),
      (''completion_tokens'', JNum (int_sum ''completion_tokens'' rows)), (''by_model'', by_model rows),
      (''estimated_cost_usd'', mk_num (js_round (fl (estimateCost rows * 10 ^ 6))) 6)]"

definition stats_queries :: "string \<Rightarrow> int \<Rightarrow> int \<Rightarrow> int \<Rightarrow> query list" where
  "stats_queries uid t0 t1 t2 =
     (let mine = [Eq ''user_id'' (JStr uid)]; live' = [IsNull ''deleted_at'']; completed = [Eq ''status'' (JStr ''completed'')] in
      [Query ''writeright_streaks'' (Select ''current_streak, longest_streak, last_activity_date'') (mine @ live') [] MaybeSingle,
       Query ''writeright_usage'' (Select ''id'') (mine @ live') [] CountHead,
       Query ''writeright_ai_jobs'' (Select ''metadata, created_at'') (mine @ completed @ live') [Limit 1000] Many,
       Query ''writeright_usage'' (Select ''created_at'')
         (mine @ live' @ [Gte ''created_at'' (JStr (toISOString (t1 - 6 * DAY_MS)))]) [] Many,
       Query ''writeright_achievements'' (Select ''achievement'') (mine @ live') [Order ''earned_at'' False] Many,
       Query ''writeright_ai_jobs'' (Select ''output, created_at'')
         (mine @ completed @ live' @ [Gte ''created_at'' (JStr (toISOString (t2 - 6 * DAY_MS))), NotNull ''output'']) [Limit 200] Many,
       Query ''writeright_usage'' (Select ''prompt_tokens, completion_tokens, total_tokens, model, created_at'')
         (mine @ live' @ [Gte ''created_at'' (JStr (toISOString (t0 - 30 * DAY_MS)))]) [Order ''created_at'' False] Many])"

definition stats_view :: "int \<Rightarrow> int \<Rightarrow> int \<Rightarrow> db_result list \<Rightarrow> json" where
  "stats_view local baseDate refDate rs =
     (let strk = db_data (rs ! 0); jobs = row_list (rs ! 2); tokens = row_list (rs ! 6) in JObj
      [(''streak'', JObj [(''current'', nullish (jopt ''current_streak'' strk) (JNum 0)),
          (''longest'', nullish (jopt ''longest_streak'' strk) (JNum 0)),
          (''last_activity_date'', nullish (jopt ''last_activity_date'' strk) JNull)]),
       (''total'', JNum (or_else (db_count (rs ! 1)) 0)),
       (''mode_breakdown'', breakdown ''mode'' jobs), (''tone_breakdown'', breakdown ''tone'' jobs),
       (''weekly_counts'', JArr (map JNum (weekly_counts local baseDate (row_list (rs ! 3))))),
       (''achievements'', JArr (map JStr (List.map_filter (\<lambda>r. as_str (jfield ''achievement'' r)) (row_list (rs ! 4))))),
       (''avg_clarity_by_day'', JArr (map (\<lambda>cs. JNum (avg_clarity cs)) (clarity_buckets local refDate (row_list (rs ! 5))))),
       (''token_usage'', token_usage tokens)])"

definition stats_GET_body :: "request \<Rightarrow> string \<Rightarrow> response prog" where
  "stats_GET_body req uid =
     kept_or (stats_key uid)
       (sq getSupabaseAdmin
       (bnd now (\<lambda>t0. bnd now (\<lambda>t1. bnd now (\<lambda>t2.
        bnd (promise_all (map db (stats_queries uid t0 t1 t2))) (\<lambda>rs.
        bnd now (\<lambda>baseDate. bnd now (\<lambda>refDate. bnd local_offset (\<lambda>local.
        let response = stats_view local baseDate refDate rs in
        sq (keep (stats_key uid) 300 response) (Ret (ok_value response)))))))))))"

definition stats_GET :: "request \<Rightarrow> response prog" where
  "stats_GET req = withErrorHandler req (authed (stats_GET_body req))"

section \<open>session-stats\<close>

definition session_stats_key :: "string \<Rightarrow> string" where
  "session_stats_key uid = ns [''writeright'', ''session-stats'', uid]"

definition top_mode :: "json option \<Rightarrow> json" where
  "top_mode modes = (case dominant (tally (map js_string (arr_items modes))) of Some m \<Rightarrow> JStr m | None \<Rightarrow> JNull)"

definition session_view :: "json option \<Rightarrow> json list \<Rightarrow> json option \<Rightarrow> json" where
  "session_view today week profile = JObj
     [(''todayCount'', nullish (jopt ''improvements'' today) (JNum 0)), (''weekCount'', JNum (int_sum ''improvements'' week)),
      (''avgClarityToday'', case num_of (jopt ''avg_clarity'' today) of Some c \<Rightarrow> mk_num (tenths c) 1 | None \<Rightarrow> JNum 0),
      (''streakDays'', nullish (jopt ''streak_days'' profile) (JNum 0)), (''topModeToday'', top_mode (jopt ''modes_used'' today))]"

definition session_stats_GET_body :: "request \<Rightarrow> string \<Rightarrow> response prog" where
  "session_stats_GET_body req uid =
     kept_or (session_stats_key uid)
       (sq getSupabaseAdmin
       (bnd now (\<lambda>t. bnd now (\<lambda>t'.
        let today = dateKey t; weekAgo = dateKey (t' - 7 * DAY_MS); mine = Eq ''clerk_user_id'' (JStr uid) in
        bnd (db (Query ''writeright_writing_sessions'' (Select ''improvements, avg_clarity, modes_used'')
               [mine, Eq ''session_date'' (JStr today)] [] MaybeSingle)) (\<lambda>a.
        bnd (db (Query ''writeright_writing_sessions'' (Select ''improvements, session_date'')
               [mine, Gte ''session_date'' (JStr weekAgo), Lte ''session_date'' (JStr today)] [] Many)) (\<lambda>b.
        bnd (db (Query ''writeright_user_profile'' (Select ''streak_days'') [mine] [] MaybeSingle)) (\<lambda>c.
        let result = session_view (db_data a) (row_list b) (db_data c) in
        sq (keep (session_stats_key uid) 300 result) (Ret (ok_value result)))))))))"

definition session_stats_GET :: "request \<Rightarrow> response prog" where
  "session_stats_GET req = withErrorHandler req (authed (session_stats_GET_body req))"

section \<open>progress\<close>

record scores =
  sc_clarity :: json
  sc_tone :: json
  sc_impact :: json

definition is_num :: "json option \<Rightarrow> bool" where
  "is_num j \<longleftrightarrow> num_of j \<noteq> None"

definition readScores :: "json option \<Rightarrow> scores option" where
  "readScores output =
     (let row = jopt ''scores'' output in
      if is_num (jopt ''clarity'' row) \<and> is_num (jopt ''tone'' row) \<and> is_num (jopt ''impact'' row)
      then Some \<lparr>sc_clarity = jval (jopt ''clarity'' row), sc_tone = jval (jopt ''tone'' row), sc_impact = jval (jopt ''impact'' row)\<rparr>
      else None)"

definition num :: "json \<Rightarrow> rat" where
  "num j = (case num_of (Some j) of Some q \<Rightarrow> q | None \<Rightarrow> 0)"

text \<open>The scored rows with their days.\<close>

definition scored_rows :: "int \<Rightarrow> json list \<Rightarrow> (string \<times> scores) list" where
  "scored_rows local rows = List.map_filter (\<lambda>row.
     case readScores (jfield ''output'' row) of
       None \<Rightarrow> None
     | Some sc \<Rightarrow> if \<not> truthyo (jfield ''created_at'' row) then None
         else map_option (\<lambda>t. (dateKey t, sc)) (Option.bind (jfield ''created_at'' row) (date_of_json local))) rows"

text \<open>A best value so far and its day; only a greater value replaces it.\<close>

definition better :: "(scores \<Rightarrow> json) \<Rightarrow> json \<times> string \<Rightarrow> string \<times> scores \<Rightarrow> json \<times> string" where
  "better f best x = (if num (fst best) < num (f (snd x)) then (f (snd x), fst x) else best)"

definition personal_best :: "(scores \<Rightarrow> json) \<Rightarrow> (string \<times> scores) list \<Rightarrow> json \<times> string" where
  "personal_best f rows = foldl (better f) (JNum 0, []) rows"

definition progress_start :: "int \<Rightarrow> int" where
  "progress_start t = t div DAY_MS * DAY_MS - 29 * DAY_MS"

text \<open>The keys of the \<open>Map\<close> of days, in the order of their insertion.\<close>

definition progress_days :: "int \<Rightarrow> string list" where
  "progress_days start = rev (remdups (rev (map (\<lambda>i. dateKey (start + int i * DAY_MS)) [0..<30])))"

record daily =
  d_date :: string
  d_clarity :: int \<comment> \<open>the averages are in tenths\<close>
  d_tone :: int
  d_impact :: int
  d_count :: nat

definition daily_row :: "(string \<times> scores) list \<Rightarrow> string \<Rightarrow> daily" where
  "daily_row rows day =
     (let vs = map snd (List.filter (\<lambda>x. fst x = day) rows);
          avg = (\<lambda>f. if vs = [] then 0 else tenths (fmean (map (\<lambda>v. num (f v)) vs)))
      in \<lparr>d_date = day, d_clarity = avg sc_clarity, d_tone = avg sc_tone, d_impact = avg sc_impact, d_count = length vs\<rparr>)"

definition tenth :: "int \<Rightarrow> rat" where
  "tenth n = fl (of_int n / 10)"

definition scoreOf :: "daily \<Rightarrow> rat" where
  "scoreOf d = (if d_count d = 0 then 0
     else fl (fl (fl (tenth (d_clarity d) + tenth (d_tone d)) + tenth (d_impact d)) / 3))"

definition avg_of :: "rat list \<Rightarrow> rat" where
  "avg_of xs = (if xs = [] then 0 else fmean xs)"

definition trend :: "daily list \<Rightarrow> string" where
  "trend days =
     (let scored = (\<lambda>ds. map scoreOf (List.filter (\<lambda>d. 0 < d_count d) ds)); n = length days;
          last7 = scored (drop (n - 7) days); prior7 = scored (take (n - 7 - (n - 14)) (drop (n - 14) days));
          delta = fl (avg_of last7 - avg_of prior7)
      in if 1 / 2 < delta then ''improving'' else if delta < - 1 / 2 then ''declining'' else ''steady'')"

definition daily_json :: "daily \<Rightarrow> json" where
  "daily_json d = JObj [(''date'', JStr (d_date d)), (''avg_clarity'', mk_num (d_clarity d) 1), (''avg_tone'', mk_num (d_tone d) 1),
     (''avg_impact'', mk_num (d_impact d) 1), (''count'', JNum (int (d_count d)))]"

definition best_json :: "string \<Rightarrow> json \<times> string \<Rightarrow> (string \<times> json) list" where
  "best_json k b = [(k, fst b), (k @ ''_date'', JStr (snd b))]"

definition progress_view :: "int \<Rightarrow> int \<Rightarrow> json list \<Rightarrow> (string \<times> json) list" where
  "progress_view local start rows =
     (let scored = scored_rows local rows; days = map (daily_row scored) (progress_days start) in
      [(''daily_scores'', JArr (map daily_json days)),
       (''personal_bests'', JObj (best_json ''clarity'' (personal_best sc_clarity scored) @ best_json ''tone'' (personal_best sc_tone scored)
          @ best_json ''impact'' (personal_best sc_impact scored))),
       (''trend'', JStr (trend days)), (''total_improvements'', JNum (int (length rows)))])"

definition progress_GET_body :: "request \<Rightarrow> string \<Rightarrow> response prog" where
  "progress_GET_body req uid =
     sq getSupabaseAdmin
     (bnd now (\<lambda>t.
      let start = progress_start t in
      bnd (db_many (Query ''writeright_ai_jobs'' (Select ''output, created_at'')
             [Eq ''user_id'' (JStr uid), Eq ''status'' (JStr ''completed''), IsNull ''deleted_at'', NotNull ''output'',
              Gte ''created_at'' (JStr (toISOString start))] [Order ''created_at'' True] Many) ''Failed to load progress'') (\<lambda>r.
      bnd local_offset (\<lambda>local. Ret (ok_json (progress_view local start (row_list r)))))))"

definition progress_GET :: "request \<Rightarrow> response prog" where
  "progress_GET req = withErrorHandler req (authed (progress_GET_body req))"

section \<open>account/data\<close>

definition erased_keys :: "string \<Rightarrow> string list" where
  "erased_keys uid = map (\<lambda>k. ns [''writeright'', k, uid]) [''ratelimit'', ''stats'', ''profile'', ''quota'']"

definition erase_DELETE_body :: "request \<Rightarrow> string \<Rightarrow> response prog" where
  "erase_DELETE_body req uid =
     (if header_get (req_headers req) ''X-Confirm-Erasure'' \<noteq> Some ''true''
      then Throw (createApiError VALIDATION_ERROR ''Missing X-Confirm-Erasure: true header'' 400)
      else sq getSupabaseAdmin
       (bnd (db_many (Rpc ''fn_erase_writeright_user_data'' (JObj [(''p_user_id'', JStr uid)]))
          ''Failed to erase user data. Please contact support.'') (\<lambda>_.
        bnd isCircuitOpen (\<lambda>op.
        sq (if op then Ret () else attempt (pool_unit (DEL (erased_keys uid))))
        (Ret (ok_json [(''ok'', JBool True), (''message'', JStr ''All WriteRight data has been permanently erased.'')]))))))"

definition erase_DELETE :: "request \<Rightarrow> response prog" where
  "erase_DELETE req = withErrorHandler req (authed (erase_DELETE_body req))"

section \<open>The contract\<close>

lemma all_calls_kept [simp]:
  "(\<And>c. P (CRedis c)) \<Longrightarrow> all_calls P p \<Longrightarrow> all_calls P (kept_or k p)"
  "(\<And>c. P (CRedis c)) \<Longrightarrow> all_calls P (keep k n j)"
  by (simp_all add: kept_or_def keep_def pool_str_def pool_unit_def)

lemma stats_queries_scoped: "q \<in> set (stats_queries uid t0 t1 t2) \<Longrightarrow> tenant uid (CDb q)"
  by (auto simp: stats_queries_def Let_def)

interpretation stats_route: user_route stats_GET stats_GET_body
  by unfold_locales (simp_all add: stats_GET_def stats_GET_body_def Let_def stats_queries_scoped del: tenant.simps(1))

interpretation session_stats_route: user_route session_stats_GET session_stats_GET_body
  by unfold_locales (simp_all add: session_stats_GET_def session_stats_GET_body_def Let_def)

interpretation progress_route: user_route progress_GET progress_GET_body
  by unfold_locales (simp_all add: progress_GET_def progress_GET_body_def Let_def)

interpretation erase_route: user_route erase_DELETE erase_DELETE_body
  by unfold_locales (simp_all add: erase_DELETE_def erase_DELETE_body_def pool_unit_def)

section \<open>Counts and bests\<close>

lemma count_up_bounds:
  "0 \<le> N \<Longrightarrow> \<forall>(k, c) \<in> set cs. 0 < c \<and> c \<le> N \<Longrightarrow> \<forall>(k, c) \<in> set (count_up x cs). 0 < c \<and> c \<le> N + 1"
  by (induction x cs rule: count_up.induct) auto

lemma tally_bounds: "\<forall>(k, c) \<in> set (tally ks). 0 < c \<and> c \<le> int (length ks)"
proof (induction ks rule: rev_induct)
  case (snoc x ks)
  then show ?case using count_up_bounds [of "int (length ks)" "tally ks" x] by (simp add: tally_def add.commute)
qed (simp add: tally_def)

lemma meta_names_length: "length (meta_names k rows) \<le> length rows"
  by (induction rows) (auto simp: meta_names_def List.map_filter_simps split: option.split)

text \<open>A best value is at least every value seen, and is one of them unless none is positive.\<close>

lemma personal_best_step:
  "num (fst b) \<le> num (fst (foldl (better f) b rows)) \<and>
   (\<forall>x \<in> set rows. num (f (snd x)) \<le> num (fst (foldl (better f) b rows))) \<and>
   (foldl (better f) b rows = b \<or> foldl (better f) b rows \<in> (\<lambda>x. (f (snd x), fst x)) ` set rows)"
proof (induction rows arbitrary: b)
  case (Cons r rows)
  have "num (fst b) \<le> num (fst (better f b r))" "num (f (snd r)) \<le> num (fst (better f b r))"
    and "better f b r = b \<or> better f b r = (f (snd r), fst r)" by (simp_all add: better_def)
  then show ?case using Cons.IH [of "better f b r"] by auto
qed simp

text \<open>The rows of a breakdown: positive counts, percentages from 0 to 100, most frequent first.\<close>

definition breakdown_ok :: "json \<Rightarrow> bool" where
  "breakdown_ok b \<longleftrightarrow> (let rows = arr_items (Some b); count = (\<lambda>r. int_or 0 (jfield ''count'' r)) in
     list_all (\<lambda>r. 0 < count r \<and> 0 \<le> int_or (-1) (jfield ''percent'' r) \<and> int_or 101 (jfield ''percent'' r) \<le> 100) rows \<and>
     sorted (map (\<lambda>r. - count r) rows))"

lemma breakdown_bounds:
  assumes "k \<notin> {''count'', ''percent''}"
  shows "breakdown_ok (breakdown k rows)"
proof -
  let ?names = "List.filter (\<lambda>n. n \<noteq> []) (meta_names k rows)"
  let ?total = "if rows = [] then 1 else int (length rows)"
  let ?s = "sort_key (\<lambda>c. - snd c) (tally ?names)"
  let ?row = "\<lambda>(n, c). JObj [(k, JStr n), (''count'', JNum c), (''percent'', JNum (percent_of c ?total))]"
  have len: "int (length ?names) \<le> ?total"
    using order_trans [OF length_filter_le [of "\<lambda>n. n \<noteq> []" "meta_names k rows"] meta_names_length] by (cases rows) auto
  have cnt: "map (\<lambda>r. - int_or 0 (jfield ''count'' r)) (map ?row ?s) = map (\<lambda>c. - snd c) ?s"
    using assms by (auto simp: int_or_def)
  have "0 < c \<and> 0 \<le> percent_of c ?total \<and> percent_of c ?total \<le> 100" if "(n, c) \<in> set ?s" for n c
    using that tally_bounds [of ?names] len percent_of_bounds [of c ?total] by fastforce
  then have "list_all (\<lambda>r. 0 < int_or 0 (jfield ''count'' r) \<and> 0 \<le> int_or (-1) (jfield ''percent'' r) \<and>
      int_or 101 (jfield ''percent'' r) \<le> 100) (map ?row ?s)"
    using assms by (auto simp: list_all_iff int_or_def)
  then show ?thesis using sorted_sort_key [of "\<lambda>c. - snd c" "tally ?names"]
    unfolding breakdown_ok_def breakdown_def Let_def arr_items_def option.case json.case cnt by blast
qed

section \<open>Kept answers\<close>

context redis_service
begin

lemma kept_served:
  assumes "up s (time w)" and "keys w k = Some (VStr (stringify j), Some e)" and "wf_json j"
    and "time (snd (snd (run E (kept_or k p) s w))) < e"
  shows "fst (run E (kept_or k p) s w) = Inr (ok_value j)"
proof -
  let ?w2 = "after (GET k) (ticked w)"
  have op: "\<not> time (ticked w) < openUntil (circuit s)" and rd: "redis_ready s"
    using assms(1) time_ticked [of w] by (simp_all add: up_def)
  have get: "run E (pool_str (GET k)) s (ticked w) = (Inr (if time ?w2 < e then Some (stringify j) else None), s, ?w2)"
    using assms(2) by (simp add: pool_str_def run_sq run_getRedisPool [OF rd] run_redis_str live_def)
  show ?thesis
  proof (cases "time ?w2 < e")
    case True
    then show ?thesis using op get
      by (simp add: kept_or_def run_bnd run_circuit run_catch parse_cached_def parse_stringify [OF assms(3)])
  next
    case False
    then have "run E (kept_or k p) s w = run E p s ?w2"
      using op get by (simp add: kept_or_def run_bnd run_circuit run_catch parse_cached_def)
    then show ?thesis using assms(4) False run_forward [of ?w2 p s] by simp
  qed
qed

end

section \<open>Properties\<close>


text \<open>A user with a kept answer who confirms the erasure; the database erases.\<close>

definition erase_request :: request where
  "erase_request = \<lparr>req_method = ''DELETE'', req_path = ''/'', req_query = [], req_headers = [(''x-confirm-erasure'', ''true'')],
     req_body = None, req_params = []\<rparr>"

definition erase_env :: "mem environment" where
  "erase_env = mem_env (\<lambda>c. case c of CDb q \<Rightarrow> RDb \<lparr>db_data = None, db_err = None, db_count = None\<rparr> | _ \<Rightarrow> RNil)"

definition erase_world :: mem where
  "erase_world = \<lparr>m_time = 0, m_keys = [session_stats_key ''u'' \<mapsto> (VStr (stringify (JNum 1)), Some 10000)]\<rparr>"

definition erase_process :: process where
  "erase_process = node_process\<lparr>supabase_client := True\<rparr>"

abbreviation erased :: "(exn + response) \<times> process \<times> mem" where
  "erased \<equiv> run erase_env (erase_DELETE_body erase_request ''u'') erase_process erase_world"


end
