(* ===== verification/Tool_Routes.thy ===== *)
theory Tool_Routes
  imports Job_Routes Search_Routes Stats_Routes
begin

text \<open>
  Handlers that pass a text on to a service: the tools of the Python worker (bug-explainer,
  homework, interview, repurpose, triage, morph, the examples of the brand voice), refine,
  rephrases, suggestions and the export of the history. The character U+2264 in the prompt of the
  suggestions is outside the model's alphabet and is the parameter \<open>le\<close>; \<open>toLocaleDateString()\<close> is
  the parameter \<open>localeDate\<close> of the export.
\<close>

section \<open>The Python worker\<close>

definition worker_url :: "string prog" where
  "worker_url = env_or_empty ''PYTHON_WORKER_URL'' ''http://127.0.0.1:8000''"

text \<open>The headers of the active span come last; \<open>traceparent\<close> is also sent in the body.\<close>

definition worker_fetch :: "string \<Rightarrow> string \<Rightarrow> headers \<Rightarrow> (headers \<Rightarrow> json option) \<Rightarrow> fetch_response prog" where
  "worker_fetch meth path hs body =
     bnd trace_headers (\<lambda>th.
     bnd worker_url (\<lambda>url.
     bnd getPreferredInternalApiToken (\<lambda>token.
     fetch \<lparr>fq_method = meth, fq_url = url @ path, fq_headers = hs @ [(''X-Internal-API-Token'', token)] @ th, fq_body = body th\<rparr>)))"

definition json_headers :: headers where
  "json_headers = [(''Content-Type'', ''application/json'')]"

definition worker_post :: "string \<Rightarrow> (string \<times> json) list \<Rightarrow> fetch_response prog" where
  "worker_post path ps = worker_fetch ''POST'' path json_headers
     (\<lambda>th. Some (JObj (ps @ (case map_of th ''traceparent'' of Some t \<Rightarrow> [(''traceparent'', JStr t)] | None \<Rightarrow> []))))"

text \<open>\<open>await res.json()\<close>.\<close>

definition any_json :: "fetch_response \<Rightarrow> json prog" where
  "any_json r = (case fr_json r of Some d \<Rightarrow> Ret d | None \<Rightarrow> Throw (JsError ''SyntaxError''))"

abbreviation worker_error :: "string \<Rightarrow> exn" where
  "worker_error msg \<equiv> createApiError WORKER_ERROR msg 502"

definition members_of :: "string list \<Rightarrow> json \<Rightarrow> (string \<times> json) list" where
  "members_of ks j = concat (map (\<lambda>k. member k (jfield k j)) ks)"

text \<open>The four tools differ in the path and in the members they pass on.\<close>

definition tool_body :: "string \<Rightarrow> string list \<Rightarrow> request \<Rightarrow> string \<Rightarrow> response prog" where
  "tool_body path extra req uid =
     bnd (json_body req (JsError ''SyntaxError'')) (\<lambda>body.
     if body = JNull then Throw type_error
     else if \<not> truthyo (jfield ''prompt'' body) then Throw (createApiError VALIDATION_ERROR ''Missing prompt'' 400)
     else bnd (worker_post path (members_of [''prompt''] body @ [(''userId'', JStr uid)] @ members_of extra body)) (\<lambda>res.
       if \<not> fr_ok res then Throw (worker_error ''Worker failed to process request'')
       else bnd (any_json res) (\<lambda>d. Ret (ok_value d))))"

definition bug_explainer_POST :: "request \<Rightarrow> response prog" where
  "bug_explainer_POST req = withErrorHandler req (authed (tool_body ''/dev-helper'' [] req))"

definition homework_POST :: "request \<Rightarrow> response prog" where
  "homework_POST req = withErrorHandler req (authed (tool_body ''/study-mate'' [] req))"

definition interview_POST :: "request \<Rightarrow> response prog" where
  "interview_POST req = withErrorHandler req (authed (tool_body ''/interview-pro'' [''session_id''] req))"

definition repurpose_POST :: "request \<Rightarrow> response prog" where
  "repurpose_POST req = withErrorHandler req (authed (tool_body ''/content-flow'' [''target_platform''] req))"

text \<open>A chat of the user, by an unchecked identifier.\<close>

definition user_chat :: "json \<Rightarrow> string \<Rightarrow> db_mode \<Rightarrow> query" where
  "user_chat chatId uid md = Query ''writeright_chats'' (Select ''id'')
     [Eq ''id'' chatId, Eq ''user_id'' (JStr uid), IsNull ''deleted_at''] [] md"

definition require_chat :: "json \<Rightarrow> string \<Rightarrow> string \<Rightarrow> unit prog" where
  "require_chat chatId uid msg = sq getSupabaseAdmin
     (bnd (db (user_chat chatId uid Single)) (\<lambda>r.
      if db_missing r then Throw (createApiError CHAT_NOT_FOUND msg 404) else Ret ()))"

definition triage_body :: "request \<Rightarrow> string \<Rightarrow> response prog" where
  "triage_body req uid =
     bnd (json_body req invalid_body) (\<lambda>body.
     if body = JNull then Throw type_error
     else if \<not> truthyo (jfield ''raw_text'' body) then Throw (createApiError VALIDATION_ERROR ''Missing raw_text for triage'' 400)
     else sq (whenP (truthyo (jfield ''chatId'' body)) (require_chat (jval (jfield ''chatId'' body)) uid ''Chat context not found''))
       (bnd (worker_post ''/triage'' (members_of [''raw_text''] body)) (\<lambda>res.
        if \<not> fr_ok res then Throw (worker_error ''Failed to triage text'')
        else bnd (any_json res) (\<lambda>d. Ret (ok_value d)))))"

definition triage_POST :: "request \<Rightarrow> response prog" where
  "triage_POST req = withErrorHandler req (authed (triage_body req))"

definition morph_fields :: "string list" where
  "morph_fields = [''original_text'', ''current_text'', ''tone'', ''intensity'', ''mode'']"

definition morph_body :: "request \<Rightarrow> string \<Rightarrow> response prog" where
  "morph_body req uid =
     bnd (json_body req invalid_body) (\<lambda>body.
     if body = JNull then Throw type_error
     else if \<not> list_all (\<lambda>k. truthyo (jfield k body)) (''chatId'' # morph_fields)
     then Throw (createApiError VALIDATION_ERROR ''Missing required fields'' 400)
     else sq (require_chat (jval (jfield ''chatId'' body)) uid ''Chat not found or access denied'')
       (bnd (worker_post ''/morph'' (members_of morph_fields body)) (\<lambda>res.
        if \<not> fr_ok res then Throw (worker_error ''Failed to morph text'')
        else if no_reader res then Throw (worker_error ''Worker returned empty body'')
        else Ret \<lparr>resp_status = 200, resp_body = BText (fr_text res),
               resp_headers = [(''Content-Type'', ''text/plain; charset=utf-8''), (''Cache-Control'', ''no-cache'')]\<rparr>)))"

definition morph_POST :: "request \<Rightarrow> response prog" where
  "morph_POST req = withErrorHandler req (authed (morph_body req))"

section \<open>Brand voice\<close>

definition voice_GET_body :: "request \<Rightarrow> string \<Rightarrow> response prog" where
  "voice_GET_body req uid =
     bnd (worker_fetch ''GET'' (''/voice/examples?user_id='' @ uid) [] (\<lambda>_. None)) (\<lambda>res.
     if \<not> fr_ok res then Throw (worker_error ''Failed to fetch examples'')
     else bnd (any_json res) (\<lambda>d. Ret (ok_value d)))"

definition voice_GET :: "request \<Rightarrow> response prog" where
  "voice_GET req = withErrorHandler req (authed (voice_GET_body req))"

text \<open>The branch of the POST handler for JSON bodies.\<close>

definition voice_ingest :: "request \<Rightarrow> string \<Rightarrow> response prog" where
  "voice_ingest req uid =
     bnd (json_body req invalid_body) (\<lambda>body.
     if body = JNull then Throw type_error
     else case jfield ''content'' body of
       Some (JStr content) \<Rightarrow>
         if length content < 20 then Throw (createApiError VALIDATION_ERROR ''Example text must be at least 20 characters.'' 400)
         else bnd (worker_fetch ''POST'' ''/voice/ingest'' json_headers
             (\<lambda>_. Some (JObj [(''user_id'', JStr uid), (''content'', JStr content)]))) (\<lambda>res.
           if \<not> fr_ok res then Throw (worker_error ''Failed to process style example'')
           else bnd (any_json res) (\<lambda>d. Ret (ok_value d)))
     | _ \<Rightarrow> Throw (createApiError VALIDATION_ERROR ''Example text must be at least 20 characters.'' 400))"

definition voice_DELETE_body :: "request \<Rightarrow> string \<Rightarrow> response prog" where
  "voice_DELETE_body req uid =
     (let i = param_get req ''id'' in
      if i = [] then Throw (createApiError VALIDATION_ERROR ''Missing example ID'' 400)
      else bnd (worker_fetch ''DELETE'' (''/voice/examples/'' @ i @ ''?user_id='' @ uid) [] (\<lambda>_. None)) (\<lambda>res.
        if \<not> fr_ok res then Throw (worker_error ''Failed to delete style example'')
        else Ret (ok_json [(''status'', JStr ''success'')])))"

definition voice_DELETE :: "request \<Rightarrow> response prog" where
  "voice_DELETE req = withErrorHandler req (authed (voice_DELETE_body req))"

section \<open>refine\<close>

definition gemini_request :: "string \<Rightarrow> string \<Rightarrow> fetch_request" where
  "gemini_request apiKey prompt =
     \<lparr>fq_method = ''POST'', fq_url = ''https://generativelanguage.googleapis.com/v1beta/openai/chat/completions'',
      fq_headers = [(''Content-Type'', ''application/json''), (''Authorization'', ''Bearer '' @ apiKey)],
      fq_body = Some (JObj [(''model'', JStr ''gemini-2.0-flash''),
        (''messages'', JArr [JObj [(''role'', JStr ''user''), (''content'', JStr prompt)]]),
        (''response_format'', JObj [(''type'', JStr ''json_object'')]), (''max_tokens'', JNum 400), (''temperature'', JDec 7 1)])\<rparr>"

text \<open>The answer is a JSON value; text that is not JSON becomes the only alternative.\<close>

definition callGemini :: "string \<Rightarrow> json prog" where
  "callGemini prompt =
     bnd (get_env ''GOOGLE_AI_STUDIO_API_KEY'') (\<lambda>apiKey.
     if missing apiKey then Throw (createApiError INTERNAL_ERROR ''Missing GOOGLE_AI_STUDIO_API_KEY'' 500)
     else bnd (fetch (gemini_request (the apiKey) prompt)) (\<lambda>res.
       if \<not> fr_ok res then
         Throw (createApiError UPSTREAM_ERROR
           (literal (Some (nullish (jopt ''message'' (jopt ''error'' (fr_json res)))
              (JStr (''Gemini API error '' @ show_int (fr_status res)))))) (fr_status res))
       else bnd (answer_json res) (\<lambda>d.
         bnd (case first_content d of
                None \<Rightarrow> Ret ''{}'' | Some JNull \<Rightarrow> Ret ''{}'' | Some (JStr x) \<Rightarrow> Ret (trim x) | _ \<Rightarrow> Throw type_error) (\<lambda>content.
         Ret (case parse content of
           Some j \<Rightarrow> j
         | None \<Rightarrow> JObj [(''alternatives'', JArr [JStr content]), (''explanation'', JStr ''Suggested replacement.'')])))))"

definition refine_cache_key :: "string \<Rightarrow> string \<Rightarrow> string prog" where
  "refine_cache_key selection instruction =
     bnd (call_str (CSha256 (selection @ '':'' @ instruction))) (\<lambda>h. Ret (ns [''writeright'', ''refine'', h]))"

definition refineRateKey :: "string \<Rightarrow> string" where
  "refineRateKey uid = ns [''writeright'', ''refine'', ''ratelimit'', uid]"

definition checkRefineRateLimit :: "string \<Rightarrow> bool prog" where
  "checkRefineRateLimit uid =
     bnd isCircuitOpen (\<lambda>op.
     if op then Ret True
     else sq getRedisPool
       (bnd (redis_int (INCR (refineRateKey uid))) (\<lambda>count.
        sq (whenP (count = 1) (redis_unit (EXPIRE (refineRateKey uid) 60))) (Ret (count \<le> 20)))))"

text \<open>\<open>typeof a === "string" ? a : typeof b === "string" ? b : ""\<close>.\<close>

definition text_either :: "string \<Rightarrow> string \<Rightarrow> json \<Rightarrow> string" where
  "text_either a b body = (case as_str (jfield a body) of Some x \<Rightarrow> x
     | None \<Rightarrow> (case as_str (jfield b body) of Some x \<Rightarrow> x | None \<Rightarrow> []))"

definition quoted :: "string \<Rightarrow> string" where
  "quoted x = [dquote] @ x @ [dquote]"

definition refine_prompt :: "string \<Rightarrow> string \<Rightarrow> string \<Rightarrow> string \<Rightarrow> string \<Rightarrow> string" where
  "refine_prompt source selected mode tone instruction = join [nl]
     [''You are a precise writing assistant. Your task is to rewrite a SPECIFIC segment of a larger text based on a user's instruction.'',
      ''            '',
      ''CONTEXT:'', ''Full text: '' @ quoted source, ''Segment to rewrite: '' @ quoted selected, ''Writing Mode: '' @ mode,
      ''Active Tone: '' @ tone, '''', ''USER INSTRUCTION:'', quoted instruction, '''', ''RULES:'',
      ''1. Return JSON with alternatives (3 strings) and explanation (one short sentence).'',
      ''2. Ensure the rewritten segment fits perfectly back into the original text's grammar and flow.'',
      ''3. Preserve the core meaning unless the instruction explicitly asks to change it.'',
      ''4. Keep the length similar unless the instruction asks otherwise.'']"

definition refine_result :: "string \<Rightarrow> json \<Rightarrow> json" where
  "refine_result selected d =
     (let alternatives = (case jfield ''alternatives'' d of
            Some (JArr js) \<Rightarrow> take 3 (List.map_filter (\<lambda>j. as_str (Some j)) js) | _ \<Rightarrow> [selected])
      in JObj [(''alternatives'', JArr (map JStr alternatives)),
           (''explanation'', JStr (or_else (as_str (jfield ''explanation'' d)) ''Suggested replacement.'')),
           (''refinedText'', JStr (case alternatives of a # _ \<Rightarrow> a | [] \<Rightarrow> selected))])"

text \<open>\<open>await getRedisPool().get(key).catch(() => null)\<close>, followed by a \<open>JSON.parse\<close> that may throw.\<close>

definition kept_json :: "string \<Rightarrow> json option prog" where
  "kept_json key =
     bnd isCircuitOpen (\<lambda>op.
     if op then Ret None
     else sq getRedisPool (bnd (catch (redis_str (GET key)) (\<lambda>_. Ret None)) (\<lambda>c. case c of
         None \<Rightarrow> Ret None
       | Some x \<Rightarrow> if x = [] then Ret None
           else (case parse x of Some j \<Rightarrow> Ret (Some j) | None \<Rightarrow> Throw (JsError ''SyntaxError'')))))"

definition keep_json :: "string \<Rightarrow> int \<Rightarrow> json \<Rightarrow> unit prog" where
  "keep_json key ttl j = bnd isCircuitOpen (\<lambda>op.
     if op then Ret () else sq getRedisPool (attempt (redis_unit (SETEX key ttl (stringify j)))))"

definition refine_limited :: exn where
  "refine_limited = createApiErrorM RATE_LIMITED ''Rate limit exceeded'' (Some 429)
     \<lparr>meta_headers = Some [(''X-RateLimit-Limit'', ''20''), (''X-RateLimit-Remaining'', ''0''), (''Retry-After'', ''60'')], meta_fields = []\<rparr>"

definition refine_chat :: "string \<Rightarrow> json \<Rightarrow> unit prog" where
  "refine_chat uid body = sq getSupabaseAdmin
     (case jfield ''chatId'' body of
        Some (JStr chatId) \<Rightarrow> bnd (db (user_chat (JStr chatId) uid MaybeSingle)) (\<lambda>r.
          if \<not> truthyo (db_data r) then Throw (createApiError NOT_FOUND ''Chat not found'' 404) else Ret ())
      | _ \<Rightarrow> Ret ())"

definition refine_body :: "request \<Rightarrow> string \<Rightarrow> response prog" where
  "refine_body req uid =
     bnd (checkRefineRateLimit uid) (\<lambda>ok.
     if \<not> ok then Throw refine_limited
     else bnd (json_body req invalid_body) (\<lambda>body.
     if body = JNull then Throw type_error
     else let source = text_either ''text'' ''fullText'' body; selected = text_either ''selection'' ''selectedText'' body;
              instruction = text_either ''instruction'' ''prompt'' body in
       if source = [] \<or> selected = [] \<or> instruction = []
       then Throw (createApiError VALIDATION_ERROR ''Missing required fields'' 400)
       else sq (refine_chat uid body)
         (bnd (refine_cache_key selected instruction) (\<lambda>key.
          bnd (kept_json key) (\<lambda>c. case c of
            Some j \<Rightarrow> Ret (ok_value j)
          | None \<Rightarrow>
              bnd (callGemini (refine_prompt source selected (or_else (as_str (jfield ''mode'' body)) ''paragraph'')
                     (or_else (as_str (jfield ''tone'' body)) ''Professional'') instruction)) (\<lambda>d.
              if d = JNull then Throw type_error
              else let result = refine_result selected d in
                sq (keep_json key 600 result) (Ret (ok_value result))))))))"

definition refine_POST :: "request \<Rightarrow> response prog" where
  "refine_POST req = withErrorHandler req (authed (refine_body req))"

section \<open>rephrases\<close>

definition RephraseSchema :: zschema where
  "RephraseSchema = [(''text'', z_text 1 500, ZRequired),
     (''style'', ZEnum [''shorter'', ''longer'', ''simpler'', ''stronger'', ''formal'', ''casual''], ZRequired)]"

definition rephraseRateKey :: "string \<Rightarrow> string" where
  "rephraseRateKey uid = ns [''writeright'', ''rephrase-rl'', uid]"

definition has_code :: "error_code \<Rightarrow> exn \<Rightarrow> bool" where
  "has_code c e = (case e of WriteRightError c' m st meta \<Rightarrow> c' = c | _ \<Rightarrow> False)"

definition rephrase_limit :: "string \<Rightarrow> unit prog" where
  "rephrase_limit uid =
     bnd isCircuitOpen (\<lambda>op.
     if op then Ret ()
     else catch
       (sq getRedisPool
         (bnd (redis_int (INCR (rephraseRateKey uid))) (\<lambda>count.
          sq (whenP (count = 1) (redis_unit (EXPIRE (rephraseRateKey uid) 600)))
          (if 30 < count
           then Throw (createApiErrorM RATE_LIMITED ''Rephrase rate limit exceeded. Try again in 10 minutes.'' (Some 429)
             \<lparr>meta_headers = Some [(''Retry-After'', ''600'')], meta_fields = []\<rparr>)
           else Ret ()))))
       (\<lambda>e. if has_code RATE_LIMITED e then Throw e else Ret ()))"

definition first_issue :: "json \<Rightarrow> string" where
  "first_issue issues = (case arr_items (Some issues) of
     [] \<Rightarrow> ''Invalid input'' | i # is \<Rightarrow> literal (Some (nullish (jfield ''message'' i) (JStr ''Invalid input''))))"

abbreviation worker_offline :: "string \<Rightarrow> exn" where
  "worker_offline msg \<equiv> createApiError GATEWAY_OFFLINE msg 503"

definition rephrases_body :: "zparser \<Rightarrow> request \<Rightarrow> string \<Rightarrow> response prog" where
  "rephrases_body zod req uid =
     bnd (json_body req invalid_body) (\<lambda>body.
     bnd (case zod RephraseSchema body of
            Inl issues \<Rightarrow> Throw (createApiError VALIDATION_ERROR (first_issue issues) 400) | Inr ps \<Rightarrow> Ret ps) (\<lambda>ps.
     sq (rephrase_limit uid)
     (bnd (env_or ''PYTHON_WORKER_URL'' ''http://127.0.0.1:8000'') (\<lambda>url.
      bnd (catch (fetch \<lparr>fq_method = ''POST'', fq_url = url @ ''/morph'', fq_headers = json_headers,
             fq_body = Some (JObj [(''text'', JStr (zstr ''text'' ps)), (''style'', JStr (zstr ''style'' ps)), (''mode'', JStr ''rephrase'')])\<rparr>)
           (\<lambda>_. Throw (worker_offline ''AI worker is unavailable. Please try again.''))) (\<lambda>res.
      if \<not> fr_ok res then Throw (worker_offline ''AI rephrase failed. Please try again.'')
      else bnd (catch (any_json res) (\<lambda>_. Throw (worker_offline ''Invalid response from AI worker.''))) (\<lambda>d.
        Ret (ok_json [(''rephrases'', JArr (take 3 (arr_items (jfield ''rephrases'' d))))])))))))"

definition rephrases_POST :: "zparser \<Rightarrow> request \<Rightarrow> response prog" where
  "rephrases_POST zod req = withErrorHandler req (authed (rephrases_body zod req))"

section \<open>suggestions\<close>

definition suggestionsRateKey :: "string \<Rightarrow> string" where
  "suggestionsRateKey uid = ns [''writeright'', ''suggestions'', ''ratelimit'', uid]"

text \<open>The kept suggestions of a job: the key does not name the user.\<close>

definition suggestions_key :: "string \<Rightarrow> string" where
  "suggestions_key jobId = ns [''writeright'', ''suggestions'', jobId]"

definition suggestions_limit :: "string \<Rightarrow> unit prog" where
  "suggestions_limit uid =
     bnd isCircuitOpen (\<lambda>op.
     if op then Ret ()
     else catch
       (sq getRedisPool
         (bnd (redis_int (INCR (suggestionsRateKey uid))) (\<lambda>count.
          sq (whenP (count = 1) (redis_unit (EXPIRE (suggestionsRateKey uid) 60)))
          (if 30 < count then Throw (createApiError RATE_LIMITED ''Rate limit exceeded'' 429) else Ret ()))))
       (\<lambda>e. if is_write_right e then Throw e else Ret ()))"

definition default_suggestions :: "string list" where
  "default_suggestions = [''Make it formal'', ''Make it shorter'', ''Fix grammar'']"

definition suggestions_json :: "string list \<Rightarrow> json" where
  "suggestions_json xs = JObj [(''suggestions'', JArr (map JStr xs))]"

definition chips_prompt :: "string \<Rightarrow> string" where
  "chips_prompt le = ''You are an AI assistant. Given the text, suggest exactly 3 specific next edits as short action chips ('' @ le
     @ '' 8 words each). Return a JSON array of strings: ['' @ quoted ''suggestion 1'' @ '', '' @ quoted ''suggestion 2'' @ '', ''
     @ quoted ''suggestion 3'' @ '']''"

definition chips_request :: "string \<Rightarrow> string \<Rightarrow> json \<Rightarrow> fetch_request" where
  "chips_request le apiKey txt =
     \<lparr>fq_method = ''POST'', fq_url = ''https://generativelanguage.googleapis.com/v1beta/openai/chat/completions'',
      fq_headers = [(''Authorization'', ''Bearer '' @ apiKey), (''Content-Type'', ''application/json'')],
      fq_body = Some (JObj [(''model'', JStr ''gemini-2.0-flash''),
        (''messages'', JArr [JObj [(''role'', JStr ''system''), (''content'', JStr (chips_prompt le))],
                            JObj [(''role'', JStr ''user''), (''content'', txt)]]),
        (''max_tokens'', JNum 50), (''temperature'', JDec 4 1)])\<rparr>"

text \<open>\<open>data.choices[0]?.message?.content\<close> and the three chips in it; anything else leaves the default.\<close>

definition chips_of :: "json \<Rightarrow> string list prog" where
  "chips_of d = (case jfield ''choices'' d of
     Some (JArr cs) \<Rightarrow>
       (let content = (case cs of [] \<Rightarrow> None | c # _ \<Rightarrow> jopt ''content'' (jfield ''message'' c)) in
        if \<not> truthyo content then Ret default_suggestions
        else case parse (literal content) of
            None \<Rightarrow> Throw (JsError ''SyntaxError'')
          | Some (JArr js) \<Rightarrow> Ret (if length js = 3 then map (\<lambda>j. take 50 (js_string j)) js else default_suggestions)
          | Some _ \<Rightarrow> Ret default_suggestions)
   | _ \<Rightarrow> Throw type_error)"

definition ask_chips :: "string \<Rightarrow> json \<Rightarrow> string list prog" where
  "ask_chips le txt = catch
     (bnd (get_env ''GOOGLE_AI_STUDIO_API_KEY'') (\<lambda>apiKey.
      if missing apiKey then Ret default_suggestions
      else bnd (fetch (chips_request le (the apiKey) txt)) (\<lambda>res.
        if fr_ok res then bnd (any_json res) chips_of else Ret default_suggestions)))
     (\<lambda>_. Ret default_suggestions)"

text \<open>\<open>typeof output === "object"\<close> of a truthy value.\<close>

definition is_object :: "json option \<Rightarrow> bool" where
  "is_object j = (case j of Some (JObj ps) \<Rightarrow> True | Some (JArr js) \<Rightarrow> True | _ \<Rightarrow> False)"

definition suggestions_GET_body :: "string \<Rightarrow> request \<Rightarrow> string \<Rightarrow> response prog" where
  "suggestions_GET_body le req uid =
     (let jobId = or_else (query_get req ''jobId'') [] in
      if jobId = [] then Throw (createApiError VALIDATION_ERROR ''jobId is required'' 400)
      else sq (suggestions_limit uid)
       (kept_or (suggestions_key jobId)
         (sq getSupabaseAdmin
         (bnd (db (Query ''writeright_ai_jobs'' (Select ''output'') [Eq ''id'' (JStr jobId), Eq ''user_id'' (JStr uid)] [] Single)) (\<lambda>r.
          let output = jopt ''output'' (db_data r); txt = jopt ''improved_text'' output in
          if \<not> is_object output then Throw (createApiError NOT_FOUND ''Job output not found'' 404)
          else if \<not> truthyo txt then Ret (ok_value (suggestions_json default_suggestions))
          else bnd (ask_chips le (jval txt)) (\<lambda>chips.
            sq (keep (suggestions_key jobId) 600 (suggestions_json chips)) (Ret (ok_value (suggestions_json chips)))))))))"

definition suggestions_GET :: "string \<Rightarrow> request \<Rightarrow> response prog" where
  "suggestions_GET le req = withErrorHandler req (authed (suggestions_GET_body le req))"

definition AcceptSuggestionSchema :: zschema where
  "AcceptSuggestionSchema = [(''suggestionId'', z_uuid, ZRequired)]"

definition suggestion_accept_body :: "zparser \<Rightarrow> request \<Rightarrow> string \<Rightarrow> response prog" where
  "suggestion_accept_body zod req uid =
     bnd (json_body req invalid_body) (\<lambda>body.
     bnd (parsed zod AcceptSuggestionSchema body) (\<lambda>ps.
     sq getSupabaseAdmin
       (bnd now (\<lambda>t.
        bnd (db_many (Query ''writeright_smart_suggestions''
               (Update (JObj [(''accepted'', JBool True), (''updated_at'', JStr (toISOString t))]))
               [Eq ''id'' (JStr (zstr ''suggestionId'' ps)), Eq ''clerk_user_id'' (JStr uid)] [] Many) ''Failed to accept suggestion'') (\<lambda>_.
        Ret (ok_json [(''accepted'', JBool True)]))))))"

definition suggestion_accept_POST :: "zparser \<Rightarrow> request \<Rightarrow> response prog" where
  "suggestion_accept_POST zod req = withErrorHandler req (authed (suggestion_accept_body zod req))"

section \<open>export\<close>

definition export_limit :: "string \<Rightarrow> unit prog" where
  "export_limit uid = catch
     (bnd (checkRateLimit (uid @ '':export'') 5) (\<lambda>rate.
      if \<not> allowed rate then Throw (createApiErrorM RATE_LIMITED ''Rate limit exceeded'' (Some 429)
        \<lparr>meta_headers = Some [(''Retry-After'', ''60'')], meta_fields = []\<rparr>) else Ret ()))
     (\<lambda>e. if is_write_right e then Throw e else Ret ())"

definition export_query :: "request \<Rightarrow> json" where
  "export_query req = JObj (concat (map (\<lambda>k. case query_get req k of Some v \<Rightarrow> [(k, JStr v)] | None \<Rightarrow> []) [''format'', ''from'', ''to'']))"

text \<open>\<open>new Date(s).toISOString()\<close>, and the end of that day in local time. An invalid date throws.\<close>

definition bound_of :: "string \<Rightarrow> (int \<Rightarrow> int \<Rightarrow> int) \<Rightarrow> (string \<Rightarrow> filter) \<Rightarrow> (string \<times> json) list \<Rightarrow> filter list prog" where
  "bound_of k adjust mk ps = (case map_of ps k of
     Some (JStr x) \<Rightarrow> if x = [] then Ret []
       else bnd local_offset (\<lambda>local. case parse_time local x of
           Some t \<Rightarrow> Ret [mk (toISOString (adjust local t))]
         | None \<Rightarrow> Throw (JsError ''Invalid time value''))
   | _ \<Rightarrow> Ret [])"

definition end_of_day :: "int \<Rightarrow> int \<Rightarrow> int" where
  "end_of_day local t = local_day local t * DAY_MS + DAY_MS - 1 - local"

text \<open>The messages by chat, chats in the order of their first message.\<close>

record exported_chat =
  ex_id :: json
  ex_title :: json
  ex_messages :: "json list"

definition export_title :: "json \<Rightarrow> json" where
  "export_title msg =
     (let chats = jfield ''writeright_chats'' msg;
          title = (case chats of Some (JArr (c # _)) \<Rightarrow> jfield ''title'' c | Some (JArr []) \<Rightarrow> None | _ \<Rightarrow> jopt ''title'' chats)
      in if truthyo title then jval title else JStr ''Untitled Document'')"

definition export_message :: "json \<Rightarrow> json" where
  "export_message msg = JObj (member ''role'' (jfield ''role'' msg) @ member ''content'' (jfield ''content'' msg)
     @ member ''timestamp'' (jfield ''created_at'' msg) @ member ''metadata'' (jfield ''metadata'' msg))"

fun add_exported :: "exported_chat list \<Rightarrow> json \<Rightarrow> exported_chat list" where
  "add_exported [] msg = [\<lparr>ex_id = jval (jfield ''chat_id'' msg), ex_title = export_title msg, ex_messages = [export_message msg]\<rparr>]"
| "add_exported (c # cs) msg =
     (if ex_id c = jval (jfield ''chat_id'' msg) then c\<lparr>ex_messages := ex_messages c @ [export_message msg]\<rparr> # cs
      else c # add_exported cs msg)"

definition grouped :: "json list \<Rightarrow> exported_chat list" where
  "grouped msgs = foldl add_exported [] msgs"

definition chat_json :: "exported_chat \<Rightarrow> json" where
  "chat_json c = JObj [(''title'', ex_title c), (''messages'', JArr (ex_messages c))]"

definition middle_dot :: char where "middle_dot = CHR 0xB7"

text \<open>The lines of an answer; the stored content is JSON, or else plain text.\<close>

definition answer_lines :: "json \<Rightarrow> string list prog" where
  "answer_lines msg =
     (let content = jfield ''content'' msg;
          fallback = JObj (member ''improved_text'' content);
          result = (case content of
             Some (JStr x) \<Rightarrow> (case parse x of Some j \<Rightarrow> j | None \<Rightarrow> fallback)
           | Some j \<Rightarrow> j | None \<Rightarrow> JNull)
      in if result = JNull then Throw type_error
         else let improved = jfield ''improved_text'' result; scores = jfield ''scores'' result;
                  part = (\<lambda>name k. name @ '' '' @ literal (jopt k scores) @ ''/10'') in
           Ret ([''**WriteRight:** '' @ literal (if truthyo improved then improved else content)] @
             (if truthyo scores then [''> '' @ join ('' '' @ [middle_dot] @ '' '')
                [part ''Clarity'' ''clarity'', part ''Tone'' ''tone'', part ''Impact'' ''impact'']] else [])))"

definition message_lines :: "json \<Rightarrow> string list prog" where
  "message_lines msg =
     bnd (if jfield ''role'' msg = Some (JStr ''user'') then Ret [''**You:** '' @ literal (jfield ''content'' msg)] else answer_lines msg) (\<lambda>ls.
     Ret (ls @ [[]]))"

definition chat_lines :: "exported_chat \<Rightarrow> string list prog" where
  "chat_lines c =
     (let mode = (case ex_messages c of m # _ \<Rightarrow> jopt ''mode'' (jfield ''metadata'' m) | [] \<Rightarrow> None) in
      bnd (mapM message_lines (ex_messages c)) (\<lambda>ls.
      Ret ([''## '' @ js_string (ex_title c),
            ''_Mode: '' @ (if truthyo mode then literal mode else ''email'') @ '' '' @ [middle_dot] @ '' ''
              @ show_nat (length (ex_messages c)) @ '' exchanges_'', []] @ concat ls @ [''---'', []])))"

definition export_GET_body :: "(int \<Rightarrow> string) \<Rightarrow> zparser \<Rightarrow> request \<Rightarrow> string \<Rightarrow> response prog" where
  "export_GET_body localeDate zod req uid =
     sq (export_limit uid)
     (bnd (case zod ExportSchema (export_query req) of
             Inl issues \<Rightarrow> Throw (createApiErrorM VALIDATION_ERROR ''Invalid query parameters'' (Some 400)
               \<lparr>meta_headers = None, meta_fields = [(''issues'', issues)]\<rparr>)
           | Inr ps \<Rightarrow> Ret ps) (\<lambda>ps.
      sq getSupabaseAdmin
      (bnd (bound_of ''from'' (\<lambda>local t. t) (\<lambda>x. Gte ''created_at'' (JStr x)) ps) (\<lambda>lower.
       bnd (bound_of ''to'' end_of_day (\<lambda>x. Lte ''created_at'' (JStr x)) ps) (\<lambda>upper.
       bnd (db_many (Query ''writeright_messages''
              (Select ''id, chat_id, role, content, metadata, created_at, writeright_chats(title)'')
              ([Eq ''user_id'' (JStr uid)] @ lower @ upper) [Order ''created_at'' True, Limit 500] Many) ''Failed to load history'') (\<lambda>r.
       let chats = grouped (row_list r) in
       if zstr ''format'' ps = ''markdown'' then
         bnd now (\<lambda>t.
         bnd (mapM chat_lines chats) (\<lambda>ls.
         bnd now (\<lambda>t'.
         Ret \<lparr>resp_status = 200,
            resp_body = BText (join [nl] ([''# WriteRight Export'', ''_Exported on '' @ localeDate t @ ''_'', []] @ concat ls)),
            resp_headers = [(''Content-Type'', ''text/markdown; charset=utf-8''),
              (''Content-Disposition'', ''attachment; filename='' @ quoted (''writeright-export-'' @ show_int t' @ ''.md''))]\<rparr>)))
       else bnd now (\<lambda>t.
         Ret (ok_json [(''user'', JStr uid), (''generated_at'', JStr (toISOString t)), (''format'', JStr (zstr ''format'' ps)),
           (''chats'', JArr (map chat_json chats))]))))))))"

definition export_GET :: "(int \<Rightarrow> string) \<Rightarrow> zparser \<Rightarrow> request \<Rightarrow> response prog" where
  "export_GET localeDate zod req = withErrorHandler req (authed (export_GET_body localeDate zod req))"

definition notion_request :: "string \<Rightarrow> string \<Rightarrow> string \<Rightarrow> string \<Rightarrow> fetch_request" where
  "notion_request token databaseId title improved =
     (let rich = (\<lambda>x. (''text'', JObj [(''content'', JStr x)])) in
      \<lparr>fq_method = ''POST'', fq_url = ''https://api.notion.com/v1/pages'',
       fq_headers = [(''Authorization'', ''Bearer '' @ token), (''Content-Type'', ''application/json''), (''Notion-Version'', ''2022-06-28'')],
       fq_body = Some (JObj [(''parent'', JObj [(''database_id'', JStr databaseId)]),
         (''properties'', JObj [(''Name'', JObj [(''title'', JArr [JObj [rich (take 120 title)]])])]),
         (''children'', JArr [JObj [(''object'', JStr ''block''), (''type'', JStr ''paragraph''),
            (''paragraph'', JObj [(''rich_text'', JArr [JObj [(''type'', JStr ''text''), rich (take 1900 improved)]])])]])])\<rparr>)"

definition export_POST_body :: "request \<Rightarrow> string \<Rightarrow> response prog" where
  "export_POST_body req uid =
     bnd (json_body req invalid_body) (\<lambda>body.
     if \<not> is_object (Some body) then Throw invalid_input
     else let format = or_else (as_str (jfield ''format'' body)) []; improved = or_else (as_str (jfield ''improvedText'' body)) [];
              title = or_else (as_str (jfield ''title'' body)) ''Draft'' in
       if trim improved = [] then Throw (createApiError VALIDATION_ERROR ''Text is required'' 400)
       else sq getSupabaseAdmin
        (if format = ''gmail'' then
           Ret (ok_json [(''mailto_url'', JStr (''mailto:?body='' @ encodeURIComponent improved @ ''&subject='' @ encodeURIComponent title))])
         else if format = ''notion'' then
           bnd (get_env ''NOTION_INTEGRATION_TOKEN'') (\<lambda>token.
           bnd (get_env ''NOTION_DATABASE_ID'') (\<lambda>databaseId.
           if missing token \<or> missing databaseId then Throw (createApiError MISSING_SECRET ''Notion export unavailable'' 503)
           else bnd (fetch (notion_request (the token) (the databaseId) title improved)) (\<lambda>res.
             if \<not> fr_ok res then Throw (worker_error ''Failed to export to Notion'')
             else bnd (answer_json res) (\<lambda>d.
               Ret (ok_json [(''notion_url'', case as_str (jfield ''url'' d) of Some u \<Rightarrow> JStr u | None \<Rightarrow> JNull)])))))
         else Throw (createApiError VALIDATION_ERROR ''Unsupported export format'' 400)))"

definition export_POST :: "request \<Rightarrow> response prog" where
  "export_POST req = withErrorHandler req (authed (export_POST_body req))"

section \<open>The contract\<close>

lemma all_calls_worker [simp]:
  assumes "P CTrace" and "\<And>p n. P (CCloudSecret p n)" and "\<And>f. P (CReadFile f)" and "\<And>q. P (CFetch q)"
  shows "all_calls P (worker_fetch m p h b)" "all_calls P (worker_post p ps)"
  using assms by (simp_all add: worker_post_def worker_fetch_def worker_url_def getPreferredInternalApiToken_def)

lemma all_calls_answers [simp]:
  "all_calls P (any_json r)" "all_calls P (chips_of d)" "all_calls P (bound_of k f g ps)"
  by (auto simp: any_json_def chips_of_def bound_of_def Let_def split: option.split json.split list.split)

lemma all_calls_lines [simp]: "all_calls P (chat_lines c)"
proof -
  have "all_calls P (answer_lines m)" for m by (simp add: answer_lines_def Let_def)
  then have "all_calls P (message_lines m)" for m by (simp add: message_lines_def)
  then show ?thesis by (simp add: chat_lines_def Let_def)
qed

lemma require_chat_scoped [simp]: "all_calls (tenant uid) (require_chat c uid m)"
  by (simp add: require_chat_def user_chat_def)

lemma all_calls_tool_limits [simp]:
  assumes "\<And>c. P (CRedis c)"
  shows "all_calls P (checkRefineRateLimit uid)" "all_calls P (rephrase_limit uid)" "all_calls P (suggestions_limit uid)"
    "all_calls P (export_limit uid)" "all_calls P (kept_json k)" "all_calls P (keep_json k n j)"
  using assms by (simp_all add: checkRefineRateLimit_def rephrase_limit_def suggestions_limit_def export_limit_def
      kept_json_def keep_json_def)

lemma all_calls_gemini [simp]: "(\<And>q. P (CFetch q)) \<Longrightarrow> all_calls P (callGemini p)" "(\<And>q. P (CFetch q)) \<Longrightarrow> all_calls P (ask_chips le t)"
  "(\<And>x. P (CSha256 x)) \<Longrightarrow> all_calls P (refine_cache_key a b)"
  by (simp_all add: callGemini_def ask_chips_def refine_cache_key_def)

lemma tool_scoped: "all_calls (tenant uid) (tool_body path extra req uid)"
  by (simp add: tool_body_def)

interpretation bug_explainer: user_route bug_explainer_POST "tool_body ''/dev-helper'' []"
  by unfold_locales (simp_all add: bug_explainer_POST_def tool_scoped)

interpretation homework: user_route homework_POST "tool_body ''/study-mate'' []"
  by unfold_locales (simp_all add: homework_POST_def tool_scoped)

interpretation interview: user_route interview_POST "tool_body ''/interview-pro'' [''session_id'']"
  by unfold_locales (simp_all add: interview_POST_def tool_scoped)

interpretation repurpose: user_route repurpose_POST "tool_body ''/content-flow'' [''target_platform'']"
  by unfold_locales (simp_all add: repurpose_POST_def tool_scoped)

interpretation triage_route: user_route triage_POST triage_body
  by unfold_locales (simp_all add: triage_POST_def triage_body_def)

interpretation morph_route: user_route morph_POST morph_body
  by unfold_locales (simp_all add: morph_POST_def morph_body_def)

interpretation voice_list: user_route voice_GET voice_GET_body
  by unfold_locales (simp_all add: voice_GET_def voice_GET_body_def)

interpretation voice_delete: user_route voice_DELETE voice_DELETE_body
  by unfold_locales (simp_all add: voice_DELETE_def voice_DELETE_body_def Let_def)

interpretation refine_route: user_route refine_POST refine_body
  by unfold_locales (simp_all add: refine_POST_def refine_body_def refine_chat_def user_chat_def Let_def)

interpretation rephrases_route: user_route "rephrases_POST zod" "rephrases_body zod" for zod
  by unfold_locales (simp_all add: rephrases_POST_def rephrases_body_def env_or_def)

interpretation suggestions_route: user_route "suggestions_GET le" "suggestions_GET_body le" for le
  by unfold_locales (simp_all add: suggestions_GET_def suggestions_GET_body_def Let_def)

interpretation suggestion_accept: user_route "suggestion_accept_POST zod" "suggestion_accept_body zod" for zod
  by unfold_locales (simp_all add: suggestion_accept_POST_def suggestion_accept_body_def)

interpretation export_read: user_route "export_GET localeDate zod" "export_GET_body localeDate zod" for localeDate zod
  by unfold_locales (simp_all add: export_GET_def export_GET_body_def Let_def)

interpretation export_send: user_route export_POST export_POST_body
  by unfold_locales (simp_all add: export_POST_def export_POST_body_def Let_def)

section \<open>Kept suggestions\<close>

lemma suggestions_limit_spares: "CHR '':'' \<notin> set i \<Longrightarrow> all_calls (spares (suggestions_key i)) (suggestions_limit uid)"
proof -
  assume "CHR '':'' \<notin> set i"
  then have "suggestions_key i \<noteq> suggestionsRateKey uid" by (auto simp: suggestions_key_def suggestionsRateKey_def ns_def)
  then show ?thesis by (simp add: suggestions_limit_def)
qed


text \<open>A server that keeps the suggestions of a job, and a user it does not belong to.\<close>

definition kept_world :: mem where
  "kept_world = \<lparr>m_time = 0, m_keys = [suggestions_key ''j'' \<mapsto> (VStr (stringify (suggestions_json default_suggestions)), Some 10000)]\<rparr>"

definition kept_request :: request where
  "kept_request = \<lparr>req_method = ''GET'', req_path = ''/'', req_query = [(''jobId'', ''j'')], req_headers = [], req_body = None, req_params = []\<rparr>"

abbreviation limited :: "(exn + unit) \<times> process \<times> mem" where
  "limited \<equiv> run (mem_env (\<lambda>_. RNil)) (suggestions_limit ''stranger'') node_process kept_world"


end
