(* ===== verification/Insight_Routes.thy ===== *)
theory Insight_Routes
  imports Tool_Routes
begin

text \<open>
  What the assistant tells a user about the user's writing: app/api/writeright/dna, profile,
  debrief, readability, detect-mode and the daily challenges, the contact page of the Gmail
  integration, the health check and the handler for unknown paths. Characters outside the model's
  alphabet (the dash U+2014) and the names of week days in the locale of the host are parameters.
\<close>

section \<open>dna\<close>

definition mean0 :: "rat list \<Rightarrow> rat" where
  "mean0 xs = fl (fsum xs / of_nat (max (length xs) 1))"

definition trendFor :: "rat list \<Rightarrow> string" where
  "trendFor vs =
     (if length vs < 4 then ''steady''
      else let mid = length vs div 2; delta = fl (mean0 (drop mid vs) - mean0 (take mid vs)) in
        if 1 / 2 < delta then ''improving'' else if delta < - 1 / 2 then ''declining'' else ''steady'')"

definition scoresFromOutput :: "json option \<Rightarrow> rat option" where
  "scoresFromOutput output = num_of (jopt ''clarity'' (jopt ''scores'' output))"

definition dna_key :: "string \<Rightarrow> string" where
  "dna_key uid = ns [''writeright'', ''dna'', uid]"

definition DNA_TONES :: "string list" where
  "DNA_TONES = [''Professional'', ''Friendly'', ''Concise'', ''Academic'', ''Assertive'']"

definition dna_early :: "int \<Rightarrow> json" where
  "dna_early n = JObj [(''overused_phrases'', JArr []), (''avoided_tones'', JArr []), (''preferred_mode'', JStr ''email''),
     (''clarity_trend'', JStr ''steady''), (''top_mistakes'', JArr []),
     (''strength'', JStr ''Your Writing DNA unlocks after a few more improvements.''),
     (''growth_area'', JStr ''Complete more improvements to reveal personalized coaching.''), (''ready_at'', JNum (10 - n))]"

definition top_mistakes :: "json option \<Rightarrow> string list" where
  "top_mistakes profile = take 5 (List.map_filter (\<lambda>j. as_str (Some j)) (arr_items (jopt ''top_mistakes'' profile)))"

definition named :: "string \<Rightarrow> json list \<Rightarrow> string list" where
  "named k rows = List.filter (\<lambda>n. n \<noteq> []) (meta_names k rows)"

definition avoided_tones :: "json list \<Rightarrow> string list" where
  "avoided_tones jobs = take 2 (List.filter (\<lambda>t. t \<notin> set (named ''tone'' jobs)) DNA_TONES)"

text \<open>Every mistake carries the time at which its row is built.\<close>

definition dna_view :: "string \<Rightarrow> int list \<Rightarrow> json option \<Rightarrow> json list \<Rightarrow> json" where
  "dna_view dash ts profile jobs = JObj
     [(''overused_phrases'', JArr (map JStr (take 3 (top_mistakes profile)))),
      (''avoided_tones'', JArr (map JStr (avoided_tones jobs))),
      (''preferred_mode'', JStr (or_else (dominant (tally (named ''mode'' jobs))) ''email'')),
      (''clarity_trend'', JStr (trendFor (List.map_filter (\<lambda>j. scoresFromOutput (jfield ''output'' j)) jobs))),
      (''top_mistakes'', JArr (map (\<lambda>(m, t). JObj [(''mistake'', JStr m), (''count'', JNum 1), (''last_seen'', JStr (toISOString t))])
         (zip (top_mistakes profile) ts))),
      (''strength'', JStr (''Friendly and clear '' @ dash @ '' your messages are easy to respond to.'')),
      (''growth_area'', JStr (if ''Assertive'' \<in> set (avoided_tones jobs)
         then ''Try assertive tone for requests where the next step matters.''
         else ''Keep tightening long sentences before you submit.'')),
      (''ready_at'', JNum 0)]"

definition dna_GET_body :: "string \<Rightarrow> request \<Rightarrow> string \<Rightarrow> response prog" where
  "dna_GET_body dash req uid =
     bnd (kept_json (dna_key uid)) (\<lambda>c. case c of
       Some j \<Rightarrow> Ret (ok_value j)
     | None \<Rightarrow>
        sq getSupabaseAdmin
        (bnd (promise_both
           (db (Query ''writeright_writing_profiles'' (Select ''top_mistakes, improvement_count'')
              [Eq ''user_id'' (JStr uid), IsNull ''deleted_at''] [] MaybeSingle))
           (db (Query ''writeright_ai_jobs'' (Select ''metadata, output, created_at'')
              [Eq ''user_id'' (JStr uid), Eq ''status'' (JStr ''completed''), IsNull ''deleted_at'']
              [Order ''created_at'' True, Limit 200] Many))) (\<lambda>(p, j).
         let profile = db_data p; jobs = row_list j;
             n = max (int_or 0 (jopt ''improvement_count'' profile)) (int (length jobs)) in
         if n < 10 then Ret (ok_value (dna_early n))
         else bnd (mapM (\<lambda>_. now) (top_mistakes profile)) (\<lambda>ts.
           let response = dna_view dash ts profile jobs in
           sq (keep_json (dna_key uid) 86400 response) (Ret (ok_value response))))))"

definition dna_GET :: "string \<Rightarrow> request \<Rightarrow> response prog" where
  "dna_GET dash req = withErrorHandler req (authed (dna_GET_body dash req))"

section \<open>profile\<close>

definition profile_key :: "string \<Rightarrow> string" where
  "profile_key uid = ns [''writeright'', ''profile'', uid]"

definition profile_view :: "json option \<Rightarrow> json" where
  "profile_view d = JObj
     [(''top_mistakes'', case jopt ''top_mistakes'' d of Some (JArr js) \<Rightarrow> JArr js | _ \<Rightarrow> JArr []),
      (''improvement_count'', if is_num (jopt ''improvement_count'' d) then jval (jopt ''improvement_count'' d) else JNum 0)]"

definition profile_GET_body :: "request \<Rightarrow> string \<Rightarrow> response prog" where
  "profile_GET_body req uid =
     kept_or (profile_key uid)
       (sq getSupabaseAdmin
       (bnd (db (Query ''writeright_writing_profiles'' (Select ''top_mistakes, improvement_count'')
              [Eq ''user_id'' (JStr uid), IsNull ''deleted_at''] [] MaybeSingle)) (\<lambda>r.
        case db_err r of
          Some e \<Rightarrow> Throw (createApiErrorM DB_ERROR ''Failed to fetch writing profile'' (Some 500)
            \<lparr>meta_headers = None, meta_fields = [(''error'', JObj [(''code'', JStr (db_code e)), (''message'', JStr (db_message e))])]\<rparr>)
        | None \<Rightarrow> let response = profile_view (db_data r) in
            sq (keep (profile_key uid) 300 response) (Ret (ok_value response)))))"

definition profile_GET :: "request \<Rightarrow> response prog" where
  "profile_GET req = withErrorHandler req (authed (profile_GET_body req))"

section \<open>debrief\<close>

text \<open>Monday, 0:00 local time.\<close>

definition weekStart :: "int \<Rightarrow> int \<Rightarrow> int" where
  "weekStart local t =
     (let day = int (weekday (t + local)); diff = (day + 6) mod 7
      in (local_day local t - diff) * DAY_MS - local)"

definition nextMondayTtl :: "int \<Rightarrow> int prog" where
  "nextMondayTtl local = bnd now (\<lambda>t. bnd now (\<lambda>t'. Ret (max 60 ((weekStart local t + 7 * DAY_MS - t') div 1000))))"

definition debrief_key :: "string \<Rightarrow> string \<Rightarrow> string" where
  "debrief_key uid day = ns [''writeright'', ''debrief'', uid, day]"

definition row_score :: "json \<Rightarrow> rat option" where
  "row_score row =
     (let scores = (if is_object (jfield ''output'' row) then jopt ''scores'' (jfield ''output'' row) else None);
          v = (\<lambda>k. case num_of (jopt k scores) of Some q \<Rightarrow> q | None \<Rightarrow> 0)
      in if \<not> is_object scores then None
         else Some (fl (fl (fl (fl (0 + v ''clarity'') + v ''tone'') + v ''impact'') / 3)))"

definition week_score :: "json list \<Rightarrow> rat" where
  "week_score rows = avg_of (List.map_filter row_score rows)"

definition completed_between :: "string \<Rightarrow> string \<Rightarrow> filter list \<Rightarrow> query" where
  "completed_between uid cols fs = Query ''writeright_ai_jobs'' (Select cols)
     ([Eq ''user_id'' (JStr uid), Eq ''status'' (JStr ''completed''), IsNull ''deleted_at''] @ fs) [] Many"

definition debrief_view :: "string \<Rightarrow> string \<Rightarrow> string \<Rightarrow> json list \<Rightarrow> json list \<Rightarrow> json" where
  "debrief_view dash day dayName current prior =
     (let total = int (length current) in JObj
      [(''week_start'', JStr day), (''total_improvements'', JNum total),
       (''best_session'', JStr (if 0 < total then dayName @ '' '' @ dash @ '' '' @ show_int total @ '' improvements this week'' else [])),
       (''top_mistake_fixed'', JStr ''You made your writing clearer and easier to act on.''),
       (''score_improvement'', mk_num (tenths (fl (week_score current - week_score prior))) 1),
       (''coach_message'', JStr (if 3 \<le> total
          then ''Strong week. Keep aiming for one clear ask and one crisp next step in every draft.''
          else ''Do three improvements this week to unlock a personalized coaching debrief.'')),
       (''ready'', JBool (3 \<le> total))])"

text \<open>The day that is named is that of the first row, or today.\<close>

definition session_day :: "int \<Rightarrow> json list \<Rightarrow> int option prog" where
  "session_day local rows = (case rows of
     [] \<Rightarrow> Ret None
   | r # _ \<Rightarrow> (case jfield ''created_at'' r of
       None \<Rightarrow> bnd now (\<lambda>t. Ret (Some t)) | Some JNull \<Rightarrow> bnd now (\<lambda>t. Ret (Some t)) | Some c \<Rightarrow> Ret (date_of_json local c)))"

definition debrief_GET_body :: "string \<Rightarrow> (int option \<Rightarrow> string) \<Rightarrow> request \<Rightarrow> string \<Rightarrow> response prog" where
  "debrief_GET_body dash dayName req uid =
     bnd now (\<lambda>t. bnd local_offset (\<lambda>local.
     let start = weekStart local t; day = dateKey start in
     bnd (kept_json (debrief_key uid day)) (\<lambda>c. case c of
       Some j \<Rightarrow> Ret (ok_value j)
     | None \<Rightarrow>
        sq getSupabaseAdmin
        (bnd (promise_both
           (db (completed_between uid ''output, metadata, created_at'' [Gte ''created_at'' (JStr (toISOString start))]))
           (db (completed_between uid ''output'' [Gte ''created_at'' (JStr (toISOString (start - 7 * DAY_MS))),
              Lt ''created_at'' (JStr (toISOString start))]))) (\<lambda>(cur, pri).
         bnd (session_day local (row_list cur)) (\<lambda>d.
         let response = debrief_view dash day (dayName d) (row_list cur) (row_list pri) in
         bnd isCircuitOpen (\<lambda>op.
         sq (if op then Ret ()
             else sq getRedisPool (bnd (nextMondayTtl local) (\<lambda>ttl.
               attempt (redis_unit (SETEX (debrief_key uid day) ttl (stringify response))))))
         (Ret (ok_value response)))))))))"

definition debrief_GET :: "string \<Rightarrow> (int option \<Rightarrow> string) \<Rightarrow> request \<Rightarrow> response prog" where
  "debrief_GET dash dayName req = withErrorHandler req (authed (debrief_GET_body dash dayName req))"

section \<open>readability\<close>

definition vowel :: "char \<Rightarrow> bool" where
  "vowel c \<longleftrightarrow> c \<in> set ''aeiouy''"

text \<open>\<open>word.replace(/(?:[^laeiouy]es|ed|[^laeiouy]e)$/, "")\<close>, on the reversed word.\<close>

fun drop_ending :: "string \<Rightarrow> string" where
  "drop_ending (a # b # c # w) =
     (if a = CHR ''s'' \<and> b = CHR ''e'' \<and> \<not> vowel c \<and> c \<noteq> CHR ''l'' then w
      else if a = CHR ''d'' \<and> b = CHR ''e'' then c # w
      else if a = CHR ''e'' \<and> \<not> vowel b \<and> b \<noteq> CHR ''l'' then c # w
      else a # b # c # w)"
| "drop_ending w = w"

text \<open>The number of matches of \<open>/[aeiouy]{1,2}/g\<close>.\<close>

fun vowel_groups :: "string \<Rightarrow> nat" where
  "vowel_groups [] = 0"
| "vowel_groups [c] = (if vowel c then 1 else 0)"
| "vowel_groups (c # d # w) =
     (if vowel c then (if vowel d then Suc (vowel_groups w) else Suc (vowel_groups (d # w))) else vowel_groups (d # w))"

definition countSyllables :: "string \<Rightarrow> nat" where
  "countSyllables word =
     (let w = List.filter is_lower (toLowerCase word) in
      if w = [] then 0
      else if length w \<le> 3 then 1
      else let v = rev (drop_ending (rev w)); u = (case v of c # r \<Rightarrow> if c = CHR ''y'' then r else v | [] \<Rightarrow> []) in
        if vowel_groups u = 0 then 1 else vowel_groups u)"

definition count_or_1 :: "string list \<Rightarrow> int" where
  "count_or_1 xs = (let n = int (length (List.filter (\<lambda>x. trim x \<noteq> []) xs)) in if n = 0 then 1 else n)"

text \<open>\<open>Math.round(q * 10) / 10\<close>, printed.\<close>

definition one_decimal :: "rat \<Rightarrow> json" where
  "one_decimal q = mk_num (tenths q) 1"

definition fleschScore :: "rat \<Rightarrow> rat \<Rightarrow> rat" where
  "fleschScore len syl = fl (fl (fl (206835 / 1000) - fl (fl (1015 / 1000) * len)) - fl (fl (846 / 10) * syl))"

definition gradeLevel :: "rat \<Rightarrow> rat \<Rightarrow> rat" where
  "gradeLevel len syl = fl (fl (fl (fl (39 / 100) * len) + fl (fl (118 / 10) * syl)) - fl (1559 / 100))"

definition score_label :: "rat \<Rightarrow> string" where
  "score_label sc = (if 90 \<le> sc then ''Very Easy'' else if 80 \<le> sc then ''Easy'' else if 60 \<le> sc then ''Standard''
     else if 30 \<le> sc then ''Difficult'' else ''Very Difficult'')"

definition readability_json :: "int \<Rightarrow> string \<Rightarrow> json \<Rightarrow> json \<Rightarrow> json \<Rightarrow> string list \<Rightarrow> (string \<times> json) list" where
  "readability_json sc label grade len syl tips = [(''score'', JNum sc), (''label'', JStr label), (''grade_level'', grade),
     (''avg_sentence_length'', len), (''avg_syllables_per_word'', syl), (''suggestions'', JArr (map JStr tips))]"

definition calculateFleschKincaid :: "string \<Rightarrow> (string \<times> json) list" where
  "calculateFleschKincaid txt =
     (if trim txt = [] then readability_json 0 ''Very Difficult'' (JNum 0) (JNum 0) (JNum 0) [''Add a sentence to analyze readability.'']
      else let sentences = count_or_1 (split_runs (\<lambda>c. c \<in> set ''.!?'') txt);
               wordsArray = List.filter (\<lambda>w. trim w \<noteq> []) (split_runs is_ws txt);
               ws = (if wordsArray = [] then 1 else int (length wordsArray));
               syllables = int (sum_list (map countSyllables wordsArray));
               len = fl (of_int ws / of_int sentences); syl = fl (of_int syllables / of_int ws);
               sc = fleschScore len syl
           in readability_json (max 0 (min 100 (js_round sc))) (score_label sc) (one_decimal (max 0 (gradeLevel len syl)))
                (one_decimal len) (one_decimal syl)
                (take 3 ((if 22 < len then [''Split long sentences into shorter ones.''] else []) @
                   (if fl (18 / 10) < syl then [''Swap complex words for simpler alternatives.''] else []) @
                   (if sc < 60 then [''Put the main point earlier in the paragraph.''] else []))))"

definition readability_body :: "request \<Rightarrow> string \<Rightarrow> response prog" where
  "readability_body req uid =
     bnd (json_body req invalid_body) (\<lambda>body.
     bnd (body_member ''text'' body) (\<lambda>v. case v of
       Some (JStr x) \<Rightarrow> Ret (ok_json (calculateFleschKincaid (take 10000 x)))
     | _ \<Rightarrow> Throw (createApiError VALIDATION_ERROR ''Text is required'' 400)))"

definition readability_POST :: "request \<Rightarrow> response prog" where
  "readability_POST req = withErrorHandler req (authed (readability_body req))"

section \<open>detect-mode\<close>

text \<open>The expressions, on a text in lower case. \<open>before\<close> is the character before a position.\<close>

fun somewhere :: "(char option \<Rightarrow> string \<Rightarrow> bool) \<Rightarrow> char option \<Rightarrow> string \<Rightarrow> bool" where
  "somewhere P before [] = P before []"
| "somewhere P before (c # cs) = (P before (c # cs) \<or> somewhere P (Some c) cs)"

definition occurs :: "string \<Rightarrow> string \<Rightarrow> bool" where
  "occurs pat txt = somewhere (\<lambda>_ r. startsWith r pat) None txt"

definition wordish :: "char option \<Rightarrow> bool" where
  "wordish c = (case c of Some x \<Rightarrow> is_word x | None \<Rightarrow> False)"

text \<open>A phrase between word boundaries; its first and last characters are word characters.\<close>

definition occurs_word :: "string \<Rightarrow> string \<Rightarrow> bool" where
  "occurs_word pat txt = somewhere (\<lambda>before r. startsWith r pat \<and> \<not> wordish before \<and>
     \<not> wordish (case drop (length pat) r of c # _ \<Rightarrow> Some c | [] \<Rightarrow> None)) None txt"

text \<open>\<open>/^(to|from|subject|cc|bcc)\s*:/im\<close>, \<open>/dear\s+\w/i\<close> and \<open>/^(hi|hey|hello)[!?]?\s/i\<close>.\<close>

definition header_line :: "string \<Rightarrow> bool" where
  "header_line txt = somewhere (\<lambda>before r. (before = None \<or> before = Some nl \<or> before = Some (CHR 0x0D)) \<and>
     list_ex (\<lambda>h. startsWith r h \<and> startsWith (dropWhile is_ws (drop (length h) r)) '':'') [''to'', ''from'', ''subject'', ''cc'', ''bcc'']) None txt"

definition dear_someone :: "string \<Rightarrow> bool" where
  "dear_someone txt = somewhere (\<lambda>_ r. startsWith r ''dear'' \<and>
     (case drop 4 r of c # cs \<Rightarrow> is_ws c \<and> (case dropWhile is_ws cs of d # _ \<Rightarrow> is_word d | [] \<Rightarrow> False) | [] \<Rightarrow> False)) None txt"

definition greeting :: "string \<Rightarrow> bool" where
  "greeting txt = list_ex (\<lambda>h. startsWith txt h \<and>
     (case drop (length h) txt of
        c # cs \<Rightarrow> is_ws c \<or> c \<in> set ''!?'' \<and> (case cs of d # _ \<Rightarrow> is_ws d | [] \<Rightarrow> False)
      | [] \<Rightarrow> False)) [''hi'', ''hey'', ''hello'']"

text \<open>\<open>/#\w+/g.test(text)\<close>: a global expression searches from its \<open>lastIndex\<close> and leaves it behind the
  match, or at zero when there is none.\<close>

fun hashtag_from :: "nat \<Rightarrow> string \<Rightarrow> nat option" where
  "hashtag_from i [] = None"
| "hashtag_from i (c # cs) =
     (if c = CHR ''#'' \<and> takeWhile is_word cs \<noteq> [] then Some (i + 1 + length (takeWhile is_word cs)) else hashtag_from (Suc i) cs)"

definition hashtag_test :: "string \<Rightarrow> bool prog" where
  "hashtag_test txt = GetS (\<lambda>s.
     let i = hashtag_at s in
     case (if length txt < i then None else hashtag_from i (drop i txt)) of
       Some j \<Rightarrow> PutS (s\<lparr>hashtag_at := j\<rparr>) (Ret True)
     | None \<Rightarrow> PutS (s\<lparr>hashtag_at := 0\<rparr>) (Ret False))"

definition matches :: "bool list \<Rightarrow> int" where
  "matches bs = int (length (List.filter (\<lambda>b. b) bs))"

definition best_mode :: "(string \<times> int) list \<Rightarrow> string option \<times> int" where
  "best_mode ms = foldl (\<lambda>(m, best) (mode, n). if best < n then (Some mode, n) else (m, best)) (None, 0) ms"

definition detect_mode :: "string \<Rightarrow> (string option \<times> int) prog" where
  "detect_mode txt =
     (let t = toLowerCase txt;
          email = matches [header_line t, dear_someone t, occurs ''regards,'' t, occurs ''sincerely,'' t];
          whatsapp = matches [greeting t, occurs_word ''btw'' t, occurs_word ''asap'' t, occurs_word ''u there'' t] in
      bnd (hashtag_test txt) (\<lambda>tag.
      let linkedin = matches [tag, occurs ''excited to announce'' t, occurs ''thrilled to share'' t, occurs_word ''my network'' t] in
      Ret (best_mode [(''email'', email), (''linkedin'', linkedin), (''whatsapp'', whatsapp)])))"

definition detect_mode_body :: "request \<Rightarrow> string \<Rightarrow> response prog" where
  "detect_mode_body req uid =
     bnd (json_body req invalid_body) (\<lambda>body.
     case jfield ''text'' body of
       Some (JStr x) \<Rightarrow> bnd (detect_mode (take 200 x)) (\<lambda>(mode, best).
         Ret (ok_json [(''detected_mode'', if 2 \<le> best then (case mode of Some m \<Rightarrow> JStr m | None \<Rightarrow> JNull) else JNull),
           (''confidence'', mk_num (25 * best) 2)]))
     | _ \<Rightarrow> Throw (createApiError VALIDATION_ERROR ''Text is required'' 400))"

definition detect_mode_POST :: "request \<Rightarrow> response prog" where
  "detect_mode_POST req = withErrorHandler req (authed (detect_mode_body req))"

section \<open>Challenges\<close>

definition challenge_seed :: "string \<Rightarrow> string \<Rightarrow> string \<Rightarrow> string \<Rightarrow> string \<Rightarrow> (string \<times> json) list" where
  "challenge_seed title description mode difficulty prompt_text = [(''title'', JStr title), (''description'', JStr description),
     (''mode'', JStr mode), (''difficulty'', JStr difficulty), (''prompt_text'', JStr prompt_text)]"

definition CHALLENGES :: "(string \<times> json) list list" where
  "CHALLENGES =
     [challenge_seed ''Make the Ask Clear'' ''Rewrite a vague request into a crisp action-oriented message.'' ''email'' ''easy''
        ''Turn a vague email into a clear request with an owner and deadline.'',
      challenge_seed ''Sharper LinkedIn Update'' ''Convert a routine update into a useful professional post.'' ''linkedin'' ''medium''
        ''Write a LinkedIn update that teaches one practical lesson.'',
      challenge_seed ''Calm WhatsApp Reply'' ''Make a rushed WhatsApp reply sound warm and decisive.'' ''whatsapp'' ''easy''
        ''Rewrite a hurried message into a calm, clear reply.'']"

definition challenge_columns :: string where
  "challenge_columns = ''id, date, title, description, mode, difficulty, prompt_text''"

text \<open>The day of the date that was just printed, as in \<open>Date.parse(`${date}T00:00:00.000Z`) / 86_400_000\<close>.\<close>

definition challenge_index :: "int \<Rightarrow> nat" where
  "challenge_index t = nat (t div DAY_MS mod 3)"

definition ensureTodayChallenge :: "json prog" where
  "ensureTodayChallenge =
     sq getSupabaseAdmin
     (bnd now (\<lambda>t.
      bnd (db (Query ''writeright_daily_challenges'' (Select challenge_columns) [Eq ''date'' (JStr (dateKey t))] [] MaybeSingle)) (\<lambda>r.
      if truthyo (db_data r) then Ret (jval (db_data r))
      else bnd (db (Query ''writeright_daily_challenges''
             (Insert (JObj ((''date'', JStr (dateKey t)) # CHALLENGES ! challenge_index t))) [] [Returning challenge_columns] Single)) (\<lambda>r'.
        if db_missing r' then Throw (db_failed ''Failed to load challenge'') else Ret (jval (db_data r'))))))"

definition completions :: "db_op \<Rightarrow> json \<Rightarrow> filter list \<Rightarrow> db_mod list \<Rightarrow> db_mode \<Rightarrow> query" where
  "completions opn challengeId fs ms md = Query ''writeright_challenge_completions'' opn (Eq ''challenge_id'' challengeId # fs) ms md"

definition challenge_GET_body :: "request \<Rightarrow> string \<Rightarrow> response prog" where
  "challenge_GET_body req uid =
     sq getSupabaseAdmin
     (bnd ensureTodayChallenge (\<lambda>challenge.
      let i = jval (jfield ''id'' challenge) in
      bnd (promise_all (map db
        [completions (Select ''id'') i [] [] CountHead,
         completions (Select ''score'') i [] [Order ''score'' False, Limit 1] Many,
         completions (Select ''score'') i [Eq ''user_id'' (JStr uid)] [] MaybeSingle])) (\<lambda>rs.
      let top = (case row_list (rs ! 1) of r # _ \<Rightarrow> jfield ''score'' r | [] \<Rightarrow> None); mine = db_data (rs ! 2) in
      Ret (ok_json (member ''challenge_id'' (jfield ''id'' challenge) @ pick [''title'', ''description'', ''mode'', ''difficulty''] challenge
        @ [(''completions_today'', JNum (or_else (db_count (rs ! 0)) 0)), (''top_score_today'', nullish top (JNum 0)),
           (''user_completed'', JBool (truthyo mine))] @ member ''user_score'' (jopt ''score'' mine))))))"

definition challenge_GET :: "request \<Rightarrow> response prog" where
  "challenge_GET req = withErrorHandler req (authed (challenge_GET_body req))"

definition anonymousName :: "nat \<Rightarrow> string" where
  "anonymousName rank = ''Writer #'' @ show_nat rank"

definition is_mine :: "string \<Rightarrow> json \<Rightarrow> bool" where
  "is_mine uid row \<longleftrightarrow> jfield ''user_id'' row = Some (JStr uid)"

definition find_index :: "('a \<Rightarrow> bool) \<Rightarrow> 'a list \<Rightarrow> nat option" where
  "find_index P xs = (let n = length (takeWhile (\<lambda>x. \<not> P x) xs) in if n < length xs then Some n else None)"

definition leaderboard_entry :: "string \<Rightarrow> nat \<times> json \<Rightarrow> json" where
  "leaderboard_entry uid e = (case e of (i, row) \<Rightarrow>
     JObj ([(''rank'', JNum (int i + 1)), (''display_name'', JStr (if is_mine uid row then ''You'' else anonymousName (i + 1)))]
       @ member ''score'' (jfield ''score'' row) @ member ''improved_at'' (jfield ''completed_at'' row)))"

definition leaderboard_view :: "string \<Rightarrow> json list \<Rightarrow> (string \<times> json) list" where
  "leaderboard_view uid rows =
     [(''entries'', JArr (map (leaderboard_entry uid) (zip [0..<length (take 10 rows)] (take 10 rows))))]
     @ (case find_index (is_mine uid) rows of
          Some i \<Rightarrow> [(''user_entry'', JObj ((''rank'', JNum (int i + 1)) # member ''score'' (jfield ''score'' (rows ! i))))]
        | None \<Rightarrow> [])"

definition leaderboard_GET_body :: "request \<Rightarrow> string \<Rightarrow> response prog" where
  "leaderboard_GET_body req uid =
     sq getSupabaseAdmin
     (bnd now (\<lambda>t.
      bnd (db (Query ''writeright_daily_challenges'' (Select ''id'') [Eq ''date'' (JStr (dateKey t))] [] MaybeSingle)) (\<lambda>c.
      if \<not> truthyo (db_data c) then Ret (ok_json [(''entries'', JArr [])])
      else bnd (db_many (completions (Select ''user_id, score, completed_at'') (jval (jopt ''id'' (db_data c))) []
             [Order ''score'' False, Order ''completed_at'' True, Limit 100] Many) ''Failed to load leaderboard'') (\<lambda>r.
        Ret (ok_json (leaderboard_view uid (row_list r)))))))"

definition leaderboard_GET :: "request \<Rightarrow> response prog" where
  "leaderboard_GET req = withErrorHandler req (authed (leaderboard_GET_body req))"

definition ChallengeBodySchema :: zschema where
  "ChallengeBodySchema = [(''jobId'', z_uuid, ZRequired)]"

text \<open>A sum of scores: of integers and decimals the exact sum, as printed.\<close>

definition scoreFromOutput :: "json option \<Rightarrow> json" where
  "scoreFromOutput output =
     (let row = jopt ''scores'' output;
          v = (\<lambda>k. if is_num (jopt k row) then jopt k row else Some (JNum 0))
      in js_plus (Some (js_plus (v ''clarity'') (v ''tone''))) (v ''impact''))"

definition rank_of :: "string \<Rightarrow> json list \<Rightarrow> int" where
  "rank_of uid rows = (case find_index (is_mine uid) rows of Some i \<Rightarrow> int i + 1 | None \<Rightarrow> int (length rows))"

definition percentile_of :: "string \<Rightarrow> json list \<Rightarrow> int" where
  "percentile_of uid rows = (if rows = [] then 100 else percent_of (int (length rows) - rank_of uid rows + 1) (int (length rows)))"

definition challenge_complete_body :: "zparser \<Rightarrow> request \<Rightarrow> string \<Rightarrow> response prog" where
  "challenge_complete_body zod req uid =
     (let i = param_get req ''id'' in
      if \<not> validateUuid i then Throw (createApiError VALIDATION_ERROR ''Invalid challenge id'' 400)
      else bnd (parsed zod ChallengeBodySchema (case req_body req of Some j \<Rightarrow> j | None \<Rightarrow> JNull)) (\<lambda>ps.
        sq getSupabaseAdmin
        (bnd (db (Query ''writeright_ai_jobs'' (Select ''id, output, status'')
               [Eq ''id'' (JStr (zstr ''jobId'' ps)), Eq ''user_id'' (JStr uid), Eq ''status'' (JStr ''completed''), IsNull ''deleted_at''] [] Single)) (\<lambda>j.
         if db_missing j then Throw job_missing
         else let sc = scoreFromOutput (jopt ''output'' (db_data j)) in
           bnd now (\<lambda>t.
           bnd (db_many (Query ''writeright_challenge_completions''
                  (Upsert (JObj ([(''challenge_id'', JStr i), (''user_id'', JStr uid)] @ member ''job_id'' (jopt ''id'' (db_data j))
                     @ [(''score'', sc), (''completed_at'', JStr (toISOString t))])) ''challenge_id,user_id'' False) [] [] Many)
                  ''Failed to save challenge completion'') (\<lambda>_.
           bnd (db (completions (Select ''user_id, score'') (JStr i) []
                  [Order ''score'' False, Order ''completed_at'' True, Limit 1000] Many)) (\<lambda>l.
           Ret (ok_json [(''rank'', JNum (rank_of uid (row_list l))), (''score'', sc),
             (''percentile'', JNum (percentile_of uid (row_list l)))]))))))))"

definition challenge_complete_POST :: "zparser \<Rightarrow> request \<Rightarrow> response prog" where
  "challenge_complete_POST zod req = withErrorHandler req (authed (challenge_complete_body zod req))"

section \<open>gmail/contact\<close>

definition contact_prompt :: string where
  "contact_prompt = ''You are an AI assistant. Given a history of email snippets exchanged with a contact, write a 2-sentence summary of the relationship, dominant topic, and outstanding matters. Keep it professional.''"

definition contact_name :: "string \<Rightarrow> json list \<Rightarrow> json option" where
  "contact_name email rows = (case rows of r # _ \<Rightarrow> jfield ''sender_name'' r | [] \<Rightarrow> Some (JStr (hd (split_on (\<lambda>c. c = CHR ''@'') email))))"

definition active_thread :: "string \<Rightarrow> json list \<Rightarrow> string" where
  "active_thread email rows = ''Active thread with '' @ literal (contact_name email rows) @ '' regarding ''
     @ quoted (literal (jfield ''subject'' (hd rows))) @ ''. You typically exchange emails every few days.''"

definition contact_snippets :: "json list \<Rightarrow> string" where
  "contact_snippets rows = join [nl, nl] (map (\<lambda>e. ''Subject: '' @ literal (jfield ''subject'' e) @ [nl]
     @ ''Snippet: '' @ literal (jfield ''snippet'' e)) (take 5 rows))"

definition contact_summary :: "string \<Rightarrow> json list \<Rightarrow> string prog" where
  "contact_summary email rows =
     (let name = literal (contact_name email rows);
          plain = ''You have exchanged '' @ show_nat (length rows) @ '' emails with '' @ name @ ''. No active discussions are recorded in WriteRight.'' in
      if rows = [] then Ret plain
      else bnd (get_env ''GOOGLE_AI_STUDIO_API_KEY'') (\<lambda>apiKey.
        if missing apiKey then Ret (active_thread email rows)
        else catch (summarize (chat_request (the apiKey) contact_prompt
               (''CONTACT: '' @ name @ '' <'' @ email @ ''>'' @ [nl, nl] @ ''SNIPPETS:'' @ [nl] @ contact_snippets rows) 120 (JDec 3 1)) plain)
             (\<lambda>_. Ret (active_thread email rows))))"

definition last_contact :: "int \<Rightarrow> json list \<Rightarrow> json prog" where
  "last_contact local rows = (case rows of
     [] \<Rightarrow> Ret (JNum 4)
   | r # _ \<Rightarrow> if \<not> truthyo (jfield ''imported_at'' r) then Ret (JNum 4)
       else bnd now (\<lambda>t. Ret (case Option.bind (jfield ''imported_at'' r) (date_of_json local) of
           Some t' \<Rightarrow> JNum (max 0 ((t - t') div DAY_MS)) | None \<Rightarrow> JNull)))"

definition contact_GET_body :: "request \<Rightarrow> string \<Rightarrow> response prog" where
  "contact_GET_body req uid =
     (let email = param_get req ''email'' in
      if CHR ''@'' \<notin> set email then Throw (createApiError VALIDATION_ERROR ''Invalid contact email address'' 400)
      else sq getSupabaseAdmin
       (bnd (db_many (Query ''gmail_imported_emails'' (Select ''*'') [Eq ''clerk_user_id'' (JStr uid), Eq ''sender_email'' (JStr email)]
              [Order ''imported_at'' False] Many) ''Failed to query contact history logs'') (\<lambda>r.
        let rows = row_list r; n = length rows in
        bnd local_offset (\<lambda>local. bnd (last_contact local rows) (\<lambda>days.
        bnd (contact_summary email rows) (\<lambda>summary.
        Ret (ok_json ([(''email'', JStr email)] @ member ''name'' (contact_name email rows)
          @ [(''emailsExchanged'', JNum (int n + 4)), (''avgResponseHours'', if 2 < n then JDec 18 1 else JDec 35 1),
             (''toneBadges'', JArr (map JStr (if 3 < n then [''Responsive'', ''Professional'', ''High Engagement''] else [''Professional'']))),
             (''lastContactedDays'', days), (''aiSummary'', JStr summary)]))))))))"

definition contact_GET :: "request \<Rightarrow> response prog" where
  "contact_GET req = withErrorHandler req (authed (contact_GET_body req))"

section \<open>health and unknown paths\<close>

text \<open>The latency of a probe that succeeds in time; \<open>performance.now()\<close> is the clock in milliseconds.\<close>

definition redis_probe :: "int option prog" where
  "redis_probe = catch
     (bnd isCircuitOpen (\<lambda>op.
      if op then Ret None
      else bnd now (\<lambda>start. sq (withTimeout (sq getRedisPool (redis_unit PING)) 500 ''Redis ping'')
        (bnd now (\<lambda>t. Ret (Some (t - start)))))))
     (\<lambda>_. Ret None)"

definition supabase_probe :: "(int \<times> bool) option prog" where
  "supabase_probe = catch
     (bnd now (\<lambda>start.
      sq getSupabaseAdmin
      (bnd (withTimeout (db (Query ''writeright_chats'' (Select ''id'') [] [Limit 1] Many)) 1000 ''Supabase query'') (\<lambda>r.
       bnd now (\<lambda>t. Ret (Some (t - start, db_err r = None)))))))
     (\<lambda>_. Ret None)"

definition queue_sizes :: "(int \<times> int) prog" where
  "queue_sizes = catch
     (sq getRedisPool (promise_both (redis_int (ZCARD jobsKey)) (redis_int (ZCARD (ns [''writeright'', ''jobs'', ''dead''])))))
     (\<lambda>_. Ret (-1, -1))"

definition health_status :: "bool \<Rightarrow> bool \<Rightarrow> string" where
  "health_status redisOk supabaseOk = (if \<not> redisOk \<and> \<not> supabaseOk then ''down''
     else if \<not> redisOk \<or> \<not> supabaseOk then ''degraded'' else ''ok'')"

definition health_GET_body :: "request \<Rightarrow> string \<Rightarrow> response prog" where
  "health_GET_body req uid =
     bnd redis_probe (\<lambda>rp.
     bnd (if rp = None then Ret (-1, -1) else queue_sizes) (\<lambda>(depth, dead).
     bnd supabase_probe (\<lambda>sp.
     bnd now (\<lambda>t.
     let redisOk = (rp \<noteq> None); supabaseOk = (case sp of Some (l, ok) \<Rightarrow> ok | None \<Rightarrow> False);
         status = health_status redisOk supabaseOk in
     Ret (json_response (if status = ''ok'' then 200 else 503) [(''Cache-Control'', ''no-store, no-cache, must-revalidate'')]
       [(''status'', JStr status),
        (''checks'', JObj [(''redis'', JBool redisOk), (''supabase'', JBool supabaseOk), (''queue_depth'', JNum depth),
           (''dead_letter_count'', JNum dead)]),
        (''latency'', JObj [(''redis'', JNum (or_else rp (-1))), (''supabase'', JNum (case sp of Some (l, ok) \<Rightarrow> l | None \<Rightarrow> -1))]),
        (''ts'', JStr (toISOString t))])))))"

definition health_GET :: "request \<Rightarrow> response prog" where
  "health_GET req = withErrorHandler req (authed (health_GET_body req))"

definition unknown_route :: "request \<Rightarrow> response prog" where
  "unknown_route req = withErrorHandler req
     (sq (attempt (sq get_session (Ret ())))
       (Ret (json_response 404 [(''Content-Type'', ''application/json''), (''X-Robots-Tag'', ''noindex'')]
         [(''error'', JStr ''NOT_FOUND''), (''message'', JStr ''This WriteRight endpoint does not exist.''),
          (''docs'', JStr ''https://brainmate.ai/docs/writeright'')])))"

section \<open>The contract\<close>

lemma all_calls_insights [simp]: "all_calls P (session_day local rows)" "all_calls P (nextMondayTtl local)" "all_calls P (hashtag_test t)"
  "all_calls P (detect_mode t)" "all_calls P (last_contact local rows)"
  by (simp_all add: session_day_def nextMondayTtl_def hashtag_test_def detect_mode_def last_contact_def Let_def)

lemma all_calls_contact [simp]: "(\<And>q. P (CFetch q)) \<Longrightarrow> all_calls P (contact_summary e rows)"
  by (simp add: contact_summary_def Let_def)

interpretation dna_route: user_route "dna_GET dash" "dna_GET_body dash" for dash
  by unfold_locales (simp_all add: dna_GET_def dna_GET_body_def Let_def)

interpretation profile_route: user_route profile_GET profile_GET_body
  by unfold_locales (simp_all add: profile_GET_def profile_GET_body_def Let_def)

interpretation debrief_route: user_route "debrief_GET dash dayName" "debrief_GET_body dash dayName" for dash dayName
  by unfold_locales (simp_all add: debrief_GET_def debrief_GET_body_def completed_between_def Let_def)

interpretation readability_route: user_route readability_POST readability_body
  by unfold_locales (simp_all add: readability_POST_def readability_body_def)

interpretation detect_route: user_route detect_mode_POST detect_mode_body
  by unfold_locales (simp_all add: detect_mode_POST_def detect_mode_body_def)

interpretation contact_route: user_route contact_GET contact_GET_body
  by unfold_locales (simp_all add: contact_GET_def contact_GET_body_def Let_def)

text \<open>The daily challenge and the probes of the services concern everybody: these handlers ask for a user,
  but their queries are not confined to the user's rows.\<close>

interpretation challenge_today: authed_route challenge_GET challenge_GET_body
  by unfold_locales (simp add: challenge_GET_def)

interpretation challenge_ranking: authed_route leaderboard_GET leaderboard_GET_body
  by unfold_locales (simp add: leaderboard_GET_def)

interpretation challenge_done: authed_route "challenge_complete_POST zod" "challenge_complete_body zod" for zod
  by unfold_locales (simp add: challenge_complete_POST_def)

interpretation health_probe: authed_route health_GET health_GET_body
  by unfold_locales (simp add: health_GET_def)

section \<open>Lemmas\<close>

lemma vowel_groups_length: "vowel_groups w \<le> length w"
  by (induction w rule: vowel_groups.induct) auto

lemma countSyllables_pos: "countSyllables w = 0 \<longleftrightarrow> List.filter is_lower (toLowerCase w) = []"
  by (auto simp: countSyllables_def Let_def)

lemma find_index_less: "find_index P xs = Some i \<Longrightarrow> i < length xs \<and> P (xs ! i)"
  using nth_length_takeWhile [of "\<lambda>x. \<not> P x" xs] by (auto simp: find_index_def Let_def split: if_splits)

text \<open>The leaderboard does not depend on the identities of the other users.\<close>

definition blind :: "string \<Rightarrow> json \<Rightarrow> bool \<times> json option \<times> json option" where
  "blind uid row = (is_mine uid row, jfield ''score'' row, jfield ''completed_at'' row)"

lemma find_index_blind:
  assumes "map (blind uid) rows = map (blind uid) rows'"
  shows "find_index (is_mine uid) rows = find_index (is_mine uid) rows'"
proof -
  have mine: "map (is_mine uid) rows = map (is_mine uid) rows'"
    using arg_cong [OF assms, of "map fst"] by (simp add: comp_def blind_def)
  have "length (takeWhile (\<lambda>x. \<not> is_mine uid x) xs) = length (takeWhile Not (map (is_mine uid) xs))" for xs
    by (simp add: takeWhile_map comp_def)
  then show ?thesis using mine map_eq_imp_length_eq [OF assms] by (simp add: find_index_def)
qed

lemma leaderboard_blind:
  assumes "map (blind uid) rows = map (blind uid) rows'"
  shows "leaderboard_view uid rows = leaderboard_view uid rows'"
proof -
  have len: "length rows = length rows'" using map_eq_imp_length_eq [OF assms] .
  have eq: "blind uid (rows ! i) = blind uid (rows' ! i)" if "i < length rows" for i
    using that assms by (metis len nth_map)
  have entry: "leaderboard_entry uid (i, rows ! i) = leaderboard_entry uid (i, rows' ! i)" if "i < length rows" for i
    using eq [OF that] by (simp add: leaderboard_entry_def blind_def)
  have "map (leaderboard_entry uid) (zip [0..<length (take 10 rows)] (take 10 rows)) =
      map (leaderboard_entry uid) (zip [0..<length (take 10 rows')] (take 10 rows'))"
    using entry by (intro nth_equalityI) (simp_all add: len)
  moreover have "jfield ''score'' (rows ! i) = jfield ''score'' (rows' ! i)" if "find_index (is_mine uid) rows = Some i" for i
    using eq find_index_less [OF that] by (simp add: blind_def)
  ultimately show ?thesis using find_index_blind [OF assms]
    by (simp add: leaderboard_view_def split: option.split)
qed

lemma percentile_bounds: "0 \<le> percentile_of uid rows \<and> percentile_of uid rows \<le> 100"
proof (cases "rows = []")
  case False
  have "1 \<le> rank_of uid rows \<and> rank_of uid rows \<le> int (length rows)"
    using find_index_less [of "is_mine uid" rows] False
    by (cases rows) (auto simp: rank_of_def split: option.split)
  then show ?thesis using False
    by (simp add: percentile_of_def percent_of_bounds)
qed (simp add: percentile_of_def)

section \<open>Properties\<close>

text \<open>C29: the leaderboard gives nobody away. The answer depends on the rows of other users only through
  their scores and times: exchanging the identities of the others leaves it as it is.\<close>

theorem leaderboard_anonymous:
  assumes "map (blind uid) rows = map (blind uid) rows'"
  shows "leaderboard_view uid rows = leaderboard_view uid rows'"
  using leaderboard_blind [OF assms] .

theorem leaderboard_anonymous_witness:
  "leaderboard_view ''me'' [JObj [(''user_id'', JStr ''a''), (''score'', JNum 9)], JObj [(''user_id'', JStr ''me''), (''score'', JNum 7)]] =
   leaderboard_view ''me'' [JObj [(''user_id'', JStr ''b''), (''score'', JNum 9)], JObj [(''user_id'', JStr ''me''), (''score'', JNum 7)]]"
  by (rule leaderboard_anonymous) (simp add: blind_def is_mine_def)



end
