(* ===== verification/Regex.thy ===== *)
theory Regex
  imports Prelude
begin

text \<open>
  The regular expressions of JavaScript as far as the sources use them: a backtracking matcher that lists
  the possible matches in the order of their priority, \<open>exec\<close> from a position, the loop
  \<open>while ((match = re.exec(text)) !== null)\<close> on a global expression, and \<open>String.match\<close> with the flag
  \<open>g\<close>. The loop may run forever, when an expression matches the empty string; \<open>exec_loop\<close> is then
  \<^const>\<open>None\<close>. The lemmas show that matches lie in the text, that the loop ends for expressions that
  need a character, and that the matches it finds follow one another without overlap.
\<close>

section \<open>Expressions and matches\<close>

datatype regex =
    RLit string
  | RCls "char \<Rightarrow> bool"
  | RSeq regex regex
  | RAlt regex regex
  | RStar regex
  | RGrp nat regex
  | RBack nat
  | RWordB
  | RStart
  | REnd

text \<open>A position and the groups captured so far.\<close>

type_synonym mstate = "nat \<times> (nat \<times> nat \<times> nat) list"

definition char_eq :: "bool \<Rightarrow> char \<Rightarrow> char \<Rightarrow> bool" where
  "char_eq ci a b \<longleftrightarrow> a = b \<or> ci \<and> lower_char a = lower_char b"

text \<open>\<open>p\<close> occurs in \<open>t\<close> at \<open>i\<close>, up to case when \<open>ci\<close>.\<close>

fun lit_at :: "bool \<Rightarrow> string \<Rightarrow> string \<Rightarrow> bool" where
  "lit_at ci [] ys = True"
| "lit_at ci (x # xs) [] = False"
| "lit_at ci (x # xs) (y # ys) = (char_eq ci x y \<and> lit_at ci xs ys)"

definition word_at :: "string \<Rightarrow> nat \<Rightarrow> bool" where
  "word_at t i \<longleftrightarrow> i < length t \<and> is_word (t ! i)"

definition slice :: "string \<Rightarrow> nat \<Rightarrow> nat \<Rightarrow> string" where
  "slice t i j = take (j - i) (drop i t)"

definition captured :: "string \<Rightarrow> (nat \<times> nat \<times> nat) list \<Rightarrow> nat \<Rightarrow> string" where
  "captured t gs k = (case map_of gs k of Some (i, j) \<Rightarrow> slice t i j | None \<Rightarrow> [])"

text \<open>As many rounds as possible first; a round has to consume something.\<close>

fun greedy :: "nat \<Rightarrow> (mstate \<Rightarrow> mstate list) \<Rightarrow> mstate \<Rightarrow> mstate list" where
  "greedy 0 f st = [st]"
| "greedy (Suc n) f st = concat (map (greedy n f) (filter (\<lambda>s. fst st < fst s) (f st))) @ [st]"

text \<open>The ends of the matches that begin at a position, in the order in which they are tried. Under the
  flag \<open>i\<close> the classes of the sources are of letters in lower case or do not depend on case.\<close>

primrec match_ends :: "bool \<Rightarrow> string \<Rightarrow> regex \<Rightarrow> mstate \<Rightarrow> mstate list" where
  "match_ends ci t (RLit p) st = (if lit_at ci p (drop (fst st) t) then [(fst st + length p, snd st)] else [])"
| "match_ends ci t (RCls p) st =
     (if fst st < length t \<and> (p (t ! fst st) \<or> ci \<and> p (lower_char (t ! fst st))) then [(Suc (fst st), snd st)] else [])"
| "match_ends ci t (RSeq a b) st = concat (map (match_ends ci t b) (match_ends ci t a st))"
| "match_ends ci t (RAlt a b) st = match_ends ci t a st @ match_ends ci t b st"
| "match_ends ci t (RStar a) st = greedy (length t - fst st) (match_ends ci t a) st"
| "match_ends ci t (RGrp k a) st = map (\<lambda>s. (fst s, (k, fst st, fst s) # snd s)) (match_ends ci t a st)"
| "match_ends ci t (RBack k) st =
     (let p = captured t (snd st) k in if lit_at ci p (drop (fst st) t) then [(fst st + length p, snd st)] else [])"
| "match_ends ci t RWordB st =
     (if (fst st \<noteq> 0 \<and> word_at t (fst st - 1)) \<noteq> word_at t (fst st) then [st] else [])"
| "match_ends ci t RStart st = (if fst st = 0 then [st] else [])"
| "match_ends ci t REnd st = (if fst st = length t then [st] else [])"

text \<open>\<open>r+\<close>, a choice of several, and words between boundaries.\<close>

definition RPlus :: "regex \<Rightarrow> regex" where
  "RPlus r = RSeq r (RStar r)"

fun one_of :: "regex list \<Rightarrow> regex" where
  "one_of [] = RCls (\<lambda>_. False)"
| "one_of [r] = r"
| "one_of (r # rs) = RAlt r (one_of rs)"

fun in_turn :: "regex list \<Rightarrow> regex" where
  "in_turn [] = RLit []"
| "in_turn [r] = r"
| "in_turn (r # rs) = RSeq r (in_turn rs)"

definition words_re :: "string list \<Rightarrow> regex" where
  "words_re ws = one_of (map RLit ws)"

definition spaces :: regex where
  "spaces = RPlus (RCls is_ws)"

definition phrase :: "string \<Rightarrow> regex" where
  "phrase p = in_turn [RWordB, RLit p, RWordB]"

section \<open>exec, test and match\<close>

record pattern =
  re :: regex
  ignoreCase :: bool

record found =
  m_index :: nat
  m_end :: nat
  m_groups :: "(nat \<times> nat \<times> nat) list"

definition ends_at :: "pattern \<Rightarrow> string \<Rightarrow> nat \<Rightarrow> mstate list" where
  "ends_at p t k = match_ends (ignoreCase p) t (re p) (k, [])"

text \<open>The first position at or after \<open>i\<close> where the expression matches.\<close>

fun first_from :: "(nat \<Rightarrow> 'a list) \<Rightarrow> nat \<Rightarrow> nat \<Rightarrow> (nat \<times> 'a) option" where
  "first_from f n 0 = None"
| "first_from f i (Suc n) = (case f i of x # _ \<Rightarrow> Some (i, x) | [] \<Rightarrow> first_from f (Suc i) n)"

definition exec_from :: "pattern \<Rightarrow> string \<Rightarrow> nat \<Rightarrow> found option" where
  "exec_from p t i = (case first_from (ends_at p t) i (Suc (length t) - i) of
     Some (k, (j, gs)) \<Rightarrow> Some \<lparr>m_index = k, m_end = j, m_groups = gs\<rparr> | None \<Rightarrow> None)"

definition text_of :: "string \<Rightarrow> found \<Rightarrow> string" where
  "text_of t m = slice t (m_index m) (m_end m)"

definition group_of :: "string \<Rightarrow> found \<Rightarrow> nat \<Rightarrow> string" where
  "group_of t m k = captured t (m_groups m) k"

text \<open>\<open>re.test(text)\<close> with the flag \<open>g\<close>: the result and the new \<open>lastIndex\<close>.\<close>

definition test_g :: "pattern \<Rightarrow> string \<Rightarrow> nat \<Rightarrow> bool \<times> nat" where
  "test_g p t i = (case exec_from p t i of Some m \<Rightarrow> (True, m_end m) | None \<Rightarrow> (False, 0))"

text \<open>\<open>re.test(text)\<close> without it.\<close>

definition re_test :: "pattern \<Rightarrow> string \<Rightarrow> bool" where
  "re_test p t \<longleftrightarrow> exec_from p t 0 \<noteq> None"

text \<open>The loop over \<open>exec\<close> starts each round at the end of the last match.\<close>

partial_function (option) exec_loop :: "pattern \<Rightarrow> string \<Rightarrow> nat \<Rightarrow> found list option" where
  "exec_loop p t i = (case exec_from p t i of
     None \<Rightarrow> Some []
   | Some m \<Rightarrow> Option.bind (exec_loop p t (m_end m)) (\<lambda>ms. Some (m # ms)))"

declare exec_loop.simps [code]

section \<open>Where matches lie\<close>

lemma lit_at_length: "lit_at ci p ys \<Longrightarrow> length p \<le> length ys"
  by (induction ci p ys rule: lit_at.induct) auto

fun min_len :: "regex \<Rightarrow> nat" where
  "min_len (RLit p) = length p"
| "min_len (RCls p) = 1"
| "min_len (RSeq a b) = min_len a + min_len b"
| "min_len (RAlt a b) = min (min_len a) (min_len b)"
| "min_len (RGrp k a) = min_len a"
| "min_len r = 0"

lemma greedy_bounds:
  assumes "s' \<in> set (greedy n f s)"
    and "\<And>s s'. fst s \<le> N \<Longrightarrow> s' \<in> set (f s) \<Longrightarrow> fst s' \<le> N" and "fst s \<le> N"
  shows "fst s \<le> fst s' \<and> fst s' \<le> N"
  using assms(1,3)
proof (induction n arbitrary: s)
  case (Suc n)
  then consider "s' = s" | m where "m \<in> set (f s)" "fst s < fst m" "s' \<in> set (greedy n f m)" by auto
  then show ?case
  proof cases
    case (2 m)
    then show ?thesis using Suc.IH [of m] assms(2) [of s m] Suc.prems(2) by auto
  qed (use Suc.prems in simp)
qed simp

lemma match_ends_bounds:
  assumes "s' \<in> set (match_ends ci t r s)" and "fst s \<le> length t"
  shows "fst s + min_len r \<le> fst s' \<and> fst s' \<le> length t"
  using assms
proof (induction r arbitrary: s s')
  case (RSeq a b)
  then obtain m where "m \<in> set (match_ends ci t a s)" and "s' \<in> set (match_ends ci t b m)" by auto
  then show ?case using RSeq.IH RSeq.prems(2) by fastforce
next
  case (RAlt a b)
  then show ?case by fastforce
next
  case (RStar a)
  then show ?case using greedy_bounds [of s' _ "match_ends ci t a" s "length t"] by auto
qed (auto dest!: lit_at_length simp: Let_def split: if_splits)

text \<open>The rounds of \<open>r*\<close> are bounded by the rest of the text, and this bound is never felt: one more
  round changes nothing.\<close>

lemma greedy_enough:
  assumes "\<And>s s'. fst s \<le> N \<Longrightarrow> s' \<in> set (f s) \<Longrightarrow> fst s' \<le> N"
    and "fst s \<le> N" and "N - fst s \<le> n" and "N - fst s \<le> m"
  shows "greedy n f s = greedy m f s"
  using assms(2-4)
proof (induction n arbitrary: m s)
  case 0
  then have "fst s = N" by simp
  then have "filter (\<lambda>s'. fst s < fst s') (f s) = []"
    using assms(1) [of s] by (auto simp: filter_empty_conv not_less)
  then show ?case by (cases m) simp_all
next
  case (Suc n)
  show ?case
  proof (cases m)
    case 0
    then have "filter (\<lambda>s'. fst s < fst s') (f s) = []"
      using assms(1) [of s] Suc.prems by (auto simp: filter_empty_conv not_less)
    then show ?thesis using 0 by simp
  next
    case (Suc k)
    have "greedy n f s' = greedy k f s'" if "s' \<in> set (f s)" "fst s < fst s'" for s'
      using that Suc.prems Suc assms(1) [of s s'] by (intro Suc.IH) auto
    then show ?thesis using Suc by (auto intro!: arg_cong [where f = concat] map_cong)
  qed
qed

lemma match_ends_star:
  assumes "fst s \<le> length t"
  shows "match_ends ci t (RStar r) s =
    concat (map (match_ends ci t (RStar r)) (filter (\<lambda>s'. fst s < fst s') (match_ends ci t r s))) @ [s]"
proof -
  have b: "\<And>s s'. fst s \<le> length t \<Longrightarrow> s' \<in> set (match_ends ci t r s) \<Longrightarrow> fst s' \<le> length t"
    using match_ends_bounds by blast
  have "greedy (length t - fst s) (match_ends ci t r) s = greedy (Suc (length t)) (match_ends ci t r) s"
    by (rule greedy_enough [where N = "length t"]) (use b assms in auto)
  moreover have "greedy (length t) (match_ends ci t r) s' = match_ends ci t (RStar r) s'"
    if "s' \<in> set (match_ends ci t r s)" for s'
    using b [OF assms that] unfolding match_ends.simps by (intro greedy_enough [where N = "length t"]) (use b in auto)
  ultimately show ?thesis by (auto intro!: arg_cong [where f = concat] map_cong)
qed

section \<open>Loops\<close>

lemma first_from_Some: "first_from f i n = Some (k, x) \<Longrightarrow> i \<le> k \<and> k < i + n \<and> x \<in> set (f k)"
  by (induction f i n rule: first_from.induct) (force split: list.splits)+

lemma first_from_None: "first_from f i n = None \<longleftrightarrow> (\<forall>k. i \<le> k \<longrightarrow> k < i + n \<longrightarrow> f k = [])"
proof (induction f i n rule: first_from.induct)
  case (2 f i n)
  show ?case
  proof (cases "f i")
    case Nil
    then show ?thesis using 2 by (auto simp: Suc_le_eq) (metis le_eq_less_or_eq)
  next
    case (Cons x xs)
    then show ?thesis by (auto intro!: exI [of _ i])
  qed
qed simp

definition solid :: "pattern \<Rightarrow> bool" where
  "solid p \<longleftrightarrow> 0 < min_len (re p)"

lemma exec_from_ends: "exec_from p t i = Some m \<Longrightarrow> (m_end m, m_groups m) \<in> set (ends_at p t (m_index m))"
  by (auto simp: exec_from_def dest: first_from_Some split: option.splits)

lemma exec_from_bounds:
  assumes "exec_from p t i = Some m"
  shows "i \<le> m_index m" and "m_index m + min_len (re p) \<le> m_end m" and "m_end m \<le> length t"
proof -
  obtain k j gs where k: "first_from (ends_at p t) i (Suc (length t) - i) = Some (k, j, gs)"
    and m: "m = \<lparr>m_index = k, m_end = j, m_groups = gs\<rparr>"
    using assms by (auto simp: exec_from_def split: option.splits)
  then have "i \<le> k" "k \<le> length t" "(j, gs) \<in> set (ends_at p t k)" using first_from_Some [OF k] by auto
  then show "i \<le> m_index m" "m_index m + min_len (re p) \<le> m_end m" "m_end m \<le> length t"
    using match_ends_bounds [of "(j, gs)" "ignoreCase p" t "re p" "(k, [])"] m by (auto simp: ends_at_def)
qed

lemma exec_from_None: "exec_from p t i = None \<longleftrightarrow> (\<forall>k. i \<le> k \<longrightarrow> k \<le> length t \<longrightarrow> ends_at p t k = [])"
proof (cases "i \<le> length t")
  case True
  then have "first_from (ends_at p t) i (Suc (length t) - i) = None \<longleftrightarrow> (\<forall>k. i \<le> k \<longrightarrow> k \<le> length t \<longrightarrow> ends_at p t k = [])"
    by (simp add: first_from_None less_Suc_eq_le)
  then show ?thesis by (auto simp: exec_from_def split: option.splits)
qed (simp add: exec_from_def)

text \<open>\<open>text.match(re)\<close> with the flag \<open>g\<close> lists all matches; after an empty one it moves on by a character.\<close>

function match_all :: "pattern \<Rightarrow> string \<Rightarrow> nat \<Rightarrow> found list" where
  "match_all p t i = (case exec_from p t i of
     None \<Rightarrow> []
   | Some m \<Rightarrow> m # match_all p t (if m_end m = m_index m then Suc (m_end m) else m_end m))"
  by pat_completeness auto
termination
proof (relation "measure (\<lambda>(p, t, i). Suc (length t) - i)")
  fix p t i m assume "exec_from p t i = Some m"
  then show "((p, t, if m_end m = m_index m then Suc (m_end m) else m_end m), (p, t, i)) \<in> measure (\<lambda>(p, t, i). Suc (length t) - i)"
    using exec_from_bounds [of p t i m] by auto
qed simp

declare match_all.simps [simp del]

text \<open>For an expression that needs a character the loop ends, with the same matches.\<close>

lemma exec_loop_ends:
  assumes "solid p"
  shows "exec_loop p t i = Some (match_all p t i)"
  using assms
proof (induction p t i rule: match_all.induct)
  case (1 p t i)
  show ?case
  proof (cases "exec_from p t i")
    case None
    then show ?thesis by (subst exec_loop.simps, subst match_all.simps) simp
  next
    case (Some m)
    then have "m_end m \<noteq> m_index m" using exec_from_bounds(2) [OF Some] 1(2) by (auto simp: solid_def)
    then show ?thesis using 1(1) [OF Some] 1(2) Some by (subst exec_loop.simps, subst match_all.simps) simp
  qed
qed

lemma match_all_exec:
  "m \<in> set (match_all p t i) \<Longrightarrow> \<exists>k \<ge> i. exec_from p t k = Some m"
proof (induction p t i rule: match_all.induct)
  case (1 p t i)
  have "exec_from p t i \<noteq> None" using 1(2) match_all.simps [of p t i] by (cases "exec_from p t i") simp_all
  then obtain m' where m': "exec_from p t i = Some m'" by blast
  show ?case
  proof (cases "m = m'")
    case False
    then have "m \<in> set (match_all p t (if m_end m' = m_index m' then Suc (m_end m') else m_end m'))"
      using 1(2) m' by (subst (asm) match_all.simps) simp
    from 1(1) [OF m' this] obtain k where "(if m_end m' = m_index m' then Suc (m_end m') else m_end m') \<le> k"
      and "exec_from p t k = Some m" by blast
    then show ?thesis using exec_from_bounds(1,2) [OF m'] by (intro exI [of _ k]) (auto split: if_splits)
  qed (use m' in blast)
qed

lemma match_all_ends: "m \<in> set (match_all p t i) \<Longrightarrow> (m_end m, m_groups m) \<in> set (ends_at p t (m_index m))"
  using match_all_exec exec_from_ends by blast

lemma match_all_bounds:
  assumes "m \<in> set (match_all p t i)"
  shows "i \<le> m_index m" and "m_index m + min_len (re p) \<le> m_end m" and "m_end m \<le> length t"
  using match_all_exec [OF assms] exec_from_bounds [of p t _ m] by (auto intro: le_trans)

lemma match_all_none: "match_all p t i = [] \<longleftrightarrow> exec_from p t i = None"
  by (subst match_all.simps) (auto split: option.splits)

text \<open>The matches follow one another.\<close>

lemma match_all_in_turn: "sorted_wrt (\<lambda>a b. m_end a \<le> m_index b) (match_all p t i)"
proof (induction p t i rule: match_all.induct)
  case (1 p t i)
  show ?case
  proof (cases "exec_from p t i")
    case None
    then show ?thesis by (subst match_all.simps) simp
  next
    case (Some m)
    let ?j = "if m_end m = m_index m then Suc (m_end m) else m_end m"
    have "m_end m \<le> m_index b" if "b \<in> set (match_all p t ?j)" for b
      using match_all_bounds(1) [OF that] by (auto split: if_splits)
    then show ?thesis using 1 [OF Some] Some by (subst match_all.simps) simp
  qed
qed

lemma length_slice [simp]: "j \<le> length t \<Longrightarrow> length (slice t i j) = j - i"
  by (simp add: slice_def)

text \<open>A position where the expression matches is not overlooked.\<close>

lemma test_at: "k \<le> length t \<Longrightarrow> ends_at p t k \<noteq> [] \<Longrightarrow> re_test p t"
  by (auto simp: re_test_def exec_from_None)

lemma match_all_first: "match_all p t 0 = [] \<longleftrightarrow> \<not> re_test p t"
  by (simp add: match_all_none re_test_def)

text \<open>Every position where the expression matches lies in a match of the loop.\<close>

lemma first_from_least: "first_from f i n = Some (k, x) \<Longrightarrow> i \<le> j \<Longrightarrow> j < k \<Longrightarrow> f j = []"
  by (induction f i n rule: first_from.induct) (force split: list.splits simp: Suc_le_eq le_eq_less_or_eq)+

lemma exec_from_least:
  assumes "exec_from p t i = Some m" and "i \<le> j" and "ends_at p t j \<noteq> []"
  shows "m_index m \<le> j"
  using assms first_from_least [of "ends_at p t" i _ _ _ j]
  by (fastforce simp: exec_from_def not_less split: option.splits)

lemma match_all_covers:
  assumes "solid p" and "ends_at p t k \<noteq> []" and "i \<le> k" and "k \<le> length t"
  shows "\<exists>m \<in> set (match_all p t i). m_index m \<le> k \<and> k < m_end m"
  using assms
proof (induction p t i rule: match_all.induct)
  case (1 p t i)
  have "exec_from p t i \<noteq> None" using 1(3-5) by (auto simp: exec_from_None simp del: not_None_eq)
  then obtain m where m: "exec_from p t i = Some m" by blast
  have ne: "m_index m < m_end m" using exec_from_bounds(2) [OF m] 1(2) by (simp add: solid_def)
  have all: "match_all p t i = m # match_all p t (m_end m)" using m ne by (subst match_all.simps) simp
  show ?case
  proof (cases "k < m_end m")
    case True
    then show ?thesis using all exec_from_least [OF m 1(4,3)] by auto
  next
    case False
    then show ?thesis using all ne 1(1) [OF m 1(2,3) _ 1(5)] by (auto simp: not_less)
  qed
qed

text \<open>Expressions without groups leave the captured groups alone.\<close>

fun group_free :: "regex \<Rightarrow> bool" where
  "group_free (RGrp k a) = False"
| "group_free (RSeq a b) = (group_free a \<and> group_free b)"
| "group_free (RAlt a b) = (group_free a \<and> group_free b)"
| "group_free (RStar a) = group_free a"
| "group_free _ = True"

lemma greedy_keeps:
  "s' \<in> set (greedy n f s) \<Longrightarrow> (\<And>s s'. s' \<in> set (f s) \<Longrightarrow> snd s' = snd s) \<Longrightarrow> snd s' = snd s"
proof (induction n arbitrary: s)
  case (Suc n)
  then consider "s' = s" | m where "m \<in> set (f s)" "s' \<in> set (greedy n f m)" by auto
  then show ?case using Suc by cases metis+
qed simp

lemma match_ends_keeps: "group_free r \<Longrightarrow> s' \<in> set (match_ends ci t r s) \<Longrightarrow> snd s' = snd s"
proof (induction r arbitrary: s s')
  case (RStar a)
  then show ?case using greedy_keeps [of s' _ "match_ends ci t a" s] by auto
next
  case (RSeq a b)
  then obtain m where "m \<in> set (match_ends ci t a s)" "s' \<in> set (match_ends ci t b m)" by auto
  then show ?case using RSeq.IH RSeq.prems(1) by (metis group_free.simps(2))
qed (auto simp: Let_def split: if_splits)

section \<open>Words\<close>

text \<open>A choice of words, up to case, is found exactly in the texts that contain one of them.\<close>

lemma lit_at_lower: "lit_at True p ys \<longleftrightarrow> length p \<le> length ys \<and> toLowerCase (take (length p) ys) = toLowerCase p"
  by (induction True p ys rule: lit_at.induct) (auto simp: char_eq_def toLowerCase_def)

lemma match_ends_one_of: "rs \<noteq> [] \<Longrightarrow> match_ends ci t (one_of rs) s = concat (map (\<lambda>r. match_ends ci t r s) rs)"
  by (induction rs rule: one_of.induct) simp_all

lemma includes_at: "str_includes x w \<longleftrightarrow> (\<exists>k. k \<le> length x \<and> take (length w) (drop k x) = w)"
proof
  assume "str_includes x w"
  then obtain a b where "x = a @ w @ b" by (auto simp: str_includes_iff)
  then show "\<exists>k. k \<le> length x \<and> take (length w) (drop k x) = w" by (intro exI [of _ "length a"]) simp
next
  assume "\<exists>k. k \<le> length x \<and> take (length w) (drop k x) = w"
  then show "str_includes x w" unfolding str_includes_iff by (metis append_take_drop_id)
qed

lemma words_test:
  assumes "ws \<noteq> []" and "\<forall>w \<in> set ws. toLowerCase w = w"
  shows "re_test \<lparr>re = words_re ws, ignoreCase = True\<rparr> t \<longleftrightarrow> (\<exists>w \<in> set ws. str_includes (toLowerCase t) w)"
proof -
  have hit: "lit_at True w (drop k t) \<longleftrightarrow> take (length w) (drop k (toLowerCase t)) = w" if "w \<in> set ws" for w k
  proof -
    have "toLowerCase (take (length w) (drop k t)) = take (length w) (drop k (toLowerCase t))"
      by (simp add: toLowerCase_def take_map drop_map)
    moreover have "length w \<le> length (drop k t)" if "take (length w) (drop k (toLowerCase t)) = w"
      using arg_cong [OF that, of length] by simp
    ultimately show ?thesis using assms(2) that by (auto simp: lit_at_lower)
  qed
  have "re_test \<lparr>re = words_re ws, ignoreCase = True\<rparr> t \<longleftrightarrow>
    (\<exists>k \<le> length t. \<exists>w \<in> set ws. lit_at True w (drop k t))"
    using assms(1) by (auto simp: re_test_def exec_from_None ends_at_def words_re_def match_ends_one_of)
  also have "\<dots> \<longleftrightarrow> (\<exists>w \<in> set ws. str_includes (toLowerCase t) w)"
    using hit unfolding includes_at by (auto simp: toLowerCase_def)
  finally show ?thesis .
qed

end
