(* ===== verification/Analytics.thy ===== *)
theory Analytics
  imports Insight_Routes Regex
begin

text \<open>
  The analytics of app/api/writeright/analytics: figures of the writing sessions and jobs of a user, with a
  description by the language model where it answers and heuristics where it does not, kept in Redis for
  five minutes. One exchange with the environment stands for a call of the client of the OpenAI package.
  Numeric columns hold numbers or null and the columns of dates and texts strings or null; the format of
  days in the host's locale and the dash of the texts are parameters.
\<close>

section \<open>Objects as tables\<close>

text \<open>\<open>Object.entries\<close>: members whose names are array indices come first, in their order.\<close>

definition is_index :: "string \<Rightarrow> bool" where
  "is_index k \<longleftrightarrow> k \<noteq> [] \<and> list_all is_digit k \<and> show_nat (read_digits k) = k \<and> read_digits k < 2 ^ 32 - 1"

definition js_entries :: "(string \<times> 'a) list \<Rightarrow> (string \<times> 'a) list" where
  "js_entries ps = sort_key (\<lambda>p. read_digits (fst p)) (List.filter (\<lambda>p. is_index (fst p)) ps) @ List.filter (\<lambda>p. \<not> is_index (fst p)) ps"

definition ranked :: "(string \<times> int) list \<Rightarrow> (string \<times> int) list" where
  "ranked cs = sort_key (\<lambda>c. - snd c) (js_entries cs)"

section \<open>The language model\<close>

definition ANALYTICS_PROMPT :: \<open>string \<Rightarrow> string\<close> where
  \<open>ANALYTICS_PROMPT dash = join [nl] [
     ''You are WriteRight's Senior Writing Analyst and Communication Coach '' @ dash @ '' a world-class expert in cross-cultural business editing, linguistic profiling, and data-driven communication coaching.'',
     [],
     ''Your mission is to analyze a user's writing history, metrics, and past corrections to produce a highly personalized, motivating, and actionable Writing DNA profile and weekly debrief. The target audience consists of Indian professionals looking to elevate their communication for global business environments.'',
     [],
     ''Before outputting the JSON response, perform this mandatory analysis:'',
     ''1. Parse the provided writing samples to identify recurring stylistic traits (e.g., over-apologizing, passive voice, redundant prepositions like "discuss about", or regional Indian English formalisms like "do the needful").'',
     ''2. Compare the user's original drafts to the improved versions to determine which specific habits they are successfully correcting and where friction persists.'',
     ''3. Synthesize their score trends and tone preferences to map out their unique style signature and trajectory.'',
     ''Do not output this analysis. The output must contain ONLY the valid JSON object.'',
     [],
     ''You MUST respond with ONLY a valid JSON object matching this exact schema '' @ dash @ '' no markdown, no backticks, no preamble:'',
     ''{'',
     ''  "style_summary": "<a cohesive 2-3 sentence overview of the user's professional writing voice, dominant style, and typical contexts, avoiding generic descriptors>",'',
     ''  "signature_phrases": ['',
     ''    "<signature phrase 1 - a recommended transition or closing matching their preferred tone>",'',
     ''    "<signature phrase 2 - a polished global alternative to one of their common regionalisms>",'',
     ''    "<signature phrase 3 - a high-impact phrase typical of their writing style>"'',
     ''  ],'',
     ''  "insights": ['',
     ''    "<insight 1 - analyzing the impact of their most common mistake on global colleagues, explaining the logical 'why'>",'',
     ''    "<insight 2 - celebrating a specific improvement they successfully made in their recent samples>",'',
     ''    "<insight 3 - an actionable tip for their next writing session based on their current trajectory>"'',
     ''  ],'',
     ''  "strength": "<a 1-sentence statement highlighting their primary communication asset>",'',
     ''  "growth_area": "<a 1-sentence constructive tip targeting their most frequent mistake>",'',
     ''  "top_mistake_fixed": "<a short summary of the most significant style issue they successfully resolved>",'',
     ''  "coach_message": "<a 2-sentence personalized weekly coach message encouraging their current momentum and challenging them with a specific writing goal for next week>"'',
     ''}'',
     [],
     ''ALWAYS:'',
     ''- Respond with a single valid JSON object matching the schema '' @ dash @ '' because our Next.js API parses this directly and any extra characters or backticks will crash the service.'',
     ''- Ensure that signature_phrases contains exactly 3 to 5 elements and insights contains exactly 3 elements.'',
     ''- Keep all advice highly concrete, direct, and actionable.'',
     ''- Retain an encouraging, coach-like tone.'',
     [],
     ''NEVER:'',
     ''- Wrap your response in markdown code blocks or include any preamble/postamble.'',
     ''- Hallucinate or modify any numerical statistics '' @ dash @ '' exact numbers are computed from the database.'',
     ''- Reference any dummy or template data '' @ dash @ '' all insights must be grounded in the user's actual history.'']\<close>

text \<open>The first match is replaced.\<close>

definition cut_first :: "pattern \<Rightarrow> string \<Rightarrow> string" where
  "cut_first p t = (case exec_from p t 0 of None \<Rightarrow> t | Some m \<Rightarrow> take (m_index m) t @ drop (m_end m) t)"

definition fence :: string where "fence = replicate 3 (CHR 0x60)"

definition opening_fence :: pattern where
  "opening_fence = \<lparr>re = in_turn [RStart, RLit fence, RAlt (RLit ''json'') (RLit []), RStar (RCls is_ws)], ignoreCase = True\<rparr>"

definition closing_fence :: pattern where
  "closing_fence = \<lparr>re = in_turn [RStar (RCls is_ws), RLit fence, REnd], ignoreCase = False\<rparr>"

definition unfenced :: "string \<Rightarrow> string" where
  "unfenced raw = trim (cut_first closing_fence (cut_first opening_fence raw))"

definition analytics_request :: "string \<Rightarrow> string \<Rightarrow> json \<Rightarrow> fetch_request" where
  "analytics_request dash apiKey message =
     \<lparr>fq_method = ''POST'', fq_url = ''https://generativelanguage.googleapis.com/v1beta/openai/chat/completions'',
      fq_headers = [(''Content-Type'', ''application/json''), (''Authorization'', ''Bearer '' @ apiKey)],
      fq_body = Some (JObj [(''model'', JStr ''gemini-2.0-flash''),
        (''messages'', JArr [JObj [(''role'', JStr ''system''), (''content'', JStr (ANALYTICS_PROMPT dash))],
           JObj [(''role'', JStr ''user''), (''content'', JStr (stringify message))]]),
        (''temperature'', JDec 4 1), (''max_tokens'', JNum 800)])\<rparr>"

text \<open>The answer of the model, when it is an object of the expected shape.\<close>

definition payload_of :: "string \<Rightarrow> json option" where
  "payload_of raw = (case parse (unfenced raw) of
     Some j \<Rightarrow> if as_str (jfield ''style_summary'' j) \<noteq> None \<and>
         (case jfield ''signature_phrases'' j of Some (JArr _) \<Rightarrow> True | _ \<Rightarrow> False) \<and>
         (case jfield ''insights'' j of Some (JArr _) \<Rightarrow> True | _ \<Rightarrow> False)
       then Some j else None
   | None \<Rightarrow> None)"

definition callGeminiAnalytics :: "string \<Rightarrow> json \<Rightarrow> json option prog" where
  "callGeminiAnalytics dash message =
     bnd (get_env ''GOOGLE_AI_STUDIO_API_KEY'') (\<lambda>apiKey.
     if missing apiKey then Ret None
     else catch
       (bnd (fetch (analytics_request dash (the apiKey) message)) (\<lambda>res.
        if \<not> fr_ok res then Throw (JsError ''APIError'')
        else bnd (answer_json res) (\<lambda>d.
          case first_content d of
            None \<Rightarrow> Ret (payload_of [])
          | Some JNull \<Rightarrow> Ret (payload_of [])
          | Some (JStr x) \<Rightarrow> Ret (payload_of (trim x))
          | _ \<Rightarrow> Throw type_error)))
       (\<lambda>_. Ret None))"

section \<open>Queries\<close>

definition AnalyticsQuerySchema :: zschema where
  "AnalyticsQuerySchema = [(''range'', ZEnum [''30d'', ''90d'', ''all''], ZDefault (JStr ''30d''))]"

definition analytics_key :: "string \<Rightarrow> string \<Rightarrow> string" where
  "analytics_key uid rng = ns [''writeright'', ''analytics'', uid] @ (if rng = ''30d'' then [] else '':'' @ rng)"

definition days_before :: "int \<Rightarrow> int \<Rightarrow> string" where
  "days_before n t = dateKey (t - n * DAY_MS)"

definition range_filter :: "string \<Rightarrow> filter list prog" where
  "range_filter rng =
     (if rng = ''30d'' then bnd now (\<lambda>t. Ret [Gte ''session_date'' (JStr (days_before 30 t))])
      else if rng = ''90d'' then bnd now (\<lambda>t. Ret [Gte ''session_date'' (JStr (days_before 90 t))])
      else Ret [])"

definition sessions_query :: "string \<Rightarrow> filter list \<Rightarrow> query" where
  "sessions_query uid fs = Query ''writeright_writing_sessions''
     (Select ''session_date, improvements, avg_clarity, avg_tone_score, avg_impact_score, modes_used, word_count, total_tokens'')
     (Eq ''clerk_user_id'' (JStr uid) # fs) [Order ''session_date'' True] Many"

definition analytics_jobs_query :: "string \<Rightarrow> int \<Rightarrow> query" where
  "analytics_jobs_query uid t = Query ''writeright_ai_jobs'' (Select ''metadata, output, prompt, created_at'')
     [Eq ''user_id'' (JStr uid), Eq ''status'' (JStr ''completed''), Gte ''created_at'' (JStr (days_before 90 t))]
     [Order ''created_at'' False, Limit 500] Many"

definition heatmap_query :: "string \<Rightarrow> int \<Rightarrow> query" where
  "heatmap_query uid t = Query ''writeright_writing_sessions'' (Select ''session_date, improvements'')
     [Eq ''clerk_user_id'' (JStr uid), Gte ''session_date'' (JStr (days_before 365 t))] [Order ''session_date'' True] Many"

section \<open>Sessions\<close>

definition session_date :: "json \<Rightarrow> string" where
  "session_date row = (case jfield ''session_date'' row of Some (JStr d) \<Rightarrow> d | _ \<Rightarrow> [])"

definition heatmap :: "json list \<Rightarrow> json" where
  "heatmap rows = JArr (map (\<lambda>s. JObj (member ''date'' (jfield ''session_date'' s) @
     [(''count'', nullish (jfield ''improvements'' s) (JNum 0))])) rows)"

text \<open>\<open>Number(x) || 0\<close> of a numeric column.\<close>

definition number_or_0 :: "json option \<Rightarrow> json" where
  "number_or_0 v = (case num_of v of Some q \<Rightarrow> if q = 0 then JNum 0 else jval v | None \<Rightarrow> JNum 0)"

definition scored :: "json list \<Rightarrow> json list" where
  "scored rows = List.filter (\<lambda>s. nullish (jfield ''avg_clarity'' s) JNull \<noteq> JNull) rows"

definition score_trends :: "json list \<Rightarrow> json" where
  "score_trends rows = JArr (map (\<lambda>s. JObj (member ''date'' (jfield ''session_date'' s) @
     [(''clarity'', number_or_0 (jfield ''avg_clarity'' s)), (''tone'', number_or_0 (jfield ''avg_tone_score'' s)),
      (''impact'', number_or_0 (jfield ''avg_impact_score'' s))])) (scored rows))"

definition avg_score :: "string \<Rightarrow> json list \<Rightarrow> int" where
  "avg_score k rows = (if scored rows = [] then 0 else tenths (fmean (map (\<lambda>s. num (jval (jfield k s))) (scored rows))))"

definition avg_scores :: "json list \<Rightarrow> json" where
  "avg_scores rows = JObj [(''clarity'', mk_num (avg_score ''avg_clarity'' rows) 1),
     (''tone'', mk_num (avg_score ''avg_tone_score'' rows) 1), (''impact'', mk_num (avg_score ''avg_impact_score'' rows) 1)]"

subsection \<open>The last fourteen days\<close>

definition daily_labels :: "(int \<Rightarrow> string) \<Rightarrow> int \<Rightarrow> string list" where
  "daily_labels day t = rev (remdups (rev (map (\<lambda>d. day (t - int d * DAY_MS)) (rev [0..<14]))))"

definition add_if_in :: "string \<Rightarrow> int \<Rightarrow> (string \<times> int) list \<Rightarrow> (string \<times> int) list" where
  "add_if_in k n m = map (\<lambda>(k', c). (k', if k' = k then c + n else c)) m"

definition daily_add :: "(int \<Rightarrow> string) \<Rightarrow> int \<Rightarrow> int \<Rightarrow> (string \<times> int) list \<Rightarrow> json \<Rightarrow> (string \<times> int) list" where
  "daily_add day local t m row = (case Option.bind (jfield ''session_date'' row) (date_of_json local) of
     None \<Rightarrow> m
   | Some d \<Rightarrow> let diffDays = local_day local t - local_day local d in
       if 0 \<le> diffDays \<and> diffDays \<le> 13 then add_if_in (day d) (int_or 0 (jfield ''improvements'' row)) m else m)"

definition daily_map :: "(int \<Rightarrow> string) \<Rightarrow> int \<Rightarrow> int \<Rightarrow> json list \<Rightarrow> (string \<times> int) list" where
  "daily_map day local t rows = foldl (daily_add day local t) (map (\<lambda>k. (k, 0)) (daily_labels day t)) rows"

definition daily_activity :: "(int \<Rightarrow> string) \<Rightarrow> int \<Rightarrow> int \<Rightarrow> json list \<Rightarrow> json" where
  "daily_activity day local t rows = JArr (map (\<lambda>(k, c). JObj [(''date_label'', JStr k), (''count'', JNum c)])
     (js_entries (daily_map day local t rows)))"

subsection \<open>This week and last week\<close>

definition week_of :: "int \<Rightarrow> int \<Rightarrow> int \<Rightarrow> json \<Rightarrow> nat option" where
  "week_of local sevenDaysAgo fourteenDaysAgo row =
     (case Option.bind (jfield ''session_date'' row) (date_of_json local) of
        None \<Rightarrow> None
      | Some d \<Rightarrow> if sevenDaysAgo \<le> d then Some 0 else if fourteenDaysAgo \<le> d then Some 1 else None)"

definition week_clarity :: "json list \<Rightarrow> json" where
  "week_clarity rows = (let cs = map (\<lambda>s. num (jval (jfield ''avg_clarity'' s))) (List.filter (\<lambda>s. truthyo (jfield ''avg_clarity'' s)) rows)
     in if cs = [] then JNum 0 else mk_num (tenths (fmean cs)) 1)"

definition weekly_report :: "int \<Rightarrow> int \<Rightarrow> int \<Rightarrow> json list \<Rightarrow> json" where
  "weekly_report local t7 t14 rows =
     (let wk = (\<lambda>n. List.filter (\<lambda>s. week_of local t7 t14 s = Some n) rows); this = wk 0; last' = wk 1 in
      JObj [(''this_week_words'', JNum (int_sum ''word_count'' this)), (''last_week_words'', JNum (int_sum ''word_count'' last')),
        (''this_week_improvements'', JNum (int_sum ''improvements'' this)), (''last_week_improvements'', JNum (int_sum ''improvements'' last')),
        (''this_week_clarity'', week_clarity this), (''last_week_clarity'', week_clarity last')])"

section \<open>Jobs\<close>

text \<open>Modes and tones, by their frequency.\<close>

definition job_meta :: "string \<Rightarrow> json \<Rightarrow> json option" where
  "job_meta k job = jopt k (jfield ''metadata'' job)"

definition named_counts :: "string \<Rightarrow> json list \<Rightarrow> (string \<times> int) list" where
  "named_counts k jobs = ranked (tally (map (\<lambda>j. literal (job_meta k j)) (List.filter (\<lambda>j. truthyo (job_meta k j)) jobs)))"

definition distribution :: "string \<Rightarrow> json list \<Rightarrow> json" where
  "distribution k jobs = JArr (map (\<lambda>(n, c). JObj [(k, JStr n), (''count'', JNum c),
     (''percent'', JNum (percent_of c (int (length jobs))))]) (named_counts k jobs))"

definition dominant_name :: "string \<Rightarrow> string \<Rightarrow> json list \<Rightarrow> string" where
  "dominant_name k d jobs = (case named_counts k jobs of [] \<Rightarrow> d | c # _ \<Rightarrow> fst c)"

text \<open>What the second loop over the jobs collects. A job with an output of an unexpected shape ends the
  request with a \<open>TypeError\<close>.\<close>

record job_findings =
  mistakes :: "(string \<times> int) list"
  total_words :: int
  total_sentences :: int
  samples :: "json list"

definition job_mistakes :: "json \<Rightarrow> json list option" where
  "job_mistakes job = (case jopt ''mistakes'' (jopt ''teaching'' (jfield ''output'' job)) of
     None \<Rightarrow> Some [] | Some JNull \<Rightarrow> Some [] | Some (JArr ms) \<Rightarrow> Some ms | _ \<Rightarrow> None)"

definition text_value :: "json option \<Rightarrow> string option option" where
  "text_value v = (case v of Some (JStr x) \<Rightarrow> Some (if x = [] then None else Some x)
     | _ \<Rightarrow> if truthyo v then None else Some None)"

definition sample_of :: "json \<Rightarrow> string \<Rightarrow> string \<Rightarrow> json list \<Rightarrow> json" where
  "sample_of job original improved ms = JObj
     [(''mode'', nullish (job_meta ''mode'' job) (JStr ''unknown'')), (''tone'', nullish (job_meta ''tone'' job) (JStr ''unknown'')),
      (''original'', JStr (take 300 original)), (''improved'', JStr (take 300 improved)), (''mistakes'', JArr (take 3 ms))]"

definition non_empty :: "string list \<Rightarrow> int" where
  "non_empty xs = int (length (List.filter (\<lambda>x. x \<noteq> []) xs))"

definition study_job :: "json \<Rightarrow> job_findings \<Rightarrow> job_findings option" where
  "study_job job f =
     (if \<not> truthyo (jfield ''output'' job) then Some f
      else Option.bind (job_mistakes job) (\<lambda>ms.
        let f1 = f\<lparr>mistakes := foldl (\<lambda>cs m. count_up (js_string m) cs) (mistakes f) ms\<rparr> in
        Option.bind (text_value (jopt ''improved_text'' (jfield ''output'' job))) (\<lambda>imp. case imp of
          None \<Rightarrow> Some f1
        | Some improved \<Rightarrow>
            let f2 = f1\<lparr>total_words := total_words f1 + non_empty (split_runs is_ws improved),
                        total_sentences := total_sentences f1 + non_empty (split_runs (\<lambda>c. c \<in> set ''.!?'') improved)\<rparr>
            in if length (samples f2) < 10 then Option.bind (text_value (jfield ''prompt'' job)) (\<lambda>org. case org of
                 None \<Rightarrow> Some f2
               | Some original \<Rightarrow> Some (f2\<lparr>samples := samples f2 @ [sample_of job original improved ms]\<rparr>))
               else Some f2)))"

definition no_findings :: job_findings where
  "no_findings = \<lparr>mistakes = [], total_words = 0, total_sentences = 0, samples = []\<rparr>"

definition study_jobs :: "json list \<Rightarrow> job_findings option" where
  "study_jobs jobs = foldl (\<lambda>f job. Option.bind f (study_job job)) (Some no_findings) jobs"

definition most_common :: "job_findings \<Rightarrow> (string \<times> int) list" where
  "most_common f = take 5 (ranked (mistakes f))"

definition mistakes_json :: "(string \<times> int) list \<Rightarrow> json" where
  "mistakes_json ms = JArr (map (\<lambda>(m, c). JObj [(''mistake'', JStr m), (''count'', JNum c)]) ms)"

definition sentence_length :: "job_findings \<Rightarrow> int" where
  "sentence_length f = (if 0 < total_sentences f then js_round (fl (of_int (total_words f) / of_int (total_sentences f))) else 14)"

section \<open>Trajectory, percentile and streaks\<close>

definition trend_clarity :: "json list \<Rightarrow> rat list" where
  "trend_clarity rows = map (\<lambda>s. num (number_or_0 (jfield ''avg_clarity'' s))) (scored rows)"

definition improvement_trajectory :: "rat list \<Rightarrow> int \<Rightarrow> string" where
  "improvement_trajectory cs tot =
     (let n = length cs; recent = drop (n - 5) cs; older = take (n - 5 - (n - 10)) (drop (n - 10) cs) in
      if n < 2 then ''stable''
      else if older = [] then (if 5 < tot then ''improving'' else ''stable'')
      else let recentAvg = fmean recent; olderAvg = fmean older in
        if fl (olderAvg + fl (3 / 10)) < recentAvg then ''improving''
        else if recentAvg < fl (olderAvg - fl (3 / 10)) then ''declining''
        else ''stable'')"

text \<open>\<open>Number(data)\<close>: of a number the number; of a row it is not a number, which is printed as \<open>null\<close>.\<close>

definition number_json :: "json \<Rightarrow> json" where
  "number_json j = (if is_num (Some j) then j else JNull)"

definition percentile :: "int \<Rightarrow> db_result \<Rightarrow> json" where
  "percentile tot r = (if db_err r = None \<and> db_data r \<noteq> Some JNull then number_json (jval (db_data r))
     else JNum (min 99 (max 40 (50 + tot * 2))))"

text \<open>The days of a streak from the last one backwards; the clock is read for every day.\<close>

fun streak_back :: "string list \<Rightarrow> int \<Rightarrow> int prog" where
  "streak_back [] k = Ret k"
| "streak_back (d # ds) k = bnd now (\<lambda>t. if d = days_before k t then streak_back ds (k + 1) else Ret k)"

definition streak_from_days :: "string list \<Rightarrow> int prog" where
  "streak_from_days days =
     (let sortedDates = sort days in
      bnd now (\<lambda>t. bnd now (\<lambda>t'.
      if sortedDates = [] then Ret 0
      else if last sortedDates \<noteq> dateKey t \<and> last sortedDates \<noteq> days_before 1 t' then Ret 0
      else streak_back (rev sortedDates) 0)))"

definition longest_step :: "int \<Rightarrow> int \<times> int \<times> string \<Rightarrow> string \<Rightarrow> int \<times> int \<times> string" where
  "longest_step local st d = (case st of (mx, cur, prev) \<Rightarrow>
     let apart = (case (parse_time local d, parse_time local prev) of (Some a, Some b) \<Rightarrow> prev \<noteq> [] \<and> a - b = DAY_MS | _ \<Rightarrow> False);
         cur' = (if apart then cur + 1 else 1)
     in (max mx cur', cur', d))"

definition longest_from_days :: "int \<Rightarrow> string list \<Rightarrow> int" where
  "longest_from_days local days = fst (foldl (longest_step local) (0, 0, []) (sort days))"

section \<open>Heuristics for the description\<close>

definition fallback_summary :: "string \<Rightarrow> string \<Rightarrow> string \<Rightarrow> int \<Rightarrow> string \<Rightarrow> string" where
  "fallback_summary dash tone mode len traj =
     ''Your writing is primarily '' @ toLowerCase tone @ '' and focused on '' @ mode @ '' communication. You average ''
     @ show_int len @ '' words per sentence with consistent clarity across sessions. ''
     @ (if traj = ''improving'' then ''Your scores are trending upward '' @ dash @ '' keep the momentum.''
        else ''Your quality is steady and reliable.'')"

definition fallback_phrases :: "string \<Rightarrow> string list" where
  "fallback_phrases tone =
     (if tone = ''Professional'' then [''Best regards'', ''Please find attached'', ''Thank you for your time'']
      else if tone = ''Friendly'' then [''Hope you're doing well'', ''Cheers'', ''Looking forward to it'']
      else [''To summarise'', ''In brief'', ''Key point''])"

definition fallback_insights :: "string \<Rightarrow> int \<Rightarrow> int \<Rightarrow> string \<Rightarrow> string \<Rightarrow> (string \<times> int) list \<Rightarrow> string list" where
  "fallback_insights dash tot clarityTenths mode traj ms =
     (let xs = (if 10 \<le> tot then [''You've completed '' @ show_int tot @ '' writing improvements '' @ dash @ '' top 30% of users.''] else [])
          @ (if 80 \<le> clarityTenths then [''Clarity is your strongest metric. Keep the sentences tight.''] else [])
          @ (if mode = ''email'' then [''Email is your primary channel '' @ dash @ '' consider exploring LinkedIn posts.''] else [])
          @ (if traj = ''improving'' then [''Your writing quality is on an upward trajectory this month.''] else [])
          @ (case ms of [] \<Rightarrow> [] | (m, c) # _ \<Rightarrow>
               [''Most common friction: '' @ quoted m @ '' '' @ dash @ '' flagged '' @ show_int c @ '' times.''])
      in if xs = [] then [''Complete more writing sessions to unlock personalised insights.''] else xs)"

section \<open>The handler\<close>

definition gemini_message :: "string \<Rightarrow> string \<Rightarrow> int \<Rightarrow> int \<Rightarrow> job_findings \<Rightarrow> json" where
  "gemini_message mode tone len tot f = JObj
     [(''dominant_mode'', JStr mode), (''dominant_tone'', JStr tone), (''avg_sentence_length'', JNum len), (''total_improvements'', JNum tot),
      (''top_mistakes'', mistakes_json (most_common f)), (''recent_samples'', JArr (take 8 (samples f)))]"

definition writing_dna :: "string \<Rightarrow> json option \<Rightarrow> string \<Rightarrow> string \<Rightarrow> int \<Rightarrow> string \<Rightarrow> json \<Rightarrow> json" where
  "writing_dna dash ai mode tone len traj pct = JObj
     ([(''style_summary'', nullish (jopt ''style_summary'' ai) (JStr (fallback_summary dash tone mode len traj))),
       (''signature_phrases'', nullish (jopt ''signature_phrases'' ai) (JArr (map JStr (fallback_phrases tone)))),
       (''improvement_trajectory'', JStr traj), (''percentile'', pct), (''dominant_mode'', JStr mode), (''dominant_tone'', JStr tone)]
      @ member ''strength'' (jopt ''strength'' ai) @ member ''growth_area'' (jopt ''growth_area'' ai)
      @ member ''coach_message'' (jopt ''coach_message'' ai) @ member ''top_mistake_fixed'' (jopt ''top_mistake_fixed'' ai))"

definition vocabulary_stats :: "int \<Rightarrow> int \<Rightarrow> job_findings \<Rightarrow> json" where
  "vocabulary_stats total_words_improved len f = JObj
     [(''unique_words_used'', JNum (js_round (fl (of_int total_words_improved * fl (4 / 10))))),
      (''avg_sentence_length'', JNum len), (''top_mistakes'', mistakes_json (most_common f)),
      (''most_improved_areas'', JArr (map JStr [''Clarity'', ''Actionable phrasing'', ''Tone matching'']))]"

text \<open>The answer, from what the queries, the clock and the model returned.\<close>

record analytics_input =
  a_sessions :: "json list"
  a_heat :: "json list"
  a_jobs :: "json list"
  a_found :: job_findings
  a_percentile :: json
  a_current :: json
  a_longest :: json
  a_now :: int
  a_week :: int
  a_fortnight :: int
  a_local :: int

definition analytics_view :: "string \<Rightarrow> (int \<Rightarrow> string) \<Rightarrow> analytics_input \<Rightarrow> json option \<Rightarrow> json" where
  "analytics_view dash day a ai =
     (let ss = a_sessions a; f = a_found a; tot = int_sum ''improvements'' ss; wds = int_sum ''word_count'' ss;
          mode = dominant_name ''mode'' ''email'' (a_jobs a); tone = dominant_name ''tone'' ''Professional'' (a_jobs a);
          len = sentence_length f; traj = improvement_trajectory (trend_clarity ss) tot
      in JObj
       [(''heatmap'', heatmap (a_heat a)), (''score_trends'', score_trends ss),
        (''mode_distribution'', distribution ''mode'' (a_jobs a)), (''tone_distribution'', distribution ''tone'' (a_jobs a)),
        (''vocabulary_stats'', vocabulary_stats wds len f),
        (''writing_dna'', writing_dna dash ai mode tone len traj (a_percentile a)),
        (''streak'', JObj [(''current'', a_current a), (''longest'', a_longest a), (''total_days'', JNum (int (length (a_heat a))))]),
        (''total_improvements'', JNum tot), (''total_words_improved'', JNum wds), (''avg_scores'', avg_scores ss),
        (''daily_activity'', daily_activity day (a_local a) (a_now a) (a_heat a)),
        (''weekly_report'', weekly_report (a_local a) (a_week a) (a_fortnight a) ss),
        (''insights'', nullish (jopt ''insights'' ai) (JArr (map JStr
           (fallback_insights dash tot (avg_score ''avg_clarity'' ss) mode traj (most_common f)))))])"

definition ask_analyst :: "string \<Rightarrow> json list \<Rightarrow> json list \<Rightarrow> job_findings \<Rightarrow> json option prog" where
  "ask_analyst dash ss jobs f =
     (let tot = int_sum ''improvements'' ss in
      if samples f \<noteq> [] \<or> 0 < tot
      then callGeminiAnalytics dash (gemini_message (dominant_name ''mode'' ''email'' jobs)
             (dominant_name ''tone'' ''Professional'' jobs) (sentence_length f) tot f)
      else Ret None)"

text \<open>\<open>streakRow?.current_streak ?? ...\<close>.\<close>

definition current_streak :: "db_result \<Rightarrow> json list \<Rightarrow> json prog" where
  "current_streak r heat = (case jopt ''current_streak'' (db_data r) of
     None \<Rightarrow> bnd (streak_from_days (map session_date heat)) (\<lambda>n. Ret (JNum n))
   | Some JNull \<Rightarrow> bnd (streak_from_days (map session_date heat)) (\<lambda>n. Ret (JNum n))
   | Some j \<Rightarrow> Ret j)"

definition longest_streak :: "int \<Rightarrow> db_result \<Rightarrow> json list \<Rightarrow> json" where
  "longest_streak local r heat = nullish (jopt ''longest_streak'' (db_data r)) (JNum (longest_from_days local (map session_date heat)))"

definition analytics_compute :: "string \<Rightarrow> (int \<Rightarrow> string) \<Rightarrow> string \<Rightarrow> string \<Rightarrow> json prog" where
  "analytics_compute dash day uid rng =
     sq getSupabaseAdmin
     (bnd (range_filter rng) (\<lambda>fs.
      bnd (db_many (sessions_query uid fs) ''Failed to fetch sessions'') (\<lambda>sr.
      bnd now (\<lambda>t1.
      bnd (db (analytics_jobs_query uid t1)) (\<lambda>jr.
      bnd (db (Query ''writeright_streaks'' (Select ''current_streak, longest_streak'') [Eq ''user_id'' (JStr uid)] [] MaybeSingle)) (\<lambda>kr.
      bnd now (\<lambda>t2.
      bnd (db (heatmap_query uid t2)) (\<lambda>hr.
      bnd now (\<lambda>t3. bnd now (\<lambda>t4. bnd now (\<lambda>t5. bnd local_offset (\<lambda>local.
      let ss = row_list sr; jobs = row_list jr; heat = row_list hr in
      case study_jobs jobs of
        None \<Rightarrow> Throw type_error
      | Some f \<Rightarrow>
        bnd (db (Rpc ''get_global_percentile'' (JObj [(''p_user_id'', JStr uid)]))) (\<lambda>pr.
        bnd (current_streak kr heat) (\<lambda>cur.
        bnd (ask_analyst dash ss jobs f) (\<lambda>ai.
        Ret (analytics_view dash day
          \<lparr>a_sessions = ss, a_heat = heat, a_jobs = jobs, a_found = f, a_percentile = percentile (int_sum ''improvements'' ss) pr,
           a_current = cur, a_longest = longest_streak local kr heat, a_now = t3, a_week = t4 - 7 * DAY_MS,
           a_fortnight = t5 - 14 * DAY_MS, a_local = local\<rparr> ai))))))))))))))))"

definition analytics_GET_body :: "string \<Rightarrow> (int \<Rightarrow> string) \<Rightarrow> zparser \<Rightarrow> request \<Rightarrow> string \<Rightarrow> response prog" where
  "analytics_GET_body dash day zod req uid =
     (case zod AnalyticsQuerySchema (JObj [(''range'', JStr (or_else (query_get req ''range'') ''30d''))]) of
        Inl _ \<Rightarrow> Throw (createApiError VALIDATION_ERROR ''Invalid range parameter'' 400)
      | Inr ps \<Rightarrow> let rng = (case map_of ps ''range'' of Some (JStr r) \<Rightarrow> r | _ \<Rightarrow> []); key = analytics_key uid rng in
          kept_or key (bnd (analytics_compute dash day uid rng) (\<lambda>j. sq (keep key 300 j) (Ret (ok_value j)))))"

definition analytics_GET :: "string \<Rightarrow> (int \<Rightarrow> string) \<Rightarrow> zparser \<Rightarrow> request \<Rightarrow> response prog" where
  "analytics_GET dash day zod req = withErrorHandler req (authed (analytics_GET_body dash day zod req))"

section \<open>The contract\<close>

lemma all_calls_analyst [simp]:
  "(\<And>q. P (CFetch q)) \<Longrightarrow> all_calls P (callGeminiAnalytics dash m)"
  "(\<And>q. P (CFetch q)) \<Longrightarrow> all_calls P (ask_analyst dash ss jobs f)"
  by (simp_all add: ask_analyst_def callGeminiAnalytics_def Let_def)

lemma all_calls_streak_back [simp]: "all_calls P (streak_back ds k)"
  by (induction ds arbitrary: k) (simp_all add: now_def)

lemma all_calls_streaks [simp]: "all_calls P (streak_from_days days)" "all_calls P (current_streak r heat)"
  by (simp_all add: streak_from_days_def current_streak_def Let_def now_def split: option.split json.split)

lemma all_calls_range [simp]: "all_calls P (range_filter rng)"
  by (simp add: range_filter_def now_def)

interpretation analytics_route: user_route "analytics_GET dash day zod" "analytics_GET_body dash day zod" for dash day zod
  by unfold_locales (simp_all add: analytics_GET_def analytics_GET_body_def analytics_compute_def sessions_query_def
      analytics_jobs_query_def heatmap_query_def Let_def split: sum.split option.split)

section \<open>Streaks\<close>

lemma streak_back_bounds: "\<exists>n. fst (run E (streak_back ds k) s w) = Inr n \<and> k \<le> n \<and> n \<le> k + int (length ds)"
proof (induction ds arbitrary: k w)
  case (Cons d ds)
  obtain t w' where "clock E w = (t, w')" by (cases "clock E w")
  then show ?case using Cons.IH [of "k + 1" w'] by (auto simp: now_def)
qed simp

lemma last_sort: "xs \<noteq> [] \<Longrightarrow> last (sort xs) = Max (set xs)"
proof -
  have le: "x \<le> last ys" if "sorted ys" "x \<in> set ys" for x and ys :: "'a list"
    using that by (induction ys) auto
  assume "xs \<noteq> []"
  then have "sort xs \<noteq> []" by (metis set_empty set_sort)
  then show ?thesis using le [OF sorted_sort, of _ xs] last_in_set [of "sort xs"] by (intro Max_eqI [symmetric]) auto
qed

text \<open>C40: on one day, the streak computed from the days of activity is positive exactly when the last of them is
  today; a streak up to yesterday does not count, although the guard before the loop lets it pass.\<close>

theorem streak_needs_today:
  assumes "clock E w = (t1, w1)" and "clock E w1 = (t2, w2)" and "clock E w2 = (t3, w3)" and "dateKey t3 = dateKey t1"
  shows "\<exists>n. fst (run E (streak_from_days days) s w) = Inr n \<and> 0 \<le> n \<and> n \<le> int (length days) \<and>
     (0 < n \<longleftrightarrow> days \<noteq> [] \<and> Max (set days) = dateKey t1)"
proof (cases "days = []")
  case True
  then show ?thesis using assms by (simp add: streak_from_days_def now_def run_bnd)
next
  case False
  then have ne: "sort days \<noteq> []" by (metis set_empty set_sort)
  have l: "last (sort days) = Max (set days)" using last_sort [OF False] .
  obtain ds where ds: "rev (sort days) = Max (set days) # ds" and len: "length days = Suc (length ds)"
    using ne l by (cases "rev (sort days)") (auto simp: hd_rev [symmetric] dest: arg_cong [where f = length])
  obtain n where n: "fst (run E (streak_back ds 1) s w3) = Inr n" "1 \<le> n" "n \<le> 1 + int (length ds)"
    using streak_back_bounds [of E ds 1 s w3] by blast
  show ?thesis
    using assms False ne l ds len n by (auto simp: streak_from_days_def now_def run_bnd days_before_def)
qed

theorem streak_needs_today_witness:
  "\<exists>n. fst (run (fixed_env (2 * DAY_MS) RNil) (streak_from_days [''1970-01-01'', ''1970-01-02'']) quota_process ()) = Inr n \<and>
     0 \<le> n \<and> n \<le> int (length [''1970-01-01'', ''1970-01-02'']) \<and>
     (0 < n \<longleftrightarrow> [''1970-01-01'', ''1970-01-02''] \<noteq> [] \<and> Max (set [''1970-01-01'', ''1970-01-02'']) = dateKey (2 * DAY_MS))"
  by (rule streak_needs_today) (simp_all add: fixed_env_def)

end
