(* ===== verification/Project_Routes.thy ===== *)
theory Project_Routes
  imports Chat_Routes
begin

text \<open>
  app/api/writeright/projects: list and create, [id] (read, update, soft delete) and
  [id]/artifacts (list, create). Artifacts are reached only through a project of the user that
  is not deleted.
\<close>

section \<open>Projects\<close>

definition ProjectSchema :: zschema where
  "ProjectSchema =
     [(''name'', z_text 1 100, ZRequired), (''description'', ZStr False None (Some 500) False, ZOptional),
      (''icon'', z_string, ZDefault (JStr ''Folder''))]"

definition ProjectUpdateSchema :: zschema where
  "ProjectUpdateSchema =
     [(''name'', z_text 1 100, ZOptional), (''description'', ZStr False None (Some 500) False, ZNullish),
      (''icon'', z_string, ZOptional)]"

definition project_cols :: string where
  "project_cols = ''id, name, description, icon, status, created_at, updated_at''"

definition projects_GET_body :: "request \<Rightarrow> string \<Rightarrow> response prog" where
  "projects_GET_body req uid =
     sq getSupabaseAdmin
       (bnd (db_many (Query ''writeright_projects'' (Select project_cols)
          [Eq ''user_id'' (JStr uid), IsNull ''deleted_at''] [Order ''updated_at'' False] Many) ''Failed to get projects'') (\<lambda>r.
        Ret (ok_json [(''projects'', rows_of r)])))"

definition projects_GET :: "request \<Rightarrow> response prog" where
  "projects_GET req = withErrorHandler req (authed (projects_GET_body req))"

definition projects_POST_body :: "zparser \<Rightarrow> request \<Rightarrow> string \<Rightarrow> response prog" where
  "projects_POST_body zod req uid =
     bnd (parsed zod ProjectSchema (json_body_or_empty req)) (\<lambda>ps.
     sq getSupabaseAdmin
       (bnd (db_many (Query ''writeright_projects''
          (Insert (JObj ([(''user_id'', JStr uid), (''name'', JStr (zstr ''name'' ps)),
             (''description'', nullish (map_of ps ''description'') JNull)] @ member ''icon'' (map_of ps ''icon''))))
          [] [Returning ''*''] Single) ''Failed to create project'') (\<lambda>r.
        Ret (ok_json [(''project'', jval (db_data r))]))))"

definition projects_POST :: "zparser \<Rightarrow> request \<Rightarrow> response prog" where
  "projects_POST zod req = withErrorHandler req (authed (projects_POST_body zod req))"

section \<open>One project\<close>

definition owned_project :: "string \<Rightarrow> string \<Rightarrow> filter list" where
  "owned_project i uid = [Eq ''id'' (JStr i), Eq ''user_id'' (JStr uid), IsNull ''deleted_at'']"

definition project_GET_body :: "request \<Rightarrow> string \<Rightarrow> response prog" where
  "project_GET_body req uid =
     (let i = param_get req ''id'' in
      sq (check_uuid i)
      (sq getSupabaseAdmin
        (bnd (db_one (Query ''writeright_projects'' (Select project_cols) (owned_project i uid) [] Single)
           ''Failed to get project'') (\<lambda>p. Ret (ok_json [(''project'', p)])))))"

definition project_GET :: "request \<Rightarrow> response prog" where
  "project_GET req = withErrorHandler req (authed (project_GET_body req))"

definition project_PATCH_body :: "zparser \<Rightarrow> request \<Rightarrow> string \<Rightarrow> response prog" where
  "project_PATCH_body zod req uid =
     (let i = param_get req ''id'' in
      sq (check_uuid i)
      (bnd (parsed zod ProjectUpdateSchema (json_body_or_empty req)) (\<lambda>ps.
       if ps = [] then Ret (ok_json [(''ok'', JBool True)])
       else sq getSupabaseAdmin
         (bnd (db_one (Query ''writeright_projects'' (Update (JObj ps)) (owned_project i uid) [Returning ''*''] Single)
            ''Failed to update project'') (\<lambda>p. Ret (ok_json [(''project'', p)]))))))"

definition project_PATCH :: "zparser \<Rightarrow> request \<Rightarrow> response prog" where
  "project_PATCH zod req = withErrorHandler req (authed (project_PATCH_body zod req))"

definition project_DELETE_body :: "request \<Rightarrow> string \<Rightarrow> response prog" where
  "project_DELETE_body req uid =
     (let i = param_get req ''id'' in
      sq (check_uuid i)
      (sq getSupabaseAdmin
        (bnd now (\<lambda>t.
         bnd (db_many (Query ''writeright_projects'' (Update (JObj [(''deleted_at'', JStr (toISOString t))]))
           (owned_project i uid) [Returning ''id''] Many) ''Failed to delete project'') (\<lambda>r.
         if row_list r = [] then Throw not_found else Ret (ok_json [(''ok'', JBool True)]))))))"

definition project_DELETE :: "request \<Rightarrow> response prog" where
  "project_DELETE req = withErrorHandler req (authed (project_DELETE_body req))"

section \<open>Artifacts\<close>

definition ArtifactSchema :: zschema where
  "ArtifactSchema =
     [(''title'', z_text 1 200, ZDefault (JStr ''Untitled'')), (''content'', z_text 1 100000, ZRequired),
      (''type'', ZEnum [''draft'', ''paragraph'', ''template''], ZDefault (JStr ''draft'')),
      (''metadata'', ZRecord, ZDefault (JObj []))]"

text \<open>\<open>if (!project)\<close>: only the data is looked at.\<close>

definition require_project :: "string \<Rightarrow> string \<Rightarrow> unit prog" where
  "require_project i uid =
     bnd (db (Query ''writeright_projects'' (Select ''id'') (owned_project i uid) [] Single)) (\<lambda>r.
     if truthyo (db_data r) then Ret () else Throw not_found)"

definition artifacts_GET_body :: "request \<Rightarrow> string \<Rightarrow> response prog" where
  "artifacts_GET_body req uid =
     (let i = param_get req ''id'' in
      sq (check_uuid i)
      (sq getSupabaseAdmin
      (sq (require_project i uid)
        (bnd (db_many (Query ''writeright_artifacts'' (Select ''id, title, content, type, metadata, created_at, updated_at'')
           [Eq ''project_id'' (JStr i), Eq ''user_id'' (JStr uid), IsNull ''deleted_at'']
           [Order ''updated_at'' False] Many) ''Failed to get artifacts'') (\<lambda>r.
         Ret (ok_json [(''artifacts'', rows_of r)]))))))"

definition artifacts_GET :: "request \<Rightarrow> response prog" where
  "artifacts_GET req = withErrorHandler req (authed (artifacts_GET_body req))"

definition artifacts_POST_body :: "zparser \<Rightarrow> request \<Rightarrow> string \<Rightarrow> response prog" where
  "artifacts_POST_body zod req uid =
     (let i = param_get req ''id'' in
      sq (check_uuid i)
      (bnd (parsed zod ArtifactSchema (json_body_or_empty req)) (\<lambda>ps.
       sq getSupabaseAdmin
       (sq (require_project i uid)
         (bnd (db_many (Query ''writeright_artifacts''
            (Insert (JObj ([(''project_id'', JStr i), (''user_id'', JStr uid)]
               @ member ''title'' (map_of ps ''title'') @ member ''content'' (map_of ps ''content'')
               @ member ''type'' (map_of ps ''type'') @ member ''metadata'' (map_of ps ''metadata''))))
            [] [Returning ''*''] Single) ''Failed to create artifact'') (\<lambda>r.
          Ret (ok_json [(''artifact'', jval (db_data r))])))))))"

definition artifacts_POST :: "zparser \<Rightarrow> request \<Rightarrow> response prog" where
  "artifacts_POST zod req = withErrorHandler req (authed (artifacts_POST_body zod req))"

section \<open>The contract\<close>

lemma owned_project_scoped [simp]: "Eq ''user_id'' (JStr uid) \<in> set (owned_project i uid)"
  by (simp add: owned_project_def)

lemma require_project_scoped [simp]: "all_calls (tenant uid) (require_project i uid)"
  by (simp add: require_project_def)

interpretation projects_list: user_route projects_GET projects_GET_body
  by unfold_locales (simp_all add: projects_GET_def projects_GET_body_def)

interpretation project_create: user_route "projects_POST zod" "projects_POST_body zod" for zod
  by unfold_locales (simp_all add: projects_POST_def projects_POST_body_def row_of_user_def)

interpretation project_read: user_route project_GET project_GET_body
  by unfold_locales (simp_all add: project_GET_def project_GET_body_def)

interpretation project_update: user_route "project_PATCH zod" "project_PATCH_body zod" for zod
  by unfold_locales (simp_all add: project_PATCH_def project_PATCH_body_def)

interpretation project_delete: user_route project_DELETE project_DELETE_body
  by unfold_locales (simp_all add: project_DELETE_def project_DELETE_body_def)

interpretation artifacts_list: user_route artifacts_GET artifacts_GET_body
  by unfold_locales (simp_all add: artifacts_GET_def artifacts_GET_body_def)

interpretation artifact_create: user_route "artifacts_POST zod" "artifacts_POST_body zod" for zod
  by unfold_locales (simp_all add: artifacts_POST_def artifacts_POST_body_def row_of_user_def)

end
