(* ===== verification/Gmail_Link.thy ===== *)
theory Gmail_Link
  imports Gmail
begin

text \<open>
  The handlers of app/api/gmail that link an account and schedule a message: connect, callback and
  schedule (POST). The cookies of \<open>next/headers\<close> are the field \<open>jar\<close> of the process, the jar of the
  browser whose requests are considered: a cookie is sent back until its end, and its attributes other
  than the age (path, httpOnly, secure) are left out. What \<open>NextResponse.redirect\<close> makes of its
  argument (the normal form of the URL, or an exception for a malformed one) is the parameter \<open>url\<close>,
  \<open>Date.parse\<close> the parameter \<open>date\<close>.
\<close>

section \<open>Cookies\<close>

definition cookie_set :: "string \<Rightarrow> string \<Rightarrow> int \<Rightarrow> unit prog" where
  "cookie_set k v maxAge = bnd now (\<lambda>t. GetS (\<lambda>s.
     PutS (s\<lparr>jar := (k, v, t + maxAge * 1000) # List.filter (\<lambda>p. fst p \<noteq> k) (jar s)\<rparr>) (Ret ())))"

definition cookie_get :: "string \<Rightarrow> string option prog" where
  "cookie_get k = bnd now (\<lambda>t. GetS (\<lambda>s. Ret (case map_of (jar s) k of
     Some (v, e) \<Rightarrow> if t < e then Some v else None | None \<Rightarrow> None)))"

definition cookie_delete :: "string \<Rightarrow> unit prog" where
  "cookie_delete k = GetS (\<lambda>s. PutS (s\<lparr>jar := List.filter (\<lambda>p. fst p \<noteq> k) (jar s)\<rparr>) (Ret ()))"

text \<open>\<open>x || d\<close> for a string or nothing.\<close>

definition str_or :: "string \<Rightarrow> string option \<Rightarrow> string" where
  "str_or d v = (case v of Some x \<Rightarrow> if x = [] then d else x | None \<Rightarrow> d)"

abbreviation default_return :: string where
  "default_return \<equiv> ''/dashboard/writing''"

abbreviation return_cookie :: string where
  "return_cookie \<equiv> ''gmail_oauth_return_to''"

section \<open>connect\<close>

definition gmail_connect_GET_body :: "request \<Rightarrow> string \<Rightarrow> response prog" where
  "gmail_connect_GET_body req uid =
     (let returnTo = str_or default_return (query_get req ''returnTo'') in
      sq (cookie_set return_cookie returnTo 600)
      (catch (bnd (generateAuthUrl uid) (\<lambda>authUrl. Ret (ok_json (member ''url'' authUrl))))
        (\<lambda>err. if exn_message err = offline_text
               then Throw (createApiError GATEWAY_OFFLINE ''Authentication gateway is offline'' 503)
               else Throw err)))"

definition gmail_connect_GET :: "request \<Rightarrow> response prog" where
  "gmail_connect_GET req = withErrorHandler req (authed (gmail_connect_GET_body req))"

section \<open>callback\<close>

text \<open>\<open>s.replace(p, "")\<close> for a string \<open>p\<close>: the first occurrence.\<close>

fun without_first :: "string \<Rightarrow> string \<Rightarrow> string" where
  "without_first p [] = []"
| "without_first p (c # s) = (if prefix p (c # s) then drop (length p) (c # s) else c # without_first p s)"

definition CALLBACK_ORIGIN :: "string prog" where
  "CALLBACK_ORIGIN = bnd (get_env ''GOOGLE_REDIRECT_URI'') (\<lambda>v.
     Ret (case v of Some u \<Rightarrow> without_first ''/api/gmail/callback'' u | None \<Rightarrow> ''http://localhost:3000''))"

type_synonym url_form = "string \<Rightarrow> exn + string"

definition redirect_to :: "url_form \<Rightarrow> string \<Rightarrow> response prog" where
  "redirect_to url target = (case url target of
     Inl e \<Rightarrow> Throw e
   | Inr loc \<Rightarrow> Ret \<lparr>resp_status = 307, resp_body = BText [], resp_headers = [(''Location'', loc)]\<rparr>)"

definition gmail_callback_linked :: "url_form \<Rightarrow> request \<Rightarrow> string \<Rightarrow> string \<Rightarrow> response prog" where
  "gmail_callback_linked url req uid base =
     bnd (cookie_get return_cookie) (\<lambda>kept.
     let back_to = base @ str_or default_return kept;
         authCode = query_get req ''code''; state = query_get req ''state'' in
     sq (cookie_delete return_cookie)
     (if \<not> missing (query_get req ''error'') then redirect_to url (back_to @ ''?gmail_error=access_denied'')
      else if missing authCode \<or> missing state then redirect_to url (back_to @ ''?gmail_error=invalid_callback'')
      else bnd (catch (sq (handleCallback (the authCode) (the state) uid) (Ret None))
             (\<lambda>err. Ret (Some (if exn_message err = offline_text then ''gateway_offline'' else ''token_exchange_failed''))))
           (\<lambda>failure. case failure of
              Some errType \<Rightarrow> redirect_to url (back_to @ ''?gmail_error='' @ errType)
            | None \<Rightarrow> redirect_to url (back_to @ ''?gmail_connected=true''))))"

definition gmail_callback_GET :: "url_form \<Rightarrow> request \<Rightarrow> response prog" where
  "gmail_callback_GET url req = withErrorHandler req
     (bnd CALLBACK_ORIGIN (\<lambda>base.
      bnd get_session (\<lambda>ses.
      if missing (userId ses) then redirect_to url (base @ ''/sign-in'')
      else gmail_callback_linked url req (the (userId ses)) base)))"

section \<open>schedule\<close>

definition ScheduleSendSchema :: zschema where
  "ScheduleSendSchema =
     [(''gmailEmail'', ZEmail, ZRequired), (''recipientEmail'', ZEmail, ZRequired),
      (''subject'', z_text 1 500, ZRequired), (''body'', z_text 1 50000, ZRequired),
      (''scheduledAt'', ZDateStr, ZRequired)]"

definition scheduled_row :: "string \<Rightarrow> (string \<times> json) list \<Rightarrow> int \<Rightarrow> json" where
  "scheduled_row uid ps due = JObj
     [(''clerk_user_id'', JStr uid), (''gmail_email'', jval (map_of ps ''gmailEmail'')),
      (''recipient_email'', jval (map_of ps ''recipientEmail'')), (''subject'', jval (map_of ps ''subject'')),
      (''body'', jval (map_of ps ''body'')), (''scheduled_at'', JStr (toISOString due)), (''status'', JStr ''pending'')]"

text \<open>The time of the string, \<open>None\<close> for \<open>NaN\<close>: that is not before the present, and
  \<open>toISOString\<close> throws for it.\<close>

definition scheduled_time :: "(string \<Rightarrow> int option) \<Rightarrow> (string \<times> json) list \<Rightarrow> int option" where
  "scheduled_time date ps = (case map_of ps ''scheduledAt'' of Some (JStr x) \<Rightarrow> date x | _ \<Rightarrow> None)"

text \<open>The part behind the validation, at the time \<open>t\<close>.\<close>

definition schedule_at :: "(string \<Rightarrow> int option) \<Rightarrow> string \<Rightarrow> (string \<times> json) list \<Rightarrow> int \<Rightarrow> response prog" where
  "schedule_at date uid ps t =
     (if (case scheduled_time date ps of Some due \<Rightarrow> due \<le> t | None \<Rightarrow> False)
      then Throw (createApiError VALIDATION_ERROR ''Scheduled time must be in the future'' 400)
      else sq getSupabaseAdmin
        (case scheduled_time date ps of
           None \<Rightarrow> Throw (JsError ''Invalid time value'')
         | Some due \<Rightarrow>
             bnd (db (Query ''gmail_scheduled_sends'' (Insert (scheduled_row uid ps due)) [] [Returning ''*''] Single)) (\<lambda>r.
             if db_missing r then Throw (db_failed ''Failed to schedule email'')
             else Ret (ok_json [(''success'', JBool True), (''scheduledSend'', jval (db_data r))]))))"

definition gmail_schedule_POST_body :: "(string \<Rightarrow> int option) \<Rightarrow> zparser \<Rightarrow> request \<Rightarrow> string \<Rightarrow> response prog" where
  "gmail_schedule_POST_body date zod req uid =
     bnd (json_body req invalid_body) (\<lambda>body.
     bnd (parsed zod ScheduleSendSchema body) (\<lambda>ps.
     bnd now (\<lambda>t. schedule_at date uid ps t)))"

definition gmail_schedule_POST :: "(string \<Rightarrow> int option) \<Rightarrow> zparser \<Rightarrow> request \<Rightarrow> response prog" where
  "gmail_schedule_POST date zod req = withErrorHandler req (authed (gmail_schedule_POST_body date zod req))"

section \<open>The contract\<close>

lemma all_calls_cookies [simp]: "all_calls P (cookie_set k v n)" "all_calls P (cookie_get k)" "all_calls P (cookie_delete k)"
  by (simp_all add: cookie_set_def cookie_get_def cookie_delete_def)

interpretation gmail_connect: user_route gmail_connect_GET gmail_connect_GET_body
  by unfold_locales (simp_all add: gmail_connect_GET_def gmail_connect_GET_body_def generateAuthUrl_def)

interpretation gmail_schedule: user_route "gmail_schedule_POST date zod" "gmail_schedule_POST_body date zod" for date zod
  by unfold_locales (simp_all add: gmail_schedule_POST_def gmail_schedule_POST_body_def schedule_at_def scheduled_row_def row_of_user_def
      split: option.splits)

section \<open>What stays of the process\<close>

text \<open>A program that leaves \<open>f\<close> of the process as it is.\<close>

definition keeps :: "'w environment \<Rightarrow> (process \<Rightarrow> 'b) \<Rightarrow> 'a prog \<Rightarrow> bool" where
  "keeps E f p \<longleftrightarrow> (\<forall>s w. f (fst (snd (run E p s w))) = f s)"

lemma keeps_run: "keeps E f p \<Longrightarrow> run E p s w = (x, s1, w1) \<Longrightarrow> f s1 = f s"
  unfolding keeps_def by (metis fst_conv snd_conv)

lemma keeps_bnd [intro]: "keeps E f p \<Longrightarrow> (\<And>x. keeps E f (g x)) \<Longrightarrow> keeps E f (bnd p g)"
  unfolding keeps_def by (auto simp: run_bnd split: prod.splits sum.splits) (metis fst_conv snd_conv)+

lemma keeps_catch [intro]: "keeps E f p \<Longrightarrow> (\<And>e. keeps E f (h e)) \<Longrightarrow> keeps E f (catch p h)"
  unfolding keeps_def by (auto simp: run_catch split: prod.splits sum.splits) (metis fst_conv snd_conv)+

lemma keeps_simps [simp]:
  "keeps E f (Ret x)" "keeps E f (Throw e)" "(\<And>r. keeps E f (k r)) \<Longrightarrow> keeps E f (Call c k)"
  "keeps E f now" "keeps E f (get_env v)" "keeps E f (call_str c)" "keeps E f (fetch q)"
  by (auto simp: keeps_def now_def get_env_def call_str_def fetch_def split: prod.splits reply.splits)

abbreviation browser :: "process \<Rightarrow> (string \<times> string \<times> int) list \<times> (string \<Rightarrow> string option)" where
  "browser \<equiv> (\<lambda>s. (jar s, penv s))"

lemma keeps_env_or [simp]: "keeps E f (env_or k d)" "keeps E f (env_or_empty k d)"
  by (auto simp: env_or_def env_or_empty_def)

lemma keeps_cache: "keeps E browser (GetS (\<lambda>s. PutS (s\<lparr>secretCache := c s\<rparr>) (Ret x)))"
  by (simp add: keeps_def)

lemma keeps_secret_name [simp]: "keeps E f (secret_name n)"
  by (auto simp: secret_name_def split: option.splits)

lemma keeps_cloud [simp]: "keeps E f (fetchFromAWSSecretsManager n)" "keeps E f (fetchFromGCPSecretManager n)"
  unfolding fetchFromAWSSecretsManager_def fetchFromGCPSecretManager_def
  by (intro keeps_bnd; auto split: reply.splits list.splits)+

lemma keeps_fetch_secret: "keeps E browser (fetch_secret n)"
  unfolding fetch_secret_def
  by (intro keeps_bnd) (auto simp: PROVIDER_def keeps_cache split: option.splits)

lemma keeps_getSecret: "keeps E browser (getSecret n)"
proof -
  have "jar (fst (snd (run E (fetch_secret n) s w))) = jar s" "penv (fst (snd (run E (fetch_secret n) s w))) = penv s" for s w
    using keeps_fetch_secret [of E n] unfolding keeps_def by simp_all
  then show ?thesis
    by (simp add: keeps_def getSecret_def getSecretWithOptions_def now_def split: option.splits prod.splits)
qed

lemma keeps_gw_post: "keeps E browser (gw_post path body)"
proof -
  have "keeps E browser (readTokensFromFile f)" for f
    unfolding readTokensFromFile_def by (intro keeps_catch keeps_bnd) auto
  then have "keeps E browser getPreferredInternalApiToken"
    unfolding getPreferredInternalApiToken_def getInternalApiTokenCandidates_def
    by (intro keeps_bnd) (auto simp: keeps_getSecret)
  then show ?thesis
    unfolding gw_post_def by (intro keeps_bnd) (auto simp: GW_def gw_reply_def split: option.splits)
qed

section \<open>Properties\<close>

lemma map_of_drop_key: "map_of (List.filter (\<lambda>p. fst p \<noteq> k) ps) k = None"
  by (induction ps) auto



text \<open>C37: no message is scheduled for the past. Every row the handler writes is the one made from the validated
  body, belongs to the user, and is due after the time of the request.\<close>

theorem schedule_only_future:
  assumes "CDb q \<in> set (trace E (gmail_schedule_POST_body date zod req uid) s w)"
  shows "\<exists>j ps due. req_body req = Some j \<and> zod ScheduleSendSchema j = Inr ps \<and> scheduled_time date ps = Some due \<and>
    fst (clock E w) < due \<and> q = Query ''gmail_scheduled_sends'' (Insert (scheduled_row uid ps due)) [] [Returning ''*''] Single"
proof -
  obtain j ps where b: "req_body req = Some j" and z: "zod ScheduleSendSchema j = Inr ps"
    using assms by (cases "req_body req"; cases "zod ScheduleSendSchema (the (req_body req))")
      (auto simp: gmail_schedule_POST_body_def json_body_def parsed_def)
  obtain t w1 where t: "clock E w = (t, w1)" by (cases "clock E w")
  let ?P = "\<lambda>c. \<forall>q. c = CDb q \<longrightarrow> (\<exists>due. scheduled_time date ps = Some due \<and> t < due \<and>
    q = Query ''gmail_scheduled_sends'' (Insert (scheduled_row uid ps due)) [] [Returning ''*''] Single)"
  have "trace E (gmail_schedule_POST_body date zod req uid) s w = trace E (schedule_at date uid ps t) s w1"
    using b z t by (simp add: gmail_schedule_POST_body_def json_body_def parsed_def now_def)
  moreover have "all_calls ?P (schedule_at date uid ps t)"
    by (auto simp: schedule_at_def split: option.splits)
  ultimately show ?thesis using assms b z t all_calls_trace [of ?P] by fastforce
qed

theorem schedule_only_future_witness:
  "\<exists>j ps due. zod_ref ScheduleSendSchema j = Inr ps \<and> scheduled_time (parse_time 0) ps = Some due \<and> 0 < due \<and>
    set (trace (fixed_env 0 RNil) (gmail_schedule_POST_body (parse_time 0) zod_ref \<lparr>req_method = ''POST'', req_path = ''/'', req_query = [],
      req_headers = [], req_body = Some j, req_params = []\<rparr> ''u'') (node_process\<lparr>supabase_client := True\<rparr>) ()) =
    {CDb (Query ''gmail_scheduled_sends'' (Insert (scheduled_row ''u'' ps due)) [] [Returning ''*''] Single)}"
proof -
  let ?j = "JObj [(''gmailEmail'', JStr ''a@b.c''), (''recipientEmail'', JStr ''d@e.f''), (''subject'', JStr ''s''),
    (''body'', JStr ''b''), (''scheduledAt'', JStr ''2030-01-02T03:04:05Z'')]"
  let ?req = "\<lparr>req_method = ''POST'', req_path = ''/'', req_query = [], req_headers = [], req_body = Some ?j, req_params = []\<rparr>"
  let ?tr = "trace (fixed_env 0 RNil) (gmail_schedule_POST_body (parse_time 0) zod_ref ?req ''u'') (node_process\<lparr>supabase_client := True\<rparr>) ()"
  have z: "zod_ref ScheduleSendSchema ?j = Inr [(''gmailEmail'', JStr ''a@b.c''), (''recipientEmail'', JStr ''d@e.f''), (''subject'', JStr ''s''),
    (''body'', JStr ''b''), (''scheduledAt'', JStr ''2030-01-02T03:04:05Z'')]"
    by (simp add: zod_ref_def ScheduleSendSchema_def zod_value_def zod_ok_def zmember_ok_def)
  have "parse_time 0 ''2030-01-02T03:04:05Z'' = Some 1893553445000" by code_simp
  then obtain q where q: "set ?tr = {CDb q}"
    by (simp add: gmail_schedule_POST_body_def json_body_def parsed_def z now_def schedule_at_def scheduled_time_def
        getSupabaseAdmin_def db_def fixed_env_def sq_def)
  then show ?thesis using schedule_only_future [of q "fixed_env 0 RNil" "parse_time 0" zod_ref ?req "''u''"]
    by (fastforce simp: fixed_env_def)
qed

end
