(* ===== verification/Upload_Routes.thy ===== *)
theory Upload_Routes
  imports Search_Routes Tool_Routes
begin

text \<open>
  The handlers that take files: app/api/writeright/extract (text of an uploaded document) and the
  POST handler of app/api/writeright/voice (transcription of a recording, or a style example).
  \<open>req.formData()\<close> is the parameter \<open>form\<close>; the readers of UTF-8, PDF (pdf-parse) and DOCX (mammoth)
  are the fields of a record. Bytes are characters, as in the \<open>latin1\<close> decoding of the source. The
  expressions of \<open>sanitizeExtractedText\<close> are recursive functions; the lemmas on \<open>has_tag\<close> relate the
  first of them to its pattern \<open>/<[^>]+>/\<close>.
\<close>

section \<open>Forms\<close>

record upload =
  up_type :: string
  up_size :: int
  up_bytes :: string

datatype form_entry = FText string | FFile upload

type_synonym form_reader = "request \<Rightarrow> (string \<times> form_entry) list option"

record readers =
  rd_utf8 :: "string \<Rightarrow> string"
  rd_pdf :: "string \<Rightarrow> exn + json"
  rd_docx :: "string \<Rightarrow> exn + string"

section \<open>Sanitizing\<close>

function strip_tags :: "string \<Rightarrow> string" where
  "strip_tags [] = []"
| "strip_tags (c # s) =
     (if c = CHR ''<'' \<and> takeWhile (\<lambda>x. x \<noteq> CHR ''>'') s \<noteq> [] \<and> dropWhile (\<lambda>x. x \<noteq> CHR ''>'') s \<noteq> []
      then strip_tags (tl (dropWhile (\<lambda>x. x \<noteq> CHR ''>'') s))
      else c # strip_tags s)"
  by pat_completeness auto
termination
  by (relation "measure length") (auto simp: less_Suc_eq_le length_dropWhile_le intro: le_trans [OF diff_le_self])

fun unix_lines :: "string \<Rightarrow> string" where
  "unix_lines (c # d # s) = (if c = CHR 0x0D \<and> d = CHR 0x0A then CHR 0x0A # unix_lines s else c # unix_lines (d # s))"
| "unix_lines s = s"

function blank_lines :: "string \<Rightarrow> string" where
  "blank_lines [] = []"
| "blank_lines (c # s) =
     (if c = CHR 0x0A
      then (let more = takeWhile (\<lambda>x. x = CHR 0x0A) s in if 2 \<le> length more then [CHR 0x0A, CHR 0x0A] else c # more)
        @ blank_lines (dropWhile (\<lambda>x. x = CHR 0x0A) s)
      else c # blank_lines s)"
  by pat_completeness auto
termination
  by (relation "measure length") (auto simp: less_Suc_eq_le length_dropWhile_le intro: le_trans [OF diff_le_self])

text \<open>\<open>[\x00-\x08\x0B\x0C\x0E-\x1F\x7F]\<close>.\<close>

definition control_char :: "char \<Rightarrow> bool" where
  "control_char c \<longleftrightarrow> (let n = code c in n \<le> 8 \<or> n = 11 \<or> n = 12 \<or> (14 \<le> n \<and> n \<le> 31) \<or> n = 127)"

definition sanitizeExtractedText :: "string \<Rightarrow> string" where
  "sanitizeExtractedText t =
     trim (List.filter (\<lambda>c. \<not> control_char c) (blank_lines (unix_lines (strip_tags t))))"

section \<open>extract\<close>

definition MAX_FILE_SIZE_BYTES :: int where "MAX_FILE_SIZE_BYTES = 4 * 1024 * 1024"

definition MAX_CHARS :: nat where "MAX_CHARS = 10000"

abbreviation docx_type :: string where
  "docx_type \<equiv> ''application/vnd.openxmlformats-officedocument.wordprocessingml.document''"

definition ALLOWED_TYPES :: "string list" where
  "ALLOWED_TYPES = [''text/plain'', ''application/pdf'', docx_type]"

definition extractRateKey :: "string \<Rightarrow> string" where
  "extractRateKey uid = ns [''writeright'', ''extract'', ''ratelimit'', uid]"

definition checkExtractRateLimit :: "string \<Rightarrow> rate_limit prog" where
  "checkExtractRateLimit uid =
     bnd isCircuitOpen (\<lambda>op.
     if op then Ret \<lparr>allowed = True, remaining = 20\<rparr>
     else sq getRedisPool
       (bnd (redis_int (INCR (extractRateKey uid))) (\<lambda>count.
        sq (whenP (count = 1) (redis_unit (EXPIRE (extractRateKey uid) 3600)))
           (Ret \<lparr>allowed = (count \<le> 20), remaining = max 0 (20 - count)\<rparr>))))"

definition extract_limit :: "string \<Rightarrow> unit prog" where
  "extract_limit uid =
     catch (bnd (checkExtractRateLimit uid) (\<lambda>rate. if allowed rate then Ret ()
         else Throw (createApiErrorM RATE_LIMITED ''Extraction rate limit exceeded'' (Some 429)
           \<lparr>meta_headers = Some [(''Retry-After'', ''3600'')], meta_fields = []\<rparr>)))
       (\<lambda>e. if is_write_right e then Throw e else Ret ())"

text \<open>A match of \<open>/\(([^()]{2,500})\)\s*T[Jj]/\<close> at the head of the text: the group and what follows.\<close>

definition shown_at :: "string \<Rightarrow> (string \<times> string) option" where
  "shown_at s = (case s of
     c # r \<Rightarrow>
       (let inner = takeWhile (\<lambda>x. x \<noteq> CHR ''('' \<and> x \<noteq> CHR '')'') r;
            u = dropWhile is_ws (tl (drop (length inner) r))
        in if c = CHR ''('' \<and> 2 \<le> length inner \<and> length inner \<le> 500 \<and> startsWith (drop (length inner) r) '')''
              \<and> (startsWith u ''TJ'' \<or> startsWith u ''Tj'')
           then Some (inner, drop 2 u) else None)
   | [] \<Rightarrow> None)"

lemma shown_at_shorter: "shown_at s = Some (x, r) \<Longrightarrow> length r < length s"
  by (cases s) (auto simp: shown_at_def Let_def split: if_splits
      intro!: le_less_trans [OF diff_le_self] le_less_trans [OF length_dropWhile_le])

text \<open>The groups of the successive matches: the two replacements on a match leave its group.\<close>

function shown_strings :: "string \<Rightarrow> string list" where
  "shown_strings [] = []"
| "shown_strings (c # s) = (case shown_at (c # s) of
     Some (inner, r) \<Rightarrow> inner # shown_strings r | None \<Rightarrow> shown_strings s)"
  by pat_completeness auto
termination
  by (relation "measure length") (auto dest: shown_at_shorter)

definition extractPdfFallback :: "string \<Rightarrow> string" where
  "extractPdfFallback bytes = sanitizeExtractedText (join '' '' (shown_strings bytes))"

text \<open>The type by the first four bytes.\<close>

definition realType :: "upload \<Rightarrow> string" where
  "realType f =
     (if 4 \<le> length (up_bytes f) then
        (if take 4 (up_bytes f) = ''%PDF'' then ''application/pdf''
         else if take 4 (up_bytes f) = [CHR ''P'', CHR ''K'', CHR 0x03, CHR 0x04] then docx_type
         else ''text/plain'')
      else if up_type f = [] then ''unknown'' else up_type f)"

definition extracted_text :: "readers \<Rightarrow> string \<Rightarrow> string \<Rightarrow> string" where
  "extracted_text rd ty bytes =
     (if ty = ''text/plain'' then sanitizeExtractedText (rd_utf8 rd bytes)
      else if ty = ''application/pdf'' then
        (case rd_pdf rd bytes of
           Inr (JStr t) \<Rightarrow> sanitizeExtractedText t
         | Inr _ \<Rightarrow> sanitizeExtractedText []
         | Inl _ \<Rightarrow> extractPdfFallback bytes)
      else (case rd_docx rd bytes of Inr v \<Rightarrow> sanitizeExtractedText v | Inl _ \<Rightarrow> []))"

definition unsupported_type :: exn where
  "unsupported_type = createApiError VALIDATION_ERROR ''Unsupported file type'' 400"

definition too_large :: "string \<Rightarrow> int \<Rightarrow> exn" where
  "too_large msg n = createApiErrorM FILE_TOO_LARGE msg (Some 413) \<lparr>meta_headers = None, meta_fields = [(''max_bytes'', JNum n)]\<rparr>"

definition extract_file :: "readers \<Rightarrow> upload \<Rightarrow> response prog" where
  "extract_file rd f =
     (if up_type f \<notin> set ALLOWED_TYPES then Throw unsupported_type
      else if MAX_FILE_SIZE_BYTES < up_size f then Throw (too_large ''File exceeds the 4MB limit.'' MAX_FILE_SIZE_BYTES)
      else if realType f \<notin> set ALLOWED_TYPES then Throw unsupported_type
      else let extracted = extracted_text rd (realType f) (up_bytes f); out = take MAX_CHARS extracted in
        if extracted = [] then Throw (createApiError VALIDATION_ERROR ''Could not read this file. Paste the text manually.'' 422)
        else Ret (ok_json [(''text'', JStr out), (''truncated'', JBool (MAX_CHARS < length extracted)),
          (''char_count'', JNum (int (length out)))]))"

definition extract_POST_body :: "form_reader \<Rightarrow> readers \<Rightarrow> request \<Rightarrow> string \<Rightarrow> response prog" where
  "extract_POST_body form rd req uid =
     sq (extract_limit uid)
     (case form req of
        None \<Rightarrow> Throw (createApiError INVALID_BODY ''Invalid form data'' 400)
      | Some formData \<Rightarrow> (case map_of formData ''file'' of
          Some (FFile f) \<Rightarrow> extract_file rd f
        | _ \<Rightarrow> Throw (createApiError INVALID_BODY ''Missing file'' 400)))"

definition extract_POST :: "form_reader \<Rightarrow> readers \<Rightarrow> request \<Rightarrow> response prog" where
  "extract_POST form rd req = withErrorHandler req (authed (extract_POST_body form rd req))"

section \<open>voice\<close>

definition AUDIO_MAX_BYTES :: int where "AUDIO_MAX_BYTES = 5 * 1024 * 1024"

definition AUDIO_RATE_LIMIT :: int where "AUDIO_RATE_LIMIT = 10"

definition audioRateKey :: "string \<Rightarrow> string" where
  "audioRateKey uid = ns [''writeright'', ''voice'', ''ratelimit'', uid]"

definition checkAudioRateLimit :: "string \<Rightarrow> bool prog" where
  "checkAudioRateLimit uid =
     bnd isCircuitOpen (\<lambda>op.
     if op then Ret True
     else catch (sq getRedisPool
       (bnd (redis_int (INCR (audioRateKey uid))) (\<lambda>count.
        sq (whenP (count = 1) (redis_unit (EXPIRE (audioRateKey uid) 60)))
           (Ret (count \<le> AUDIO_RATE_LIMIT))))) (\<lambda>_. Ret True))"

definition audio_limited :: exn where
  "audio_limited = createApiErrorM RATE_LIMITED ''Rate limit exceeded'' (Some 429)
     \<lparr>meta_headers = Some [(''X-RateLimit-Limit'', show_int AUDIO_RATE_LIMIT), (''X-RateLimit-Remaining'', ''0''), (''Retry-After'', ''60'')],
      meta_fields = []\<rparr>"

text \<open>\<open>typeof lang === "string" ? lang : d\<close>.\<close>

definition lang_or :: "string \<Rightarrow> form_entry option \<Rightarrow> string" where
  "lang_or d lang = (case lang of Some (FText l) \<Rightarrow> l | _ \<Rightarrow> d)"

definition browser_fallback :: "form_entry option \<Rightarrow> response" where
  "browser_fallback lang = ok_json [(''transcript'', JNull), (''confidence'', JNum 0),
     (''language_detected'', JStr (lang_or ''auto'' lang)), (''fallback'', JStr ''browser'')]"

definition deepgram_request :: "string \<Rightarrow> form_entry option \<Rightarrow> upload \<Rightarrow> fetch_request" where
  "deepgram_request deepgramKey lang audio =
     \<lparr>fq_method = ''POST'', fq_url = ''https://api.deepgram.com/v1/listen?language='' @ encodeURIComponent (lang_or ''en'' lang),
      fq_headers = [(''Authorization'', ''Token '' @ deepgramKey),
        (''Content-Type'', if up_type audio = [] then ''audio/webm'' else up_type audio)],
      fq_body = Some (JStr (up_bytes audio))\<rparr>"

definition item0 :: "json option \<Rightarrow> json option" where
  "item0 v = (case arr_items v of x # _ \<Rightarrow> Some x | [] \<Rightarrow> None)"

definition transcript_of :: "form_entry option \<Rightarrow> json \<Rightarrow> response" where
  "transcript_of lang d =
     (let alt = item0 (jopt ''alternatives'' (item0 (jopt ''channels'' (jfield ''results'' d)))) in
      ok_json [(''transcript'', nullish (jopt ''transcript'' alt) (JStr [])), (''confidence'', nullish (jopt ''confidence'' alt) (JNum 0)),
        (''language_detected'', nullish (jopt ''language'' (jfield ''metadata'' d)) (JStr (lang_or ''auto'' lang)))])"

definition voice_stt :: "form_reader \<Rightarrow> request \<Rightarrow> string \<Rightarrow> response prog" where
  "voice_stt form req uid =
     bnd (checkAudioRateLimit uid) (\<lambda>ok.
     if \<not> ok then Throw audio_limited
     else case form req of
       None \<Rightarrow> Throw (createApiError INVALID_BODY ''Invalid form data'' 400)
     | Some fd \<Rightarrow>
         (let lang = map_of fd ''lang'' in
          case map_of fd ''audio'' of
            Some (FFile audio) \<Rightarrow>
              if AUDIO_MAX_BYTES < up_size audio then Throw (too_large ''File exceeds the 5MB limit.'' AUDIO_MAX_BYTES)
              else bnd (get_env ''DEEPGRAM_API_KEY'') (\<lambda>deepgramKey.
                if missing deepgramKey then Ret (browser_fallback lang)
                else bnd (fetch (deepgram_request (the deepgramKey) lang audio)) (\<lambda>sttRes.
                  if \<not> fr_ok sttRes then Ret (browser_fallback lang)
                  else bnd (answer_json sttRes) (\<lambda>d. Ret (transcript_of lang d))))
          | _ \<Rightarrow> Throw (createApiError VALIDATION_ERROR ''Audio file is required'' 400)))"

definition voice_POST_body :: "form_reader \<Rightarrow> request \<Rightarrow> string \<Rightarrow> response prog" where
  "voice_POST_body form req uid =
     (if str_includes (case header_get (req_headers req) ''content-type'' of Some v \<Rightarrow> v | None \<Rightarrow> []) ''multipart/form-data''
      then voice_stt form req uid else voice_ingest req uid)"

definition voice_POST :: "form_reader \<Rightarrow> request \<Rightarrow> response prog" where
  "voice_POST form req = withErrorHandler req (authed (voice_POST_body form req))"

section \<open>The contracts\<close>

interpretation extract_route: user_route "extract_POST form rd" "extract_POST_body form rd" for form rd
  by unfold_locales (simp_all add: extract_POST_def extract_POST_body_def extract_limit_def checkExtractRateLimit_def
      extract_file_def Let_def split: option.splits form_entry.splits)

interpretation voice_upload: user_route "voice_POST form" "voice_POST_body form" for form
  by unfold_locales (simp_all add: voice_POST_def voice_POST_body_def voice_stt_def voice_ingest_def checkAudioRateLimit_def
      Let_def split: option.splits form_entry.splits json.splits)

sublocale redis_service \<subseteq> extract_window: window_limiter E time keys "checkExtractRateLimit uid" "extractRateKey uid" 3600
  "\<lambda>n. \<lparr>allowed = (n \<le> 20), remaining = max 0 (20 - n)\<rparr>" for uid
proof unfold_locales
  fix s w assume "up s (time w)"
  then show "\<exists>w1. keys w1 = keys w \<and> time w \<le> time w1 \<and> run E (checkExtractRateLimit uid) s w =
      run E (limit_core (extractRateKey uid) 3600 (\<lambda>n. \<lparr>allowed = (n \<le> 20), remaining = max 0 (20 - n)\<rparr>)) s w1"
    by (intro exI [of _ "ticked w"]) (simp add: time_ticked checkExtractRateLimit_def limit_core_def run_open_check)
qed simp

section \<open>Text without tags\<close>

text \<open>A match of \<open>/<[^>]+>/\<close> somewhere in the text.\<close>

definition has_tag :: "string \<Rightarrow> bool" where
  "has_tag s \<longleftrightarrow> (\<exists>a b c. s = a @ CHR ''<'' # b @ CHR ''>'' # c \<and> b \<noteq> [] \<and> CHR ''>'' \<notin> set b)"

fun tag_free :: "string \<Rightarrow> bool" where
  "tag_free [] = True"
| "tag_free (c # s) = ((c = CHR ''<'' \<longrightarrow> CHR ''>'' \<notin> set s \<or> hd s = CHR ''>'') \<and> tag_free s)"

lemma tag_free_no_tag: "tag_free s \<Longrightarrow> \<not> has_tag s"
proof (induction s)
  case (Cons c s)
  show ?case
  proof
    assume "has_tag (c # s)"
    then obtain a b d where e: "c # s = a @ CHR ''<'' # b @ CHR ''>'' # d" "b \<noteq> []" "CHR ''>'' \<notin> set b"
      unfolding has_tag_def by blast
    show False
    proof (cases a)
      case Nil
      then show ?thesis using e Cons.prems by (cases b) auto
    next
      case (Cons x xs)
      then have "has_tag s" using e unfolding has_tag_def by auto
      then show ?thesis using Cons.IH Cons.prems by simp
    qed
  qed
qed (simp add: has_tag_def)

lemma set_tl_dropWhile: "set (tl (dropWhile P s)) \<subseteq> set s"
  by (induction s) (auto simp: subset_iff)

lemma tag_free_strip: "set (strip_tags s) \<subseteq> set s \<and> tag_free (strip_tags s) \<and>
    (s \<noteq> [] \<and> hd s = CHR ''>'' \<longrightarrow> hd (strip_tags s) = CHR ''>'')"
proof (induction s rule: strip_tags.induct)
  case (2 c s)
  show ?case
  proof (cases "c = CHR ''<'' \<and> takeWhile (\<lambda>x. x \<noteq> CHR ''>'') s \<noteq> [] \<and> dropWhile (\<lambda>x. x \<noteq> CHR ''>'') s \<noteq> []")
    case True
    then show ?thesis using 2(1) set_tl_dropWhile [of "\<lambda>x. x \<noteq> CHR ''>''" s] by auto
  next
    case False
    then have "c = CHR ''<'' \<Longrightarrow> CHR ''>'' \<in> set s \<Longrightarrow> s \<noteq> [] \<and> hd s = CHR ''>''"
      by (cases s) (auto split: if_splits)
    then show ?thesis using False 2(2) by (auto simp: subset_iff)
  qed
qed simp

lemma tag_free_unix: "tag_free s \<Longrightarrow> tag_free (unix_lines s) \<and> set (unix_lines s) \<subseteq> set s \<and>
    (s \<noteq> [] \<and> hd s = CHR ''>'' \<longrightarrow> hd (unix_lines s) = CHR ''>'')"
  by (induction s rule: unix_lines.induct) auto

lemma tag_free_dropWhile: "tag_free s \<Longrightarrow> tag_free (dropWhile P s)"
  by (induction s) auto

lemma tag_free_append_newlines: "set u \<subseteq> {CHR 0x0A} \<Longrightarrow> tag_free (u @ s) = tag_free s"
  by (induction u) auto

lemma tag_free_blank: "tag_free s \<Longrightarrow> tag_free (blank_lines s) \<and> set (blank_lines s) \<subseteq> set s \<and>
    (s \<noteq> [] \<and> hd s = CHR ''>'' \<longrightarrow> hd (blank_lines s) = CHR ''>'')"
proof (induction s rule: blank_lines.induct)
  case (2 c s)
  show ?case
  proof (cases "c = CHR 0x0A")
    case True
    then have "tag_free (dropWhile (\<lambda>x. x = CHR 0x0A) s)" using 2(3) by (simp add: tag_free_dropWhile)
    moreover have "set (takeWhile (\<lambda>x. x = CHR 0x0A) s) \<subseteq> {CHR 0x0A}" by (auto dest: set_takeWhileD)
    ultimately show ?thesis
      using 2(1) [OF True] True by (auto simp: Let_def tag_free_append_newlines dest: set_dropWhileD set_takeWhileD)
  next
    case False
    then show ?thesis using 2(2,3) by (cases s) auto
  qed
qed simp

lemma tag_free_filter: "tag_free s \<Longrightarrow> P (CHR ''>'') \<Longrightarrow> tag_free (List.filter P s)"
proof (induction s)
  case (Cons c s)
  then show ?case by (cases s) auto
qed simp

lemma tag_free_prefix: "tag_free (a @ b) \<Longrightarrow> tag_free a"
proof (induction a)
  case (Cons c a)
  then show ?case by (cases a) auto
qed simp

lemma tag_free_trim: "tag_free s \<Longrightarrow> tag_free (trim s)"
  unfolding trim_def using dropWhile_rev_prefix [of is_ws "dropWhile is_ws s"]
  by (auto simp: prefix_def) (metis tag_free_dropWhile tag_free_prefix)

lemma sanitized_tag_free: "tag_free (sanitizeExtractedText t)"
  unfolding sanitizeExtractedText_def
  by (intro tag_free_trim tag_free_filter) (use tag_free_blank tag_free_unix tag_free_strip in \<open>auto simp: control_char_def\<close>)

lemma sanitized_printable: "c \<in> set (sanitizeExtractedText t) \<Longrightarrow> \<not> control_char c"
  using set_trim unfolding sanitizeExtractedText_def by fastforce

section \<open>Properties\<close>

lemma extracted_sanitized: "\<exists>u. extracted_text rd ty bytes = sanitizeExtractedText u"
proof -
  have "[] = sanitizeExtractedText []" by (simp add: sanitizeExtractedText_def)
  then show ?thesis by (auto simp: extracted_text_def extractPdfFallback_def split: sum.splits json.splits)
qed

text \<open>C38: what an upload gives is fit for the editor. Every answer of the extraction, whatever the readers of the
  formats return, is a text of 1 to 10000 characters without a match of the tag expression and without
  control characters, from a file of at most four megabytes; the answer says its length.\<close>

theorem extracted_text_clean:
  assumes "run E (extract_file rd f) s w = (Inr resp, s1, w1)"
  shows "\<exists>out tr. resp = ok_json [(''text'', JStr out), (''truncated'', JBool tr), (''char_count'', JNum (int (length out)))] \<and>
    0 < length out \<and> length out \<le> 10000 \<and> \<not> has_tag out \<and> (\<forall>c \<in> set out. \<not> control_char c) \<and> up_size f \<le> 4194304"
proof -
  define ex where "ex = extracted_text rd (realType f) (up_bytes f)"
  have r: "resp = ok_json [(''text'', JStr (take MAX_CHARS ex)), (''truncated'', JBool (MAX_CHARS < length ex)),
      (''char_count'', JNum (int (length (take MAX_CHARS ex))))]" and "ex \<noteq> []" and "up_size f \<le> 4194304"
    using assms by (auto simp: extract_file_def MAX_FILE_SIZE_BYTES_def ex_def Let_def split: if_splits)
  moreover obtain u where u: "ex = sanitizeExtractedText u" unfolding ex_def using extracted_sanitized by blast
  have "tag_free (take MAX_CHARS ex)"
    using sanitized_tag_free [of u] unfolding u by (metis append_take_drop_id tag_free_prefix)
  moreover have "\<forall>c \<in> set (take MAX_CHARS ex). \<not> control_char c"
    using sanitized_printable [of _ u] unfolding u by (meson in_set_takeD)
  ultimately show ?thesis
    by (intro exI [of _ "take MAX_CHARS ex"] exI [of _ "MAX_CHARS < length ex"]) (simp add: MAX_CHARS_def tag_free_no_tag)
qed

theorem extracted_text_clean_witness:
  "\<exists>out tr. extract_file \<lparr>rd_utf8 = id, rd_pdf = (\<lambda>_. Inr JNull), rd_docx = Inr\<rparr>
      \<lparr>up_type = ''text/plain'', up_size = 20, up_bytes = ''Dear <b>reader</b>, hi''\<rparr> =
    Ret (ok_json [(''text'', JStr out), (''truncated'', JBool tr), (''char_count'', JNum (int (length out)))]) \<and> \<not> has_tag out"
proof -
  let ?rd = "\<lparr>rd_utf8 = id, rd_pdf = (\<lambda>_. Inr JNull), rd_docx = Inr\<rparr>"
  let ?f = "\<lparr>up_type = ''text/plain'', up_size = 20, up_bytes = ''Dear <b>reader</b>, hi''\<rparr>"
  have "extracted_text ?rd (realType ?f) (up_bytes ?f) = ''Dear reader, hi''" and "realType ?f = ''text/plain''" by code_simp+
  then obtain resp where "extract_file ?rd ?f = Ret resp"
    by (simp add: extract_file_def ALLOWED_TYPES_def MAX_FILE_SIZE_BYTES_def)
  then show ?thesis
    using extracted_text_clean [of "fixed_env 0 RNil" ?rd ?f node_process "()" resp node_process "()"] by auto
qed

text \<open>A provider of transcriptions that cannot be reached ends the request with an exception; only an answer of
  the provider other than success leads to the transcription in the browser. A recording of more than
  five megabytes is refused with the message of a limit of four.\<close>

theorem transcription_failures:
  assumes "run E (checkAudioRateLimit uid) s w = (Inr True, s1, w1)"
    and "form req = Some fd" and "map_of fd ''audio'' = Some (FFile audio)"
    and "penv s1 ''DEEPGRAM_API_KEY'' = Some key" and "key \<noteq> []"
    and "run E (fetch (deepgram_request key (map_of fd ''lang'') audio)) s1 w1 = (x, s2, w2)"
  shows "(up_size audio \<le> AUDIO_MAX_BYTES \<and> x = Inl e \<longrightarrow> fst (run E (voice_stt form req uid) s w) = Inl e) \<and>
    (up_size audio \<le> AUDIO_MAX_BYTES \<and> x = Inr res \<and> \<not> fr_ok res \<longrightarrow>
      fst (run E (voice_stt form req uid) s w) = Inr (browser_fallback (map_of fd ''lang''))) \<and>
    (AUDIO_MAX_BYTES < up_size audio \<longrightarrow> fst (run E (voice_stt form req uid) s w) =
      Inl (WriteRightError FILE_TOO_LARGE ''File exceeds the 4MB limit.'' 413
        \<lparr>meta_headers = None, meta_fields = [(''max_bytes'', JNum AUDIO_MAX_BYTES)]\<rparr>))"
  using assms by (auto simp: voice_stt_def run_bnd Let_def get_env_def missing_def too_large_def createApiErrorM_def)

theorem transcription_failures_witness:
  "fst (run (fixed_env 0 (RErr (JsError ''refused''))) (voice_stt (\<lambda>_. Some [(''audio'', FFile \<lparr>up_type = [], up_size = 3, up_bytes = ''abc''\<rparr>)])
      \<lparr>req_method = ''POST'', req_path = ''/'', req_query = [], req_headers = [], req_body = None, req_params = []\<rparr> ''u'')
      (node_process\<lparr>penv := [''DEEPGRAM_API_KEY'' \<mapsto> ''k'']\<rparr>) ()) = Inl (JsError ''refused'')"
proof -
  let ?E = "fixed_env 0 (RErr (JsError ''refused''))"
  let ?s = "node_process\<lparr>penv := [''DEEPGRAM_API_KEY'' \<mapsto> ''k'']\<rparr>"
  let ?a = "\<lparr>up_type = [], up_size = 3, up_bytes = ''abc''\<rparr>"
  have "fst (run ?E (checkAudioRateLimit ''u'') ?s ()) = Inr True" by code_simp
  then obtain s1 where s1: "run ?E (checkAudioRateLimit ''u'') ?s () = (Inr True, s1, ())"
    by (cases "run ?E (checkAudioRateLimit ''u'') ?s ()") auto
  have "penv (fst (snd (run ?E (checkAudioRateLimit ''u'') ?s ()))) ''DEEPGRAM_API_KEY'' = Some ''k''" by code_simp
  with s1 have k: "penv s1 ''DEEPGRAM_API_KEY'' = Some ''k''" by simp
  show ?thesis
    using transcription_failures [OF s1 _ _ k, of "\<lambda>_. Some [(''audio'', FFile ?a)]"
        "\<lparr>req_method = ''POST'', req_path = ''/'', req_query = [], req_headers = [], req_body = None, req_params = []\<rparr>"
        "[(''audio'', FFile ?a)]" ?a "Inl (JsError ''refused'')" s1 "()" "JsError ''refused''"]
    by (simp add: AUDIO_MAX_BYTES_def fetch_def fixed_env_def)
qed

end
