(* ===== verification/Share_Card.thy ===== *)
theory Share_Card
  imports Share_Routes Stats_Routes
begin

text \<open>
  app/api/writeright/og/[token]/route.ts: the card of a shared result, an SVG text with the sum of the
  scores. The check of the token is in Share_Routes. Sums are doubles; \<open>show_double\<close> is the shortest decimal
  that rounds to the number, which is how JavaScript prints numbers between \<open>10\<^sup>-\<^sup>6\<close> and \<open>10\<^sup>2\<^sup>1\<close> in
  size. The bullet of the text is a parameter.
\<close>

section \<open>Numbers and text\<close>

fun show_from :: "nat \<Rightarrow> nat \<Rightarrow> rat \<Rightarrow> string" where
  "show_from 0 d q = show_dec (js_round (q * 10 ^ d)) d"
| "show_from (Suc n) d q =
     (let m = js_round (q * 10 ^ d) in
      if fl (of_int m / 10 ^ d) = q then (if d = 0 then show_int m else show_dec m d) else show_from n (Suc d) q)"

definition show_double :: "rat \<Rightarrow> string" where
  "show_double q = show_from 20 0 q"

definition escape_char :: "char \<Rightarrow> string" where
  "escape_char c = (if c = CHR ''&'' then ''&amp;'' else if c = CHR ''<'' then ''&lt;'' else if c = CHR ''>'' then ''&gt;''
     else if c = dquote then ''&quot;'' else [c])"

text \<open>The ampersand is replaced first, so the four replacements act on each character once.\<close>

definition escapeXml :: "string \<Rightarrow> string" where
  "escapeXml v = concat (map escape_char v)"

section \<open>The handler\<close>

definition shared_scores :: "db_result \<Rightarrow> json option" where
  "shared_scores r = (case jopt ''scores'' (db_data r) of
     Some (JObj ps) \<Rightarrow> Some (JObj ps) | Some (JArr js) \<Rightarrow> Some (JArr js) | _ \<Rightarrow> None)"

definition score_after :: "json option \<Rightarrow> rat" where
  "score_after scores = fsum (map (\<lambda>k. case num_of (jopt k scores) of Some q \<Rightarrow> q | None \<Rightarrow> 0) [''clarity'', ''tone'', ''impact''])"

definition score_before :: "rat \<Rightarrow> rat" where
  "score_before after = max 0 (fl (after - 6))"

definition card_title :: "rat \<Rightarrow> string" where
  "card_title after = ''My writing score jumped from '' @ show_double (score_before after) @ '' to '' @ show_double after"

definition card_svg :: \<open>string \<Rightarrow> string \<Rightarrow> string\<close> where
  \<open>card_svg bullet title = join [CHR 0x0A] [
     ''<svg xmlns="http://www.w3.org/2000/svg" width="1200" height="630" viewBox="0 0 1200 630">'',
     ''  <rect width="1200" height="630" fill="#101820"/>'',
     ''  <rect x="72" y="72" width="1056" height="486" rx="28" fill="#f7f3e8"/>'',
     ''  <text x="120" y="168" font-family="Arial, sans-serif" font-size="34" fill="#101820">BrainMate AI '' @ bullet @ '' WriteRight</text>'',
     ''  <text x="120" y="282" font-family="Arial, sans-serif" font-size="72" font-weight="700" fill="#101820">'' @ escapeXml title @ ''</text>'',
     ''  <text x="120" y="382" font-family="Arial, sans-serif" font-size="34" fill="#335c67">Clearer, sharper, more confident writing.</text>'',
     ''  <rect x="120" y="438" width="204" height="64" rx="12" fill="#e09f3e"/>'',
     ''  <text x="152" y="481" font-family="Arial, sans-serif" font-size="28" font-weight="700" fill="#101820">Try it free</text>'',
     ''</svg>'']\<close>

definition card_response :: "string \<Rightarrow> db_result \<Rightarrow> response" where
  "card_response bullet r = \<lparr>resp_status = 200, resp_body = BText (card_svg bullet (card_title (score_after (shared_scores r)))),
     resp_headers = [(''Content-Type'', ''image/svg+xml''), (''Cache-Control'', ''public, max-age=3600'')]\<rparr>"

definition card_body :: "string \<Rightarrow> string \<Rightarrow> response prog" where
  "card_body bullet token =
     sq (verifyToken token)
     (sq getSupabaseAdmin
      (bnd (db (Query ''writeright_public_shares'' (Select ''scores'') [Eq ''token'' (JStr token)] [] MaybeSingle)) (\<lambda>r.
       Ret (card_response bullet r))))"

definition card_GET :: "string \<Rightarrow> request \<Rightarrow> response prog" where
  "card_GET bullet req = withErrorHandler req
     (sq (catch (sq get_session (Ret ())) (\<lambda>_. Ret ())) (card_body bullet (param_get req ''token'')))"

section \<open>Properties\<close>

lemma escapeXml_plain: "CHR ''<'' \<notin> set (escapeXml v)" "CHR ''>'' \<notin> set (escapeXml v)" "dquote \<notin> set (escapeXml v)"
  by (auto simp: escapeXml_def escape_char_def split: if_splits)

text \<open>A token the server has not signed gets no card: the check ends the request before the table of shares is read.\<close>

lemma card_needs_token:
  assumes "run E (verifyToken token) s w = (Inl e, s1, w1)"
  shows "run E (card_body bullet token) s w = (Inl e, s1, w1) \<and> trace E (card_body bullet token) s w = trace E (verifyToken token) s w"
  using assms by (simp add: card_body_def run_sq sq_def trace_bnd run_bnd)

text \<open>For scores that are whole numbers the card shows their sum, and the sum less six, but not less than nothing.\<close>

lemma show_double_int:
  assumes "\<bar>m\<bar> \<le> 2 ^ 53"
  shows "show_double (of_int m) = show_int m"
proof -
  have "js_round (of_int m * 10 ^ 0) = m" by (simp add: js_round_def floor_eq_iff)
  then have "show_from (Suc 19) 0 (of_int m) = show_int m"
    using fl_int [OF assms] unfolding show_from.simps(2) Let_def by simp
  then show ?thesis by (simp add: show_double_def)
qed

lemma fsum_ints: "(\<And>k. k \<le> length xs \<Longrightarrow> \<bar>z + sum_list (take k xs)\<bar> \<le> 2 ^ 53) \<Longrightarrow>
    foldl (\<lambda>acc x. fl (acc + x)) (of_int z) (map of_int xs) = of_int (z + sum_list xs)"
proof (induction xs arbitrary: z)
  case (Cons n xs)
  have "fl (of_int z + of_int n) = of_int (z + n)" using fl_int [of "z + n"] Cons.prems [of 1] by simp
  moreover have "\<bar>z + n + sum_list (take k xs)\<bar> \<le> 2 ^ 53" if "k \<le> length xs" for k
    using Cons.prems [of "Suc k"] that by (simp add: add.assoc)
  ultimately show ?case using Cons.IH [of "z + n"] by (simp add: add.assoc)
qed simp

lemma card_of_whole_scores:
  assumes "0 \<le> a" "a \<le> 1000" "0 \<le> b" "b \<le> 1000" "0 \<le> c" "c \<le> 1000"
  shows "card_title (score_after (Some (JObj [(''clarity'', JNum a), (''tone'', JNum b), (''impact'', JNum c)]))) =
    ''My writing score jumped from '' @ show_int (max 0 (a + b + c - 6)) @ '' to '' @ show_int (a + b + c)"
proof -
  have "score_after (Some (JObj [(''clarity'', JNum a), (''tone'', JNum b), (''impact'', JNum c)])) = fsum (map of_int [a, b, c])"
    using assms by (simp add: score_after_def num_of_def fl_int jopt_def)
  also have "\<dots> = of_int (a + b + c)"
    using fsum_ints [of "[a, b, c]" 0] assms by (force simp: fsum_def take_Cons' add.assoc)
  finally have s: "score_after (Some (JObj [(''clarity'', JNum a), (''tone'', JNum b), (''impact'', JNum c)])) = of_int (a + b + c)" .
  have "fl (of_int (a + b + c) - 6) = of_int (a + b + c - 6)" using fl_int [of "a + b + c - 6"] assms by simp
  then have "score_before (of_int (a + b + c)) = of_int (max 0 (a + b + c - 6))"
    by (simp only: score_before_def of_int_max of_int_0)
  then show ?thesis
    unfolding s card_title_def using show_double_int [of "a + b + c"] show_double_int [of "max 0 (a + b + c - 6)"] assms by simp
qed

end
