(* ===== verification/Middleware.thy ===== *)
theory Middleware
  imports Auth_Routes
begin

text \<open>
  proxy.ts, the middleware in front of every route. The matcher of Clerk, \<open>auth.protect()\<close> and the
  origin of the request are the parameters \<open>isProtectedRoute\<close>, \<open>protect\<close> and \<open>origin\<close>. Claims are as
  Clerk issues them, with an integer \<open>iat\<close>; \<open>Date.now() / 1000 - iat < 30\<close> is compared in
  milliseconds. Spans and log lines are left out.
\<close>

definition isNewSession :: "int \<Rightarrow> int \<Rightarrow> bool" where
  "isNewSession t iat \<longleftrightarrow> t - 1000 * iat < 30000"

definition session_iat :: "session \<Rightarrow> int" where
  "session_iat ses = (case as_int (jopt ''iat'' (sessionClaims ses)) of Some i \<Rightarrow> i | None \<Rightarrow> 0)"

definition notice_request :: "request \<Rightarrow> string \<Rightarrow> headers \<Rightarrow> fetch_request" where
  "notice_request req appUrl traceHeaders =
     \<lparr>fq_method = ''POST'', fq_url = appUrl @ ''/api/auth/sync'',
      fq_headers = (''Cookie'', case header_get (req_headers req) ''cookie'' of Some c \<Rightarrow> c | None \<Rightarrow> []) # traceHeaders,
      fq_body = None\<rparr>"

definition sync_session :: "(request \<Rightarrow> string) \<Rightarrow> request \<Rightarrow> unit prog" where
  "sync_session origin req =
     bnd (if origin req \<noteq> [] then Ret (origin req) else env_or_empty ''NEXT_PUBLIC_APP_URL'' ''http://localhost:3000'') (\<lambda>appUrl.
     bnd trace_headers (\<lambda>th.
     catch (sq (fetch (notice_request req appUrl th)) (Ret ())) (\<lambda>_. Ret ())))"

definition middleware :: "(request \<Rightarrow> bool) \<Rightarrow> unit prog \<Rightarrow> (request \<Rightarrow> string) \<Rightarrow> request \<Rightarrow> unit prog" where
  "middleware isProtectedRoute protect origin req =
     (if isProtectedRoute req then
        sq protect
        (bnd get_session (\<lambda>ses.
         if missing (userId ses) \<or> missing (sessionId ses) then Ret ()
         else bnd now (\<lambda>t. whenP (isNewSession t (session_iat ses)) (sync_session origin req))))
      else Ret ())"

lemma sync_session_quiet: "\<exists>s1 w1. run E (sync_session origin req) s w = (Inr (), s1, w1)"
  by (auto simp: sync_session_def run_bnd run_catch run_sq env_or_empty_def get_env_def trace_headers_def
      split: prod.splits reply.splits sum.splits)

lemma trace_caught_fetch: "CFetch q \<in> set (trace E (catch (sq (fetch q) p) h) s w)"
  by (cases "answer E (CFetch q) w") (simp add: trace_catch sq_def trace_bnd fetch_def)

lemma sync_session_fetches: "\<exists>q. CFetch q \<in> set (trace E (sync_session origin req) s w)"
proof -
  obtain a where a: "run E (if origin req \<noteq> [] then Ret (origin req) else env_or_empty ''NEXT_PUBLIC_APP_URL'' ''http://localhost:3000'') s w
      = (Inr a, s, w)"
    by (cases "origin req = []") (simp_all add: env_or_empty_def get_env_def run_bnd)
  obtain th w1 where th: "run E trace_headers s w = (Inr th, s, w1)"
    by (cases "answer E CTrace w"; cases "fst (answer E CTrace w)") (simp_all add: trace_headers_def)
  show ?thesis
    using trace_caught_fetch [of "notice_request req a th" E "Ret ()" "\<lambda>_. Ret ()" s w1]
    unfolding sync_session_def by (subst trace_bnd, simp add: a) (auto simp: trace_bnd th)
qed

lemma trace_middleware:
  assumes "run E protect s w = (Inr u, s1, w1)" and "answer E CAuth w1 = (RSession ses, w2)"
    and "\<not> missing (userId ses)" and "\<not> missing (sessionId ses)" and "isProtectedRoute req"
  shows "trace E (middleware isProtectedRoute protect origin req) s w = trace E protect s w @ CAuth #
    (if isNewSession (fst (clock E w2)) (session_iat ses) then trace E (sync_session origin req) s1 (snd (clock E w2)) else [])"
  using assms by (simp add: middleware_def sq_def trace_bnd get_session_def now_def whenP_def split: prod.splits)



end
