(* ===== verification/Risk.thy ===== *)
theory Risk
  imports Program
begin

text \<open>
  lib/risk-engine.ts: the assessment the gateway sends in headers, and what the client does with it.
  The casts to \<open>RiskLevel\<close> and \<open>RiskAction\<close> check nothing, so both members are strings. Following the
  step-up is a program that ends with the location assigned to the browser window, if any; the callback
  \<open>onRequireOTP\<close> is a program given with the options, and \<open>browser_window\<close> says whether there is a window.
\<close>

definition risk_levels :: "string list" where
  "risk_levels = [''low'', ''medium'', ''high'', ''critical'']"

definition risk_actions :: "string list" where
  "risk_actions = [''allow'', ''log_and_monitor'', ''require_step_up'', ''block_and_invalidate'']"

record risk_signal =
  rs_name :: string
  rs_weight :: int
  rs_detail :: string

record risk_assessment =
  ra_score :: int
  ra_level :: string
  ra_action :: string
  ra_signals :: "risk_signal list"

text \<open>\<open>headers.get(k) || d\<close>.\<close>

definition header_or :: "headers \<Rightarrow> string \<Rightarrow> string \<Rightarrow> string" where
  "header_or hs k d = (case header_get hs k of Some v \<Rightarrow> if v = [] then d else v | None \<Rightarrow> d)"

definition parseRiskHeaders :: "headers \<Rightarrow> risk_assessment option" where
  "parseRiskHeaders hs =
     (case header_get hs ''x-risk-score'' of
        None \<Rightarrow> None
      | Some scoreHeader \<Rightarrow>
          if scoreHeader = [] then None
          else case parseInt scoreHeader of
            None \<Rightarrow> None
          | Some score \<Rightarrow> Some \<lparr>ra_score = score, ra_level = header_or hs ''x-risk-level'' ''low'',
              ra_action = header_or hs ''x-risk-action'' ''allow'', ra_signals = []\<rparr>)"

definition requiresStepUp :: "headers \<Rightarrow> bool" where
  "requiresStepUp hs \<longleftrightarrow> header_get hs ''x-step-up-required'' = Some ''true''"

record step_up_options =
  redirectUrl :: "string option"
  onRequireOTP :: "unit prog option"

definition assign_location :: "bool \<Rightarrow> string \<Rightarrow> string option" where
  "assign_location browser_window u = (if browser_window then Some u else None)"

definition handleStepUpAuth :: "bool \<Rightarrow> risk_assessment \<Rightarrow> step_up_options \<Rightarrow> string option prog" where
  "handleStepUpAuth browser_window a opts =
     (if ra_action a = ''require_step_up'' then
        (case onRequireOTP opts of
           Some otp \<Rightarrow> sq otp (Ret None)
         | None \<Rightarrow> (case redirectUrl opts of
             Some u \<Rightarrow> Ret (if u = [] then None else assign_location browser_window u)
           | None \<Rightarrow> Ret None))
      else if ra_action a = ''block_and_invalidate'' then
        Ret (assign_location browser_window ''/sign-in?error=session_invalidated'')
      else Ret None)"

record risk_display =
  rd_label :: string
  rd_color :: string
  rd_bgColor :: string

text \<open>\<open>None\<close>: the function ends without a \<open>return\<close>.\<close>

definition getRiskDisplay :: "string \<Rightarrow> risk_display option" where
  "getRiskDisplay level =
     (if level = ''low'' then Some \<lparr>rd_label = ''Low Risk'', rd_color = ''#16a34a'', rd_bgColor = ''#dcfce7''\<rparr>
      else if level = ''medium'' then Some \<lparr>rd_label = ''Medium Risk'', rd_color = ''#ca8a04'', rd_bgColor = ''#fef9c3''\<rparr>
      else if level = ''high'' then Some \<lparr>rd_label = ''High Risk'', rd_color = ''#ea580c'', rd_bgColor = ''#ffedd5''\<rparr>
      else if level = ''critical'' then Some \<lparr>rd_label = ''Critical Risk'', rd_color = ''#dc2626'', rd_bgColor = ''#fef2f2''\<rparr>
      else None)"

section \<open>Properties\<close>

lemma display_defined: "getRiskDisplay level \<noteq> None \<longleftrightarrow> level \<in> set risk_levels"
  by (simp add: getRiskDisplay_def risk_levels_def)

lemma parsed_action: "parseRiskHeaders hs = Some a \<Longrightarrow> ra_action a = header_or hs ''x-risk-action'' ''allow''"
  by (auto simp: parseRiskHeaders_def split: option.splits if_splits)

text \<open>The reaction to the headers of the gateway rests on \<open>x-risk-action\<close> alone. When the header is absent the
  request goes on without a step-up and without leaving the page, even if \<open>x-step-up-required\<close> is
  \<open>true\<close>; when it says \<open>block_and_invalidate\<close> a browser is sent to the sign-in page and the one-time
  password is not asked for, whatever the options.\<close>

theorem step_up_rests_on_action:
  assumes "parseRiskHeaders hs = Some a"
  shows "(header_get hs ''x-risk-action'' = None \<longrightarrow> handleStepUpAuth b a opts = Ret None) \<and>
    (header_get hs ''x-risk-action'' = Some ''block_and_invalidate'' \<longrightarrow>
      handleStepUpAuth True a opts = Ret (Some ''/sign-in?error=session_invalidated''))"
  using parsed_action [OF assms] by (auto simp: handleStepUpAuth_def header_or_def assign_location_def)

theorem step_up_rests_on_action_witness:
  "\<exists>a. requiresStepUp [(''X-Risk-Score'', ''45''), (''X-Step-Up-Required'', ''true'')] \<and>
    parseRiskHeaders [(''X-Risk-Score'', ''45''), (''X-Step-Up-Required'', ''true'')] = Some a \<and>
    handleStepUpAuth True a \<lparr>redirectUrl = Some ''/verify'', onRequireOTP = None\<rparr> = Ret None"
proof -
  let ?hs = "[(''X-Risk-Score'', ''45''), (''X-Step-Up-Required'', ''true'')]"
  have "requiresStepUp ?hs" and "header_get ?hs ''x-risk-action'' = None" by code_simp+
  moreover have "parseRiskHeaders ?hs = Some \<lparr>ra_score = 45, ra_level = ''low'', ra_action = ''allow'', ra_signals = []\<rparr>" by code_simp
  ultimately show ?thesis using step_up_rests_on_action [of ?hs] by blast
qed

end
