(* ===== verification/Grammar.thy ===== *)
theory Grammar
  imports Regex
begin

text \<open>
  The grammar and style checker of lib/grammar-checker.ts: the rules as expressions, the loops over their
  matches, the list of issues without repeated ranges, sorted by position. The lemmas show that the
  checker ends on every text, that every issue marks a non-empty part of the text, that the marked parts
  are distinct and in order, and which issues carry the text they mark.
\<close>

section \<open>Issues\<close>

datatype issue_type = T_grammar | T_style | T_passive | T_indian_english | T_wordy

record issue =
  iss_start :: nat
  iss_end :: nat
  iss_type :: issue_type
  original :: string
  suggestion :: string
  explanation :: string

definition same_range :: "issue \<Rightarrow> issue \<Rightarrow> bool" where
  "same_range a b \<longleftrightarrow> iss_start a = iss_start b \<and> iss_end a = iss_end b"

definition addIssue :: "issue list \<Rightarrow> issue \<Rightarrow> issue list" where
  "addIssue issues i = (if \<exists>x \<in> set issues. same_range x i then issues else issues @ [i])"

definition dq :: string where "dq = [CHR 0x22]"

definition in_quotes :: "string \<Rightarrow> string" where
  "in_quotes x = dq @ x @ dq"

text \<open>An issue on the whole match.\<close>

definition whole :: "string \<Rightarrow> issue_type \<Rightarrow> (found \<Rightarrow> string) \<Rightarrow> (found \<Rightarrow> string) \<Rightarrow> found \<Rightarrow> issue" where
  "whole t ty sug expl m = \<lparr>iss_start = m_index m, iss_end = m_index m + length (text_of t m), iss_type = ty,
     original = text_of t m, suggestion = sug m, explanation = expl m\<rparr>"

text \<open>\<open>while ((match = re.exec(text)) !== null) ...\<close>, with the issues each match gives.\<close>

definition each_match :: "pattern \<Rightarrow> string \<Rightarrow> (found \<Rightarrow> issue list) \<Rightarrow> issue list \<Rightarrow> issue list option" where
  "each_match p t f issues = Option.bind (exec_loop p t 0) (\<lambda>ms. Some (foldl addIssue issues (concat (map f ms))))"

section \<open>The expressions\<close>

abbreviation gi :: "regex \<Rightarrow> pattern" where
  "gi r \<equiv> \<lparr>re = r, ignoreCase = True\<rparr>"

definition letters :: regex where
  "letters = RPlus (RCls is_lower)"

definition doubleWordRegex :: pattern where
  "doubleWordRegex = gi (in_turn [RWordB, RGrp 1 letters, spaces, RBack 1, RWordB])"

definition aBeforeVowel :: pattern where
  "aBeforeVowel = gi (in_turn [RWordB, RGrp 1 (RLit ''a''), spaces,
     RGrp 2 (words_re [''apple'', ''orange'', ''egg'', ''email'', ''hour'', ''idea'', ''option'', ''issue'', ''event'', ''item'',
       ''user-experience'', ''invite'']), RWordB])"

definition anBeforeConsonant :: pattern where
  "anBeforeConsonant = gi (in_turn [RWordB, RGrp 1 (RLit ''an''), spaces,
     RGrp 2 (words_re [''hotel'', ''chat'', ''message'', ''user'', ''template'', ''paragraph'', ''voice'', ''draft'', ''page'', ''file'',
       ''key'', ''code'', ''link'', ''button'', ''tab'', ''row'']), RWordB])"

definition lessFewerRegex :: pattern where
  "lessFewerRegex = gi (in_turn [RWordB, RLit ''less'', spaces,
     RGrp 1 (words_re [''books'', ''people'', ''emails'', ''templates'', ''comments'', ''messages'', ''users'', ''items'', ''friends'',
       ''days'', ''hours'', ''minutes'', ''seconds'']), RWordB])"

definition is_stop :: "char \<Rightarrow> bool" where
  "is_stop c \<longleftrightarrow> c \<in> set ''.!?''"

definition lowercaseAfterPeriod :: pattern where
  "lowercaseAfterPeriod = \<lparr>re = in_turn [RGrp 1 (RCls is_stop), spaces, RGrp 2 (RCls is_lower)], ignoreCase = False\<rparr>"

definition sentenceBoundaryRegex :: pattern where
  "sentenceBoundaryRegex = \<lparr>re = RGrp 1 (RSeq (RPlus (RCls (\<lambda>c. \<not> is_stop c)))
     (RGrp 2 (RAlt (RPlus (RCls is_stop)) REnd))), ignoreCase = False\<rparr>"

definition passiveVerbRegex :: pattern where
  "passiveVerbRegex = gi (in_turn [RWordB, RGrp 1 (words_re [''is'', ''am'', ''are'', ''was'', ''were'', ''be'', ''been'', ''being'']), spaces,
     RGrp 2 (one_of ([RSeq letters (RLit ''ed''), RSeq letters (RLit ''en'')] @ map RLit
       [''done'', ''written'', ''taken'', ''seen'', ''known'', ''made'', ''given'', ''chosen'', ''sent'', ''kept'', ''spent'', ''broken'',
        ''built'', ''bought'', ''brought'', ''caught'', ''fought'', ''taught''])), RWordB])"

definition iePatterns :: "(string \<times> string \<times> string) list" where
  "iePatterns = [
     (''do the needful'', ''do what is required'', ''Replace colonial phrase '' @ in_quotes ''do the needful'' @ '' with standard English.''),
     (''please revert'', ''please reply'', ''Use '' @ in_quotes ''reply'' @ '' or '' @ in_quotes ''respond'' @ '' instead of '' @ in_quotes ''revert'' @ ''.''),
     (''revert back'', ''reply'', in_quotes ''Revert back'' @ '' is redundant. Use '' @ in_quotes ''reply'' @ '' or '' @ in_quotes ''respond'' @ ''.''),
     (''prepone'', ''bring forward / reschedule earlier'', in_quotes ''Prepone'' @ '' is Indian English. Use '' @ in_quotes ''reschedule earlier'' @ ''.''),
     (''passed out'', ''graduated'', ''Use '' @ in_quotes ''graduated'' @ '' to indicate finishing school/college.''),
     (''out of station'', ''out of town'', ''Use '' @ in_quotes ''out of town'' @ '' or '' @ in_quotes ''away'' @ '' instead of '' @ in_quotes ''out of station'' @ ''.''),
     (''discuss about'', ''discuss'', ''Avoid '' @ in_quotes ''discuss about'' @ ''. Just use '' @ in_quotes ''discuss'' @ ''.''),
     (''order for'', ''order'', ''Avoid '' @ in_quotes ''order for'' @ '' when ordering items. Just use '' @ in_quotes ''order'' @ ''.''),
     (''today morning'', ''this morning'', ''Use '' @ in_quotes ''this morning'' @ '' instead of '' @ in_quotes ''today morning'' @ ''.''),
     (''yesterday night'', ''last night'', ''Use '' @ in_quotes ''last night'' @ '' instead of '' @ in_quotes ''yesterday night'' @ ''.''),
     (''coping up with'', ''coping with'', ''Use '' @ in_quotes ''coping with'' @ '' instead of '' @ in_quotes ''coping up with'' @ ''.''),
     (''have a doubt'', ''have a question'', ''Use '' @ in_quotes ''question'' @ '' instead of '' @ in_quotes ''doubt'' @ '' when asking for clarification.''),
     (''doubt regarding'', ''question regarding'', ''Use '' @ in_quotes ''question'' @ '' instead of '' @ in_quotes ''doubt'' @ ''.'')]"

definition fillerPhrases :: "(string \<times> string) list" where
  "fillerPhrases = [(''in order to'', ''to''), (''due to the fact that'', ''because''), (''so as to'', ''to''),
     (''at the end of the day'', ''ultimately''), (''as a matter of fact'', ''actually''), (''needless to say'', ''obviously''),
     (''at this point in time'', ''now''), (''for the purpose of'', ''for''), (''with reference to'', ''about''), (''in the event that'', ''if'')]"

section \<open>The rules\<close>

definition repeated_words :: "string \<Rightarrow> issue list \<Rightarrow> issue list option" where
  "repeated_words t = each_match doubleWordRegex t (\<lambda>m. [whole t T_grammar (\<lambda>m. group_of t m 1)
     (\<lambda>m. ''Repeated word '' @ in_quotes (group_of t m 1) @ ''. Remove the duplicate.'') m])"

definition wrong_a :: "string \<Rightarrow> issue list \<Rightarrow> issue list option" where
  "wrong_a t = each_match aBeforeVowel t (\<lambda>m. [whole t T_grammar (\<lambda>m. ''an '' @ group_of t m 2)
     (\<lambda>_. ''Use '' @ in_quotes ''an'' @ '' before words starting with a vowel sound.'') m])"

definition wrong_an :: "string \<Rightarrow> issue list \<Rightarrow> issue list option" where
  "wrong_an t = each_match anBeforeConsonant t (\<lambda>m. [whole t T_grammar (\<lambda>m. ''a '' @ group_of t m 2)
     (\<lambda>_. ''Use '' @ in_quotes ''a'' @ '' before words starting with a consonant sound.'') m])"

definition second_word :: "string \<Rightarrow> string" where
  "second_word x = (case split_runs is_ws x of _ # n # _ \<Rightarrow> n | _ \<Rightarrow> ''undefined'')"

definition less_fewer :: "string \<Rightarrow> issue list \<Rightarrow> issue list option" where
  "less_fewer t = each_match lessFewerRegex t (\<lambda>m. [whole t T_grammar (\<lambda>m. ''fewer '' @ second_word (text_of t m))
     (\<lambda>_. ''Use '' @ in_quotes ''fewer'' @ '' instead of '' @ in_quotes ''less'' @ '' for countable nouns.'') m])"

text \<open>A letter in lower case is one of \<open>[a-z]\<close> here.\<close>

definition upper_ascii :: "char \<Rightarrow> char" where
  "upper_ascii c = (if is_lower c then char_of (code c - 32) else c)"

definition uncapitalized :: "string \<Rightarrow> issue list \<Rightarrow> issue list option" where
  "uncapitalized t = each_match lowercaseAfterPeriod t (\<lambda>m.
     let punctuation = group_of t m 1; letter = group_of t m 2;
         startOffset = m_index m + length punctuation + (length (text_of t m) - length punctuation - 1)
     in [\<lparr>iss_start = startOffset, iss_end = startOffset + 1, iss_type = T_grammar, original = letter,
          suggestion = map upper_ascii letter, explanation = ''Capitalize the first letter of a sentence.''\<rparr>])"

definition long_sentences :: "string \<Rightarrow> issue list \<Rightarrow> issue list option" where
  "long_sentences t = each_match sentenceBoundaryRegex t (\<lambda>m.
     let sentence = text_of t m in
     if 35 < length (split_runs is_ws (trim sentence))
     then [\<lparr>iss_start = m_index m, iss_end = m_index m + length sentence, iss_type = T_style, original = trim sentence,
            suggestion = trim sentence,
            explanation = ''This sentence has more than 35 words. Consider splitting it into shorter sentences.''\<rparr>]
     else [])"

definition passive_voice :: "string \<Rightarrow> issue list \<Rightarrow> issue list option" where
  "passive_voice t = each_match passiveVerbRegex t (\<lambda>m. [whole t T_passive (text_of t)
     (\<lambda>_. ''Passive voice detected. Try rewriting using active verbs.'') m])"

definition indian_english :: "string \<Rightarrow> string \<times> string \<times> string \<Rightarrow> issue list \<Rightarrow> issue list option" where
  "indian_english t = (\<lambda>(p, sug, expl). each_match (gi (phrase p)) t (\<lambda>m. [whole t T_indian_english (\<lambda>_. sug) (\<lambda>_. expl) m]))"

definition filler :: "string \<Rightarrow> string \<times> string \<Rightarrow> issue list \<Rightarrow> issue list option" where
  "filler t = (\<lambda>(p, sug). each_match (gi (phrase p)) t (\<lambda>m. [whole t T_wordy (\<lambda>_. sug)
     (\<lambda>_. ''Filler phrase. Simplify to '' @ in_quotes sug @ ''.'') m]))"

text \<open>\<open>/^[iI]\b/.test(s)\<close>.\<close>

definition startsWithI :: "string \<Rightarrow> bool" where
  "startsWithI x = re_test \<lparr>re = in_turn [RStart, RCls (\<lambda>c. c \<in> set ''iI''), RWordB], ignoreCase = False\<rparr> x"

definition first_word :: "string \<Rightarrow> string" where
  "first_word x = hd (split_runs is_ws x)"

fun repeated_I :: "string \<Rightarrow> found list \<Rightarrow> issue list" where
  "repeated_I t (a # b # ms) =
     (let s1 = trim (text_of t a); s2 = trim (text_of t b) in
      (if startsWithI s1 \<and> startsWithI s2
       then [\<lparr>iss_start = m_index b, iss_end = m_index b + length (first_word s2), iss_type = T_style,
              original = first_word s2, suggestion = first_word s2,
              explanation = ''Consecutive sentences start with '' @ in_quotes ''I'' @ ''. Vary sentence openers to improve style.''\<rparr>]
       else []) @ repeated_I t (b # ms))"
| "repeated_I t ms = []"

definition consecutive_I :: "string \<Rightarrow> issue list \<Rightarrow> issue list option" where
  "consecutive_I t issues = Option.bind (exec_loop sentenceBoundaryRegex t 0) (\<lambda>sentencesList.
     Some (foldl addIssue issues (repeated_I t sentencesList)))"

fun steps :: "('a \<Rightarrow> 'a option) list \<Rightarrow> 'a \<Rightarrow> 'a option" where
  "steps [] x = Some x"
| "steps (f # fs) x = Option.bind (f x) (steps fs)"

definition rules :: "string \<Rightarrow> (issue list \<Rightarrow> issue list option) list" where
  "rules t = [repeated_words t, wrong_a t, wrong_an t, less_fewer t, uncapitalized t, long_sentences t, passive_voice t]
     @ map (indian_english t) iePatterns @ map (filler t) fillerPhrases @ [consecutive_I t]"

definition checkGrammar :: "string \<Rightarrow> issue list option" where
  "checkGrammar t = (if t = [] \<or> trim t = [] then Some []
     else map_option (sort_key iss_start) (steps (rules t) []))"

section \<open>All proposals\<close>

text \<open>What the rules propose, before the repeated ranges are left out.\<close>

definition proposals :: "string \<Rightarrow> pattern \<Rightarrow> (found \<Rightarrow> issue list) \<Rightarrow> issue list" where
  "proposals t p f = concat (map f (match_all p t 0))"

lemma each_match_eq: "solid p \<Longrightarrow> each_match p t f issues = Some (foldl addIssue issues (proposals t p f))"
  by (simp add: each_match_def exec_loop_ends proposals_def)

lemma min_len_in_turn [simp]: "min_len (in_turn rs) = sum_list (map min_len rs)"
  by (induction rs rule: in_turn.induct) auto

lemma min_len_phrase [simp]: "min_len (phrase p) = length p"
  by (simp add: phrase_def)

lemma min_len_plus [simp]: "min_len (RPlus r) = min_len r"
  by (simp add: RPlus_def)

lemmas expressions = doubleWordRegex_def aBeforeVowel_def anBeforeConsonant_def lessFewerRegex_def
  lowercaseAfterPeriod_def sentenceBoundaryRegex_def passiveVerbRegex_def

lemma expressions_solid [simp]:
  "solid doubleWordRegex" "solid aBeforeVowel" "solid anBeforeConsonant" "solid lessFewerRegex"
  "solid lowercaseAfterPeriod" "solid sentenceBoundaryRegex" "solid passiveVerbRegex"
  by (simp_all add: expressions solid_def spaces_def letters_def words_re_def)

lemma phrase_solid [simp]: "p \<noteq> [] \<Longrightarrow> solid (gi (phrase p))"
  by (simp add: solid_def)

lemma phrases_nonempty: "\<forall>x \<in> set iePatterns. fst x \<noteq> []" "\<forall>x \<in> set fillerPhrases. fst x \<noteq> []"
  by (simp_all add: iePatterns_def fillerPhrases_def)

text \<open>A rule of the list is the addition of its proposals.\<close>

definition adds :: "(issue list \<Rightarrow> issue list option) \<Rightarrow> issue list \<Rightarrow> bool" where
  "adds rule new \<longleftrightarrow> (\<forall>issues. rule issues = Some (foldl addIssue issues new))"

lemma adds_each: "solid p \<Longrightarrow> adds (each_match p t f) (proposals t p f)"
  by (simp add: adds_def each_match_eq)

lemma steps_adds: "list_all2 adds fs ns \<Longrightarrow> steps fs issues = Some (foldl addIssue issues (concat ns))"
  by (induction fs ns arbitrary: issues rule: list_all2_induct) (simp_all add: adds_def)

text \<open>A rule whose proposals all have a property.\<close>

definition rule_ok :: "(issue \<Rightarrow> bool) \<Rightarrow> (issue list \<Rightarrow> issue list option) \<Rightarrow> bool" where
  "rule_ok P rule \<longleftrightarrow> (\<exists>new. adds rule new \<and> list_all P new)"

lemma rule_okI: "adds rule new \<Longrightarrow> list_all P new \<Longrightarrow> rule_ok P rule"
  by (auto simp: rule_ok_def)

lemma each_ok:
  assumes "solid p"
    and "\<And>m. m \<in> set (match_all p t 0) \<Longrightarrow> list_all P (f m)"
  shows "rule_ok P (each_match p t f)"
  by (rule rule_okI [OF adds_each [OF assms(1)]]) (use assms(2) in \<open>auto simp: proposals_def list_all_iff\<close>)

lemma steps_ok:
  assumes "list_all (rule_ok P) fs"
  shows "\<exists>new. steps fs issues = Some (foldl addIssue issues new) \<and> list_all P new"
  using assms
proof (induction fs arbitrary: issues)
  case (Cons f fs)
  then obtain new where new: "adds f new" "list_all P new" by (auto simp: rule_ok_def)
  from Cons obtain more where "steps fs (foldl addIssue issues new) = Some (foldl addIssue (foldl addIssue issues new) more)"
    and "list_all P more" by auto
  then show ?case using new by (intro exI [of _ "new @ more"]) (simp add: adds_def)
qed (auto intro: exI [of _ "[]"])

subsection \<open>Adding issues\<close>

definition range_of :: "issue \<Rightarrow> nat \<times> nat" where
  "range_of i = (iss_start i, iss_end i)"

lemma same_range_iff: "same_range a b \<longleftrightarrow> range_of a = range_of b"
  by (auto simp: same_range_def range_of_def)

lemma addIssue_range_set [simp]: "range_of ` set (addIssue issues i) = insert (range_of i) (range_of ` set issues)"
proof (cases "\<exists>x \<in> set issues. same_range x i")
  case True
  then have "range_of i \<in> range_of ` set issues" by (metis same_range_iff image_eqI)
  then show ?thesis using True by (simp add: addIssue_def insert_absorb)
qed (simp add: addIssue_def)

lemma addIssue_distinct: "distinct (map range_of issues) \<Longrightarrow> distinct (map range_of (addIssue issues i))"
  by (auto simp: addIssue_def same_range_iff image_iff)

lemma added_ranges: "range_of ` set (foldl addIssue issues new) = range_of ` set issues \<union> range_of ` set new"
  by (induction new arbitrary: issues) auto

lemma added_distinct: "distinct (map range_of issues) \<Longrightarrow> distinct (map range_of (foldl addIssue issues new))"
  by (induction new arbitrary: issues) (simp_all add: addIssue_distinct)

lemma added_all: "list_all P issues \<Longrightarrow> list_all P new \<Longrightarrow> list_all P (foldl addIssue issues new)"
  by (induction new arbitrary: issues) (auto simp: addIssue_def)

lemma checkGrammar_shape:
  assumes "list_all (rule_ok P) (rules t)"
  shows "\<exists>issues. checkGrammar t = Some issues \<and> list_all P issues \<and> distinct (map range_of issues) \<and> sorted (map iss_start issues)"
proof (cases "t = [] \<or> trim t = []")
  case False
  obtain new where "steps (rules t) [] = Some (foldl addIssue [] new)" "list_all P new"
    using steps_ok [OF assms] by blast
  then show ?thesis using False added_distinct [of "[]" new] added_all [of P "[]" new]
    by (auto simp: checkGrammar_def list_all_iff distinct_map)
qed (simp add: checkGrammar_def)

section \<open>The rules mark the text\<close>

definition marks :: "string \<Rightarrow> issue \<Rightarrow> bool" where
  "marks t i \<longleftrightarrow> iss_start i < iss_end i \<and> iss_end i \<le> length t"

definition carries :: "string \<Rightarrow> issue \<Rightarrow> bool" where
  "carries t i \<longleftrightarrow> iss_type i = T_style \<or> original i = slice t (iss_start i) (iss_end i)"

lemma whole_end: "m \<in> set (match_all p t k) \<Longrightarrow> m_index m + length (text_of t m) = m_end m"
  using match_all_bounds [of m p t k] by (simp add: text_of_def)

lemma whole_ok:
  assumes "solid p" and "m \<in> set (match_all p t k)"
  shows "marks t (whole t ty sug expl m)" and "carries t (whole t ty sug expl m)"
  using match_all_bounds [OF assms(2)] assms(1) whole_end [OF assms(2)]
  by (auto simp: marks_def carries_def whole_def solid_def text_of_def)

lemma plus_cls_bounds:
  assumes "s' \<in> set (match_ends ci t (RPlus (RCls P)) s)"
  shows "fst s < fst s'" and "snd s' = snd s"
proof -
  have "fst s < length t" using assms by (auto simp: RPlus_def split: if_splits)
  then show "fst s < fst s'" using match_ends_bounds [OF assms] by simp
  show "snd s' = snd s" using match_ends_keeps [OF _ assms] by (simp add: RPlus_def)
qed

lemma letter_after_stop:
  assumes "m \<in> set (match_all lowercaseAfterPeriod t k)"
  shows "m_index m + 2 < m_end m" and "group_of t m 1 = slice t (m_index m) (Suc (m_index m))"
    and "group_of t m 2 = slice t (m_end m - 1) (m_end m)"
proof -
  let ?i = "m_index m" and ?j = "m_end m"
  have "(?j, m_groups m) \<in> set (match_ends False t (in_turn [RGrp 1 (RCls is_stop), spaces, RGrp 2 (RCls is_lower)]) (?i, []))"
    using match_all_ends [OF assms] by (simp add: ends_at_def lowercaseAfterPeriod_def)
  then obtain s where s: "s \<in> set (match_ends False t spaces (Suc ?i, [(1, ?i, Suc ?i)]))"
    and e: "?j = Suc (fst s)" "m_groups m = (2, fst s, Suc (fst s)) # snd s"
    by (auto split: if_splits)
  then show "?i + 2 < ?j" "group_of t m 1 = slice t ?i (Suc ?i)" "group_of t m 2 = slice t (?j - 1) ?j"
    using plus_cls_bounds [of s] by (auto simp: spaces_def group_of_def captured_def)
qed

lemma uncapitalized_ok: "rule_ok (marks t) (uncapitalized t)" "rule_ok (carries t) (uncapitalized t)"
proof -
  have "m_index m + length (group_of t m 1) + (length (text_of t m) - length (group_of t m 1) - 1) = m_end m - 1"
    and "m_end m \<le> length t" "0 < m_end m"
    if "m \<in> set (match_all lowercaseAfterPeriod t 0)" for m
    using letter_after_stop [OF that] match_all_bounds [OF that] by (auto simp: text_of_def)
  then show "rule_ok (marks t) (uncapitalized t)" "rule_ok (carries t) (uncapitalized t)"
    unfolding uncapitalized_def
    by (auto intro!: each_ok simp: Let_def marks_def carries_def letter_after_stop)
qed

lemma length_split_runs_hd: "length (hd (split_runs p x)) \<le> length x"
proof (induction p x rule: split_runs.induct)
  case (2 p c cs)
  then show ?case by (cases cs; cases "split_runs p cs") auto
qed simp

lemma split_runs_hd_ne: "x \<noteq> [] \<Longrightarrow> \<not> p (hd x) \<Longrightarrow> hd (split_runs p x) \<noteq> []"
  by (cases x) (auto split: list.splits)

lemma length_first_word: "length (first_word (trim x)) \<le> length x"
  unfolding first_word_def by (rule le_trans [OF length_split_runs_hd length_trim])

lemma startsWithI_ne: "startsWithI x \<Longrightarrow> x \<noteq> []"
  by (auto simp: startsWithI_def re_test_def exec_from_def ends_at_def)

lemma first_word_ne: "startsWithI (trim x) \<Longrightarrow> first_word (trim x) \<noteq> []"
  unfolding first_word_def by (intro split_runs_hd_ne startsWithI_ne trim_hd_not_ws)

lemma hd_split_runs: "x \<noteq> [] \<Longrightarrow> \<not> p (hd x) \<Longrightarrow> hd (hd (split_runs p x)) = hd x"
  by (cases x) (auto split: list.splits)

lemma repeated_I_words: "list_all (\<lambda>i. \<not> is_ws (hd (original i))) (repeated_I t ms)"
proof (induction t ms rule: repeated_I.induct)
  case (1 t a b ms)
  have "\<not> is_ws (hd (first_word (trim x)))" if "startsWithI (trim x)" for x
    using startsWithI_ne [OF that] trim_hd_not_ws [of x] by (simp add: first_word_def hd_split_runs)
  then show ?case using 1 by (simp add: Let_def)
qed simp_all

lemma repeated_I_ok:
  "list_all (\<lambda>m. m_end m \<le> length t \<and> m_index m \<le> m_end m) ms \<Longrightarrow> list_all (\<lambda>i. marks t i \<and> iss_type i = T_style) (repeated_I t ms)"
proof (induction t ms rule: repeated_I.induct)
  case (1 t a b ms)
  have "m_index b + length (first_word (trim (text_of t b))) \<le> length t"
    using length_first_word [of "text_of t b"] 1(2) by (auto simp: text_of_def)
  then show ?case using 1 by (auto simp: Let_def marks_def first_word_ne)
qed simp_all

lemma repeated_I_all: "list_all (\<lambda>i. marks t i \<and> iss_type i = T_style) (repeated_I t (match_all sentenceBoundaryRegex t 0))"
  by (intro repeated_I_ok) (auto simp: list_all_iff dest: match_all_bounds)

lemma consecutive_I_ok: "rule_ok (marks t) (consecutive_I t)" "rule_ok (carries t) (consecutive_I t)"
proof -
  have "adds (consecutive_I t) (repeated_I t (match_all sentenceBoundaryRegex t 0))"
    by (simp add: adds_def consecutive_I_def exec_loop_ends)
  then show "rule_ok (marks t) (consecutive_I t)" "rule_ok (carries t) (consecutive_I t)"
    using repeated_I_all [of t] by (auto intro!: rule_okI simp: list_all_iff carries_def)
qed

lemma long_sentences_ok: "rule_ok (marks t) (long_sentences t)" "rule_ok (carries t) (long_sentences t)"
proof -
  have "m_index m < m_end m" if "m \<in> set (match_all sentenceBoundaryRegex t 0)" for m
    using match_all_bounds(2) [OF that] expressions_solid(6) by (simp add: solid_def)
  then show "rule_ok (marks t) (long_sentences t)" "rule_ok (carries t) (long_sentences t)"
    unfolding long_sentences_def
    by (auto intro!: each_ok simp: Let_def marks_def carries_def whole_end match_all_bounds)
qed

lemma whole_rule_ok:
  assumes "solid p"
  shows "rule_ok (marks t) (each_match p t (\<lambda>m. [whole t ty sug expl m]))"
    and "rule_ok (carries t) (each_match p t (\<lambda>m. [whole t ty sug expl m]))"
  using assms by (auto intro!: each_ok intro: whole_ok)

lemma phrase_rules_ok:
  "x \<in> set iePatterns \<Longrightarrow> rule_ok (marks t) (indian_english t x)" "x \<in> set iePatterns \<Longrightarrow> rule_ok (carries t) (indian_english t x)"
  "y \<in> set fillerPhrases \<Longrightarrow> rule_ok (marks t) (filler t y)" "y \<in> set fillerPhrases \<Longrightarrow> rule_ok (carries t) (filler t y)"
  using phrases_nonempty
  by (auto simp: indian_english_def filler_def whole_rule_ok split: prod.splits)

lemma rules_ok: "list_all (rule_ok (marks t)) (rules t)" "list_all (rule_ok (carries t)) (rules t)"
  by (auto simp: rules_def list_all_iff repeated_words_def wrong_a_def wrong_an_def less_fewer_def passive_voice_def
      whole_rule_ok phrase_rules_ok uncapitalized_ok consecutive_I_ok long_sentences_ok)

section \<open>Phrases\<close>

text \<open>\<open>q\<close> stands at position \<open>k\<close> of the text between two boundaries of words.\<close>

definition stands_at :: "string \<Rightarrow> nat \<Rightarrow> string \<Rightarrow> bool" where
  "stands_at t k p \<longleftrightarrow> k + length p \<le> length t \<and> toLowerCase (slice t k (k + length p)) = p \<and>
     (k = 0 \<or> \<not> word_at t (k - 1)) \<and> \<not> word_at t (k + length p)"

lemma is_word_lower: "is_word (lower_char c) \<longleftrightarrow> is_word c"
proof (cases "is_upper c \<or> (192 \<le> code c \<and> code c \<le> 222 \<and> code c \<noteq> 215)")
  case True
  then have "code (char_of (code c + 32) :: char) = code c + 32" by (auto simp: is_upper_def)
  moreover have "lower_char c = char_of (code c + 32)" using True by (auto simp: lower_char_def Let_def)
  moreover have "(char_of (code c + 32) :: char) \<noteq> CHR ''_''"
  proof
    assume "(char_of (code c + 32) :: char) = CHR ''_''"
    then have "code c + 32 = code CHR ''_''" using calculation(1) by metis
    then show False using True by (simp add: is_upper_def)
  qed
  moreover have "c \<noteq> CHR ''_''" using True by (auto simp: is_upper_def)
  ultimately show ?thesis using True by (auto simp: is_word_def is_upper_def is_lower_def is_digit_def)
qed (auto simp: lower_char_def Let_def)

lemma stands_at_words:
  assumes "stands_at t k p" and "p \<noteq> []" and "is_word (hd p)" and "is_word (last p)"
  shows "k < length t" and "word_at t k" and "word_at t (k + length p - 1)"
proof -
  have len: "k + length p \<le> length t" and low: "map lower_char (slice t k (k + length p)) = p"
    using assms(1) by (auto simp: stands_at_def toLowerCase_def)
  have at: "is_word (t ! (k + n)) \<longleftrightarrow> is_word (p ! n)" if "n < length p" for n
    using that len arg_cong [OF low, of "\<lambda>x. x ! n"] is_word_lower [of "t ! (k + n)"] by (simp add: slice_def)
  have pos: "0 < length p" using assms(2) by simp
  then have b: "k < length t" "k + length p - 1 = k + (length p - 1)" "k + (length p - 1) < length t" using len by linarith+
  then show "k < length t" "word_at t k" "word_at t (k + length p - 1)"
    using at [of 0] at [of "length p - 1"] assms(2-4) by (simp_all add: word_at_def hd_conv_nth last_conv_nth)
qed

lemma ends_at_phrase:
  assumes "stands_at t k p" and "p \<noteq> []" and "is_word (hd p)" and "is_word (last p)"
  shows "ends_at (gi (phrase p)) t k \<noteq> []"
proof -
  have len: "k + length p \<le> length t" and low: "map lower_char (slice t k (k + length p)) = p"
    using assms(1) by (auto simp: stands_at_def toLowerCase_def)
  have "map lower_char p = p" by (subst (1 2) low [symmetric]) (simp add: lower_char_idem)
  then have "lit_at True p (drop k t)"
    using low len by (simp add: lit_at_lower toLowerCase_def slice_def)
  then show ?thesis using assms(1,2) stands_at_words [OF assms] by (auto simp: ends_at_def phrase_def stands_at_def)
qed

lemma word_not_ws: "is_word c \<Longrightarrow> \<not> is_ws c"
  by (auto simp: is_word_def is_digit_def is_lower_def is_upper_def is_ws_def)

lemma trim_ne: "c \<in> set x \<Longrightarrow> \<not> is_ws c \<Longrightarrow> trim x \<noteq> []"
  by (auto simp: trim_def dropWhile_eq_Nil_conv) (metis dropWhile_eq_Nil_conv set_dropWhileD hd_dropWhile hd_in_set list.set_intros(1))

lemma steps_ranges_grow:
  assumes "list_all (rule_ok P) fs" and "steps fs issues = Some out"
  shows "range_of ` set issues \<subseteq> range_of ` set out"
  using steps_ok [OF assms(1), of issues] assms(2) by (auto simp: added_ranges)

lemma rule_ranges:
  assumes "f \<in> set fs" and "list_all (rule_ok P) fs" and "adds f new" and "i \<in> set new"
    and "steps fs issues = Some out"
  shows "range_of i \<in> range_of ` set out"
  using assms
proof (induction fs arbitrary: issues)
  case (Cons g gs)
  then obtain new' where g: "g issues = Some (foldl addIssue issues new')" by (auto simp: rule_ok_def adds_def)
  show ?case
  proof (cases "g = f")
    case True
    then have "steps gs (foldl addIssue issues new) = Some out" using Cons.prems by (simp add: adds_def)
    then show ?thesis using steps_ranges_grow [of P gs] Cons.prems by (fastforce simp: added_ranges)
  next
    case False
    then show ?thesis using Cons g by auto
  qed
qed simp

text \<open>The phrases of both tables.\<close>

definition all_phrases :: "string list" where
  "all_phrases = map fst iePatterns @ map fst fillerPhrases"

lemma phrase_words: "p \<in> set all_phrases \<Longrightarrow> p \<noteq> [] \<and> is_word (hd p) \<and> is_word (last p)"
proof -
  have "list_all (\<lambda>p. p \<noteq> [] \<and> is_word (hd p) \<and> is_word (last p)) all_phrases" by code_simp
  then show "p \<in> set all_phrases \<Longrightarrow> p \<noteq> [] \<and> is_word (hd p) \<and> is_word (last p)" by (simp add: list_all_iff)
qed

lemma phrase_rule:
  assumes "p \<in> set all_phrases"
  shows "\<exists>f \<in> set (rules t). \<exists>ty sug expl. adds f (proposals t (gi (phrase p)) (\<lambda>m. [whole t ty sug expl m]))"
proof -
  have s: "solid (gi (phrase p))" using phrase_words [OF assms] by simp
  from assms consider sug expl where "(p, sug, expl) \<in> set iePatterns" | sug where "(p, sug) \<in> set fillerPhrases"
    by (auto simp: all_phrases_def)
  then show ?thesis
  proof cases
    case 1
    then have "indian_english t (p, sug, expl) \<in> set (rules t)" by (simp add: rules_def)
    then show ?thesis using adds_each [OF s] by (fastforce simp: indian_english_def)
  next
    case 2
    then have "filler t (p, sug) \<in> set (rules t)" by (simp add: rules_def)
    then show ?thesis using adds_each [OF s] by (fastforce simp: filler_def)
  qed
qed

text \<open>Every match of a phrase is reported.\<close>

lemma phrase_reported:
  assumes "p \<in> set all_phrases" and "m \<in> set (match_all (gi (phrase p)) t 0)" and "trim t \<noteq> []"
  shows "\<exists>issues. checkGrammar t = Some issues \<and> (m_index m, m_end m) \<in> range_of ` set issues"
proof -
  obtain f ty sug expl where f: "f \<in> set (rules t)" "adds f (proposals t (gi (phrase p)) (\<lambda>m. [whole t ty sug expl m]))"
    using phrase_rule [OF assms(1)] by blast
  have i: "whole t ty sug expl m \<in> set (proposals t (gi (phrase p)) (\<lambda>m. [whole t ty sug expl m]))"
    using assms(2) by (auto simp: proposals_def)
  obtain out where out: "steps (rules t) [] = Some out" using steps_ok [OF rules_ok(1)] by blast
  have "range_of (whole t ty sug expl m) \<in> range_of ` set out" by (rule rule_ranges [OF f(1) rules_ok(1) f(2) i out])
  moreover have "t \<noteq> []" using assms(3) by auto
  ultimately show ?thesis using out assms(3) whole_end [OF assms(2)] by (simp add: checkGrammar_def range_of_def whole_def)
qed

section \<open>Properties\<close>

text \<open>C31: the checker ends on every text; the issues it returns mark non-empty parts of the text, no two the
  same part, in the order of their beginnings, and every issue but the remarks on style carries the text
  it marks.\<close>

theorem grammar_issues_placed:
  "\<exists>issues. checkGrammar t = Some issues \<and> sorted (map iss_start issues) \<and> distinct (map range_of issues) \<and>
     list_all (marks t) issues \<and> list_all (carries t) issues"
proof -
  obtain xs where "checkGrammar t = Some xs" "list_all (marks t) xs" "distinct (map range_of xs)" "sorted (map iss_start xs)"
    using checkGrammar_shape [OF rules_ok(1)] by blast
  moreover obtain ys where "checkGrammar t = Some ys" "list_all (carries t) ys"
    using checkGrammar_shape [OF rules_ok(2)] by blast
  ultimately show ?thesis by simp
qed

text \<open>C32: no phrase is missed. Where a phrase of the tables stands in the text between boundaries of words,
  in whatever case, an issue covers its beginning.\<close>

theorem phrases_marked:
  assumes "p \<in> set all_phrases" and "stands_at t k p"
  shows "\<exists>issues. checkGrammar t = Some issues \<and> (\<exists>i \<in> set issues. iss_start i \<le> k \<and> k < iss_end i)"
proof -
  note p = phrase_words [OF assms(1)]
  have k: "k < length t" "word_at t k" using stands_at_words [OF assms(2)] p by auto
  obtain m where m: "m \<in> set (match_all (gi (phrase p)) t 0)" "m_index m \<le> k" "k < m_end m"
    using match_all_covers [of "gi (phrase p)" t k 0] ends_at_phrase [OF assms(2)] p k by auto
  have "trim t \<noteq> []" using trim_ne [OF nth_mem [OF k(1)]] k word_not_ws by (auto simp: word_at_def)
  from phrase_reported [OF assms(1) m(1) this] show ?thesis using m by (force simp: range_of_def)
qed

theorem phrases_marked_witness:
  "\<exists>issues. checkGrammar ''We met In Order to go'' = Some issues \<and> (\<exists>i \<in> set issues. iss_start i \<le> 7 \<and> 7 < iss_end i)"
proof (rule phrases_marked)
  show "''in order to'' \<in> set all_phrases" by code_simp
  show "stands_at ''We met In Order to go'' 7 ''in order to''" by code_simp
qed

text \<open>A remark on consecutive sentences that begin with \<open>I\<close> marks the wrong characters when white space
  separates the sentences: the range begins with that white space, the reported word does not.\<close>

theorem consecutive_I_misplaced:
  assumes "i \<in> set (repeated_I t (match_all sentenceBoundaryRegex t 0))" and "is_ws (t ! iss_start i)"
  shows "slice t (iss_start i) (iss_end i) \<noteq> original i"
proof
  assume eq: "slice t (iss_start i) (iss_end i) = original i"
  have "marks t i" using repeated_I_all [of t] assms(1) by (auto simp: list_all_iff)
  then have "hd (slice t (iss_start i) (iss_end i)) = t ! iss_start i"
    by (simp add: marks_def slice_def hd_drop_conv_nth)
  then show False using eq assms repeated_I_words [of t "match_all sentenceBoundaryRegex t 0"] by (auto simp: list_all_iff)
qed

theorem consecutive_I_misplaced_witness:
  "list_all (\<lambda>i. slice ''I am. I go.'' (iss_start i) (iss_end i) \<noteq> original i)
     (repeated_I ''I am. I go.'' (match_all sentenceBoundaryRegex ''I am. I go.'' 0)) \<and>
   repeated_I ''I am. I go.'' (match_all sentenceBoundaryRegex ''I am. I go.'' 0) \<noteq> []"
proof -
  have "list_all (\<lambda>i. is_ws (''I am. I go.'' ! iss_start i)) (repeated_I ''I am. I go.'' (match_all sentenceBoundaryRegex ''I am. I go.'' 0)) \<and>
    repeated_I ''I am. I go.'' (match_all sentenceBoundaryRegex ''I am. I go.'' 0) \<noteq> []" by code_simp
  then show ?thesis using consecutive_I_misplaced [of _ "''I am. I go.''"] unfolding list_all_iff by blast
qed

end
