(* ===== verification/Coach.thy ===== *)
theory Coach
  imports Grammar Doubles
begin

text \<open>
  The writing coach of lib/writing-coach.ts. Its expressions are objects of the module with the flag \<open>g\<close>,
  which keep the position of their last match between calls; the model carries these positions. The
  lemmas show that the analysis does not depend on them, unlike the mode detection of the API, and what
  the scores and suggestions range over.
\<close>

section \<open>Tables\<close>

definition INFORMAL_WORDS :: "string list" where
  "INFORMAL_WORDS = [''hey'', ''hi'', ''wanna'', ''gonna'', ''gotta'', ''cool'', ''awesome'', ''yeah'', ''yep'',
     ''nope'', ''stuff'', ''guy'', ''guys'', ''idk'', ''tbh'', ''imho'', ''lol'', ''btw'', ''pls'',
     ''thx'', ''thanks'', ''kid'', ''kids'', ''cheap'', ''lazy'', ''hangout'', ''sucks'', ''crazy'']"

definition FILLER_PHRASES :: "(pattern \<times> string) list" where
  "FILLER_PHRASES = map (\<lambda>(p, sug). (gi (phrase p), sug))
     [(''in order to'', ''to''), (''due to the fact that'', ''because''), (''so as to'', ''to''),
      (''at the end of the day'', ''ultimately''), (''as a matter of fact'', ''actually''),
      (''needless to say'', ''obviously''), (''at this point in time'', ''now''), (''for the purpose of'', ''for''),
      (''with reference to'', ''about''), (''in the event that'', ''if'')]"

definition INDIAN_ENGLISH_PATTERNS :: "(pattern \<times> string) list" where
  "INDIAN_ENGLISH_PATTERNS = map (\<lambda>(p, sug). (gi (phrase p), sug))
     [(''do the needful'', ''do what is required''), (''please revert'', ''please reply''), (''revert back'', ''reply''),
      (''prepone'', ''bring forward / reschedule earlier''), (''passed out'', ''graduated''),
      (''out of station'', ''out of town''), (''discuss about'', ''discuss''), (''order for'', ''order''),
      (''today morning'', ''this morning''), (''yesterday night'', ''last night''), (''coping up with'', ''coping with''),
      (''have a doubt'', ''have a question''), (''doubt regarding'', ''question regarding'')]"

text \<open>The expression of the passive voice is that of the grammar checker.\<close>

definition PASSIVE_VERB_PATTERN :: pattern where
  "PASSIVE_VERB_PATTERN = passiveVerbRegex"

section \<open>Syllables\<close>

definition vowel_letter :: "char \<Rightarrow> bool" where
  "vowel_letter c \<longleftrightarrow> c \<in> set ''aeiouy''"

definition letters_of :: "string \<Rightarrow> string" where
  "letters_of w = filter is_lower (toLowerCase w)"

definition countWordSyllables :: "string \<Rightarrow> int" where
  "countWordSyllables word =
     (let cleanWord = letters_of word in
      if length cleanWord \<le> 3 then 1
      else let ms = match_all \<lparr>re = RPlus (RCls vowel_letter), ignoreCase = False\<rparr> cleanWord 0;
               count = (if ms = [] then 1 else int (length ms));
               count1 = (if endsWith cleanWord ''es'' \<or> endsWith cleanWord ''ed'' then count - 1 else count);
               count2 = (if endsWith cleanWord ''e'' \<and> \<not> endsWith cleanWord ''le'' then count1 - 1 else count1)
           in max 1 count2)"

section \<open>The positions of the expressions\<close>

record positions =
  filler_at :: "nat list"
  indian_at :: "nat list"
  passive_at :: nat

text \<open>A fresh module; a table has as many positions as expressions.\<close>

definition fresh :: positions where
  "fresh = \<lparr>filler_at = map (\<lambda>_. 0) FILLER_PHRASES, indian_at = map (\<lambda>_. 0) INDIAN_ENGLISH_PATTERNS, passive_at = 0\<rparr>"

definition positions_ok :: "positions \<Rightarrow> bool" where
  "positions_ok ps \<longleftrightarrow> length (filler_at ps) = length FILLER_PHRASES \<and> length (indian_at ps) = length INDIAN_ENGLISH_PATTERNS"

text \<open>\<open>for (const item of TABLE) matches += text.match(item)?.length\<close>: \<open>match\<close> with the flag \<open>g\<close> starts at
  the beginning and leaves the position there.\<close>

definition count_matches :: "(pattern \<times> string) list \<Rightarrow> string \<Rightarrow> int \<times> nat list" where
  "count_matches tab t = (sum_list (map (\<lambda>(p, _). int (length (match_all p t 0))) tab), map (\<lambda>_. 0) tab)"

text \<open>The loop for a suggestion: the first expression that \<open>test\<close> finds, from its position on; then \<open>match\<close>
  puts the position back. The suggestion is made from the first of the matches.\<close>

fun first_hit :: "(string \<Rightarrow> string \<Rightarrow> string) \<Rightarrow> string \<Rightarrow> (pattern \<times> string) list \<Rightarrow> nat list \<Rightarrow> string list \<times> nat list" where
  "first_hit msg t ((p, sug) # tab) (i # is) =
     (case test_g p t i of
        (True, _) \<Rightarrow> ([msg sug (case match_all p t 0 of m # _ \<Rightarrow> text_of t m | [] \<Rightarrow> ''undefined'')], 0 # is)
      | (False, _) \<Rightarrow> (case first_hit msg t tab is of (out, is') \<Rightarrow> (out, 0 # is')))"
| "first_hit msg t _ is = ([], is)"

section \<open>The analysis\<close>

record coach_metrics =
  clarity :: int
  formality :: int
  conciseness :: int
  indianEnglish :: int
  passiveVoice :: int
  suggestions :: "string list"

definition clamp :: "int \<Rightarrow> int" where
  "clamp n = max 0 (min 100 n)"

definition rate :: "int \<Rightarrow> int \<Rightarrow> int \<Rightarrow> int" where
  "rate count n weight = clamp (js_round (fl (100 - fl (fl (of_int count / of_int n) * of_int weight))))"

definition clarity_score :: "rat \<Rightarrow> rat \<Rightarrow> int" where
  "clarity_score avgSentenceLength avgSyllables = clamp (js_round
     (fl (fl (fl (206835 / 1000) - fl (fl (1015 / 1000) * avgSentenceLength)) - fl (fl (846 / 10) * avgSyllables))))"

definition ie_tip :: "string \<Rightarrow> string \<Rightarrow> string" where
  "ie_tip sug hit = ''Avoid Indian English pattern: Use '' @ in_quotes sug @ '' instead of '' @ in_quotes hit @ ''.''"

definition filler_tip :: "string \<Rightarrow> string \<Rightarrow> string" where
  "filler_tip sug hit = ''Simplify '' @ in_quotes hit @ '' to '' @ in_quotes sug @ '' to make it more concise.''"

definition perfect :: coach_metrics where
  "perfect = \<lparr>clarity = 100, formality = 100, conciseness = 100, indianEnglish = 100, passiveVoice = 100, suggestions = []\<rparr>"

definition non_blank :: "string list \<Rightarrow> string list" where
  "non_blank xs = filter (\<lambda>x. trim x \<noteq> []) xs"

text \<open>Sentences and words of the trimmed text, at least one of each.\<close>

definition sentenceCount :: "string \<Rightarrow> int" where
  "sentenceCount t = max 1 (int (length (non_blank (split_runs is_stop t))))"

definition coach_words :: "string \<Rightarrow> string list" where
  "coach_words t = non_blank (split_runs is_ws t)"

definition wordCount :: "string \<Rightarrow> int" where
  "wordCount t = max 1 (int (length (coach_words t)))"

definition avgSentenceLength :: "string \<Rightarrow> rat" where
  "avgSentenceLength t = fl (of_int (wordCount t) / of_int (sentenceCount t))"

definition clarityScore :: "string \<Rightarrow> int" where
  "clarityScore t = clarity_score (avgSentenceLength t)
     (fl (of_int (sum_list (map countWordSyllables (coach_words t))) / of_int (wordCount t)))"

definition informalCount :: "string \<Rightarrow> int" where
  "informalCount t = int (length (filter (\<lambda>w. letters_of w \<in> set INFORMAL_WORDS) (coach_words t)))"

definition passiveScore :: "string \<Rightarrow> int" where
  "passiveScore t = rate (int (length (match_all PASSIVE_VERB_PATTERN t 0))) (sentenceCount t) 50"

text \<open>The suggestions and the positions the search for them leaves, from the scores and the positions
  before it.\<close>

definition coach_tips :: "string \<Rightarrow> int \<Rightarrow> int \<Rightarrow> nat list \<Rightarrow> nat list \<Rightarrow> string list \<times> nat list \<times> nat list" where
  "coach_tips t ieScore concisenessScore indian fillers =
     (let r1 = (if ieScore < 95 then first_hit ie_tip t INDIAN_ENGLISH_PATTERNS indian else ([], indian));
          r2 = (if concisenessScore < 95 \<and> length (fst r1) < 3 then first_hit filler_tip t FILLER_PHRASES fillers else ([], fillers));
          tips2 = fst r1 @ fst r2;
          tips3 = tips2 @ (if passiveScore t < 85 \<and> length tips2 < 3
            then [''Consider rewriting passive voice sentences using active verbs to add punch.''] else []);
          tips4 = tips3 @ (if clarityScore t < 60 \<and> length tips3 < 3
            then (if 20 < avgSentenceLength t
              then [''Some sentences are too long. Try splitting them into shorter, punchier sentences.'']
              else [''Simplify vocabulary and structure to improve readability.'']) else [])
      in (take 3 tips4, snd r1, snd r2))"

definition analyzeText :: "string \<Rightarrow> positions \<Rightarrow> coach_metrics \<times> positions" where
  "analyzeText txt ps =
     (let safeText = trim txt in
      if length safeText < 21 then (perfect, ps)
      else
        let fillers = count_matches FILLER_PHRASES safeText;
            concisenessScore = rate (fst fillers) (wordCount safeText) 500;
            indian = count_matches INDIAN_ENGLISH_PATTERNS safeText;
            ieScore = rate (fst indian) (wordCount safeText) 1000;
            tips = coach_tips safeText ieScore concisenessScore (snd indian) (snd fillers)
        in (\<lparr>clarity = clarityScore safeText, formality = rate (informalCount safeText) (wordCount safeText) 400,
             conciseness = concisenessScore, indianEnglish = ieScore, passiveVoice = passiveScore safeText,
             suggestions = fst tips\<rparr>,
            \<lparr>filler_at = snd (snd tips), indian_at = fst (snd tips), passive_at = 0\<rparr>))"

section \<open>Lemmas\<close>

text \<open>From the beginning, a search leaves every position at the beginning.\<close>

lemma first_hit_zero: "snd (first_hit msg t tab (map (\<lambda>_. 0) tab)) = map (\<lambda>_. 0) tab"
  by (induction tab) (auto simp: test_g_def split: prod.splits bool.splits option.splits)

lemma first_hit_length: "length (fst (first_hit msg t tab is)) \<le> 1"
  by (induction msg t tab "is" rule: first_hit.induct) (auto split: prod.splits bool.splits)

lemma rate_none [simp]: "rate 0 n w = 100"
proof -
  have "fl 0 = 0" "fl 100 = 100" using fl_int [of 0] fl_int [of 100] by simp_all
  then show ?thesis by (simp add: rate_def clamp_def js_round_def)
qed

lemma clamp_bounds: "0 \<le> clamp n" "clamp n \<le> 100"
  by (simp_all add: clamp_def)

text \<open>The tables are those of the grammar checker.\<close>

lemma tables_agree:
  "INDIAN_ENGLISH_PATTERNS = map (\<lambda>(p, sug, _). (gi (phrase p), sug)) iePatterns"
  "FILLER_PHRASES = map (\<lambda>(p, sug). (gi (phrase p), sug)) fillerPhrases"
  by (simp_all add: INDIAN_ENGLISH_PATTERNS_def iePatterns_def FILLER_PHRASES_def fillerPhrases_def)

lemma table_phrase:
  assumes "(q, sug) \<in> set (INDIAN_ENGLISH_PATTERNS @ FILLER_PHRASES)"
  shows "\<exists>p \<in> set all_phrases. q = gi (phrase p)"
proof -
  consider "(q, sug) \<in> (\<lambda>(p, sug, _). (gi (phrase p), sug)) ` set iePatterns"
    | "(q, sug) \<in> (\<lambda>(p, sug). (gi (phrase p), sug)) ` set fillerPhrases"
    using assms unfolding tables_agree set_append set_map by blast
  then show ?thesis by cases (auto simp: all_phrases_def image_iff intro: bexI [rotated])
qed

lemma counted:
  assumes "fst (count_matches tab t) \<noteq> 0"
  shows "\<exists>(p, sug) \<in> set tab. match_all p t 0 \<noteq> []"
proof (rule ccontr)
  assume "\<not> ?thesis"
  then have "map (\<lambda>(p, _). int (length (match_all p t 0))) tab = map (\<lambda>_. 0) tab" by auto
  then have "fst (count_matches tab t) = sum_list (map (\<lambda>_. 0) tab)" by (simp only: count_matches_def fst_conv)
  then show False using assms by simp
qed

lemma first_hit_found:
  assumes "\<exists>(p, sug) \<in> set tab. match_all p t 0 \<noteq> []"
  shows "\<exists>(p, sug) \<in> set tab. \<exists>m \<in> set (match_all p t 0). fst (first_hit msg t tab (map (\<lambda>_. 0) tab)) = [msg sug (text_of t m)]"
  using assms
proof (induction tab)
  case (Cons x tab)
  obtain p sug where x: "x = (p, sug)" by (cases x)
  show ?case
  proof (cases "match_all p t 0")
    case Nil
    then have "\<exists>(p, sug) \<in> set tab. match_all p t 0 \<noteq> []" and "test_g p t 0 = (False, 0)"
      using Cons.prems x by (auto simp: match_all_none test_g_def)
    then show ?thesis using Cons.IH x by (auto split: prod.splits) fastforce
  next
    case (Cons m ms)
    then have "exec_from p t 0 \<noteq> None" using match_all_none [of p t 0] by auto
    then show ?thesis using x Cons by (auto simp: test_g_def split: prod.splits)
  qed
qed simp

lemma coach_tips_rests: "snd (coach_tips t a b (map (\<lambda>_. 0) INDIAN_ENGLISH_PATTERNS) (map (\<lambda>_. 0) FILLER_PHRASES)) =
    (map (\<lambda>_. 0) INDIAN_ENGLISH_PATTERNS, map (\<lambda>_. 0) FILLER_PHRASES)"
  by (simp add: coach_tips_def Let_def first_hit_zero)

lemma coach_tips_first:
  assumes "a < 95" and "fst (first_hit ie_tip t INDIAN_ENGLISH_PATTERNS is) = [x]"
  shows "\<exists>rest. fst (coach_tips t a b is js) = x # rest"
  using assms by (simp add: coach_tips_def Let_def)

lemma coach_tips_length: "length (fst (coach_tips t a b is js)) \<le> 3"
  by (simp only: coach_tips_def Let_def fst_conv length_take min.cobounded2)

lemma scores_bounded: "0 \<le> clarityScore t \<and> clarityScore t \<le> 100" "0 \<le> passiveScore t \<and> passiveScore t \<le> 100"
  "0 \<le> rate a b c \<and> rate a b c \<le> 100"
  by (simp_all add: clarityScore_def clarity_score_def passiveScore_def rate_def clamp_bounds)

section \<open>Properties\<close>

definition report_ok :: "coach_metrics \<Rightarrow> bool" where
  "report_ok r \<longleftrightarrow> list_all (\<lambda>n. 0 \<le> n \<and> n \<le> 100) [clarity r, formality r, conciseness r, indianEnglish r, passiveVoice r] \<and>
     length (suggestions r) \<le> 3"

text \<open>C33: the analysis of a text does not depend on the texts analysed before, and it leaves the expressions of a
  fresh module as they were; its scores lie between 0 and 100, with at most three suggestions.\<close>

theorem coach_history_free:
  "fst (analyzeText txt ps) = fst (analyzeText txt ps') \<and> snd (analyzeText txt fresh) = fresh \<and> report_ok (fst (analyzeText txt ps))"
proof -
  have "snd (analyzeText txt fresh) = fresh"
    by (simp add: analyzeText_def Let_def count_matches_def coach_tips_rests fresh_def)
  moreover have "report_ok (fst (analyzeText txt ps))"
    by (simp add: analyzeText_def Let_def report_ok_def perfect_def coach_tips_length scores_bounded)
  moreover have "fst (analyzeText txt ps) = fst (analyzeText txt ps')" by (simp add: analyzeText_def Let_def)
  ultimately show ?thesis by blast
qed

text \<open>A score below the mark has a match behind it.\<close>

lemma score_below:
  assumes "rate (fst (count_matches tab t)) n w < 100"
  shows "\<exists>(p, sug) \<in> set tab. match_all p t 0 \<noteq> []"
  using assms counted [of tab t] by (cases "fst (count_matches tab t) = 0") auto

text \<open>When the score for Indian English falls below 95, the first suggestion names an expression of the
  table that occurs in the text, with its replacement.\<close>

theorem coach_tip_grounded:
  assumes "indianEnglish (fst (analyzeText txt ps)) < 95"
  shows "\<exists>(p, sug) \<in> set INDIAN_ENGLISH_PATTERNS. \<exists>m \<in> set (match_all p (trim txt) 0).
    \<exists>rest. suggestions (fst (analyzeText txt ps)) = ie_tip sug (text_of (trim txt) m) # rest"
proof -
  let ?t = "trim txt"
  let ?c = "count_matches INDIAN_ENGLISH_PATTERNS ?t"
  have long: "\<not> length ?t < 21" and low: "rate (fst ?c) (wordCount ?t) 1000 < 95"
    using assms by (auto simp: analyzeText_def Let_def perfect_def split: if_splits)
  have "\<exists>(p, sug) \<in> set INDIAN_ENGLISH_PATTERNS. match_all p ?t 0 \<noteq> []" by (rule score_below [of _ ?t "wordCount ?t" 1000]) (use low in simp)
  from first_hit_found [OF this, of ie_tip] obtain p sug m where p: "(p, sug) \<in> set INDIAN_ENGLISH_PATTERNS" "m \<in> set (match_all p ?t 0)"
    and "fst (first_hit ie_tip ?t INDIAN_ENGLISH_PATTERNS (snd ?c)) = [ie_tip sug (text_of ?t m)]"
    by (auto simp: count_matches_def)
  from coach_tips_first [OF low this(3)] obtain rest where "suggestions (fst (analyzeText txt ps)) = ie_tip sug (text_of ?t m) # rest"
    using long by (force simp: analyzeText_def Let_def)
  then show ?thesis using p by blast
qed

lemma indianEnglish_of:
  "\<not> length (trim txt) < 21 \<Longrightarrow> indianEnglish (fst (analyzeText txt ps)) =
     rate (fst (count_matches INDIAN_ENGLISH_PATTERNS (trim txt))) (wordCount (trim txt)) 1000"
  by (simp add: analyzeText_def Let_def)

lemma conciseness_of:
  "\<not> length (trim txt) < 21 \<Longrightarrow> conciseness (fst (analyzeText txt ps)) =
     rate (fst (count_matches FILLER_PHRASES (trim txt))) (wordCount (trim txt)) 500"
  by (simp add: analyzeText_def Let_def)

lemma short_perfect: "length (trim txt) < 21 \<Longrightarrow> fst (analyzeText txt ps) = perfect"
  by (simp add: analyzeText_def Let_def)

definition sample_text :: string where
  "sample_text = ''Kindly do the needful now''"

lemma sample_text_score: "indianEnglish (fst (analyzeText sample_text fresh)) < 95"
proof -
  have t: "trim sample_text = sample_text" "\<not> length sample_text < 21" by code_simp+
  have "fst (count_matches INDIAN_ENGLISH_PATTERNS sample_text) = 1" by code_simp
  moreover have "wordCount sample_text = 5" by code_simp
  moreover have "rate 1 5 1000 < 95" by code_simp
  ultimately show ?thesis using indianEnglish_of [of sample_text fresh] t by simp
qed

theorem coach_tip_grounded_witness:
  "\<exists>(p, sug) \<in> set INDIAN_ENGLISH_PATTERNS. \<exists>m \<in> set (match_all p (trim sample_text) 0).
    \<exists>rest. suggestions (fst (analyzeText sample_text fresh)) = ie_tip sug (text_of (trim sample_text) m) # rest"
  by (rule coach_tip_grounded [OF sample_text_score])

text \<open>C34: the coach and the grammar checker agree: when the score for Indian English or for conciseness is not
  full, the checker has issues to report on the trimmed text.\<close>

theorem coach_agrees_with_checker:
  assumes "indianEnglish (fst (analyzeText txt ps)) < 100 \<or> conciseness (fst (analyzeText txt ps)) < 100"
  shows "\<exists>issues. checkGrammar (trim txt) = Some issues \<and> issues \<noteq> []"
proof -
  let ?t = "trim txt"
  have long: "\<not> length ?t < 21" using assms short_perfect [of _ ps] by (auto simp: perfect_def)
  have "\<exists>(p, sug) \<in> set (INDIAN_ENGLISH_PATTERNS @ FILLER_PHRASES). match_all p ?t 0 \<noteq> []"
    using assms score_below [of INDIAN_ENGLISH_PATTERNS ?t "wordCount ?t" 1000] score_below [of FILLER_PHRASES ?t "wordCount ?t" 500]
    unfolding indianEnglish_of [OF long] conciseness_of [OF long] set_append by blast
  then obtain q sug where q: "(q, sug) \<in> set (INDIAN_ENGLISH_PATTERNS @ FILLER_PHRASES)" "match_all q ?t 0 \<noteq> []" by blast
  obtain p where p: "p \<in> set all_phrases" "q = gi (phrase p)" using table_phrase [OF q(1)] by blast
  have m: "hd (match_all (gi (phrase p)) ?t 0) \<in> set (match_all (gi (phrase p)) ?t 0)" using q(2) p(2) by simp
  have "trim ?t \<noteq> []" using long by auto
  from phrase_reported [OF p(1) m this] show ?thesis by auto
qed

theorem coach_agrees_with_checker_witness:
  "\<exists>issues. checkGrammar (trim sample_text) = Some issues \<and> issues \<noteq> []"
proof (rule coach_agrees_with_checker)
  show "indianEnglish (fst (analyzeText sample_text fresh)) < 100 \<or> conciseness (fst (analyzeText sample_text fresh)) < 100"
    using sample_text_score by simp
qed

end
