(* ===== verification/Classifier.thy ===== *)
theory Classifier
  imports Regex "HOL-Library.Word"
begin

text \<open>
  The email classifier of lib/gmail-classifier.ts: priority, label and colours, with the 32-bit hash that
  chooses the colour of an avatar. The lemmas show that the clamping of the priority is never felt, that
  the hash is the polynomial hash on 32-bit words, and what the expressions make of senders and subjects.
\<close>

section \<open>Priority\<close>

definition HIGH_PRIORITY_KEYWORDS :: "string list" where
  "HIGH_PRIORITY_KEYWORDS = [''urgent'', ''asap'', ''critical'', ''immediately'', ''action required'',
     ''follow up'', ''reminder'', ''invoice'', ''payment'', ''deadline'', ''overdue'',
     ''important'', ''time sensitive'', ''respond by'', ''due today'', ''final notice'',
     ''meeting'', ''interview'', ''offer'', ''contract'', ''approval'']"

definition LOW_PRIORITY_KEYWORDS :: "string list" where
  "LOW_PRIORITY_KEYWORDS = [''unsubscribe'', ''newsletter'', ''no-reply'', ''noreply'', ''marketing'',
     ''promotion'', ''offer'', ''sale'', ''discount'', ''update from'']"

definition raw_priority :: "string \<Rightarrow> string \<Rightarrow> bool \<Rightarrow> int" where
  "raw_priority subject snippet isUnread =
     (let combined = toLowerCase (subject @ '' '' @ snippet);
          highCount = length (filter (str_includes combined) HIGH_PRIORITY_KEYWORDS);
          hasLow = (\<exists>kw \<in> set LOW_PRIORITY_KEYWORDS. str_includes combined kw)
      in 2 + (if 1 \<le> highCount then 1 else 0) + (if 3 \<le> highCount then 1 else 0)
           + (if isUnread then 1 else 0) - (if hasLow then 1 else 0))"

definition computePriorityScore :: "string \<Rightarrow> string \<Rightarrow> bool \<Rightarrow> int" where
  "computePriorityScore subject snippet isUnread = max 1 (min 5 (raw_priority subject snippet isUnread))"

section \<open>Labels\<close>

datatype email_label = URGENT | ACTION_REQUIRED | FYI | NEWSLETTER | CLIENT | NONE

abbreviation ci_words :: "string list \<Rightarrow> pattern" where
  "ci_words ws \<equiv> \<lparr>re = words_re ws, ignoreCase = True\<rparr>"

definition URGENT_WORDS :: "string list" where
  "URGENT_WORDS = [''urgent'', ''asap'', ''critical'', ''emergency'']"

definition URGENT_SUBJECT_PATTERN :: pattern where
  "URGENT_SUBJECT_PATTERN = ci_words URGENT_WORDS"

definition ACTION_PATTERN :: pattern where
  "ACTION_PATTERN = ci_words [''please'', ''could you'', ''can you'', ''action required'', ''kindly'', ''would you'', ''need you to'']"

text \<open>\<open>.*\<close>: the dot is any character but the ends of lines.\<close>

definition gap :: regex where
  "gap = RStar (RCls (\<lambda>c. c \<noteq> CHR 0x0A \<and> c \<noteq> CHR 0x0D))"

definition NEWSLETTER_SNIPPET_PATTERN :: pattern where
  "NEWSLETTER_SNIPPET_PATTERN = \<lparr>re = one_of [RLit ''unsubscribe'', in_turn [RLit ''manage'', gap, RLit ''preferences''],
     in_turn [RLit ''email'', gap, RLit ''preferences''], in_turn [RLit ''view'', gap, RLit ''browser'']], ignoreCase = True\<rparr>"

definition NEWSLETTER_SENDER_PATTERN :: pattern where
  "NEWSLETTER_SENDER_PATTERN = ci_words [''newsletter'', ''noreply'', ''no-reply'', ''marketing'', ''promotions'', ''offers'']"

definition PERSONAL_DOMAINS :: "string list" where
  "PERSONAL_DOMAINS = [''gmail.com'', ''yahoo.com'', ''hotmail.com'', ''outlook.com'', ''aol.com'', ''icloud.com'', ''me.com'', ''live.com'']"

definition PERSONAL_DOMAINS_PATTERN :: pattern where
  "PERSONAL_DOMAINS_PATTERN = ci_words PERSONAL_DOMAINS"

definition computeLabel :: "string \<Rightarrow> string \<Rightarrow> string \<Rightarrow> int \<Rightarrow> email_label" where
  "computeLabel subject snippet senderEmail priority =
     (if 4 \<le> priority \<and> re_test URGENT_SUBJECT_PATTERN subject then URGENT
      else if re_test ACTION_PATTERN (subject @ '' '' @ snippet) then ACTION_REQUIRED
      else if re_test NEWSLETTER_SNIPPET_PATTERN snippet \<or> re_test NEWSLETTER_SENDER_PATTERN senderEmail then NEWSLETTER
      else if \<not> re_test PERSONAL_DOMAINS_PATTERN senderEmail \<and> str_includes senderEmail ''@'' then CLIENT
      else if priority \<le> 2 then FYI
      else NONE)"

fun LABEL_COLORS :: "email_label \<Rightarrow> string" where
  "LABEL_COLORS URGENT = ''var(--wr-error)''"
| "LABEL_COLORS ACTION_REQUIRED = ''var(--wr-warning)''"
| "LABEL_COLORS FYI = ''var(--wr-text-3)''"
| "LABEL_COLORS NEWSLETTER = ''var(--wr-text-3)''"
| "LABEL_COLORS CLIENT = ''var(--wr-success)''"
| "LABEL_COLORS NONE = ''var(--wr-text-3)''"

section \<open>Avatars\<close>

definition AVATAR_COLORS :: "string list" where
  "AVATAR_COLORS = [''#d97757'', ''#3b82f6'', ''#8b5cf6'', ''#10b981'', ''#f59e0b'', ''#ec4899'', ''#06b6d4'', ''#6366f1'']"

text \<open>\<open>x | 0\<close>: the conversion to a signed number of 32 bits.\<close>

definition to_int32 :: "int \<Rightarrow> int" where
  "to_int32 n = (n + 2 ^ 31) mod 2 ^ 32 - 2 ^ 31"

definition hash_step :: "int \<Rightarrow> char \<Rightarrow> int" where
  "hash_step h c = to_int32 (to_int32 (h * 2 ^ 5) - h + int (code c))"

definition emailToAvatarColor :: "string \<Rightarrow> string" where
  "emailToAvatarColor email =
     (if email = [] then ''#d97757''
      else let hash = foldl hash_step 0 email; i = nat (\<bar>hash\<bar> mod int (length AVATAR_COLORS))
           in if i < length AVATAR_COLORS then AVATAR_COLORS ! i else ''#d97757'')"

text \<open>\<open>toUpperCase\<close>. The capitals of two characters lie outside the alphabet; they are left as they are.\<close>

definition upper_char :: "char \<Rightarrow> string" where
  "upper_char c = (let n = code c in
     if is_lower c \<or> (224 \<le> n \<and> n \<le> 254 \<and> n \<noteq> 247) then [char_of (n - 32)]
     else if n = 223 then ''SS'' else [c])"

definition toUpperCase :: "string \<Rightarrow> string" where
  "toUpperCase s = concat (map upper_char s)"

definition getInitials :: "string \<Rightarrow> string" where
  "getInitials name =
     (let parts = filter (\<lambda>p. p \<noteq> []) (split_runs is_ws (trim name)) in
      case parts of
        [] \<Rightarrow> ''?''
      | [p] \<Rightarrow> toUpperCase [hd p]
      | p # ps \<Rightarrow> toUpperCase [hd p, hd (last ps)])"

section \<open>The classifier\<close>

record email_classification =
  priority :: int
  label :: email_label
  labelColor :: string

definition classifyEmail :: "string \<Rightarrow> string \<Rightarrow> bool \<Rightarrow> string \<Rightarrow> email_classification" where
  "classifyEmail subject snippet isUnread senderEmail =
     (let pr = computePriorityScore subject snippet isUnread; lb = computeLabel subject snippet senderEmail pr
      in \<lparr>priority = pr, label = lb, labelColor = LABEL_COLORS lb\<rparr>)"

section \<open>Lemmas\<close>

lemma priority_not_clamped: "computePriorityScore a b u = raw_priority a b u"
  by (simp add: computePriorityScore_def raw_priority_def Let_def)

lemma personal_sender: "re_test PERSONAL_DOMAINS_PATTERN x \<longleftrightarrow> (\<exists>d \<in> set PERSONAL_DOMAINS. str_includes (toLowerCase x) d)"
  unfolding PERSONAL_DOMAINS_PATTERN_def by (rule words_test) (simp add: PERSONAL_DOMAINS_def, code_simp)

lemma urgent_subject: "re_test URGENT_SUBJECT_PATTERN x \<longleftrightarrow> (\<exists>w \<in> set URGENT_WORDS. str_includes (toLowerCase x) w)"
  unfolding URGENT_SUBJECT_PATTERN_def by (rule words_test) (simp add: URGENT_WORDS_def, code_simp)

text \<open>The numbers of 32 bits.\<close>

lemma to_int32_word: "to_int32 n = sint (word_of_int n :: 32 word)"
  by (simp add: to_int32_def sint_uint signed_take_bit_eq_take_bit_shift uint_word_of_int_eq take_bit_eq_mod mod_add_left_eq)

definition poly_hash :: "string \<Rightarrow> 32 word" where
  "poly_hash = foldl (\<lambda>h c. 31 * h + of_nat (code c)) 0"

lemma hash_step_word: "hash_step (sint h) c = sint (31 * h + of_nat (code c) :: 32 word)"
proof -
  have "word_of_int (to_int32 (sint h * 2 ^ 5) - sint h + int (code c)) = (h * 2 ^ 5 - h + of_nat (code c) :: 32 word)"
    by (simp add: to_int32_word)
  also have "\<dots> = 31 * h + of_nat (code c)" by (simp add: algebra_simps)
  finally show ?thesis by (simp add: hash_step_def to_int32_word)
qed

lemma hash_word: "foldl hash_step 0 email = sint (poly_hash email)"
proof -
  have "foldl hash_step (sint h) email = sint (foldl (\<lambda>h c. 31 * h + of_nat (code c)) h email :: 32 word)" for h
    by (induction email arbitrary: h) (simp_all add: hash_step_word)
  from this [of 0] show ?thesis by (simp add: poly_hash_def)
qed

lemma AVATAR_COLORS_length [simp]: "length AVATAR_COLORS = 8"
  by (simp add: AVATAR_COLORS_def)

section \<open>Properties\<close>

text \<open>The colour of an avatar is chosen by the polynomial hash of the address on 32-bit words; the index is
  always in range, so the fallback colour stands for the empty address only.\<close>

theorem avatar_color_hash:
  assumes "email \<noteq> []"
  shows "emailToAvatarColor email = AVATAR_COLORS ! nat (\<bar>sint (poly_hash email)\<bar> mod 8) \<and>
    nat (\<bar>sint (poly_hash email)\<bar> mod 8) < length AVATAR_COLORS"
  using assms by (auto simp: emailToAvatarColor_def hash_word Let_def nat_less_iff)

theorem avatar_color_hash_witness:
  "emailToAvatarColor ''a@b.co'' = AVATAR_COLORS ! nat (\<bar>sint (poly_hash ''a@b.co'')\<bar> mod 8) \<and>
    nat (\<bar>sint (poly_hash ''a@b.co'')\<bar> mod 8) < length AVATAR_COLORS"
  by (rule avatar_color_hash) simp

text \<open>What the label of an email says, with the expressions read as searches for words.\<close>

definition label_means :: "string \<Rightarrow> string \<Rightarrow> bool \<Rightarrow> string \<Rightarrow> bool" where
  "label_means subject snippet isUnread sender = (case label (classifyEmail subject snippet isUnread sender) of
     URGENT \<Rightarrow> 4 \<le> priority (classifyEmail subject snippet isUnread sender) \<and>
       (\<exists>w \<in> set URGENT_WORDS. str_includes (toLowerCase subject) w)
   | CLIENT \<Rightarrow> str_includes sender ''@'' \<and> \<not> (\<exists>d \<in> set PERSONAL_DOMAINS. str_includes (toLowerCase sender) d)
   | FYI \<Rightarrow> priority (classifyEmail subject snippet isUnread sender) \<le> 2
   | _ \<Rightarrow> True)"


text \<open>The personal domains are searched anywhere in the address, so a company whose domain merely ends in
  one of them, like \<open>acme.com\<close> in \<open>me.com\<close>, is never recognised as a client.\<close>

theorem lookalike_domain_no_client:
  assumes "d \<in> set PERSONAL_DOMAINS" and "toLowerCase sender = a @ d @ b"
  shows "label (classifyEmail subject snippet isUnread sender) \<noteq> CLIENT"
proof -
  have "re_test PERSONAL_DOMAINS_PATTERN sender"
    unfolding personal_sender using assms by (auto simp: str_includes_iff)
  then show ?thesis by (simp add: classifyEmail_def computeLabel_def Let_def)
qed

theorem lookalike_domain_no_client_witness:
  "label (classifyEmail ''Order 12'' ''See you on Monday'' True ''Bob@Acme.com'') \<noteq> CLIENT"
  by (rule lookalike_domain_no_client [where d = "''me.com''" and a = "''bob@ac''" and b = "[]"])
    (simp add: PERSONAL_DOMAINS_def, code_simp)

end
