(* ===== verification/Spec2Isabelle.thy ===== *)
theory Spec2Isabelle
  imports Message_Route Analytics Project_Routes Gmail_Link Upload_Routes Share_Card Middleware Risk Coach Classifier
begin

text \<open>
  BrainMate is a writing assistant. Its server is a Next.js application (src/app/api and src/lib): the
  handlers of the API authenticate with Clerk, keep their rows in Supabase, their queues, counters and
  kept answers in Redis, and hand the work of the language model to a Python worker through a queue;
  sessions are mirrored to a gateway written in Rust, with a reconciliation worker for calls that failed.
  This development models that server: the library modules and the handlers as executable programs over
  the services they call, and proves what they promise.

  \<^bold>\<open>The model of computation.\<close> A piece of server code is a value of the type \<open>prog\<close> (theory Program): it
  returns, throws, reads or writes the memory of the process (record \<open>process\<close>, the module-level variables
  of the source), or makes a \<open>call\<close> to a service (the clock, the environment, Clerk, Supabase, Redis,
  HTTP, randomness, timers) and continues with the reply. Database queries are values of the datatype
  \<open>query\<close>, Redis commands values of \<open>rcmd\<close>. \<open>run\<close> executes a program against an environment \<open>env\<close>, an
  arbitrary state machine that answers the calls; \<open>trace\<close> lists the calls made. Services are therefore
  parameters: theorems quantify over the environment, or assume the contract of a service as a locale and
  hold for every service that keeps it. Exceptions are the datatype \<open>exn\<close> (the coded errors of the
  application and the exceptions of JavaScript). JSON values are the datatype \<open>json\<close> of theory Json, with
  parser, printer and their round trip; strings are lists of 8-bit characters, so texts of the sources
  with other characters are parameters (record \<open>host\<close>). Numbers are integers or exact decimals where the
  source only stores them, and IEEE doubles (theory Doubles: rationals rounded to nearest, ties to even)
  where it computes averages, percentages and costs.

  \<^bold>\<open>Theories and sources.\<close>
  \<^item> Prelude, Json, Program, Doubles: lists, strings, JSON, programs, numbers; the generic lemmas.
  \<^item> Errors (lib/writeright-errors.ts): codes, responses, \<open>withErrorHandler\<close>, which always answers.
  \<^item> Circuit, Redis (lib/redis.ts): circuit breaker, pool, reconnection delays. Redis_Service: the contract
    \<open>redis_service\<close> of a Redis server and an in-memory server \<open>mem_env\<close> that keeps it.
  \<^item> Queue (lib/writeright-queue.ts): jobs, statuses, results, rate limit, kept answers, idempotency.
  \<^item> Secrets (lib/secrets.ts, lib/internal-api-token.ts), Http, Rust_Auth (lib/rust-auth.ts): tokens,
    retries, the client of the gateway. Reconciliation (lib/reconciliation-worker.ts), Auth_Routes.
  \<^item> Validators (lib/writeright-validators.ts): schemas as data; zod is a parameter with the contract
    \<open>zod_contract\<close> and the reference implementation \<open>zod_ref\<close>.
  \<^item> Routes (lib/supabase.ts and what handlers share), Chat_Routes, Template_Routes, Account_Routes,
    Project_Routes, Share_Routes, Share_Card, Search_Routes, Streams, Gmail, Gmail_Link, Message_Route, Job_Routes,
    Stats_Routes, Tool_Routes, Upload_Routes, Insight_Routes, Analytics: the handlers of src/app/api, one
    definition \<open>X_body\<close> for the code behind the authentication and one for the exported function.
    Middleware (proxy.ts): what runs in front of them. The manifest lists the files.
  \<^item> Regex: the regular expressions of JavaScript, matched by backtracking. Grammar
    (lib/grammar-checker.ts), Coach (lib/writing-coach.ts), Classifier (lib/gmail-classifier.ts): the
    analyses of texts that run in the browser. Risk (lib/risk-engine.ts): the reaction to the assessment
    of the gateway.

  \<^bold>\<open>What is shown.\<close> The contracts \<open>authed_route\<close> and \<open>user_route\<close> are interpreted for seventy-five handlers: without
  a user they answer 401 and call nothing; they answer whatever the services do; and the queries of
  seventy of them never leave the rows of the user. For the message route: replay of idempotent
  requests, quota, rate and queue gates, and that a job is queued or marked as failed. For jobs: order of
  the queue, statuses, the end of the event stream. For share links: only the server's own tokens are
  read, and for seven days. For the reconciliation worker: retry discipline and back-off. For Redis and
  the gateway: bounds of delays, requests and throttles. For the analyses of texts: that they end, that
  their issues lie in the text, that scores keep their range and do not depend on earlier texts. For
  uploads: that the text handed on is short and clean. For Gmail: where linking an account ends, and that
  nothing is scheduled for the past. Where the code does not do what it means to, the
  theorem states what it does, and the manifest records the divergence.

  \<^bold>\<open>Bounds.\<close> Loops are structural or have a termination proof but for the poll loop of the event stream,
  which runs on fuel: a round sleeps 250 ms or more, the loop ends after 90 s, so 361 rounds are enough on
  every environment whose timers do not fire early (locale \<open>sleepy\<close>); this is proved, not assumed.
  The loop over the matches of an expression is a partial function; it is proved to end for expressions
  that need a character, and the rounds of \<open>r*\<close> are bounded by the rest of the text, which changes nothing
  (\<open>greedy_enough\<close>). Concurrency is modelled by sequences of programs that share the environment; within one request
  \<open>Promise.all\<close> is executed from left to right.

  \<^bold>\<open>Not modelled.\<close> The React pages, components and hooks (rendering and browser state), the
  Python worker, the Rust gateway and the SQL functions (other programs, reached through calls), logging,
  tracing and telemetry (no effect on the answers).
\<close>

section \<open>The routes of a signed-in user\<close>

text \<open>What the handlers take from outside the repository: zod, the transport of streamed bodies, the date
  formats of the host's locale, the parsers of dates, forms and documents, and the marks of omission, dash and comparison of their texts, which are
  outside the alphabet of \<open>string\<close>.\<close>

record host =
  zod_of :: zparser
  transport_of :: transport
  locale_date :: "int \<Rightarrow> string"
  weekday :: "int option \<Rightarrow> string"
  ellipsis :: string
  dash_mark :: string
  at_most_mark :: string
  short_date :: "int \<Rightarrow> string"
  dates_of :: "string \<Rightarrow> int option"
  form_of :: form_reader
  readers_of :: readers

text \<open>The handlers that interpret \<open>user_route\<close>.\<close>

definition user_routes :: "host \<Rightarrow> (request \<Rightarrow> response prog) list" where
  "user_routes H = (let zod = zod_of H; tr = transport_of H; ld = locale_date H; dash = dash_mark H in
     [chat_POST zod, chat_GET zod, chat_id_GET, chat_id_DELETE, chat_id_PATCH zod, messages_GET, feedback_POST zod,
      templates_GET, templates_POST ld, template_PATCH, template_DELETE, template_use_POST, template_order_PUT zod,
      template_suggest_GET, generate_POST zod tr, smart_compose_POST zod tr, email_chain_POST zod tr,
      projects_GET, projects_POST zod, project_GET, project_PATCH zod, project_DELETE, artifacts_GET, artifacts_POST zod,
      preferences_GET, preferences_PUT zod, streak_GET, streak_POST, quota_GET, share_POST zod,
      search_GET (ellipsis H) zod,
      gmail_status_GET, gmail_disconnect_POST, gmail_emails_GET zod, gmail_email_GET, gmail_read_POST,
      gmail_scheduled_GET, gmail_schedule_DELETE, gmail_thread_GET, gmail_bulk_POST zod, contact_GET,
      job_GET, stats_GET, session_stats_GET, progress_GET, erase_DELETE,
      bug_explainer_POST, homework_POST, interview_POST, repurpose_POST, triage_POST, morph_POST,
      voice_GET, voice_DELETE, refine_POST, rephrases_POST zod, suggestions_GET (at_most_mark H),
      suggestion_accept_POST zod, export_GET ld zod, export_POST,
      dna_GET dash, profile_GET, debrief_GET dash (weekday H), readability_POST, detect_mode_POST,
      analytics_GET dash (short_date H) zod, gmail_connect_GET, gmail_schedule_POST (dates_of H) zod,
      extract_POST (form_of H) (readers_of H), voice_POST (form_of H)])"

text \<open>With those that ask for a user and serve rows of others as well.\<close>

definition authed_routes :: "host \<Rightarrow> (request \<Rightarrow> response prog) list" where
  "authed_routes H = user_routes H @
     [stream_GET, challenge_GET, leaderboard_GET, challenge_complete_POST (zod_of H), health_GET]"

lemmas route_contracts =
  chat_create.user_route_axioms chat_list.user_route_axioms chat_read.user_route_axioms
  chat_delete.user_route_axioms chat_rename.user_route_axioms chat_messages.user_route_axioms
  feedback.user_route_axioms templates_list.user_route_axioms template_create.user_route_axioms
  template_rename.user_route_axioms template_delete.user_route_axioms template_use.user_route_axioms
  template_order.user_route_axioms template_suggest.user_route_axioms template_generate.user_route_axioms
  smart_compose.user_route_axioms email_chain.user_route_axioms projects_list.user_route_axioms
  project_create.user_route_axioms project_read.user_route_axioms project_update.user_route_axioms
  project_delete.user_route_axioms artifacts_list.user_route_axioms artifact_create.user_route_axioms
  preferences_read.user_route_axioms preferences_write.user_route_axioms streak_read.user_route_axioms
  streak_defend.user_route_axioms quota_read.user_route_axioms share_create.user_route_axioms
  search_route.user_route_axioms gmail_status.user_route_axioms gmail_disconnect.user_route_axioms
  gmail_emails.user_route_axioms gmail_email.user_route_axioms gmail_read.user_route_axioms
  gmail_scheduled.user_route_axioms gmail_schedule_cancel.user_route_axioms gmail_thread.user_route_axioms
  gmail_bulk.user_route_axioms contact_route.user_route_axioms job_poll.user_route_axioms
  stats_route.user_route_axioms session_stats_route.user_route_axioms progress_route.user_route_axioms
  erase_route.user_route_axioms bug_explainer.user_route_axioms homework.user_route_axioms
  interview.user_route_axioms repurpose.user_route_axioms triage_route.user_route_axioms
  morph_route.user_route_axioms voice_list.user_route_axioms voice_delete.user_route_axioms
  refine_route.user_route_axioms rephrases_route.user_route_axioms suggestions_route.user_route_axioms
  suggestion_accept.user_route_axioms export_read.user_route_axioms export_send.user_route_axioms
  dna_route.user_route_axioms profile_route.user_route_axioms debrief_route.user_route_axioms
  readability_route.user_route_axioms detect_route.user_route_axioms analytics_route.user_route_axioms
  gmail_connect.user_route_axioms gmail_schedule.user_route_axioms extract_route.user_route_axioms
  voice_upload.user_route_axioms

lemmas open_route_contracts =
  job_stream.authed_route_axioms challenge_today.authed_route_axioms challenge_ranking.authed_route_axioms
  challenge_done.authed_route_axioms health_probe.authed_route_axioms

lemma user_routes_contract:
  assumes "h \<in> set (user_routes H)"
  shows "\<exists>b. user_route h b"
proof -
  have "list_all (\<lambda>h. \<exists>b. user_route h b) (user_routes H)"
    unfolding user_routes_def Let_def list.pred_inject by (intro conjI list.pred_inject(1) exI; rule route_contracts)
  then show ?thesis using assms by (simp add: list_all_iff)
qed

lemma authed_routes_contract:
  assumes "h \<in> set (authed_routes H)"
  shows "\<exists>b. authed_route h b"
proof (cases "h \<in> set (user_routes H)")
  case True
  then show ?thesis using user_routes_contract user_route.axioms(1) by blast
next
  case False
  then show ?thesis using assms open_route_contracts by (auto simp: authed_routes_def)
qed

text \<open>A host on which the reference implementation of the schemas answers.\<close>

definition sample_host :: host where
  "sample_host = \<lparr>zod_of = zod_ref, transport_of = \<lambda>r. ([], True), locale_date = show_int, weekday = \<lambda>_. ''Monday'',
     ellipsis = ''...'', dash_mark = ''-'', at_most_mark = ''<='', short_date = show_int, dates_of = parse_time 0,
     form_of = \<lambda>_. None, readers_of = \<lparr>rd_utf8 = id, rd_pdf = \<lambda>_. Inr JNull, rd_docx = Inr\<rparr>\<rparr>"



text \<open>C12: without a user every handler that asks for one answers 401, and nothing but the session has been
  asked for.\<close>

theorem anonymous_refused:
  assumes "h \<in> set (authed_routes H)" and "answer E CAuth w = (RSession ses, w1)" and "missing (userId ses)"
  shows "\<exists>resp w2. run E (h req) s w = (Inr resp, s, w2) \<and> resp_status resp = 401 \<and> trace E (h req) s w = [CAuth, CAuth]"
proof -
  obtain b where "authed_route h b" using authed_routes_contract [OF assms(1)] by blast
  then show ?thesis using assms(2,3) by (rule authed_route.anonymous)
qed

theorem anonymous_refused_witness:
  "\<exists>resp w2. run (fixed_env 0 (RSession \<lparr>userId = None, sessionId = None, sessionClaims = None\<rparr>)) (leaderboard_GET sample_request)
       quota_process () = (Inr resp, quota_process, w2) \<and> resp_status resp = 401 \<and>
     trace (fixed_env 0 (RSession \<lparr>userId = None, sessionId = None, sessionClaims = None\<rparr>)) (leaderboard_GET sample_request)
       quota_process () = [CAuth, CAuth]"
  by (rule anonymous_refused [where H = sample_host
        and ses = "\<lparr>userId = None, sessionId = None, sessionClaims = None\<rparr>"])
    (simp_all add: authed_routes_def fixed_env_def missing_def)



end
